(* ===== verification/Elan_Prelude.thy ===== *)
theory Elan_Prelude
  imports Main "HOL-Library.Word" "HOL-Library.State_Monad"
begin

text \<open>
  Shared vocabulary of the development: the machine integers of the driver, the errno values
  its functions return, byte-order helpers of the kernel (\<open>get_unaligned_le16\<close> and its
  relatives), and a small weakest-precondition calculus for \<open>HOL-Library.State_Monad\<close>, in which
  every function that has an effect is written.
\<close>

unbundle bit_operations_syntax

named_theorems wp_simps \<open>rewriting rules that run a program through its weakest precondition\<close>
named_theorems wp_intros \<open>introduction rules that run a program step by step, one path at a time\<close>
named_theorems rel_rules \<open>introduction rules for programs that respect a relation on states\<close>

section \<open>Machine integers\<close>

text \<open>
  The widths of the C and Rust types. \<open>int\<close> return codes are \<open>int\<close>; \<open>s32\<close> values are
  32-bit words read with \<open>sint\<close>.
\<close>

type_synonym u8 = "8 word"
type_synonym u16 = "16 word"
type_synonym u32 = "32 word"
type_synonym s32 = "32 word"
type_synonym u64 = "64 word"

definition BIT :: "nat \<Rightarrow> 'a::len word" where
  "BIT n = push_bit n 1"

lemma and_push_bit_eq_0: "w AND push_bit n 1 = 0 \<longleftrightarrow> \<not> bit w n"
  for w :: "'a::len word"
  by (simp add: push_bit_of_1 and_exp_eq_0_iff_not_bit)

lemma sint_of_int_small:
  "- 2147483648 \<le> k \<Longrightarrow> k < 2147483648 \<Longrightarrow> sint (word_of_int k :: s32) = k"
  by (simp add: sint_sbintrunc' signed_take_bit_int_eq_self)

section \<open>Error numbers\<close>

text \<open>The values of \<open>errno.h\<close> that the driver returns, negated as the kernel does.\<close>

definition EIO :: int where "EIO = 5"
definition ENXIO :: int where "ENXIO = 6"
definition ENOMEM :: int where "ENOMEM = 12"
definition ENODEV :: int where "ENODEV = 19"
definition EINVAL :: int where "EINVAL = 22"
definition ENODATA :: int where "ENODATA = 61"
definition EPROTO :: int where "EPROTO = 71"
definition EBADF :: int where "EBADF = 9"
definition ETIMEDOUT :: int where "ETIMEDOUT = 110"

lemmas errno_defs =
  EIO_def ENXIO_def ENOMEM_def ENODEV_def EINVAL_def ENODATA_def EPROTO_def EBADF_def
  ETIMEDOUT_def

lemma errno_nonzero [simp]:
  "EIO \<noteq> 0" "ENXIO \<noteq> 0" "ENOMEM \<noteq> 0" "ENODEV \<noteq> 0" "EINVAL \<noteq> 0" "ENODATA \<noteq> 0"
  "EPROTO \<noteq> 0" "EBADF \<noteq> 0" "ETIMEDOUT \<noteq> 0"
  by (simp_all add: errno_defs)

section \<open>Byte order\<close>

text \<open>
  \<open>get_unaligned_le16\<close>, \<open>le16_to_cpup\<close> and their big-endian versions read the two bytes at
  the start of a buffer; \<open>cpu_to_le16\<close> and \<open>put_unaligned_le16\<close> produce them.
\<close>

definition le16_to_cpu :: "u8 list \<Rightarrow> u16" where
  "le16_to_cpu bs = ucast (bs ! 0) OR push_bit 8 (ucast (bs ! 1))"

definition cpu_to_le16 :: "u16 \<Rightarrow> u8 list" where
  "cpu_to_le16 w = [ucast w, ucast (drop_bit 8 w)]"

definition be16_to_cpu :: "u8 list \<Rightarrow> u16" where
  "be16_to_cpu bs = push_bit 8 (ucast (bs ! 0)) OR ucast (bs ! 1)"

definition cpu_to_be16 :: "u16 \<Rightarrow> u8 list" where
  "cpu_to_be16 w = [ucast (drop_bit 8 w), ucast w]"

text \<open>The contract of a 16-bit byte order, and what follows from it.\<close>

locale codec16 =
  fixes dec :: "u8 list \<Rightarrow> u16"
    and enc :: "u16 \<Rightarrow> u8 list"
  assumes length_enc: "length (enc w) = 2"
    and dec_enc: "dec (enc w @ bs) = w"
    and enc_dec: "2 \<le> length bs \<Longrightarrow> enc (dec bs) = take 2 bs"
begin

lemma dec_enc_exact: "dec (enc w) = w"
  using dec_enc [of w "[]"] by simp

lemma enc_inject: "enc v = enc w \<longleftrightarrow> v = w"
  by (metis dec_enc)

lemma dec_inject: "length bs = 2 \<Longrightarrow> length cs = 2 \<Longrightarrow> dec bs = dec cs \<longleftrightarrow> bs = cs"
  by (metis enc_dec order_refl take_all_iff)

end

lemma list_two_cases:
  assumes "2 \<le> length bs"
  obtains a b cs where "bs = a # b # cs"
  using assms by (cases bs; cases "tl bs") auto

lemma not_bit_byte_high [simp]: "\<not> bit (a :: u8) (8 + n)"
  by (auto dest: bit_imp_le_length)

interpretation le16: codec16 le16_to_cpu cpu_to_le16
proof
  show "length (cpu_to_le16 w) = 2" for w
    by (simp add: cpu_to_le16_def)
  show "le16_to_cpu (cpu_to_le16 w @ bs) = w" for w bs
    by (rule bit_word_eqI)
      (auto simp: le16_to_cpu_def cpu_to_le16_def bit_simps)
  show "cpu_to_le16 (le16_to_cpu bs) = take 2 bs" if "2 \<le> length bs" for bs
    using that
    by (elim list_two_cases)
      (auto simp: le16_to_cpu_def cpu_to_le16_def bit_simps intro!: bit_word_eqI)
qed

interpretation be16: codec16 be16_to_cpu cpu_to_be16
proof
  show "length (cpu_to_be16 w) = 2" for w
    by (simp add: cpu_to_be16_def)
  show "be16_to_cpu (cpu_to_be16 w @ bs) = w" for w bs
    by (rule bit_word_eqI)
      (auto simp: be16_to_cpu_def cpu_to_be16_def bit_simps)
  show "cpu_to_be16 (be16_to_cpu bs) = take 2 bs" if "2 \<le> length bs" for bs
    using that
    by (elim list_two_cases)
      (auto simp: be16_to_cpu_def cpu_to_be16_def bit_simps intro!: bit_word_eqI)
qed

section \<open>Buffers\<close>

text \<open>
  A call that fills at most \<open>n\<close> bytes of a buffer overwrites a prefix of it; bytes the callee
  did not deliver keep what the buffer held.
\<close>

definition fill :: "u8 list \<Rightarrow> nat \<Rightarrow> u8 list \<Rightarrow> u8 list" where
  "fill buf n bytes = take n bytes @ drop (min n (length bytes)) buf"

lemma length_fill [simp]: "n \<le> length buf \<Longrightarrow> length (fill buf n bytes) = length buf"
  by (simp add: fill_def)

lemma fill_full: "length bytes = n \<Longrightarrow> length buf = n \<Longrightarrow> fill buf n bytes = bytes"
  by (simp add: fill_def)

lemma nth_fill: "i < n \<Longrightarrow> i < length bytes \<Longrightarrow> fill buf n bytes ! i = bytes ! i"
  by (simp add: fill_def nth_append)

section \<open>Programs as state transformers\<close>

abbreviation return :: "'a \<Rightarrow> ('s, 'a) state" where
  "return \<equiv> State_Monad.return"

text \<open>The result and the final state of a program, and its weakest precondition.\<close>

definition result :: "('s, 'a) state \<Rightarrow> 's \<Rightarrow> 'a" where
  "result m s = fst (run_state m s)"

definition final :: "('s, 'a) state \<Rightarrow> 's \<Rightarrow> 's" where
  "final m s = snd (run_state m s)"

definition wp :: "('s, 'a) state \<Rightarrow> ('a \<Rightarrow> 's \<Rightarrow> bool) \<Rightarrow> 's \<Rightarrow> bool" where
  "wp m Q s \<longleftrightarrow> Q (result m s) (final m s)"

lemma run_state_eq: "run_state m s = (result m s, final m s)"
  by (simp add: result_def final_def)

lemma wp_return [wp_simps]: "wp (return x) Q s \<longleftrightarrow> Q x s"
  by (simp add: wp_def result_def final_def)

lemma wp_bind [wp_simps]: "wp (m \<bind> f) Q s \<longleftrightarrow> wp m (\<lambda>a. wp (f a) Q) s"
  by (simp add: wp_def result_def final_def split: prod.splits)

lemma wp_if [wp_simps]: "wp (if b then m else n) Q s \<longleftrightarrow> (if b then wp m Q s else wp n Q s)"
  by simp

lemma wp_get [wp_simps]: "wp State_Monad.get Q s \<longleftrightarrow> Q s s"
  by (simp add: wp_def result_def final_def)

lemma wp_set [wp_simps]: "wp (State_Monad.set s') Q s \<longleftrightarrow> Q () s'"
  by (simp add: wp_def result_def final_def)

lemma wp_let [wp_simps]: "wp (let x = e in m x) Q s \<longleftrightarrow> (let x = e in wp (m x) Q s)"
  by simp

lemma wp_case_prod [wp_simps]:
  "wp (case p of (a, b) \<Rightarrow> m a b) Q s \<longleftrightarrow> (case p of (a, b) \<Rightarrow> wp (m a b) Q s)"
  by (simp split: prod.splits)

text \<open>
  The same rules as introductions. A conditional splits the path; a call whose code is not
  looked at is abstracted by its result and its final state (\<open>wp_abstract\<close>).
\<close>

lemma wp_bindI [wp_intros]: "wp m (\<lambda>a. wp (f a) Q) s \<Longrightarrow> wp (m \<bind> f) Q s"
  by (simp add: wp_bind)

lemma wp_returnI [wp_intros]: "Q x s \<Longrightarrow> wp (return x) Q s"
  by (simp add: wp_return)

lemma wp_ifI [wp_intros]: "(b \<Longrightarrow> wp m Q s) \<Longrightarrow> (\<not> b \<Longrightarrow> wp n Q s) \<Longrightarrow> wp (if b then m else n) Q s"
  by simp

lemma wp_letI [wp_intros]: "wp (m e) Q s \<Longrightarrow> wp (let x = e in m x) Q s"
  by simp

lemma wp_case_prodI [wp_intros]:
  "(\<And>a b. p = (a, b) \<Longrightarrow> wp (m a b) Q s) \<Longrightarrow> wp (case p of (a, b) \<Rightarrow> m a b) Q s"
  by (simp split: prod.splits)

lemma wp_abstract: "(\<And>r s'. result m s = r \<Longrightarrow> final m s = s' \<Longrightarrow> Q r s') \<Longrightarrow> wp m Q s"
  by (simp add: wp_def)

lemma wp_mono: "wp m P s \<Longrightarrow> (\<And>a t. P a t \<Longrightarrow> Q a t) \<Longrightarrow> wp m Q s"
  by (simp add: wp_def)

lemma wp_conj: "wp m (\<lambda>a t. P a t \<and> Q a t) s \<longleftrightarrow> wp m P s \<and> wp m Q s"
  by (simp add: wp_def)

lemma wp_run: "wp m (\<lambda>a t. run_state m s = (a, t)) s"
  by (simp add: wp_def result_def final_def)

lemma result_bind [simp]: "result (m \<bind> f) s = result (f (result m s)) (final m s)"
  and final_bind [simp]: "final (m \<bind> f) s = final (f (result m s)) (final m s)"
  and result_return [simp]: "result (return x) s = x"
  and final_return [simp]: "final (return x) s = s"
  by (simp_all add: result_def final_def split: prod.splits)

lemma result_get [simp]: "result State_Monad.get s = s"
  and final_get [simp]: "final State_Monad.get s = s"
  by (simp_all add: result_def final_def)

lemma result_if: "result (if b then m else n) s = (if b then result m s else result n s)"
  and final_if: "final (if b then m else n) s = (if b then final m s else final n s)"
  by simp_all

lemma result_case_prod [simp]:
    "result (case p of (a, b) \<Rightarrow> m a b) s = (case p of (a, b) \<Rightarrow> result (m a b) s)"
  and final_case_prod [simp]:
    "final (case p of (a, b) \<Rightarrow> m a b) s = (case p of (a, b) \<Rightarrow> final (m a b) s)"
  by (simp_all split: prod.splits)

text \<open>
  A program respects a relation when its final state is related to its initial one
  (\<open>state_io_rel\<close> of the library). For a reflexive and transitive relation this is
  compositional; the rules below are applied by \<open>intro\<close>.
\<close>

definition preorder_rel :: "('s \<Rightarrow> 's \<Rightarrow> bool) \<Rightarrow> bool" where
  "preorder_rel R \<longleftrightarrow> reflp R \<and> transp R"

lemma preorder_relI: "(\<And>x. R x x) \<Longrightarrow> (\<And>x y z. R x y \<Longrightarrow> R y z \<Longrightarrow> R x z) \<Longrightarrow> preorder_rel R"
  by (auto simp: preorder_rel_def reflp_def intro: transpI)

lemma preorder_rel_refl: "preorder_rel R \<Longrightarrow> R x x"
  by (simp add: preorder_rel_def reflp_def)

lemma preorder_rel_trans: "preorder_rel R \<Longrightarrow> R x y \<Longrightarrow> R y z \<Longrightarrow> R x z"
  by (meson preorder_rel_def transpD)

lemma io_rel_iff: "state_io_rel R m \<longleftrightarrow> (\<forall>s. R s (final m s))"
  by (simp add: state_io_rel_def final_def)

lemma io_rel_return [rel_rules]: "preorder_rel R \<Longrightarrow> state_io_rel R (return x)"
  by (simp add: io_rel_iff preorder_rel_refl)

lemma io_rel_bind [rel_rules]:
  "preorder_rel R \<Longrightarrow> state_io_rel R m \<Longrightarrow> (\<And>x. state_io_rel R (f x)) \<Longrightarrow>
    state_io_rel R (m \<bind> f)"
  by (auto simp: io_rel_iff intro: preorder_rel_trans)

lemma io_rel_if [rel_rules]:
  "(b \<Longrightarrow> state_io_rel R m) \<Longrightarrow> (\<not> b \<Longrightarrow> state_io_rel R n) \<Longrightarrow>
    state_io_rel R (if b then m else n)"
  by simp

lemma io_rel_let [rel_rules]:
  "(\<And>x. state_io_rel R (m x)) \<Longrightarrow> state_io_rel R (let x = e in m x)"
  by simp

lemma io_rel_case_prod [rel_rules]:
  "(\<And>a b. state_io_rel R (m a b)) \<Longrightarrow> state_io_rel R (case p of (a, b) \<Rightarrow> m a b)"
  by (simp split: prod.splits)

lemma io_rel_case_option [rel_rules]:
  "state_io_rel R m \<Longrightarrow> (\<And>x. state_io_rel R (f x)) \<Longrightarrow>
    state_io_rel R (case p of None \<Rightarrow> m | Some x \<Rightarrow> f x)"
  by (simp split: option.splits)

lemma io_rel_get [rel_rules]: "preorder_rel R \<Longrightarrow> state_io_rel R State_Monad.get"
  by (simp add: state_io_rel_def preorder_rel_refl)

lemma io_rel_mono: "state_io_rel R m \<Longrightarrow> (\<And>s t. R s t \<Longrightarrow> S s t) \<Longrightarrow> state_io_rel S m"
  by (simp add: io_rel_iff)

lemma io_relD: "state_io_rel R m \<Longrightarrow> R s (final m s)"
  by (simp add: io_rel_iff)

lemma wp_rel: "state_io_rel R m \<Longrightarrow> (\<And>r s'. R s s' \<Longrightarrow> Q r s') \<Longrightarrow> wp m Q s"
  by (simp add: io_rel_iff wp_def)

section \<open>Bounded retry\<close>

text \<open>
  The shape of the driver's retry loops: \<open>do { error = body; if (ok) return 0; pause; }
  while (--repeat > 0); return error;\<close>. The body runs at least once.
\<close>

fun do_retry :: "nat \<Rightarrow> (int \<Rightarrow> bool) \<Rightarrow> ('s, int) state \<Rightarrow> ('s, unit) state \<Rightarrow> ('s, int) state"
where
  "do_retry repeat ok body pause =
     do {
       error \<leftarrow> body;
       if ok error then return 0
       else do {
         pause;
         if repeat - 1 > 0 then do_retry (repeat - 1) ok body pause
         else return error
       }
     }"

declare do_retry.simps [simp del]

lemma io_rel_do_retry [rel_rules]:
  assumes "preorder_rel R" "state_io_rel R body" "state_io_rel R pause"
  shows "state_io_rel R (do_retry n ok body pause)"
proof (induction n)
  case 0
  show ?case
    by (subst do_retry.simps) (auto intro!: rel_rules assms)
next
  case (Suc n)
  then show ?case
    by (subst do_retry.simps) (auto intro!: rel_rules assms)
qed

text \<open>Whatever the number of attempts, the loop returns 0 or the last error of its body.\<close>

lemma do_retry_result:
  "result (do_retry n ok body pause) s = 0 \<or>
    (\<exists>s'. result (do_retry n ok body pause) s = result body s' \<and> \<not> ok (result body s'))"
proof (induction n arbitrary: s)
  case 0
  show ?case
    by (subst (1 2) do_retry.simps) (auto simp: result_if)
next
  case (Suc n)
  show ?case
  proof (cases "ok (result body s) \<or> n = 0")
    case True
    then show ?thesis
      by (subst (1 2) do_retry.simps) (auto simp: result_if)
  next
    case False
    then have "result (do_retry (Suc n) ok body pause) s =
        result (do_retry n ok body pause) (final pause (final body s))"
      by (subst do_retry.simps) (simp add: result_if)
    with Suc.IH [of "final pause (final body s)"] show ?thesis by simp
  qed
qed

lemma do_retry_wp:
  assumes "\<And>s. I s \<Longrightarrow> wp body (\<lambda>e s'. P e \<and> I s') s" "\<And>s. I s \<Longrightarrow> wp pause (\<lambda>_. I) s"
    and "P 0" "I s"
  shows "wp (do_retry n ok body pause) (\<lambda>e s'. P e \<and> I s') s"
  using assms(4)
proof (induction n arbitrary: s)
  case 0
  show ?case
    by (subst do_retry.simps)
      (use 0 assms in \<open>auto simp: wp_bind wp_return intro!: wp_mono [OF assms(1)] wp_mono [OF assms(2)]\<close>)
next
  case (Suc n)
  show ?case
    by (subst do_retry.simps)
      (use Suc assms in \<open>auto simp: wp_bind wp_return intro!: wp_mono [OF assms(1)] wp_mono [OF assms(2)]\<close>)
qed

text \<open>
  Success is the success of one run of the body, and nothing happens after it; before it only
  runs of the body that failed, and pauses.
\<close>

lemma do_retry_first_success:
  assumes "result (do_retry n ok body pause) s = 0" "\<And>e. ok e \<longleftrightarrow> e = 0"
    and "\<And>s. result body s \<noteq> 0 \<Longrightarrow> R s (final body s)" "state_io_rel R pause" "preorder_rel R"
  shows "\<exists>s'. R s s' \<and> result body s' = 0 \<and> final (do_retry n ok body pause) s = final body s'"
  using assms(1)
proof (induction n arbitrary: s)
  case 0
  then have "result body s = 0"
    using assms(2) by (subst (asm) do_retry.simps) (auto simp: result_if split: if_splits)
  moreover from this have "final (do_retry 0 ok body pause) s = final body s"
    using assms(2) by (subst do_retry.simps) (simp add: final_if)
  ultimately show ?case
    using preorder_rel_refl [OF assms(5)] by blast
next
  case (Suc n)
  show ?case
  proof (cases "result body s = 0")
    case True
    moreover from this have "final (do_retry (Suc n) ok body pause) s = final body s"
      using assms(2) by (subst do_retry.simps) (simp add: final_if)
    ultimately show ?thesis
      using preorder_rel_refl [OF assms(5)] by blast
  next
    case False
    let ?t = "final pause (final body s)"
    have R: "R s ?t"
      using assms(3-5) False by (meson io_relD preorder_rel_trans)
    from Suc.prems False have "n \<noteq> 0"
      by (subst (asm) do_retry.simps) (auto simp: result_if assms(2) split: if_splits)
    then have "run_state (do_retry (Suc n) ok body pause) s = run_state (do_retry n ok body pause) ?t"
      using False by (subst do_retry.simps) (simp add: run_state_eq result_if final_if assms(2))
    then have eq: "result (do_retry n ok body pause) ?t = 0"
        "final (do_retry (Suc n) ok body pause) s = final (do_retry n ok body pause) ?t"
      using Suc.prems by (simp_all add: run_state_eq)
    from Suc.IH [OF eq(1)] R show ?thesis
      unfolding eq(2) using preorder_rel_trans [OF assms(5)] by blast
  qed
qed

lemma do_retry_success:
  assumes "result (do_retry n ok body pause) s = 0" "\<And>e. ok e \<longleftrightarrow> e = 0"
    and "state_io_rel R body" "state_io_rel R pause" "preorder_rel R"
  shows "\<exists>s'. R s s' \<and> result body s' = 0 \<and> final (do_retry n ok body pause) s = final body s'"
  using assms(1,2) io_relD [OF assms(3)] assms(4,5) by (rule do_retry_first_success)

end
