(* ===== verification/Elan_Kernel.thy ===== *)
theory Elan_Kernel
  imports Elan_Prelude
begin

text \<open>
  The kernel as the driver sees it. Every call that leaves the repository (the I2C core, the IRQ
  layer, the mutex, the work queue, the input core, the firmware loader, the regulator) is a
  value of \<open>kcall\<close>. The state of an I/O program is the trace of the calls made so far together
  with the answers received; the environment is a parameter that answers a call, and may
  depend on the whole trace, so it stands for any device and any kernel.
\<close>

section \<open>Calls and answers\<close>

text \<open>One message of \<open>i2c_transfer\<close> (\<open>struct i2c_msg\<close>); a read has the \<open>I2C_M_RD\<close> flag.\<close>

record i2c_msg =
  msg_addr :: u16
  msg_flags :: u16
  msg_len :: u16
  msg_buf :: "u8 list"

definition I2C_M_TEN :: u16 where "I2C_M_TEN = 0x0010"
definition I2C_M_RD :: u16 where "I2C_M_RD = 0x0001"
definition I2C_SMBUS_BLOCK_MAX :: nat where "I2C_SMBUS_BLOCK_MAX = 32"

text \<open>The parts of \<open>struct i2c_client\<close> the driver uses.\<close>

record i2c_client =
  addr :: u16
  flags :: u16

datatype input_node = Touchpad | Trackpoint

datatype button = BTN_LEFT | BTN_RIGHT | BTN_MIDDLE

datatype abs_axis =
    ABS_X | ABS_Y | ABS_PRESSURE | ABS_TOOL_WIDTH | ABS_DISTANCE
  | ABS_MT_POSITION_X | ABS_MT_POSITION_Y | ABS_MT_PRESSURE
  | ABS_MT_TOUCH_MAJOR | ABS_MT_TOUCH_MINOR

datatype rel_axis = REL_X | REL_Y

text \<open>
  The reporting calls of the input core: \<open>input_mt_slot\<close>, \<open>input_mt_report_slot_state\<close> with
  \<open>MT_TOOL_FINGER\<close>, \<open>input_mt_report_slot_inactive\<close>, \<open>input_report_key\<close>,
  \<open>input_report_abs\<close>, \<open>input_report_rel\<close>, \<open>input_mt_report_pointer_emulation\<close> and
  \<open>input_sync\<close>. Values are the 32-bit arguments passed.
\<close>

datatype input_event =
    MtSlot nat
  | MtSlotState bool
  | MtSlotInactive
  | Key button u32
  | Abs abs_axis u32
  | Rel rel_axis s32
  | PointerEmulation bool
  | Sync

datatype fault = DivideByZero | OutOfBounds

text \<open>Transfers on the bus; a block write records the bytes the callee may read.\<close>

datatype bus_op =
    I2cTransfer "i2c_msg list"
  | I2cMasterSend "u8 list" nat
  | I2cMasterRecv nat
  | SmbusReadByte
  | SmbusWriteByte u8
  | SmbusWriteBlock u8 u8 "u8 list"
  | SmbusReadBlock u8

text \<open>
  Interrupt line, completion, mutex and work queue: \<open>disable_irq\<close>, \<open>enable_irq\<close>,
  \<open>reinit_completion\<close>, \<open>wait_for_completion_timeout\<close> (in milliseconds), \<open>complete\<close>,
  \<open>mutex_lock\<close>, \<open>mutex_lock_interruptible\<close>, \<open>mutex_unlock\<close>, \<open>schedule_work\<close> and
  \<open>cancel_work_sync\<close>.
\<close>

datatype sched_op =
    DisableIrq
  | EnableIrq
  | ReinitCompletion
  | WaitForCompletion nat
  | Complete
  | MutexLock
  | MutexLockInterruptible
  | MutexUnlock
  | ScheduleWork
  | CancelWorkSync

datatype power_op = RegulatorEnable | RegulatorDisable | DeviceMayWakeup | PmWakeupEvent

datatype probe_op =
    CheckI2cFunctionality
  | CheckSmbusFunctionality
  | DevmKzalloc
  | DevmAddAction string
  | RegulatorGet string
  | InputAllocate input_node
  | InputMtInitSlots nat
  | InputRegister input_node
  | IrqGetTriggerType
  | RequestThreadedIrq u32

datatype kcall =
    Bus bus_op
  | Msleep nat
  | UsleepRange nat nat
  | Kmalloc nat
  | Sched sched_op
  | Power power_op
  | RequestFirmware string
  | ReleaseFirmware
  | Input input_node input_event
  | Probe probe_op
  | Fault fault

type_synonym reply = "int \<times> u8 list"
type_synonym trace = "(kcall \<times> reply) list"
type_synonym 'a io = "(trace, 'a) state"

text \<open>
  The environment: the answers of the kernel and the device, the firmware properties of the
  device node, the kernel configuration, the DMI match, the signedness the compiler gives
  to plain \<open>char\<close>, and what an uninitialised local array happens to hold.
\<close>

record environment =
  answer :: "trace \<Rightarrow> kcall \<Rightarrow> reply"
  property_u32 :: "string \<Rightarrow> u32 option"
  property_bool :: "string \<Rightarrow> bool"
  config_enabled :: "string \<Rightarrow> bool"
  dmi_match :: "(string \<times> string) list \<Rightarrow> bool"
  char_signed :: bool
  stack_junk :: "u8 list"

definition uninitialized :: "environment \<Rightarrow> nat \<Rightarrow> u8 list" where
  "uninitialized E n = take n (stack_junk E) @ replicate (n - length (stack_junk E)) 0"

lemma length_uninitialized [simp]: "length (uninitialized E n) = n"
  by (simp add: uninitialized_def)

section \<open>Making a call\<close>

text \<open>A call whose answer matters, and one that returns nothing.\<close>

definition call :: "environment \<Rightarrow> kcall \<Rightarrow> reply io" where
  "call E c = do {
     t \<leftarrow> State_Monad.get;
     State_Monad.set (t @ [(c, answer E t c)]);
     return (answer E t c)
   }"

definition notify :: "kcall \<Rightarrow> unit io" where
  "notify c = do {
     t \<leftarrow> State_Monad.get;
     State_Monad.set (t @ [(c, (0, []))])
   }"

definition status_of :: "environment \<Rightarrow> kcall \<Rightarrow> int io" where
  "status_of E c = do { (ret, _) \<leftarrow> call E c; return ret }"

lemma result_call [simp]: "result (call E c) t = answer E t c"
  and final_call [simp]: "final (call E c) t = t @ [(c, answer E t c)]"
  by (simp_all add: call_def result_def final_def)

lemma final_notify [simp]: "final (notify c) t = t @ [(c, (0, []))]"
  by (simp add: notify_def final_def)

lemma result_status_of [simp]: "result (status_of E c) t = fst (answer E t c)"
  and final_status_of [simp]: "final (status_of E c) t = t @ [(c, answer E t c)]"
  by (simp_all add: status_of_def split: prod.splits)

lemma wp_call [wp_simps]:
  "wp (call E c) Q t \<longleftrightarrow> Q (answer E t c) (t @ [(c, answer E t c)])"
  by (simp add: wp_def)

lemma wp_notify [wp_simps]: "wp (notify c) Q t \<longleftrightarrow> Q () (t @ [(c, (0, []))])"
  by (simp add: wp_def)

lemma wp_status_of [wp_simps]:
  "wp (status_of E c) Q t \<longleftrightarrow> Q (fst (answer E t c)) (t @ [(c, answer E t c)])"
  by (simp add: wp_def)

lemma wp_callI [wp_intros]:
  "(\<And>ret bytes. answer E t c = (ret, bytes) \<Longrightarrow> Q (ret, bytes) (t @ [(c, ret, bytes)])) \<Longrightarrow>
    wp (call E c) Q t"
  by (cases "answer E t c") (simp add: wp_call)

lemma wp_notifyI [wp_intros]: "Q () (t @ [(c, (0, []))]) \<Longrightarrow> wp (notify c) Q t"
  by (simp add: wp_notify)

lemma wp_status_ofI [wp_intros]:
  "(\<And>ret bytes. answer E t c = (ret, bytes) \<Longrightarrow> Q ret (t @ [(c, ret, bytes)])) \<Longrightarrow>
    wp (status_of E c) Q t"
  by (cases "answer E t c") (simp add: wp_status_of)

lemma run_state_call [simp]:
  "run_state (call E c) t = (answer E t c, t @ [(c, answer E t c)])"
  by (simp add: run_state_eq)

lemma run_state_notify [simp]: "run_state (notify c) t = ((), t @ [(c, (0, []))])"
  by (simp add: run_state_eq)

lemma run_state_status_of [simp]:
  "run_state (status_of E c) t = (fst (answer E t c), t @ [(c, answer E t c)])"
  by (simp add: run_state_eq)

section \<open>What a program may emit\<close>

text \<open>
  \<open>emits P\<close> relates a trace to any extension of it whose new calls all satisfy \<open>P\<close>.
\<close>

definition emits :: "(kcall \<Rightarrow> bool) \<Rightarrow> trace \<Rightarrow> trace \<Rightarrow> bool" where
  "emits P t t' \<longleftrightarrow> (\<exists>u. t' = t @ u \<and> (\<forall>x \<in> set u. P (fst x)))"

lemma emits_preorder [rel_rules]: "preorder_rel (emits P)"
proof (rule preorder_relI)
  show "emits P x x" for x
    by (simp add: emits_def)
  show "emits P x z" if "emits P x y" "emits P y z" for x y z
    using that by (fastforce simp: emits_def)
qed

lemma emits_call [rel_rules]: "P c \<Longrightarrow> state_io_rel (emits P) (call E c)"
  by (auto simp: io_rel_iff emits_def)

lemma emits_notify [rel_rules]: "P c \<Longrightarrow> state_io_rel (emits P) (notify c)"
  by (auto simp: io_rel_iff emits_def)

lemma emits_status_of [rel_rules]: "P c \<Longrightarrow> state_io_rel (emits P) (status_of E c)"
  by (auto simp: io_rel_iff emits_def)

lemma emits_mono: "emits P t t' \<Longrightarrow> (\<And>c. P c \<Longrightarrow> Q c) \<Longrightarrow> emits Q t t'"
  by (auto simp: emits_def)

lemma emitsE:
  assumes "emits P t t'"
  obtains u where "t' = t @ u" "\<And>c r. (c, r) \<in> set u \<Longrightarrow> P c"
  using assms by (fastforce simp: emits_def)

text \<open>
  A trace only grows. A program was acknowledged with \<open>r\<close> during a run from \<open>t0\<close> to \<open>t1\<close> when
  it ran inside it, that is from some trace between the two to another, and returned \<open>r\<close>.
\<close>

abbreviation extends :: "trace \<Rightarrow> trace \<Rightarrow> bool" where
  "extends \<equiv> emits (\<lambda>_. True)"

definition acknowledged :: "trace \<Rightarrow> trace \<Rightarrow> 'a io \<Rightarrow> 'a \<Rightarrow> bool" where
  "acknowledged t0 t1 m r \<longleftrightarrow> (\<exists>t. extends t0 t \<and> result m t = r \<and> extends (final m t) t1)"

lemma extends_append [simp]: "extends t (t @ u)"
  by (simp add: emits_def)

lemma extends_refl [simp]: "extends t t"
  by (simp add: emits_def)

lemma extends_cancel [simp]: "extends (t @ u) (t @ v) \<longleftrightarrow> extends u v"
  by (auto simp: emits_def)

lemma extends_Cons [simp]: "extends (x # u) (x # v) \<longleftrightarrow> extends u v"
  by (auto simp: emits_def)

lemma extends_Nil [simp]: "extends [] u"
  by (simp add: emits_def)

lemma extends_trans: "extends t u \<Longrightarrow> extends u v \<Longrightarrow> extends t v"
  by (rule preorder_rel_trans [OF emits_preorder])

lemma extends_appendI: "extends t u \<Longrightarrow> extends t (u @ v)"
  by (auto simp: emits_def)

lemma emits_extends: "emits P t u \<Longrightarrow> extends t u"
  by (auto simp: emits_def)

lemma extendsE:
  assumes "extends t t'"
  obtains u where "t' = t @ u"
  using assms by (auto simp: emits_def)

lemma acknowledgedI:
  "result m t = r \<Longrightarrow> final m t = t' \<Longrightarrow> extends t0 t \<Longrightarrow> extends t' t1 \<Longrightarrow> acknowledged t0 t1 m r"
  by (auto simp: acknowledged_def)

lemma acknowledged_mono:
  "acknowledged t0 t1 m r \<Longrightarrow> extends t t0 \<Longrightarrow> extends t1 t' \<Longrightarrow> acknowledged t t' m r"
  unfolding acknowledged_def using extends_trans by blast

lemma bus_program_extends: "state_io_rel (emits P) m \<Longrightarrow> state_io_rel extends m"
  by (erule io_rel_mono) (rule emits_extends)

text \<open>The calls of a transport: the bus, and the sleeps between transfers.\<close>

fun bus_call :: "kcall \<Rightarrow> bool" where
  "bus_call (Bus _) = True"
| "bus_call (Msleep _) = True"
| "bus_call (UsleepRange _ _) = True"
| "bus_call (Kmalloc _) = True"
| "bus_call _ = False"

text \<open>The end of a firmware update also waits for the interrupt handler, with the line enabled.\<close>

fun transport_call :: "kcall \<Rightarrow> bool" where
  "transport_call (Sched ReinitCompletion) = True"
| "transport_call (Sched EnableIrq) = True"
| "transport_call (Sched DisableIrq) = True"
| "transport_call (Sched (WaitForCompletion _)) = True"
| "transport_call c = bus_call c"

lemma bus_transport_call: "bus_call c \<Longrightarrow> transport_call c"
  by (cases c rule: transport_call.cases) auto

lemma bus_program_transport:
  "state_io_rel (emits bus_call) m \<Longrightarrow> state_io_rel (emits transport_call) m"
  by (erule io_rel_mono) (auto elim: emits_mono intro: bus_transport_call)

text \<open>
  The nesting depth of \<open>disable_irq\<close> and the number of times the mutex is held, read off the
  trace. An interruptible lock counts when it was granted (status 0).
\<close>

fun irq_delta :: "kcall \<times> reply \<Rightarrow> int" where
  "irq_delta (Sched DisableIrq, _) = 1"
| "irq_delta (Sched EnableIrq, _) = -1"
| "irq_delta _ = 0"

fun mutex_delta :: "kcall \<times> reply \<Rightarrow> int" where
  "mutex_delta (Sched MutexLock, _) = 1"
| "mutex_delta (Sched MutexLockInterruptible, r) = (if fst r = 0 then 1 else 0)"
| "mutex_delta (Sched MutexUnlock, _) = -1"
| "mutex_delta _ = 0"

definition irq_depth :: "trace \<Rightarrow> int" where
  "irq_depth t = sum_list (map irq_delta t)"

definition mutex_depth :: "trace \<Rightarrow> int" where
  "mutex_depth t = sum_list (map mutex_delta t)"

lemma irq_depth_append [simp]: "irq_depth (t @ u) = irq_depth t + irq_depth u"
  and irq_depth_Nil [simp]: "irq_depth [] = 0"
  and irq_depth_Cons [simp]: "irq_depth (x # t) = irq_delta x + irq_depth t"
  by (simp_all add: irq_depth_def)

lemma mutex_depth_append [simp]: "mutex_depth (t @ u) = mutex_depth t + mutex_depth u"
  and mutex_depth_Nil [simp]: "mutex_depth [] = 0"
  and mutex_depth_Cons [simp]: "mutex_depth (x # t) = mutex_delta x + mutex_depth t"
  by (simp_all add: mutex_depth_def)

text \<open>A program is balanced when it leaves both depths as it found them.\<close>

definition balanced :: "trace \<Rightarrow> trace \<Rightarrow> bool" where
  "balanced t t' \<longleftrightarrow> irq_depth t' = irq_depth t \<and> mutex_depth t' = mutex_depth t"

lemma balanced_preorder [rel_rules]: "preorder_rel balanced"
  by (auto simp: balanced_def intro: preorder_relI)

lemma irq_delta_bus [simp]: "bus_call c \<Longrightarrow> irq_delta (c, r) = 0"
  and mutex_delta_bus [simp]: "bus_call c \<Longrightarrow> mutex_delta (c, r) = 0"
  by (cases c; simp)+

lemma depth_bus:
  "\<forall>x \<in> set u. bus_call (fst x) \<Longrightarrow> irq_depth u = 0 \<and> mutex_depth u = 0"
  by (induction u) auto

lemma emits_bus_balanced: "emits bus_call t t' \<Longrightarrow> balanced t t'"
  by (auto simp: emits_def balanced_def depth_bus)

lemma bus_program_balanced: "state_io_rel (emits bus_call) m \<Longrightarrow> state_io_rel balanced m"
  by (erule io_rel_mono) (rule emits_bus_balanced)

section \<open>Bus calls with a buffer\<close>

text \<open>
  \<open>i2c_transfer\<close> fills the buffer of its read message, \<open>i2c_master_recv\<close> and
  \<open>i2c_smbus_read_block_data\<close> the buffer they are given. A buffer is passed in and returned
  with what the call wrote to it.
\<close>

definition i2c_transfer :: "environment \<Rightarrow> i2c_msg list \<Rightarrow> u8 list \<Rightarrow> nat \<Rightarrow> (int \<times> u8 list) io"
where
  "i2c_transfer E msgs buf len = do {
     (ret, bytes) \<leftarrow> call E (Bus (I2cTransfer msgs));
     return (ret, fill buf len bytes)
   }"

definition i2c_master_recv :: "environment \<Rightarrow> u8 list \<Rightarrow> nat \<Rightarrow> (int \<times> u8 list) io" where
  "i2c_master_recv E buf len = do {
     (ret, bytes) \<leftarrow> call E (Bus (I2cMasterRecv len));
     return (ret, fill buf len bytes)
   }"

definition i2c_smbus_read_block_data :: "environment \<Rightarrow> u8 \<Rightarrow> u8 list \<Rightarrow> (int \<times> u8 list) io" where
  "i2c_smbus_read_block_data E cmd buf = do {
     (ret, bytes) \<leftarrow> call E (Bus (SmbusReadBlock cmd));
     return (ret, fill buf I2C_SMBUS_BLOCK_MAX bytes)
   }"

lemma emits_bus_buffer [rel_rules]:
  "state_io_rel (emits bus_call) (i2c_transfer E msgs buf len)"
  "state_io_rel (emits bus_call) (i2c_master_recv E buf len)"
  "state_io_rel (emits bus_call) (i2c_smbus_read_block_data E cmd buf)"
  by (auto simp: i2c_transfer_def i2c_master_recv_def i2c_smbus_read_block_data_def
      intro!: rel_rules)

lemma wp_bus_buffer [wp_simps]:
  "wp (i2c_transfer E msgs buf len) Q t \<longleftrightarrow>
    Q (fst (answer E t (Bus (I2cTransfer msgs))), fill buf len (snd (answer E t (Bus (I2cTransfer msgs)))))
      (t @ [(Bus (I2cTransfer msgs), answer E t (Bus (I2cTransfer msgs)))])"
  "wp (i2c_master_recv E buf len) Q t \<longleftrightarrow>
    Q (fst (answer E t (Bus (I2cMasterRecv len))), fill buf len (snd (answer E t (Bus (I2cMasterRecv len)))))
      (t @ [(Bus (I2cMasterRecv len), answer E t (Bus (I2cMasterRecv len)))])"
  "wp (i2c_smbus_read_block_data E cmd buf) Q t \<longleftrightarrow>
    Q (fst (answer E t (Bus (SmbusReadBlock cmd))),
       fill buf I2C_SMBUS_BLOCK_MAX (snd (answer E t (Bus (SmbusReadBlock cmd)))))
      (t @ [(Bus (SmbusReadBlock cmd), answer E t (Bus (SmbusReadBlock cmd)))])"
  by (simp_all add: i2c_transfer_def i2c_master_recv_def i2c_smbus_read_block_data_def wp_simps
      split: prod.splits)

lemma result_bus_buffer [simp]:
  "result (i2c_transfer E msgs buf len) t =
    (fst (answer E t (Bus (I2cTransfer msgs))), fill buf len (snd (answer E t (Bus (I2cTransfer msgs)))))"
  "result (i2c_master_recv E buf len) t =
    (fst (answer E t (Bus (I2cMasterRecv len))), fill buf len (snd (answer E t (Bus (I2cMasterRecv len)))))"
  "result (i2c_smbus_read_block_data E cmd buf) t =
    (fst (answer E t (Bus (SmbusReadBlock cmd))),
     fill buf I2C_SMBUS_BLOCK_MAX (snd (answer E t (Bus (SmbusReadBlock cmd)))))"
  by (simp_all add: i2c_transfer_def i2c_master_recv_def i2c_smbus_read_block_data_def
      split: prod.splits)

lemma final_bus_buffer [simp]:
  "final (i2c_transfer E msgs buf len) t =
    t @ [(Bus (I2cTransfer msgs), answer E t (Bus (I2cTransfer msgs)))]"
  "final (i2c_master_recv E buf len) t = t @ [(Bus (I2cMasterRecv len), answer E t (Bus (I2cMasterRecv len)))]"
  "final (i2c_smbus_read_block_data E cmd buf) t =
    t @ [(Bus (SmbusReadBlock cmd), answer E t (Bus (SmbusReadBlock cmd)))]"
  by (simp_all add: i2c_transfer_def i2c_master_recv_def i2c_smbus_read_block_data_def
      split: prod.splits)

text \<open>
  The documented contract of these calls: a block read returns an error or the number of
  bytes it delivered, at most \<open>I2C_SMBUS_BLOCK_MAX\<close>; \<open>i2c_master_recv\<close> an error or the
  count it was asked for; \<open>i2c_transfer\<close> an error or the number of messages executed, all of
  whose read bytes were delivered when every message was; the write calls an error or 0. An
  error is a negated errno, at least \<open>-MAX_ERRNO\<close>.
\<close>

definition MAX_ERRNO :: int where "MAX_ERRNO = 4095"

definition read_length :: "i2c_msg list \<Rightarrow> nat" where
  "read_length msgs =
     (\<Sum>m \<leftarrow> msgs. if msg_flags m AND I2C_M_RD = 0 then 0 else unat (msg_len m))"

definition bus_contract :: "environment \<Rightarrow> bool" where
  "bus_contract E \<longleftrightarrow>
     (\<forall>t c. - MAX_ERRNO \<le> fst (answer E t c)) \<and>
     (\<forall>t cmd. case answer E t (Bus (SmbusReadBlock cmd)) of (ret, bytes) \<Rightarrow>
        ret < 0 \<or> ret = int (length bytes) \<and> length bytes \<le> I2C_SMBUS_BLOCK_MAX) \<and>
     (\<forall>t n. case answer E t (Bus (I2cMasterRecv n)) of (ret, bytes) \<Rightarrow>
        ret < 0 \<or> ret = int n \<and> length bytes = n) \<and>
     (\<forall>t b n. fst (answer E t (Bus (I2cMasterSend b n))) \<le> int n) \<and>
     (\<forall>t msgs. case answer E t (Bus (I2cTransfer msgs)) of (ret, bytes) \<Rightarrow>
        ret \<le> int (length msgs) \<and>
        (ret = int (length msgs) \<longrightarrow> length bytes = read_length msgs)) \<and>
     (\<forall>t cmd. fst (answer E t (Bus (SmbusWriteByte cmd))) \<le> 0) \<and>
     (\<forall>t cmd n b. fst (answer E t (Bus (SmbusWriteBlock cmd n b))) \<le> 0)"

end
