(* ===== verification/Elan_Header.thy ===== *)
theory Elan_Header
  imports Elan_Kernel
begin

text \<open>
  \<open>elan_i2c.h\<close>: the constants shared by the driver's files, \<open>enum tp_mode\<close>, the table of
  transport operations \<open>struct elan_transport_ops\<close> as a record of programs, and the contract
  the core relies on as a locale over that table.

  A C out-parameter is an in/out argument: the operation takes the current value of the
  caller's variable and returns its final value beside the return code, so a write that
  happens before an error return is visible.
\<close>

section \<open>Constants\<close>

named_theorems etp_consts \<open>the numeric constants of the driver\<close>

definition ETP_ENABLE_ABS :: u8 where [etp_consts]: "ETP_ENABLE_ABS = 0x0001"
definition ETP_ENABLE_CALIBRATE :: u8 where [etp_consts]: "ETP_ENABLE_CALIBRATE = 0x0002"
definition ETP_DISABLE_CALIBRATE :: u8 where [etp_consts]: "ETP_DISABLE_CALIBRATE = 0x0000"
definition ETP_DISABLE_POWER :: u16 where [etp_consts]: "ETP_DISABLE_POWER = 0x0001"
definition ETP_PRESSURE_OFFSET :: s32 where [etp_consts]: "ETP_PRESSURE_OFFSET = 25"
definition ETP_CALIBRATE_MAX_LEN :: nat where [etp_consts]: "ETP_CALIBRATE_MAX_LEN = 3"
definition ETP_FEATURE_REPORT_MK :: u32 where [etp_consts]: "ETP_FEATURE_REPORT_MK = BIT 0"

definition ETP_REPORT_ID :: u8 where [etp_consts]: "ETP_REPORT_ID = 0x5D"
definition ETP_TP_REPORT_ID :: u8 where [etp_consts]: "ETP_TP_REPORT_ID = 0x5E"
definition ETP_TP_REPORT_ID2 :: u8 where [etp_consts]: "ETP_TP_REPORT_ID2 = 0x5F"
definition ETP_REPORT_ID2 :: u8 where [etp_consts]: "ETP_REPORT_ID2 = 0x60"

definition ETP_REPORT_ID_OFFSET :: nat where [etp_consts]: "ETP_REPORT_ID_OFFSET = 2"
definition ETP_TOUCH_INFO_OFFSET :: nat where [etp_consts]: "ETP_TOUCH_INFO_OFFSET = 3"
definition ETP_FINGER_DATA_OFFSET :: nat where [etp_consts]: "ETP_FINGER_DATA_OFFSET = 4"
definition ETP_HOVER_INFO_OFFSET :: nat where [etp_consts]: "ETP_HOVER_INFO_OFFSET = 30"
definition ETP_MK_DATA_OFFSET :: nat where [etp_consts]: "ETP_MK_DATA_OFFSET = 33"

definition ETP_MAX_REPORT_LEN :: nat where [etp_consts]: "ETP_MAX_REPORT_LEN = 39"
definition ETP_MAX_FINGERS :: nat where [etp_consts]: "ETP_MAX_FINGERS = 5"
definition ETP_FINGER_DATA_LEN :: nat where [etp_consts]: "ETP_FINGER_DATA_LEN = 5"

definition ETP_IAP_START_ADDR :: nat where [etp_consts]: "ETP_IAP_START_ADDR = 0x0083"
definition ETP_FW_IAP_PAGE_ERR :: u16 where [etp_consts]: "ETP_FW_IAP_PAGE_ERR = 32"
definition ETP_FW_IAP_INTF_ERR :: u16 where [etp_consts]: "ETP_FW_IAP_INTF_ERR = 16"
definition ETP_FW_PAGE_SIZE :: u16 where [etp_consts]: "ETP_FW_PAGE_SIZE = 64"
definition ETP_FW_PAGE_SIZE_128 :: u16 where [etp_consts]: "ETP_FW_PAGE_SIZE_128 = 128"
definition ETP_FW_PAGE_SIZE_512 :: u16 where [etp_consts]: "ETP_FW_PAGE_SIZE_512 = 512"
definition ETP_FW_SIGNATURE_SIZE :: nat where [etp_consts]: "ETP_FW_SIGNATURE_SIZE = 6"

definition ETP_PRODUCT_ID_WHITEBOX :: u16 where [etp_consts]: "ETP_PRODUCT_ID_WHITEBOX = 0x00B8"
definition ETP_PRODUCT_ID_VOXEL :: u16 where [etp_consts]: "ETP_PRODUCT_ID_VOXEL = 0x00BF"
definition ETP_PRODUCT_ID_DELBIN :: u16 where [etp_consts]: "ETP_PRODUCT_ID_DELBIN = 0x00C2"
definition ETP_PRODUCT_ID_MAGPIE :: u16 where [etp_consts]: "ETP_PRODUCT_ID_MAGPIE = 0x0120"
definition ETP_PRODUCT_ID_BOBBA :: u16 where [etp_consts]: "ETP_PRODUCT_ID_BOBBA = 0x0121"

lemma ETP_FEATURE_REPORT_MK_eq [simp]: "ETP_FEATURE_REPORT_MK = 1"
  by (simp add: ETP_FEATURE_REPORT_MK_def BIT_def)

section \<open>Modes and transport operations\<close>

datatype tp_mode = IAP_MODE | MAIN_MODE

text \<open>The numeric value of the C enumerators, which start at 1.\<close>

definition tp_mode_value :: "tp_mode \<Rightarrow> int" where
  "tp_mode_value m = (case m of IAP_MODE \<Rightarrow> 1 | MAIN_MODE \<Rightarrow> 2)"

record elan_transport_ops =
  initialize :: "i2c_client \<Rightarrow> int io"
  sleep_control :: "i2c_client \<Rightarrow> bool \<Rightarrow> int io"
  power_control :: "i2c_client \<Rightarrow> bool \<Rightarrow> int io"
  set_mode :: "i2c_client \<Rightarrow> u8 \<Rightarrow> int io"
  health_check :: "i2c_client \<Rightarrow> int io"
  calibrate :: "i2c_client \<Rightarrow> int io"
  calibrate_result :: "i2c_client \<Rightarrow> u8 list \<Rightarrow> (int \<times> u8 list) io"
  get_baseline_data :: "i2c_client \<Rightarrow> bool \<Rightarrow> u8 \<Rightarrow> (int \<times> u8) io"
  get_version :: "i2c_client \<Rightarrow> u8 \<Rightarrow> bool \<Rightarrow> u8 \<Rightarrow> (int \<times> u8) io"
  get_sm_version :: "i2c_client \<Rightarrow> u8 \<Rightarrow> u16 \<times> u8 \<times> u8 \<Rightarrow> (int \<times> u16 \<times> u8 \<times> u8) io"
  get_checksum :: "i2c_client \<Rightarrow> bool \<Rightarrow> u16 \<Rightarrow> (int \<times> u16) io"
  get_product_id :: "i2c_client \<Rightarrow> u16 \<Rightarrow> (int \<times> u16) io"
  get_max :: "i2c_client \<Rightarrow> u32 \<times> u32 \<Rightarrow> (int \<times> u32 \<times> u32) io"
  get_resolution :: "i2c_client \<Rightarrow> u8 \<times> u8 \<Rightarrow> (int \<times> u8 \<times> u8) io"
  get_num_traces :: "i2c_client \<Rightarrow> u32 \<times> u32 \<Rightarrow> (int \<times> u32 \<times> u32) io"
  iap_get_mode :: "i2c_client \<Rightarrow> tp_mode \<Rightarrow> (int \<times> tp_mode) io"
  iap_reset :: "i2c_client \<Rightarrow> int io"
  prepare_fw_update :: "i2c_client \<Rightarrow> u16 \<Rightarrow> u8 \<Rightarrow> u16 \<Rightarrow> int io"
  write_fw_block :: "i2c_client \<Rightarrow> u16 \<Rightarrow> u8 list \<Rightarrow> u16 \<Rightarrow> nat \<Rightarrow> int io"
  finish_fw_update :: "i2c_client \<Rightarrow> int io"
  get_report_features :: "i2c_client \<Rightarrow> u8 \<Rightarrow> u32 \<times> u32 \<Rightarrow> (int \<times> u32 \<times> u32) io"
  get_report :: "i2c_client \<Rightarrow> u8 list \<Rightarrow> u32 \<Rightarrow> (int \<times> u8 list) io"
  get_pressure_adjustment :: "i2c_client \<Rightarrow> s32 \<Rightarrow> (int \<times> s32) io"
  get_pattern :: "i2c_client \<Rightarrow> u8 \<Rightarrow> (int \<times> u8) io"

section \<open>The contract of a transport\<close>

text \<open>
  What the core relies on, whichever table \<open>data->ops\<close> points to. Only
  \<open>finish_fw_update\<close> touches the interrupt line and waits for a completion, and it leaves the
  disable depth as it found it; every other operation only talks to the bus. A report request never changes the size
  of the caller's buffer, and the length a transport asks for fits that buffer.
\<close>

locale transport =
  fixes T :: elan_transport_ops
  assumes bus_initialize: "state_io_rel (emits bus_call) (initialize T c)"
    and bus_sleep_control: "state_io_rel (emits bus_call) (sleep_control T c b)"
    and bus_power_control: "state_io_rel (emits bus_call) (power_control T c b)"
    and bus_set_mode: "state_io_rel (emits bus_call) (set_mode T c m)"
    and bus_health_check: "state_io_rel (emits bus_call) (health_check T c)"
    and bus_calibrate: "state_io_rel (emits bus_call) (calibrate T c)"
    and bus_calibrate_result: "state_io_rel (emits bus_call) (calibrate_result T c v)"
    and bus_get_baseline_data: "state_io_rel (emits bus_call) (get_baseline_data T c b x8)"
    and bus_get_version: "state_io_rel (emits bus_call) (get_version T c p b x8)"
    and bus_get_sm_version: "state_io_rel (emits bus_call) (get_sm_version T c p sm)"
    and bus_get_checksum: "state_io_rel (emits bus_call) (get_checksum T c b x16)"
    and bus_get_product_id: "state_io_rel (emits bus_call) (get_product_id T c x16)"
    and bus_get_max: "state_io_rel (emits bus_call) (get_max T c xy)"
    and bus_get_resolution: "state_io_rel (emits bus_call) (get_resolution T c hw)"
    and bus_get_num_traces: "state_io_rel (emits bus_call) (get_num_traces T c xy)"
    and bus_iap_get_mode: "state_io_rel (emits bus_call) (iap_get_mode T c md)"
    and bus_iap_reset: "state_io_rel (emits bus_call) (iap_reset T c)"
    and bus_prepare_fw_update: "state_io_rel (emits bus_call) (prepare_fw_update T c ic iap sz)"
    and bus_write_fw_block: "state_io_rel (emits bus_call) (write_fw_block T c sz pg ck i)"
    and bus_get_report_features: "state_io_rel (emits bus_call) (get_report_features T c p xy)"
    and bus_get_report: "state_io_rel (emits bus_call) (get_report T c buf len)"
    and bus_get_pressure_adjustment:
      "state_io_rel (emits bus_call) (get_pressure_adjustment T c x32)"
    and bus_get_pattern: "state_io_rel (emits bus_call) (get_pattern T c x8)"
    and finish_balanced: "state_io_rel balanced (finish_fw_update T c)"
    and finish_calls: "state_io_rel (emits transport_call) (finish_fw_update T c)"
    and report_features_fit:
      "result (get_report_features T c p xy) t = (err, feat, len) \<Longrightarrow>
        err = 0 \<and> unat len \<le> ETP_MAX_REPORT_LEN"
    and report_buffer_size:
      "length buf = ETP_MAX_REPORT_LEN \<Longrightarrow> unat len \<le> ETP_MAX_REPORT_LEN \<Longrightarrow>
        length (snd (result (get_report T c buf len) t)) = ETP_MAX_REPORT_LEN"
begin

lemmas bus_ops =
  bus_initialize bus_sleep_control bus_power_control bus_set_mode bus_health_check
  bus_calibrate bus_calibrate_result bus_get_baseline_data bus_get_version bus_get_sm_version
  bus_get_checksum bus_get_product_id bus_get_max bus_get_resolution bus_get_num_traces
  bus_iap_get_mode bus_iap_reset bus_prepare_fw_update bus_write_fw_block
  bus_get_report_features bus_get_report bus_get_pressure_adjustment bus_get_pattern

lemma finish_extends: "state_io_rel extends (finish_fw_update T c)"
  by (rule bus_program_extends [OF finish_calls])

lemmas transport_ops = bus_ops [THEN bus_program_transport] finish_calls
lemmas balanced_ops = bus_ops [THEN bus_program_balanced] finish_balanced
lemmas extends_ops = bus_ops [THEN bus_program_extends] finish_extends

end

text \<open>
  A status is 0 or a negated errno. On a bus that keeps its contract, the operations the core
  branches on return one.
\<close>

definition errno_status :: "int \<Rightarrow> bool" where
  "errno_status r \<longleftrightarrow> - MAX_ERRNO \<le> r \<and> r \<le> 0"

lemma errno_status_consts [simp]:
  "errno_status 0" "errno_status (- EIO)" "errno_status (- ENXIO)"
  "errno_status (- ETIMEDOUT)"
  by (simp_all add: errno_status_def MAX_ERRNO_def errno_defs)

lemma errno_status_neg: "- MAX_ERRNO \<le> r \<Longrightarrow> r < 0 \<Longrightarrow> errno_status r"
  by (simp add: errno_status_def)

lemma contract_answer: "bus_contract E \<Longrightarrow> - MAX_ERRNO \<le> fst (answer E t c)"
  by (simp add: bus_contract_def)

locale checked_transport = transport T for T :: elan_transport_ops +
  fixes E :: environment
  assumes status_initialize: "bus_contract E \<Longrightarrow> errno_status (result (initialize T c) t)"
    and status_sleep_control: "bus_contract E \<Longrightarrow> errno_status (result (sleep_control T c b) t)"
    and status_power_control: "bus_contract E \<Longrightarrow> errno_status (result (power_control T c b) t)"
    and status_set_mode: "bus_contract E \<Longrightarrow> errno_status (result (set_mode T c m) t)"
    and status_health_check: "bus_contract E \<Longrightarrow> errno_status (result (health_check T c) t)"
    and status_get_product_id:
      "bus_contract E \<Longrightarrow> errno_status (fst (result (get_product_id T c x16) t))"
    and status_get_pattern: "bus_contract E \<Longrightarrow> errno_status (fst (result (get_pattern T c x8) t))"
    and status_get_sm_version:
      "bus_contract E \<Longrightarrow> errno_status (fst (result (get_sm_version T c p sm) t))"
    and status_calibrate: "bus_contract E \<Longrightarrow> errno_status (result (calibrate T c) t)"
    and status_calibrate_result:
      "bus_contract E \<Longrightarrow> errno_status (fst (result (calibrate_result T c v) t))"
    and status_get_baseline_data:
      "bus_contract E \<Longrightarrow> errno_status (fst (result (get_baseline_data T c b x8) t))"
begin

lemmas op_statuses =
  status_initialize status_sleep_control status_power_control status_set_mode
  status_health_check status_get_product_id status_get_pattern status_get_sm_version
  status_calibrate status_calibrate_result status_get_baseline_data

end

end
