(* ===== verification/Elan_I2c.thy ===== *)
theory Elan_I2c
  imports Elan_Header
begin

text \<open>
  \<open>upstream/elan_i2c_i2c.c\<close>: the I2C transport. A register is read by writing its 16-bit
  little-endian number and reading back, and written by sending number and value; everything
  else is composed of these. Locals that C leaves uninitialised start from
  \<open>uninitialized\<close> bytes.
\<close>

section \<open>Commands\<close>

definition ETP_I2C_RESET :: u16 where [etp_consts]: "ETP_I2C_RESET = 0x0100"
definition ETP_I2C_WAKE_UP :: u16 where [etp_consts]: "ETP_I2C_WAKE_UP = 0x0800"
definition ETP_I2C_SLEEP :: u16 where [etp_consts]: "ETP_I2C_SLEEP = 0x0801"
definition ETP_I2C_DESC_CMD :: u16 where [etp_consts]: "ETP_I2C_DESC_CMD = 0x0001"
definition ETP_I2C_REPORT_DESC_CMD :: u16 where [etp_consts]: "ETP_I2C_REPORT_DESC_CMD = 0x0002"
definition ETP_I2C_STAND_CMD :: u16 where [etp_consts]: "ETP_I2C_STAND_CMD = 0x0005"
definition ETP_I2C_PATTERN_CMD :: u16 where [etp_consts]: "ETP_I2C_PATTERN_CMD = 0x0100"
definition ETP_I2C_UNIQUEID_CMD :: u16 where [etp_consts]: "ETP_I2C_UNIQUEID_CMD = 0x0101"
definition ETP_I2C_FW_VERSION_CMD :: u16 where [etp_consts]: "ETP_I2C_FW_VERSION_CMD = 0x0102"
definition ETP_I2C_IC_TYPE_CMD :: u16 where [etp_consts]: "ETP_I2C_IC_TYPE_CMD = 0x0103"
definition ETP_I2C_OSM_VERSION_CMD :: u16 where [etp_consts]: "ETP_I2C_OSM_VERSION_CMD = 0x0103"
definition ETP_I2C_NSM_VERSION_CMD :: u16 where [etp_consts]: "ETP_I2C_NSM_VERSION_CMD = 0x0104"
definition ETP_I2C_XY_TRACENUM_CMD :: u16 where [etp_consts]: "ETP_I2C_XY_TRACENUM_CMD = 0x0105"
definition ETP_I2C_MAX_X_AXIS_CMD :: u16 where [etp_consts]: "ETP_I2C_MAX_X_AXIS_CMD = 0x0106"
definition ETP_I2C_MAX_Y_AXIS_CMD :: u16 where [etp_consts]: "ETP_I2C_MAX_Y_AXIS_CMD = 0x0107"
definition ETP_I2C_RESOLUTION_CMD :: u16 where [etp_consts]: "ETP_I2C_RESOLUTION_CMD = 0x0108"
definition ETP_I2C_PRESSURE_CMD :: u16 where [etp_consts]: "ETP_I2C_PRESSURE_CMD = 0x010A"
definition ETP_I2C_IAP_VERSION_CMD :: u16 where [etp_consts]: "ETP_I2C_IAP_VERSION_CMD = 0x0110"
definition ETP_I2C_IC_TYPE_P0_CMD :: u16 where [etp_consts]: "ETP_I2C_IC_TYPE_P0_CMD = 0x0110"
definition ETP_I2C_IAP_VERSION_P0_CMD :: u16
  where [etp_consts]: "ETP_I2C_IAP_VERSION_P0_CMD = 0x0111"
definition ETP_I2C_SET_CMD :: u16 where [etp_consts]: "ETP_I2C_SET_CMD = 0x0300"
definition ETP_I2C_POWER_CMD :: u16 where [etp_consts]: "ETP_I2C_POWER_CMD = 0x0307"
definition ETP_I2C_FW_CHECKSUM_CMD :: u16 where [etp_consts]: "ETP_I2C_FW_CHECKSUM_CMD = 0x030F"
definition ETP_I2C_IAP_CTRL_CMD :: u16 where [etp_consts]: "ETP_I2C_IAP_CTRL_CMD = 0x0310"
definition ETP_I2C_IAP_CMD :: u16 where [etp_consts]: "ETP_I2C_IAP_CMD = 0x0311"
definition ETP_I2C_IAP_RESET_CMD :: u16 where [etp_consts]: "ETP_I2C_IAP_RESET_CMD = 0x0314"
definition ETP_I2C_IAP_CHECKSUM_CMD :: u16 where [etp_consts]: "ETP_I2C_IAP_CHECKSUM_CMD = 0x0315"
definition ETP_I2C_CALIBRATE_CMD :: u16 where [etp_consts]: "ETP_I2C_CALIBRATE_CMD = 0x0316"
definition ETP_I2C_MAX_BASELINE_CMD :: u16 where [etp_consts]: "ETP_I2C_MAX_BASELINE_CMD = 0x0317"
definition ETP_I2C_MIN_BASELINE_CMD :: u16 where [etp_consts]: "ETP_I2C_MIN_BASELINE_CMD = 0x0318"
definition ETP_I2C_IAP_TYPE_CMD :: u16 where [etp_consts]: "ETP_I2C_IAP_TYPE_CMD = 0x0304"

definition ETP_I2C_REPORT_LEN :: u32 where [etp_consts]: "ETP_I2C_REPORT_LEN = 34"
definition ETP_I2C_REPORT_LEN_ID2 :: u32 where [etp_consts]: "ETP_I2C_REPORT_LEN_ID2 = 39"
definition ETP_I2C_REPORT_MAX_LEN :: nat where [etp_consts]: "ETP_I2C_REPORT_MAX_LEN = 39"
definition ETP_I2C_DESC_LENGTH :: nat where [etp_consts]: "ETP_I2C_DESC_LENGTH = 30"
definition ETP_I2C_REPORT_DESC_LENGTH :: nat where [etp_consts]: "ETP_I2C_REPORT_DESC_LENGTH = 158"
definition ETP_I2C_INF_LENGTH :: nat where [etp_consts]: "ETP_I2C_INF_LENGTH = 2"
definition ETP_I2C_IAP_PASSWORD :: u16 where [etp_consts]: "ETP_I2C_IAP_PASSWORD = 0x1EA5"
definition ETP_I2C_IAP_RESET :: u16 where [etp_consts]: "ETP_I2C_IAP_RESET = 0xF0F0"
definition ETP_I2C_MAIN_MODE_ON :: u16 where [etp_consts]: "ETP_I2C_MAIN_MODE_ON = 0x200"
definition ETP_I2C_IAP_REG_L :: u8 where [etp_consts]: "ETP_I2C_IAP_REG_L = 0x01"
definition ETP_I2C_IAP_REG_H :: u8 where [etp_consts]: "ETP_I2C_IAP_REG_H = 0x06"

section \<open>Register access\<close>

definition elan_i2c_read_block ::
  "environment \<Rightarrow> i2c_client \<Rightarrow> u16 \<Rightarrow> u8 list \<Rightarrow> nat \<Rightarrow> (int \<times> u8 list) io"
where
  "elan_i2c_read_block E client reg val len = do {
     let msgs = [
       \<lparr>msg_addr = addr client, msg_flags = flags client AND I2C_M_TEN,
        msg_len = 2, msg_buf = cpu_to_le16 reg\<rparr>,
       \<lparr>msg_addr = addr client, msg_flags = (flags client AND I2C_M_TEN) OR I2C_M_RD,
        msg_len = of_nat len, msg_buf = []\<rparr>];
     (ret, val) \<leftarrow> i2c_transfer E msgs val len;
     return (if ret = int (length msgs) then 0 else if ret < 0 then ret else - EIO, val)
   }"

definition elan_i2c_read_cmd ::
  "environment \<Rightarrow> i2c_client \<Rightarrow> u16 \<Rightarrow> u8 list \<Rightarrow> (int \<times> u8 list) io"
where
  "elan_i2c_read_cmd E client reg val = do {
     (retval, val) \<leftarrow> elan_i2c_read_block E client reg val ETP_I2C_INF_LENGTH;
     if retval < 0 then return (retval, val) else return (0, val)
   }"

definition elan_i2c_write_cmd :: "environment \<Rightarrow> i2c_client \<Rightarrow> u16 \<Rightarrow> u16 \<Rightarrow> int io" where
  "elan_i2c_write_cmd E client reg cmd = do {
     let msg = \<lparr>msg_addr = addr client, msg_flags = flags client AND I2C_M_TEN,
       msg_len = 4, msg_buf = cpu_to_le16 reg @ cpu_to_le16 cmd\<rparr>;
     ret \<leftarrow> status_of E (Bus (I2cTransfer [msg]));
     if ret \<noteq> 1 then return (if ret \<ge> 0 then - EIO else ret) else return 0
   }"

section \<open>Bringing the controller up\<close>

definition elan_i2c_health_check :: "environment \<Rightarrow> i2c_client \<Rightarrow> int io" where
  "elan_i2c_health_check E client = do {
     (error, _) \<leftarrow> elan_i2c_read_cmd E client ETP_I2C_FW_VERSION_CMD
       (uninitialized E ETP_I2C_INF_LENGTH);
     return error
   }"

definition elan_i2c_initialize :: "environment \<Rightarrow> i2c_client \<Rightarrow> int io" where
  "elan_i2c_initialize E client = do {
     error \<leftarrow> elan_i2c_write_cmd E client ETP_I2C_STAND_CMD ETP_I2C_RESET;
     if error \<noteq> 0 then return error else do {
       notify (Msleep 100);
       (error, val) \<leftarrow> i2c_master_recv E (uninitialized E 256) ETP_I2C_INF_LENGTH;
       if error < 0 then return error else do {
         (error, val) \<leftarrow>
           elan_i2c_read_block E client ETP_I2C_DESC_CMD val ETP_I2C_DESC_LENGTH;
         if error \<noteq> 0 then return error else do {
           (error, val) \<leftarrow>
             elan_i2c_read_block E client ETP_I2C_REPORT_DESC_CMD val
               ETP_I2C_REPORT_DESC_LENGTH;
           if error \<noteq> 0 then return error else return 0
         }
       }
     }
   }"

definition elan_i2c_sleep_control :: "environment \<Rightarrow> i2c_client \<Rightarrow> bool \<Rightarrow> int io" where
  "elan_i2c_sleep_control E client sleep =
     elan_i2c_write_cmd E client ETP_I2C_STAND_CMD
       (if sleep then ETP_I2C_SLEEP else ETP_I2C_WAKE_UP)"

definition elan_i2c_power_control :: "environment \<Rightarrow> i2c_client \<Rightarrow> bool \<Rightarrow> int io" where
  "elan_i2c_power_control E client enable = do {
     (error, val) \<leftarrow> elan_i2c_read_cmd E client ETP_I2C_POWER_CMD (uninitialized E 2);
     if error \<noteq> 0 then return error else do {
       let reg = le16_to_cpu val;
       let reg = (if enable then reg AND NOT ETP_DISABLE_POWER else reg OR ETP_DISABLE_POWER);
       error \<leftarrow> elan_i2c_write_cmd E client ETP_I2C_POWER_CMD reg;
       if error \<noteq> 0 then return error else return 0
     }
   }"

definition elan_i2c_set_mode :: "environment \<Rightarrow> i2c_client \<Rightarrow> u8 \<Rightarrow> int io" where
  "elan_i2c_set_mode E client mode = elan_i2c_write_cmd E client ETP_I2C_SET_CMD (ucast mode)"

section \<open>Calibration and baseline\<close>

definition elan_i2c_calibrate :: "environment \<Rightarrow> i2c_client \<Rightarrow> int io" where
  "elan_i2c_calibrate E client = elan_i2c_write_cmd E client ETP_I2C_CALIBRATE_CMD 1"

definition elan_i2c_calibrate_result ::
  "environment \<Rightarrow> i2c_client \<Rightarrow> u8 list \<Rightarrow> (int \<times> u8 list) io"
where
  "elan_i2c_calibrate_result E client val =
     elan_i2c_read_block E client ETP_I2C_CALIBRATE_CMD val 1"

definition elan_i2c_get_baseline_data ::
  "environment \<Rightarrow> i2c_client \<Rightarrow> bool \<Rightarrow> u8 \<Rightarrow> (int \<times> u8) io"
where
  "elan_i2c_get_baseline_data E client max_baseline value = do {
     (error, val) \<leftarrow> elan_i2c_read_cmd E client
       (if max_baseline then ETP_I2C_MAX_BASELINE_CMD else ETP_I2C_MIN_BASELINE_CMD)
       (uninitialized E 3);
     if error \<noteq> 0 then return (error, value)
     else return (0, ucast (le16_to_cpu val))
   }"

section \<open>Identification\<close>

definition elan_i2c_get_pattern :: "environment \<Rightarrow> i2c_client \<Rightarrow> u8 \<Rightarrow> (int \<times> u8) io" where
  "elan_i2c_get_pattern E client pattern = do {
     (error, val) \<leftarrow> elan_i2c_read_cmd E client ETP_I2C_PATTERN_CMD (uninitialized E 3);
     if error \<noteq> 0 then return (error, pattern)
     else return (0, if val ! 0 = 0xFF \<and> val ! 1 = 0xFF then 0 else val ! 1)
   }"

definition elan_i2c_get_version ::
  "environment \<Rightarrow> i2c_client \<Rightarrow> u8 \<Rightarrow> bool \<Rightarrow> u8 \<Rightarrow> (int \<times> u8) io"
where
  "elan_i2c_get_version E client pattern iap version = do {
     let cmd = (if \<not> iap then ETP_I2C_FW_VERSION_CMD
       else if pattern = 0 then ETP_I2C_IAP_VERSION_P0_CMD
       else ETP_I2C_IAP_VERSION_CMD);
     (error, val) \<leftarrow> elan_i2c_read_cmd E client cmd (uninitialized E 3);
     if error \<noteq> 0 then return (error, version)
     else return (0, if pattern \<ge> 1 then (if iap then val ! 1 else val ! 0) else val ! 0)
   }"

definition elan_i2c_get_sm_version ::
  "environment \<Rightarrow> i2c_client \<Rightarrow> u8 \<Rightarrow> u16 \<times> u8 \<times> u8 \<Rightarrow> (int \<times> u16 \<times> u8 \<times> u8) io"
where
  "elan_i2c_get_sm_version E client pattern out = do {
     let (ic_type, version, clickpad) = out;
     if pattern \<ge> 1 then do {
       (error, val) \<leftarrow> elan_i2c_read_cmd E client ETP_I2C_IC_TYPE_CMD (uninitialized E 3);
       if error \<noteq> 0 then return (error, ic_type, version, clickpad) else do {
         let ic_type = be16_to_cpu val;
         (error, val) \<leftarrow> elan_i2c_read_cmd E client ETP_I2C_NSM_VERSION_CMD val;
         if error \<noteq> 0 then return (error, ic_type, version, clickpad)
         else return (0, ic_type, val ! 1, val ! 0 AND 0x10)
       }
     } else do {
       (error, val) \<leftarrow> elan_i2c_read_cmd E client ETP_I2C_OSM_VERSION_CMD (uninitialized E 3);
       if error \<noteq> 0 then return (error, ic_type, version, clickpad) else do {
         let version = val ! 0;
         (error, val) \<leftarrow> elan_i2c_read_cmd E client ETP_I2C_IC_TYPE_P0_CMD val;
         if error \<noteq> 0 then return (error, ic_type, version, clickpad) else do {
           let ic_type = ucast (val ! 0);
           (error, val) \<leftarrow> elan_i2c_read_cmd E client ETP_I2C_NSM_VERSION_CMD val;
           if error \<noteq> 0 then return (error, ic_type, version, clickpad)
           else return (0, ic_type, version, val ! 0 AND 0x10)
         }
       }
     }
   }"

definition elan_i2c_get_product_id :: "environment \<Rightarrow> i2c_client \<Rightarrow> u16 \<Rightarrow> (int \<times> u16) io" where
  "elan_i2c_get_product_id E client product = do {
     (error, val) \<leftarrow> elan_i2c_read_cmd E client ETP_I2C_UNIQUEID_CMD (uninitialized E 3);
     if error \<noteq> 0 then return (error, product) else return (0, le16_to_cpu val)
   }"

definition elan_i2c_get_checksum ::
  "environment \<Rightarrow> i2c_client \<Rightarrow> bool \<Rightarrow> u16 \<Rightarrow> (int \<times> u16) io"
where
  "elan_i2c_get_checksum E client iap csum = do {
     (error, val) \<leftarrow> elan_i2c_read_cmd E client
       (if iap then ETP_I2C_IAP_CHECKSUM_CMD else ETP_I2C_FW_CHECKSUM_CMD) (uninitialized E 3);
     if error \<noteq> 0 then return (error, csum) else return (0, le16_to_cpu val)
   }"

section \<open>Geometry\<close>

definition elan_i2c_get_max ::
  "environment \<Rightarrow> i2c_client \<Rightarrow> u32 \<times> u32 \<Rightarrow> (int \<times> u32 \<times> u32) io"
where
  "elan_i2c_get_max E client out = do {
     let (max_x, max_y) = out;
     (error, val) \<leftarrow> elan_i2c_read_cmd E client ETP_I2C_MAX_X_AXIS_CMD (uninitialized E 3);
     if error \<noteq> 0 then return (error, max_x, max_y) else do {
       let max_x = ucast (le16_to_cpu val);
       (error, val) \<leftarrow> elan_i2c_read_cmd E client ETP_I2C_MAX_Y_AXIS_CMD val;
       if error \<noteq> 0 then return (error, max_x, max_y)
       else return (0, max_x, ucast (le16_to_cpu val))
     }
   }"

definition elan_i2c_get_resolution ::
  "environment \<Rightarrow> i2c_client \<Rightarrow> u8 \<times> u8 \<Rightarrow> (int \<times> u8 \<times> u8) io"
where
  "elan_i2c_get_resolution E client out = do {
     (error, val) \<leftarrow> elan_i2c_read_cmd E client ETP_I2C_RESOLUTION_CMD (uninitialized E 3);
     if error \<noteq> 0 then return (error, out) else return (0, val ! 0, val ! 1)
   }"

definition elan_i2c_get_num_traces ::
  "environment \<Rightarrow> i2c_client \<Rightarrow> u32 \<times> u32 \<Rightarrow> (int \<times> u32 \<times> u32) io"
where
  "elan_i2c_get_num_traces E client out = do {
     (error, val) \<leftarrow> elan_i2c_read_cmd E client ETP_I2C_XY_TRACENUM_CMD (uninitialized E 3);
     if error \<noteq> 0 then return (error, out)
     else return (0, ucast (val ! 0), ucast (val ! 1))
   }"

definition elan_i2c_get_pressure_adjustment ::
  "environment \<Rightarrow> i2c_client \<Rightarrow> s32 \<Rightarrow> (int \<times> s32) io"
where
  "elan_i2c_get_pressure_adjustment E client adjustment = do {
     (error, val) \<leftarrow> elan_i2c_read_cmd E client ETP_I2C_PRESSURE_CMD (uninitialized E 3);
     if error \<noteq> 0 then return (error, adjustment)
     else if drop_bit 4 (val ! 0) AND 1 \<noteq> 0 then return (0, 0)
     else return (0, ETP_PRESSURE_OFFSET)
   }"

section \<open>Firmware update\<close>

definition elan_i2c_iap_get_mode ::
  "environment \<Rightarrow> i2c_client \<Rightarrow> tp_mode \<Rightarrow> (int \<times> tp_mode) io"
where
  "elan_i2c_iap_get_mode E client mode = do {
     (error, val) \<leftarrow> elan_i2c_read_cmd E client ETP_I2C_IAP_CTRL_CMD (uninitialized E 3);
     if error \<noteq> 0 then return (error, mode) else do {
       let constant = le16_to_cpu val;
       return (0, if constant AND ETP_I2C_MAIN_MODE_ON \<noteq> 0 then MAIN_MODE else IAP_MODE)
     }
   }"

definition elan_i2c_iap_reset :: "environment \<Rightarrow> i2c_client \<Rightarrow> int io" where
  "elan_i2c_iap_reset E client = do {
     error \<leftarrow> elan_i2c_write_cmd E client ETP_I2C_IAP_RESET_CMD ETP_I2C_IAP_RESET;
     if error \<noteq> 0 then return error else return 0
   }"

definition elan_i2c_set_flash_key :: "environment \<Rightarrow> i2c_client \<Rightarrow> int io" where
  "elan_i2c_set_flash_key E client = do {
     error \<leftarrow> elan_i2c_write_cmd E client ETP_I2C_IAP_CMD ETP_I2C_IAP_PASSWORD;
     if error \<noteq> 0 then return error else return 0
   }"

text \<open>The \<open>do ... while (--retry > 0)\<close> loop of \<open>elan_read_write_iap_type\<close>.\<close>

fun elan_read_write_iap_type_loop ::
  "environment \<Rightarrow> i2c_client \<Rightarrow> u16 \<Rightarrow> nat \<Rightarrow> int io"
where
  "elan_read_write_iap_type_loop E client fw_page_size retry = do {
     error \<leftarrow> elan_i2c_write_cmd E client ETP_I2C_IAP_TYPE_CMD (fw_page_size div 2);
     if error \<noteq> 0 then return error else do {
       (error, val) \<leftarrow> elan_i2c_read_cmd E client ETP_I2C_IAP_TYPE_CMD (uninitialized E 3);
       if error \<noteq> 0 then return error else do {
         let constant = le16_to_cpu val;
         if constant = fw_page_size div 2 then return 0
         else if retry - 1 > 0 then elan_read_write_iap_type_loop E client fw_page_size (retry - 1)
         else return (- EIO)
       }
     }
   }"

declare elan_read_write_iap_type_loop.simps [simp del]

definition elan_read_write_iap_type :: "environment \<Rightarrow> i2c_client \<Rightarrow> u16 \<Rightarrow> int io" where
  "elan_read_write_iap_type E client fw_page_size =
     elan_read_write_iap_type_loop E client fw_page_size 3"

definition elan_i2c_prepare_fw_update ::
  "environment \<Rightarrow> i2c_client \<Rightarrow> u16 \<Rightarrow> u8 \<Rightarrow> u16 \<Rightarrow> int io"
where
  "elan_i2c_prepare_fw_update E client ic_type iap_version fw_page_size = do {
     (error, mode) \<leftarrow> elan_i2c_iap_get_mode E client MAIN_MODE;
     if error \<noteq> 0 then return error else do {
     error \<leftarrow> (if mode = IAP_MODE then do {
         error \<leftarrow> elan_i2c_iap_reset E client;
         if error \<noteq> 0 then return error else do { notify (Msleep 30); return 0 }
       } else return 0);
     if error \<noteq> 0 then return error else do {
     error \<leftarrow> elan_i2c_set_flash_key E client;
     if error \<noteq> 0 then return error else do {
     notify (Msleep (if mode = MAIN_MODE then 100 else 30));
     (error, mode) \<leftarrow> elan_i2c_iap_get_mode E client mode;
     if error \<noteq> 0 then return error else
     if mode = MAIN_MODE then return (- EIO) else do {
     error \<leftarrow> (if ic_type \<ge> 0x0D \<and> iap_version \<ge> 1
       then elan_read_write_iap_type E client fw_page_size else return 0);
     if error \<noteq> 0 then return error else do {
     error \<leftarrow> elan_i2c_set_flash_key E client;
     if error \<noteq> 0 then return error else do {
     notify (Msleep 30);
     (error, val) \<leftarrow> elan_i2c_read_cmd E client ETP_I2C_IAP_CMD (uninitialized E 3);
     if error \<noteq> 0 then return error else do {
     let password = le16_to_cpu val;
     if password \<noteq> ETP_I2C_IAP_PASSWORD then return (- EIO) else return 0
     }}}}}}}
   }"

text \<open>The buffer \<open>page_store\<close> of one page write: register, page, checksum.\<close>

definition page_store :: "u16 \<Rightarrow> u8 list \<Rightarrow> u16 \<Rightarrow> u8 list" where
  "page_store fw_page_size page checksum =
     [ETP_I2C_IAP_REG_L, ETP_I2C_IAP_REG_H] @ take (unat fw_page_size) page @ cpu_to_le16 checksum"

definition elan_i2c_write_fw_block ::
  "environment \<Rightarrow> i2c_client \<Rightarrow> u16 \<Rightarrow> u8 list \<Rightarrow> u16 \<Rightarrow> nat \<Rightarrow> int io"
where
  "elan_i2c_write_fw_block E client fw_page_size page checksum idx = do {
     let count = unat fw_page_size + 4;
     failed \<leftarrow> status_of E (Kmalloc count);
     if failed \<noteq> 0 then return (- ENOMEM) else do {
       ret \<leftarrow> status_of E (Bus (I2cMasterSend (page_store fw_page_size page checksum) count));
       if ret \<noteq> int count then return (if ret < 0 then ret else - EIO) else do {
         notify (Msleep (if fw_page_size = ETP_FW_PAGE_SIZE_512 then 50 else 35));
         (error, val) \<leftarrow> elan_i2c_read_cmd E client ETP_I2C_IAP_CTRL_CMD (uninitialized E 3);
         if error \<noteq> 0 then return error else do {
           let res = le16_to_cpu val;
           if res AND (ETP_FW_IAP_PAGE_ERR OR ETP_FW_IAP_INTF_ERR) \<noteq> 0 then return (- EIO)
           else return error
         }
       }
     }
   }"

definition elan_i2c_finish_fw_update :: "environment \<Rightarrow> i2c_client \<Rightarrow> int io" where
  "elan_i2c_finish_fw_update E client = do {
     (len, buffer) \<leftarrow>
       i2c_master_recv E (uninitialized E ETP_I2C_REPORT_MAX_LEN) ETP_I2C_REPORT_MAX_LEN;
     notify (Sched ReinitCompletion);
     notify (Sched EnableIrq);
     error \<leftarrow> elan_i2c_write_cmd E client ETP_I2C_STAND_CMD ETP_I2C_RESET;
     error \<leftarrow> (if error \<noteq> 0 then return error else do {
         left \<leftarrow> status_of E (Sched (WaitForCompletion 700));
         if left = 0 then return (- ETIMEDOUT) else return error
       });
     notify (Sched DisableIrq);
     if error \<noteq> 0 then return error else do {
       (len, buffer) \<leftarrow> i2c_master_recv E buffer ETP_I2C_INF_LENGTH;
       if len \<noteq> int ETP_I2C_INF_LENGTH then return (if len < 0 then len else - EIO)
       else return 0
     }
   }"

section \<open>Reports\<close>

definition elan_i2c_get_report_features ::
  "environment \<Rightarrow> i2c_client \<Rightarrow> u8 \<Rightarrow> u32 \<times> u32 \<Rightarrow> (int \<times> u32 \<times> u32) io"
where
  "elan_i2c_get_report_features E client pattern out =
     return (0, ETP_FEATURE_REPORT_MK,
       if pattern \<le> 0x01 then ETP_I2C_REPORT_LEN else ETP_I2C_REPORT_LEN_ID2)"

definition elan_i2c_get_report ::
  "environment \<Rightarrow> i2c_client \<Rightarrow> u8 list \<Rightarrow> u32 \<Rightarrow> (int \<times> u8 list) io"
where
  "elan_i2c_get_report E client report report_len = do {
     (len, report) \<leftarrow> i2c_master_recv E report (unat report_len);
     if len < 0 then return (len, report)
     else if len \<noteq> int (unat report_len) then return (- EIO, report)
     else return (0, report)
   }"

section \<open>The operation table\<close>

definition elan_i2c_ops :: "environment \<Rightarrow> elan_transport_ops" where
  "elan_i2c_ops E = \<lparr>
     initialize = elan_i2c_initialize E,
     sleep_control = elan_i2c_sleep_control E,
     power_control = elan_i2c_power_control E,
     set_mode = elan_i2c_set_mode E,
     health_check = elan_i2c_health_check E,
     calibrate = elan_i2c_calibrate E,
     calibrate_result = elan_i2c_calibrate_result E,
     get_baseline_data = elan_i2c_get_baseline_data E,
     get_version = elan_i2c_get_version E,
     get_sm_version = elan_i2c_get_sm_version E,
     get_checksum = elan_i2c_get_checksum E,
     get_product_id = elan_i2c_get_product_id E,
     get_max = elan_i2c_get_max E,
     get_resolution = elan_i2c_get_resolution E,
     get_num_traces = elan_i2c_get_num_traces E,
     iap_get_mode = elan_i2c_iap_get_mode E,
     iap_reset = elan_i2c_iap_reset E,
     prepare_fw_update = elan_i2c_prepare_fw_update E,
     write_fw_block = elan_i2c_write_fw_block E,
     finish_fw_update = elan_i2c_finish_fw_update E,
     get_report_features = elan_i2c_get_report_features E,
     get_report = elan_i2c_get_report E,
     get_pressure_adjustment = elan_i2c_get_pressure_adjustment E,
     get_pattern = elan_i2c_get_pattern E\<rparr>"

section \<open>The transport contract\<close>

lemma i2c_access_bus [rel_rules]:
  "state_io_rel (emits bus_call) (elan_i2c_read_block E c reg val len)"
  "state_io_rel (emits bus_call) (elan_i2c_read_cmd E c reg val)"
  "state_io_rel (emits bus_call) (elan_i2c_write_cmd E c reg cmd)"
  by (auto simp: elan_i2c_read_block_def elan_i2c_read_cmd_def elan_i2c_write_cmd_def Let_def
      intro!: rel_rules)

lemma i2c_iap_bus [rel_rules]:
  "state_io_rel (emits bus_call) (elan_i2c_iap_get_mode E c md)"
  "state_io_rel (emits bus_call) (elan_i2c_iap_reset E c)"
  "state_io_rel (emits bus_call) (elan_i2c_set_flash_key E c)"
  by (auto simp: elan_i2c_iap_get_mode_def elan_i2c_iap_reset_def elan_i2c_set_flash_key_def
      intro!: rel_rules)

lemma i2c_iap_type_bus [rel_rules]:
  "state_io_rel (emits bus_call) (elan_read_write_iap_type E c sz)"
proof -
  have "state_io_rel (emits bus_call) (elan_read_write_iap_type_loop E c sz n)" for n
  proof (induction n)
    case 0
    show ?case
      by (subst elan_read_write_iap_type_loop.simps) (auto intro!: rel_rules)
  next
    case (Suc n)
    then show ?case
      by (subst elan_read_write_iap_type_loop.simps) (auto intro!: rel_rules)
  qed
  then show ?thesis
    by (simp add: elan_read_write_iap_type_def)
qed

lemmas i2c_op_defs =
  elan_i2c_initialize_def elan_i2c_sleep_control_def elan_i2c_power_control_def
  elan_i2c_set_mode_def elan_i2c_health_check_def elan_i2c_calibrate_def
  elan_i2c_calibrate_result_def elan_i2c_get_baseline_data_def elan_i2c_get_version_def
  elan_i2c_get_sm_version_def elan_i2c_get_checksum_def elan_i2c_get_product_id_def
  elan_i2c_get_max_def elan_i2c_get_resolution_def elan_i2c_get_num_traces_def
  elan_i2c_prepare_fw_update_def elan_i2c_write_fw_block_def elan_i2c_get_report_features_def
  elan_i2c_get_report_def elan_i2c_get_pressure_adjustment_def elan_i2c_get_pattern_def

lemma i2c_finish_balanced: "state_io_rel balanced (elan_i2c_finish_fw_update E c)"
proof -
  have bus: "irq_depth (final (elan_i2c_write_cmd E c reg cmd) t) = irq_depth t"
    "mutex_depth (final (elan_i2c_write_cmd E c reg cmd) t) = mutex_depth t" for reg cmd t
    using io_relD [OF bus_program_balanced [OF i2c_access_bus(3)]]
    by (auto simp: balanced_def)
  show ?thesis
    by (auto simp: io_rel_iff elan_i2c_finish_fw_update_def balanced_def bus result_if final_if
        split: prod.splits)
qed

interpretation i2c: transport "elan_i2c_ops E" for E
proof
  fix buf :: "u8 list" and len :: u32 and c t
  assume "length buf = ETP_MAX_REPORT_LEN" and "unat len \<le> ETP_MAX_REPORT_LEN"
  then show "length (snd (result (get_report (elan_i2c_ops E) c buf len) t)) = ETP_MAX_REPORT_LEN"
    by (simp add: elan_i2c_ops_def elan_i2c_get_report_def result_if)
next
  fix c p xy t err feat len
  assume "result (get_report_features (elan_i2c_ops E) c p xy) t = (err, feat, len)"
  then show "err = 0 \<and> unat len \<le> ETP_MAX_REPORT_LEN"
    by (auto simp: elan_i2c_ops_def elan_i2c_get_report_features_def etp_consts)
next
  show "state_io_rel (emits transport_call) (finish_fw_update (elan_i2c_ops E) c)" for c
    by (auto simp: elan_i2c_ops_def elan_i2c_finish_fw_update_def
        intro!: rel_rules bus_program_transport [OF i2c_access_bus(3)]
          bus_program_transport [OF emits_bus_buffer(2)])
qed (auto simp: elan_i2c_ops_def i2c_op_defs i2c_finish_balanced Let_def
    intro!: rel_rules split: prod.splits)

section \<open>Statuses\<close>

lemma i2c_access_status:
  assumes "bus_contract E"
  shows "errno_status (fst (result (elan_i2c_read_block E c reg val len) t))"
    and "errno_status (fst (result (elan_i2c_read_cmd E c reg val) t))"
    and "errno_status (result (elan_i2c_write_cmd E c reg cmd) t)"
  using contract_answer [OF assms]
  by (auto simp: elan_i2c_read_block_def elan_i2c_read_cmd_def elan_i2c_write_cmd_def Let_def
      result_if errno_status_def MAX_ERRNO_def EIO_def split: prod.splits)

interpretation i2c_checked: checked_transport "elan_i2c_ops E" E for E
proof
  fix c t
  assume E: "bus_contract E"
  note st = i2c_access_status [OF E] contract_answer [OF E]
  show "errno_status (result (initialize (elan_i2c_ops E) c) t)"
    using st by (auto simp: elan_i2c_ops_def elan_i2c_initialize_def result_if
        errno_status_neg split: prod.splits) (metis fst_conv)+
  show "errno_status (result (sleep_control (elan_i2c_ops E) c b) t)" for b
    using st by (auto simp: elan_i2c_ops_def elan_i2c_sleep_control_def)
  show "errno_status (result (power_control (elan_i2c_ops E) c b) t)" for b
    using st by (auto simp: elan_i2c_ops_def elan_i2c_power_control_def result_if Let_def
        split: prod.splits) (metis fst_conv)+
  show "errno_status (result (set_mode (elan_i2c_ops E) c m) t)" for m
    using st by (auto simp: elan_i2c_ops_def elan_i2c_set_mode_def)
  show "errno_status (result (health_check (elan_i2c_ops E) c) t)"
    using st by (auto simp: elan_i2c_ops_def elan_i2c_health_check_def split: prod.splits)
     (metis fst_conv)+
  show "errno_status (fst (result (get_product_id (elan_i2c_ops E) c x16) t))" for x16
    using st by (auto simp: elan_i2c_ops_def elan_i2c_get_product_id_def result_if split: prod.splits)
     (metis fst_conv)+
  show "errno_status (fst (result (get_pattern (elan_i2c_ops E) c x8) t))" for x8
    using st by (auto simp: elan_i2c_ops_def elan_i2c_get_pattern_def result_if split: prod.splits)
     (metis fst_conv)+
  show "errno_status (fst (result (get_sm_version (elan_i2c_ops E) c p sm) t))" for p sm
    using st by (auto simp: elan_i2c_ops_def elan_i2c_get_sm_version_def result_if Let_def split: prod.splits)
     (metis fst_conv)+
  show "errno_status (result (calibrate (elan_i2c_ops E) c) t)"
    using st by (auto simp: elan_i2c_ops_def elan_i2c_calibrate_def)
  show "errno_status (fst (result (calibrate_result (elan_i2c_ops E) c v) t))" for v
    using st by (auto simp: elan_i2c_ops_def elan_i2c_calibrate_result_def)
  show "errno_status (fst (result (get_baseline_data (elan_i2c_ops E) c b x8) t))" for b x8
    using st by (auto simp: elan_i2c_ops_def elan_i2c_get_baseline_data_def result_if
        split: prod.splits) (metis fst_conv)+
qed

end
