(* ===== verification/Elan_Smbus.thy ===== *)
theory Elan_Smbus
  imports Elan_Header
begin

text \<open>
  \<open>upstream/elan_i2c_smbus.c\<close>: the SMBus transport. Commands are single bytes, data travels in
  blocks of at most 32 bytes, and multi-byte values are big-endian.
\<close>

section \<open>Commands\<close>

definition ETP_SMBUS_IAP_CMD :: u8 where [etp_consts]: "ETP_SMBUS_IAP_CMD = 0x00"
definition ETP_SMBUS_ENABLE_TP :: u8 where [etp_consts]: "ETP_SMBUS_ENABLE_TP = 0x20"
definition ETP_SMBUS_SLEEP_CMD :: u8 where [etp_consts]: "ETP_SMBUS_SLEEP_CMD = 0x21"
definition ETP_SMBUS_IAP_PASSWORD_WRITE :: u8
  where [etp_consts]: "ETP_SMBUS_IAP_PASSWORD_WRITE = 0x29"
definition ETP_SMBUS_IAP_PASSWORD_READ :: u8
  where [etp_consts]: "ETP_SMBUS_IAP_PASSWORD_READ = 0x80"
definition ETP_SMBUS_WRITE_FW_BLOCK :: u8 where [etp_consts]: "ETP_SMBUS_WRITE_FW_BLOCK = 0x2A"
definition ETP_SMBUS_IAP_RESET_CMD :: u8 where [etp_consts]: "ETP_SMBUS_IAP_RESET_CMD = 0x2B"
definition ETP_SMBUS_RANGE_CMD :: u8 where [etp_consts]: "ETP_SMBUS_RANGE_CMD = 0xA0"
definition ETP_SMBUS_FW_VERSION_CMD :: u8 where [etp_consts]: "ETP_SMBUS_FW_VERSION_CMD = 0xA1"
definition ETP_SMBUS_XY_TRACENUM_CMD :: u8 where [etp_consts]: "ETP_SMBUS_XY_TRACENUM_CMD = 0xA2"
definition ETP_SMBUS_SM_VERSION_CMD :: u8 where [etp_consts]: "ETP_SMBUS_SM_VERSION_CMD = 0xA3"
definition ETP_SMBUS_UNIQUEID_CMD :: u8 where [etp_consts]: "ETP_SMBUS_UNIQUEID_CMD = 0xA3"
definition ETP_SMBUS_RESOLUTION_CMD :: u8 where [etp_consts]: "ETP_SMBUS_RESOLUTION_CMD = 0xA4"
definition ETP_SMBUS_HELLOPACKET_CMD :: u8 where [etp_consts]: "ETP_SMBUS_HELLOPACKET_CMD = 0xA7"
definition ETP_SMBUS_PACKET_QUERY :: u8 where [etp_consts]: "ETP_SMBUS_PACKET_QUERY = 0xA8"
definition ETP_SMBUS_IAP_VERSION_CMD :: u8 where [etp_consts]: "ETP_SMBUS_IAP_VERSION_CMD = 0xAC"
definition ETP_SMBUS_IAP_CTRL_CMD :: u8 where [etp_consts]: "ETP_SMBUS_IAP_CTRL_CMD = 0xAD"
definition ETP_SMBUS_IAP_CHECKSUM_CMD :: u8 where [etp_consts]: "ETP_SMBUS_IAP_CHECKSUM_CMD = 0xAE"
definition ETP_SMBUS_FW_CHECKSUM_CMD :: u8 where [etp_consts]: "ETP_SMBUS_FW_CHECKSUM_CMD = 0xAF"
definition ETP_SMBUS_MAX_BASELINE_CMD :: u8 where [etp_consts]: "ETP_SMBUS_MAX_BASELINE_CMD = 0xC3"
definition ETP_SMBUS_MIN_BASELINE_CMD :: u8 where [etp_consts]: "ETP_SMBUS_MIN_BASELINE_CMD = 0xC4"
definition ETP_SMBUS_CALIBRATE_QUERY :: u8 where [etp_consts]: "ETP_SMBUS_CALIBRATE_QUERY = 0xC5"

definition ETP_SMBUS_REPORT_LEN :: u32 where [etp_consts]: "ETP_SMBUS_REPORT_LEN = 32"
definition ETP_SMBUS_REPORT_LEN2 :: u32 where [etp_consts]: "ETP_SMBUS_REPORT_LEN2 = 7"
definition ETP_SMBUS_REPORT_OFFSET :: nat where [etp_consts]: "ETP_SMBUS_REPORT_OFFSET = 2"
definition ETP_SMBUS_HELLOPACKET_LEN :: nat where [etp_consts]: "ETP_SMBUS_HELLOPACKET_LEN = 5"
definition ETP_SMBUS_IAP_PASSWORD :: u16 where [etp_consts]: "ETP_SMBUS_IAP_PASSWORD = 0x1234"
definition ETP_SMBUS_IAP_MODE_ON :: u16 where [etp_consts]: "ETP_SMBUS_IAP_MODE_ON = 64"

section \<open>Bus access\<close>

text \<open>
  \<open>i2c_smbus_write_byte\<close> and \<open>i2c_smbus_write_block_data\<close>. The length parameter of the latter
  is a \<open>u8\<close>; the callee reads at most that many bytes of the buffer.
\<close>

definition i2c_smbus_write_byte :: "environment \<Rightarrow> u8 \<Rightarrow> int io" where
  "i2c_smbus_write_byte E cmd = status_of E (Bus (SmbusWriteByte cmd))"

definition i2c_smbus_write_block_data :: "environment \<Rightarrow> u8 \<Rightarrow> u8 \<Rightarrow> u8 list \<Rightarrow> int io" where
  "i2c_smbus_write_block_data E cmd len values =
     status_of E (Bus (SmbusWriteBlock cmd len (take (unat len) values)))"

abbreviation zeroed_block :: "u8 list" where
  "zeroed_block \<equiv> replicate I2C_SMBUS_BLOCK_MAX 0"

section \<open>Bringing the controller up\<close>

definition elan_smbus_initialize :: "environment \<Rightarrow> i2c_client \<Rightarrow> int io" where
  "elan_smbus_initialize E client = do {
     let check = [0x55, 0x55, 0x55, 0x55, 0x55];
     (len, values) \<leftarrow> i2c_smbus_read_block_data E ETP_SMBUS_HELLOPACKET_CMD zeroed_block;
     if len \<noteq> int ETP_SMBUS_HELLOPACKET_LEN then return (if len < 0 then len else - EIO)
     else if take ETP_SMBUS_HELLOPACKET_LEN values \<noteq> check then return (- ENXIO)
     else do {
       error \<leftarrow> i2c_smbus_write_byte E ETP_SMBUS_ENABLE_TP;
       if error \<noteq> 0 then return error else return 0
     }
   }"

definition elan_smbus_set_mode :: "environment \<Rightarrow> i2c_client \<Rightarrow> u8 \<Rightarrow> int io" where
  "elan_smbus_set_mode E client mode =
     i2c_smbus_write_block_data E ETP_SMBUS_IAP_CMD 4 [0x00, 0x07, 0x00, mode]"

definition elan_smbus_health_check :: "environment \<Rightarrow> i2c_client \<Rightarrow> int io" where
  "elan_smbus_health_check E client = i2c_smbus_write_byte E ETP_SMBUS_ENABLE_TP"

definition elan_smbus_sleep_control :: "environment \<Rightarrow> i2c_client \<Rightarrow> bool \<Rightarrow> int io" where
  "elan_smbus_sleep_control E client sleep =
     (if sleep then i2c_smbus_write_byte E ETP_SMBUS_SLEEP_CMD else return 0)"

definition elan_smbus_power_control :: "environment \<Rightarrow> i2c_client \<Rightarrow> bool \<Rightarrow> int io" where
  "elan_smbus_power_control E client enable = return 0"

section \<open>Calibration and baseline\<close>

definition elan_smbus_calibrate :: "environment \<Rightarrow> i2c_client \<Rightarrow> int io" where
  "elan_smbus_calibrate E client =
     i2c_smbus_write_block_data E ETP_SMBUS_IAP_CMD 4 [0x00, 0x08, 0x00, 0x01]"

definition elan_smbus_calibrate_result ::
  "environment \<Rightarrow> i2c_client \<Rightarrow> u8 list \<Rightarrow> (int \<times> u8 list) io"
where
  "elan_smbus_calibrate_result E client val = do {
     (error, buf) \<leftarrow> i2c_smbus_read_block_data E ETP_SMBUS_CALIBRATE_QUERY zeroed_block;
     if error < 0 then return (error, val)
     else return (0, fill val ETP_CALIBRATE_MAX_LEN buf)
   }"

definition elan_smbus_get_baseline_data ::
  "environment \<Rightarrow> i2c_client \<Rightarrow> bool \<Rightarrow> u8 \<Rightarrow> (int \<times> u8) io"
where
  "elan_smbus_get_baseline_data E client max_baseline value = do {
     (error, val) \<leftarrow> i2c_smbus_read_block_data E
       (if max_baseline then ETP_SMBUS_MAX_BASELINE_CMD else ETP_SMBUS_MIN_BASELINE_CMD)
       zeroed_block;
     if error < 0 then return (error, value)
     else return (0, ucast (be16_to_cpu val))
   }"

section \<open>Identification\<close>

definition elan_smbus_get_version ::
  "environment \<Rightarrow> i2c_client \<Rightarrow> u8 \<Rightarrow> bool \<Rightarrow> u8 \<Rightarrow> (int \<times> u8) io"
where
  "elan_smbus_get_version E client pattern iap version = do {
     (error, val) \<leftarrow> i2c_smbus_read_block_data E
       (if iap then ETP_SMBUS_IAP_VERSION_CMD else ETP_SMBUS_FW_VERSION_CMD) zeroed_block;
     if error < 0 then return (error, version) else return (0, val ! 2)
   }"

definition elan_smbus_get_sm_version ::
  "environment \<Rightarrow> i2c_client \<Rightarrow> u8 \<Rightarrow> u16 \<times> u8 \<times> u8 \<Rightarrow> (int \<times> u16 \<times> u8 \<times> u8) io"
where
  "elan_smbus_get_sm_version E client pattern out = do {
     (error, val) \<leftarrow> i2c_smbus_read_block_data E ETP_SMBUS_SM_VERSION_CMD zeroed_block;
     if error < 0 then return (error, out)
     else return (0, ucast (val ! 1), val ! 0, val ! 0 AND 0x10)
   }"

definition elan_smbus_get_product_id :: "environment \<Rightarrow> i2c_client \<Rightarrow> u16 \<Rightarrow> (int \<times> u16) io"
where
  "elan_smbus_get_product_id E client product = do {
     (error, val) \<leftarrow> i2c_smbus_read_block_data E ETP_SMBUS_UNIQUEID_CMD zeroed_block;
     if error < 0 then return (error, product) else return (0, be16_to_cpu val)
   }"

definition elan_smbus_get_checksum ::
  "environment \<Rightarrow> i2c_client \<Rightarrow> bool \<Rightarrow> u16 \<Rightarrow> (int \<times> u16) io"
where
  "elan_smbus_get_checksum E client iap csum = do {
     (error, val) \<leftarrow> i2c_smbus_read_block_data E
       (if iap then ETP_SMBUS_FW_CHECKSUM_CMD else ETP_SMBUS_IAP_CHECKSUM_CMD) zeroed_block;
     if error < 0 then return (error, csum) else return (0, be16_to_cpu val)
   }"

section \<open>Geometry\<close>

definition elan_smbus_get_max ::
  "environment \<Rightarrow> i2c_client \<Rightarrow> u32 \<times> u32 \<Rightarrow> (int \<times> u32 \<times> u32) io"
where
  "elan_smbus_get_max E client out = do {
     (ret, val) \<leftarrow> i2c_smbus_read_block_data E ETP_SMBUS_RANGE_CMD zeroed_block;
     if ret \<noteq> 3 then return (if ret < 0 then ret else - EIO, out)
     else return (0,
       push_bit 8 (ucast (0x0f AND val ! 0)) OR ucast (val ! 1),
       push_bit 4 (ucast (0xf0 AND val ! 0)) OR ucast (val ! 2))
   }"

definition elan_smbus_get_resolution ::
  "environment \<Rightarrow> i2c_client \<Rightarrow> u8 \<times> u8 \<Rightarrow> (int \<times> u8 \<times> u8) io"
where
  "elan_smbus_get_resolution E client out = do {
     (ret, val) \<leftarrow> i2c_smbus_read_block_data E ETP_SMBUS_RESOLUTION_CMD zeroed_block;
     if ret \<noteq> 3 then return (if ret < 0 then ret else - EIO, out)
     else return (0, val ! 1 AND 0x0F, drop_bit 4 (val ! 1 AND 0xF0))
   }"

definition elan_smbus_get_num_traces ::
  "environment \<Rightarrow> i2c_client \<Rightarrow> u32 \<times> u32 \<Rightarrow> (int \<times> u32 \<times> u32) io"
where
  "elan_smbus_get_num_traces E client out = do {
     (ret, val) \<leftarrow> i2c_smbus_read_block_data E ETP_SMBUS_XY_TRACENUM_CMD zeroed_block;
     if ret \<noteq> 3 then return (if ret < 0 then ret else - EIO, out)
     else return (0, ucast (val ! 1), ucast (val ! 2))
   }"

definition elan_smbus_get_pressure_adjustment ::
  "environment \<Rightarrow> i2c_client \<Rightarrow> s32 \<Rightarrow> (int \<times> s32) io"
where
  "elan_smbus_get_pressure_adjustment E client adjustment = return (0, ETP_PRESSURE_OFFSET)"

section \<open>Firmware update\<close>

definition elan_smbus_iap_get_mode ::
  "environment \<Rightarrow> i2c_client \<Rightarrow> tp_mode \<Rightarrow> (int \<times> tp_mode) io"
where
  "elan_smbus_iap_get_mode E client mode = do {
     (error, val) \<leftarrow> i2c_smbus_read_block_data E ETP_SMBUS_IAP_CTRL_CMD zeroed_block;
     if error < 0 then return (error, mode) else do {
       let constant = be16_to_cpu val;
       return (0, if constant AND ETP_SMBUS_IAP_MODE_ON \<noteq> 0 then IAP_MODE else MAIN_MODE)
     }
   }"

definition elan_smbus_iap_reset :: "environment \<Rightarrow> i2c_client \<Rightarrow> int io" where
  "elan_smbus_iap_reset E client = do {
     error \<leftarrow> i2c_smbus_write_byte E ETP_SMBUS_IAP_RESET_CMD;
     if error \<noteq> 0 then return error else return 0
   }"

definition elan_smbus_set_flash_key :: "environment \<Rightarrow> i2c_client \<Rightarrow> int io" where
  "elan_smbus_set_flash_key E client = do {
     error \<leftarrow> i2c_smbus_write_block_data E ETP_SMBUS_IAP_CMD 4 [0x00, 0x0B, 0x00, 0x5A];
     if error \<noteq> 0 then return error else return 0
   }"

text \<open>
  The branch of \<open>elan_smbus_prepare_fw_update\<close> taken in main mode, which unlocks the flash
  and verifies the password, followed by the part both modes share.
\<close>

definition elan_smbus_unlock_iap :: "environment \<Rightarrow> i2c_client \<Rightarrow> int io" where
  "elan_smbus_unlock_iap E client = do {
     error \<leftarrow> elan_smbus_set_flash_key E client;
     if error \<noteq> 0 then return error else do {
     ret \<leftarrow> i2c_smbus_write_byte E ETP_SMBUS_IAP_PASSWORD_WRITE;
     if ret < 0 then return (- EIO) else do {
     error \<leftarrow> i2c_smbus_write_block_data E ETP_SMBUS_IAP_CMD 4 [0x0F, 0x78, 0x00, 0x06];
     if error \<noteq> 0 then return error else do {
     (len, val) \<leftarrow> i2c_smbus_read_block_data E ETP_SMBUS_IAP_PASSWORD_READ zeroed_block;
     if len < 2 then return (if len < 0 then len else - EIO) else do {
     let password = be16_to_cpu val;
     if password \<noteq> ETP_SMBUS_IAP_PASSWORD then return (- EIO) else do {
     notify (Msleep 30);
     return 0
     }}}}}
   }"

definition elan_smbus_prepare_fw_update ::
  "environment \<Rightarrow> i2c_client \<Rightarrow> u16 \<Rightarrow> u8 \<Rightarrow> u16 \<Rightarrow> int io"
where
  "elan_smbus_prepare_fw_update E client ic_type iap_version fw_page_size = do {
     (error, mode) \<leftarrow> elan_smbus_iap_get_mode E client MAIN_MODE;
     if error \<noteq> 0 then return error else do {
     error \<leftarrow> (if mode = MAIN_MODE then elan_smbus_unlock_iap E client else return 0);
     if error \<noteq> 0 then return error else do {
     error \<leftarrow> elan_smbus_set_flash_key E client;
     if error \<noteq> 0 then return error else do {
     error \<leftarrow> elan_smbus_iap_reset E client;
     if error \<noteq> 0 then return error else return 0
     }}}
   }"

definition elan_smbus_write_fw_block ::
  "environment \<Rightarrow> i2c_client \<Rightarrow> u16 \<Rightarrow> u8 list \<Rightarrow> u16 \<Rightarrow> nat \<Rightarrow> int io"
where
  "elan_smbus_write_fw_block E client fw_page_size page checksum idx = do {
     error \<leftarrow> i2c_smbus_write_block_data E ETP_SMBUS_WRITE_FW_BLOCK
       (ucast (fw_page_size div 2)) page;
     if error \<noteq> 0 then return error else do {
       error \<leftarrow> i2c_smbus_write_block_data E ETP_SMBUS_WRITE_FW_BLOCK
         (ucast (fw_page_size div 2)) (drop (unat (fw_page_size div 2)) page);
       if error \<noteq> 0 then return error else do {
         notify (UsleepRange 8000 10000);
         (error, val) \<leftarrow> i2c_smbus_read_block_data E ETP_SMBUS_IAP_CTRL_CMD zeroed_block;
         if error < 0 then return error else do {
           let res = be16_to_cpu val;
           if res AND (ETP_FW_IAP_PAGE_ERR OR ETP_FW_IAP_INTF_ERR) \<noteq> 0 then return (- EIO)
           else return 0
         }
       }
     }
   }"

definition elan_smbus_finish_fw_update :: "environment \<Rightarrow> i2c_client \<Rightarrow> int io" where
  "elan_smbus_finish_fw_update E client = return 0"

section \<open>Reports\<close>

definition elan_smbus_get_report_features ::
  "environment \<Rightarrow> i2c_client \<Rightarrow> u8 \<Rightarrow> u32 \<times> u32 \<Rightarrow> (int \<times> u32 \<times> u32) io"
where
  "elan_smbus_get_report_features E client pattern out =
     return (0, if pattern \<le> 0x01 then ETP_FEATURE_REPORT_MK else 0, ETP_SMBUS_REPORT_LEN)"

definition elan_smbus_get_report ::
  "environment \<Rightarrow> i2c_client \<Rightarrow> u8 list \<Rightarrow> u32 \<Rightarrow> (int \<times> u8 list) io"
where
  "elan_smbus_get_report E client report report_len = do {
     (len, block) \<leftarrow> i2c_smbus_read_block_data E ETP_SMBUS_PACKET_QUERY
       (drop ETP_SMBUS_REPORT_OFFSET report);
     let report = take ETP_SMBUS_REPORT_OFFSET report @ block;
     if len < 0 then return (len, report) else do {
       let report_len =
         (if report ! ETP_REPORT_ID_OFFSET = ETP_TP_REPORT_ID2 then ETP_SMBUS_REPORT_LEN2
          else report_len);
       if len \<noteq> int (unat report_len) then return (- EIO, report) else return (0, report)
     }
   }"

definition elan_smbus_get_pattern :: "environment \<Rightarrow> i2c_client \<Rightarrow> u8 \<Rightarrow> (int \<times> u8) io" where
  "elan_smbus_get_pattern E client pattern = return (0, 0)"

section \<open>The operation table\<close>

definition elan_smbus_ops :: "environment \<Rightarrow> elan_transport_ops" where
  "elan_smbus_ops E = \<lparr>
     initialize = elan_smbus_initialize E,
     sleep_control = elan_smbus_sleep_control E,
     power_control = elan_smbus_power_control E,
     set_mode = elan_smbus_set_mode E,
     health_check = elan_smbus_health_check E,
     calibrate = elan_smbus_calibrate E,
     calibrate_result = elan_smbus_calibrate_result E,
     get_baseline_data = elan_smbus_get_baseline_data E,
     get_version = elan_smbus_get_version E,
     get_sm_version = elan_smbus_get_sm_version E,
     get_checksum = elan_smbus_get_checksum E,
     get_product_id = elan_smbus_get_product_id E,
     get_max = elan_smbus_get_max E,
     get_resolution = elan_smbus_get_resolution E,
     get_num_traces = elan_smbus_get_num_traces E,
     iap_get_mode = elan_smbus_iap_get_mode E,
     iap_reset = elan_smbus_iap_reset E,
     prepare_fw_update = elan_smbus_prepare_fw_update E,
     write_fw_block = elan_smbus_write_fw_block E,
     finish_fw_update = elan_smbus_finish_fw_update E,
     get_report_features = elan_smbus_get_report_features E,
     get_report = elan_smbus_get_report E,
     get_pressure_adjustment = elan_smbus_get_pressure_adjustment E,
     get_pattern = elan_smbus_get_pattern E\<rparr>"

section \<open>The transport contract\<close>

lemma smbus_access_bus [rel_rules]:
  "state_io_rel (emits bus_call) (i2c_smbus_write_byte E cmd)"
  "state_io_rel (emits bus_call) (i2c_smbus_write_block_data E cmd len values)"
  by (auto simp: i2c_smbus_write_byte_def i2c_smbus_write_block_data_def intro!: rel_rules)

lemma smbus_iap_bus [rel_rules]:
  "state_io_rel (emits bus_call) (elan_smbus_iap_get_mode E c md)"
  "state_io_rel (emits bus_call) (elan_smbus_iap_reset E c)"
  "state_io_rel (emits bus_call) (elan_smbus_set_flash_key E c)"
  by (auto simp: elan_smbus_iap_get_mode_def elan_smbus_iap_reset_def
      elan_smbus_set_flash_key_def intro!: rel_rules)

lemma smbus_unlock_bus [rel_rules]: "state_io_rel (emits bus_call) (elan_smbus_unlock_iap E c)"
  by (auto simp: elan_smbus_unlock_iap_def intro!: rel_rules)

lemmas smbus_op_defs =
  elan_smbus_initialize_def elan_smbus_sleep_control_def elan_smbus_power_control_def
  elan_smbus_set_mode_def elan_smbus_health_check_def elan_smbus_calibrate_def
  elan_smbus_calibrate_result_def elan_smbus_get_baseline_data_def elan_smbus_get_version_def
  elan_smbus_get_sm_version_def elan_smbus_get_checksum_def elan_smbus_get_product_id_def
  elan_smbus_get_max_def elan_smbus_get_resolution_def elan_smbus_get_num_traces_def
  elan_smbus_prepare_fw_update_def elan_smbus_write_fw_block_def
  elan_smbus_get_report_features_def elan_smbus_get_report_def
  elan_smbus_get_pressure_adjustment_def elan_smbus_get_pattern_def

interpretation smbus: transport "elan_smbus_ops E" for E
proof
  fix buf :: "u8 list" and len :: u32 and c t
  assume "length buf = ETP_MAX_REPORT_LEN" and "unat len \<le> ETP_MAX_REPORT_LEN"
  then show "length (snd (result (get_report (elan_smbus_ops E) c buf len) t)) = ETP_MAX_REPORT_LEN"
    by (simp add: elan_smbus_ops_def elan_smbus_get_report_def result_if etp_consts Let_def
        I2C_SMBUS_BLOCK_MAX_def)
next
  fix c p xy t err feat len
  assume "result (get_report_features (elan_smbus_ops E) c p xy) t = (err, feat, len)"
  then show "err = 0 \<and> unat len \<le> ETP_MAX_REPORT_LEN"
    by (auto simp: elan_smbus_ops_def elan_smbus_get_report_features_def etp_consts)
next
  show "state_io_rel balanced (finish_fw_update (elan_smbus_ops E) c)" for c
    by (auto simp: elan_smbus_ops_def elan_smbus_finish_fw_update_def intro!: rel_rules)
next
  show "state_io_rel (emits transport_call) (finish_fw_update (elan_smbus_ops E) c)" for c
    by (auto simp: elan_smbus_ops_def elan_smbus_finish_fw_update_def intro!: rel_rules)
qed (auto simp: elan_smbus_ops_def smbus_op_defs Let_def intro!: rel_rules split: prod.splits)

section \<open>Statuses\<close>

lemma smbus_write_status:
  assumes "bus_contract E"
  shows "errno_status (result (i2c_smbus_write_byte E cmd) t)"
    and "errno_status (result (i2c_smbus_write_block_data E cmd len values) t)"
  using assms
  by (auto simp: i2c_smbus_write_byte_def i2c_smbus_write_block_data_def errno_status_def
      bus_contract_def)

interpretation smbus_checked: checked_transport "elan_smbus_ops E" E for E
proof
  fix c t
  assume E: "bus_contract E"
  note st = smbus_write_status [OF E] contract_answer [OF E]
  show "errno_status (result (initialize (elan_smbus_ops E) c) t)"
    using st by (auto simp: elan_smbus_ops_def elan_smbus_initialize_def result_if Let_def
        errno_status_neg split: prod.splits)
  show "errno_status (result (sleep_control (elan_smbus_ops E) c b) t)" for b
    using st by (auto simp: elan_smbus_ops_def elan_smbus_sleep_control_def result_if)
  show "errno_status (result (power_control (elan_smbus_ops E) c b) t)" for b
    by (auto simp: elan_smbus_ops_def elan_smbus_power_control_def)
  show "errno_status (result (set_mode (elan_smbus_ops E) c m) t)" for m
    using st by (auto simp: elan_smbus_ops_def elan_smbus_set_mode_def)
  show "errno_status (result (health_check (elan_smbus_ops E) c) t)"
    using st by (auto simp: elan_smbus_ops_def elan_smbus_health_check_def)
  show "errno_status (fst (result (get_product_id (elan_smbus_ops E) c x16) t))" for x16
    using st by (auto simp: elan_smbus_ops_def elan_smbus_get_product_id_def result_if
        errno_status_neg split: prod.splits)
  show "errno_status (fst (result (get_pattern (elan_smbus_ops E) c x8) t))" for x8
    by (auto simp: elan_smbus_ops_def elan_smbus_get_pattern_def)
  show "errno_status (fst (result (get_sm_version (elan_smbus_ops E) c p sm) t))" for p sm
    using st by (auto simp: elan_smbus_ops_def elan_smbus_get_sm_version_def result_if
        errno_status_neg split: prod.splits)
  show "errno_status (result (calibrate (elan_smbus_ops E) c) t)"
    using st by (auto simp: elan_smbus_ops_def elan_smbus_calibrate_def)
  show "errno_status (fst (result (calibrate_result (elan_smbus_ops E) c v) t))" for v
    using st by (auto simp: elan_smbus_ops_def elan_smbus_calibrate_result_def result_if
        errno_status_neg split: prod.splits)
  show "errno_status (fst (result (get_baseline_data (elan_smbus_ops E) c b x8) t))" for b x8
    using st by (auto simp: elan_smbus_ops_def elan_smbus_get_baseline_data_def result_if
        errno_status_neg split: prod.splits)
qed

end
