(* ===== verification/Elan_Rs_Abi.thy ===== *)
theory Elan_Rs_Abi
  imports Elan_Header
begin

text \<open>
  \<open>kernel/rust-shim/elan_rs_shim.h\<close>: the ABI between the C driver and the Rust core. It holds
  the numeric constants, the frame a decoder fills, the context the shim emits it with, and,
  as a locale, what the shim may rely on when a decoder reports success.
\<close>

section \<open>Constants and layout\<close>

definition ELAN_RS_ABI_VERSION :: u32 where [etp_consts]: "ELAN_RS_ABI_VERSION = 1"
definition ELAN_RS_MAX_CONTACTS :: nat where [etp_consts]: "ELAN_RS_MAX_CONTACTS = 5"

definition ELAN_RS_FRAME_ABSOLUTE :: u32 where [etp_consts]: "ELAN_RS_FRAME_ABSOLUTE = 1"
definition ELAN_RS_FRAME_TRACKPOINT :: u32 where [etp_consts]: "ELAN_RS_FRAME_TRACKPOINT = 2"

definition ELAN_RS_WATCHDOG_DISARMED :: u32 where [etp_consts]: "ELAN_RS_WATCHDOG_DISARMED = 0"
definition ELAN_RS_WATCHDOG_OBSERVE :: u32 where [etp_consts]: "ELAN_RS_WATCHDOG_OBSERVE = 1"
definition ELAN_RS_WATCHDOG_RECOVER :: u32 where [etp_consts]: "ELAN_RS_WATCHDOG_RECOVER = 2"

definition ELAN_RS_RECOVERY_IDLE :: u32 where [etp_consts]: "ELAN_RS_RECOVERY_IDLE = 0"
definition ELAN_RS_RECOVERY_RELEASE_INPUT :: u32
  where [etp_consts]: "ELAN_RS_RECOVERY_RELEASE_INPUT = 1"
definition ELAN_RS_RECOVERY_REINITIALIZE :: u32
  where [etp_consts]: "ELAN_RS_RECOVERY_REINITIALIZE = 2"
definition ELAN_RS_RECOVERY_VERIFY :: u32 where [etp_consts]: "ELAN_RS_RECOVERY_VERIFY = 3"
definition ELAN_RS_RECOVERY_RESTORE_MODE :: u32
  where [etp_consts]: "ELAN_RS_RECOVERY_RESTORE_MODE = 4"
definition ELAN_RS_RECOVERY_COMPLETE :: u32 where [etp_consts]: "ELAN_RS_RECOVERY_COMPLETE = 5"
definition ELAN_RS_RECOVERY_FAILED :: u32 where [etp_consts]: "ELAN_RS_RECOVERY_FAILED = 6"

record elan_rs_contact =
  active :: u32
  pos_x :: u32
  pos_y :: u32
  pressure :: u32
  tool_width :: u32
  touch_major :: u32
  touch_minor :: u32

record elan_rs_frame =
  kind :: u32
  buttons :: u32
  hover :: u32
  contact_mask :: u32
  contacts :: "elan_rs_contact list"
  rel_x :: s32
  rel_y :: s32
  rel_valid :: u32

definition EMPTY_CONTACT :: elan_rs_contact where
  "EMPTY_CONTACT = \<lparr>active = 0, pos_x = 0, pos_y = 0, pressure = 0, tool_width = 0, touch_major = 0,
    touch_minor = 0\<rparr>"

definition EMPTY_FRAME :: elan_rs_frame where
  "EMPTY_FRAME = \<lparr>kind = 0, buttons = 0, hover = 0, contact_mask = 0,
    contacts = replicate ELAN_RS_MAX_CONTACTS EMPTY_CONTACT, rel_x = 0, rel_y = 0,
    rel_valid = 0\<rparr>"

text \<open>The sizes the two \<open>static_assert\<close>s of the shim check, in bytes.\<close>

definition sizeof_elan_rs_contact :: nat where
  "sizeof_elan_rs_contact = 7 * 4"

definition sizeof_elan_rs_frame :: nat where
  "sizeof_elan_rs_frame = 4 * 4 + ELAN_RS_MAX_CONTACTS * sizeof_elan_rs_contact + 3 * 4"

text \<open>The parameters of one call of the decoder that do not change during it.\<close>

record decode_params =
  dp_max_x :: u32
  dp_max_y :: u32
  dp_width_x :: u32
  dp_width_y :: u32
  dp_pressure_adjustment :: s32
  dp_report_features :: u32

text \<open>
  The context of one report. The device pointers only matter for whether a trackpoint node
  exists.
\<close>

record elan_rs_report_context =
  ctx_trackpoint :: bool
  ctx_max_x :: u32
  ctx_max_y :: u32
  ctx_width_x :: u32
  ctx_width_y :: u32
  ctx_pressure_adjustment :: s32
  ctx_report_features :: u32

section \<open>The contract of a decoder\<close>

text \<open>
  A decoded contact lies inside the pad, its pressure, width and area stay in the ranges the
  input node advertises or orders, and an unused slot is marked inactive.
\<close>

definition contact_ok :: "decode_params \<Rightarrow> elan_rs_contact \<Rightarrow> bool" where
  "contact_ok p c \<longleftrightarrow>
     pos_x c \<le> dp_max_x p \<and> pos_y c \<le> dp_max_y p \<and> pressure c \<le> 255 \<and> tool_width c \<le> 15 \<and>
     touch_minor c \<le> touch_major c"

locale report_decoder =
  fixes decode :: "u8 list option \<Rightarrow> nat \<Rightarrow> decode_params \<Rightarrow> elan_rs_frame option \<Rightarrow>
    int \<times> elan_rs_frame option"
  assumes decode_null: "decode None len p out = (- EINVAL, out)"
    and decode_status: "fst (decode ro len p out) \<in> {0, - EINVAL, - EPROTO}"
    and decode_success: "decode (Some r) len p (Some f0) = (0, out) \<Longrightarrow>
      \<exists>f. out = Some f \<and> (kind f = ELAN_RS_FRAME_ABSOLUTE \<or> kind f = ELAN_RS_FRAME_TRACKPOINT) \<and>
        length (contacts f) = ELAN_RS_MAX_CONTACTS \<and> list_all (contact_ok p) (contacts f)"
begin

lemma decode_successE:
  assumes "decode (Some r) len p (Some f0) = (0, out)"
  obtains f where "out = Some f" "kind f = ELAN_RS_FRAME_ABSOLUTE"
      "length (contacts f) = ELAN_RS_MAX_CONTACTS" "list_all (contact_ok p) (contacts f)"
    | f where "out = Some f" "kind f = ELAN_RS_FRAME_TRACKPOINT"
      "length (contacts f) = ELAN_RS_MAX_CONTACTS" "list_all (contact_ok p) (contacts f)"
  using decode_success [OF assms] by blast

lemma decode_contact_ok:
  assumes "decode (Some r) len p (Some f0) = (0, Some f)" "slot < ELAN_RS_MAX_CONTACTS"
  shows "contact_ok p (contacts f ! slot)"
  using decode_success [OF assms(1)] assms(2) by (auto simp: list_all_length)

end

end
