(* ===== verification/Elan_Rust_Core.thy ===== *)
theory Elan_Rust_Core
  imports Elan_Rs_Abi
begin

text \<open>
  \<open>kernel/rust-shim/elan_core.rs\<close>, the freestanding Rust core behind the C ABI of
  \<open>elan_rs_shim.h\<close> (theory \<open>Elan_Rs_Abi\<close>): the report decoder, the watchdog policy and the recovery sequence. The
  functions are pure; \<open>usize\<close> offsets are naturals with \<open>checked_add\<close> written out, and
  \<open>i32\<close> arithmetic wraps (the module is built with \<open>overflow-checks=no\<close>).
\<close>

section \<open>Constants of the decoder\<close>

definition MAX_PRESSURE :: int where [etp_consts]: "MAX_PRESSURE = 255"
definition FINGER_WIDTH_REDUCE :: u32 where [etp_consts]: "FINGER_WIDTH_REDUCE = 90"
definition REPORT_ID_OFFSET :: nat where [etp_consts]: "REPORT_ID_OFFSET = 2"
definition TOUCH_INFO_OFFSET :: nat where [etp_consts]: "TOUCH_INFO_OFFSET = 3"
definition FINGER_DATA_OFFSET :: nat where [etp_consts]: "FINGER_DATA_OFFSET = 4"
definition HOVER_INFO_OFFSET :: nat where [etp_consts]: "HOVER_INFO_OFFSET = 30"
definition MK_DATA_OFFSET :: nat where [etp_consts]: "MK_DATA_OFFSET = 33"
definition FINGER_DATA_LEN :: nat where [etp_consts]: "FINGER_DATA_LEN = 5"
definition REPORT_ID :: u8 where [etp_consts]: "REPORT_ID = 0x5d"
definition TRACKPOINT_REPORT_ID :: u8 where [etp_consts]: "TRACKPOINT_REPORT_ID = 0x5e"
definition TRACKPOINT_REPORT_ID2 :: u8 where [etp_consts]: "TRACKPOINT_REPORT_ID2 = 0x5f"
definition REPORT_ID2 :: u8 where [etp_consts]: "REPORT_ID2 = 0x60"
definition FEATURE_REPORT_MK :: u32 where [etp_consts]: "FEATURE_REPORT_MK = 1"

section \<open>Arithmetic of the Rust standard library\<close>

definition saturating_sub :: "'a::len word \<Rightarrow> 'a word \<Rightarrow> 'a word" where
  "saturating_sub a b = (if a < b then 0 else a - b)"

definition saturating_mul :: "'a::len word \<Rightarrow> 'a word \<Rightarrow> 'a word" where
  "saturating_mul a b = (if unat a * unat b < 2 ^ LENGTH('a) then a * b else - 1)"

definition checked_add_usize :: "nat \<Rightarrow> nat \<Rightarrow> nat option" where
  "checked_add_usize a b = (if a + b < 2 ^ 64 then Some (a + b) else None)"

lemma unat_saturating_sub: "unat (saturating_sub a b) = unat a - unat b"
  by (simp add: saturating_sub_def unat_sub word_less_nat_alt not_less word_le_nat_alt)

lemma unat_saturating_mul:
  fixes a b :: "'a::len word"
  shows "unat (saturating_mul a b) = min (unat a * unat b) (2 ^ LENGTH('a) - 1)"
proof (cases "unat a * unat b < 2 ^ LENGTH('a)")
  case True
  then show ?thesis
    by (simp add: saturating_mul_def unat_mult_lem [THEN iffD1])
next
  case False
  then show ?thesis
    by (simp add: saturating_mul_def unsigned_minus_1_eq_mask mask_eq_exp_minus_1)
qed

section \<open>The decoder\<close>

definition read_byte :: "u8 list \<Rightarrow> nat \<Rightarrow> nat \<Rightarrow> u8 option" where
  "read_byte report report_len offset =
     (if offset \<ge> report_len then None else Some (report ! offset))"

definition unwrap_or :: "'a option \<Rightarrow> 'a \<Rightarrow> 'a" where
  "unwrap_or opt d = (case opt of None \<Rightarrow> d | Some v \<Rightarrow> v)"

definition clamp :: "int \<Rightarrow> int \<Rightarrow> int \<Rightarrow> int" where
  "clamp v lo hi = (if v < lo then lo else if v > hi then hi else v)"

definition scaled_pressure :: "u8 \<Rightarrow> s32 \<Rightarrow> u32" where
  "scaled_pressure raw adjustment =
     word_of_int (clamp (sint (ucast raw + adjustment :: s32)) 0 MAX_PRESSURE)"

text \<open>
  The coordinates of one finger record: two 12-bit values that share a byte, or two 16-bit
  big-endian values in a high-precision report.
\<close>

definition finger_position :: "bool \<Rightarrow> u8 \<Rightarrow> u8 \<Rightarrow> u8 \<Rightarrow> u8 \<Rightarrow> u32 \<times> u32" where
  "finger_position high_precision b0 b1 b2 b3 =
     (if high_precision
      then (push_bit 8 (ucast b0) OR ucast b1, push_bit 8 (ucast b2) OR ucast b3)
      else (push_bit 4 (ucast (b0 AND 0xf0)) OR ucast b1,
            push_bit 8 (ucast (b0 AND 0x0f)) OR ucast b2))"

definition store_contact :: "nat \<Rightarrow> elan_rs_contact \<Rightarrow> elan_rs_frame \<Rightarrow> elan_rs_frame" where
  "store_contact slot c frame =
     frame\<lparr>contacts := (contacts frame)[slot := c],
           contact_mask := contact_mask frame OR push_bit slot 1\<rparr>"

text \<open>
  The body of the slot loop for one contact in range. The contact is written to the frame
  before the area byte is read, so an error return still leaves it there.
\<close>

definition decode_contact ::
  "u8 list \<Rightarrow> nat \<Rightarrow> bool \<Rightarrow> decode_params \<Rightarrow> nat \<Rightarrow> u8 \<Rightarrow> u8 \<Rightarrow> u32 \<Rightarrow> u32 \<Rightarrow> elan_rs_frame \<Rightarrow>
    int \<times> elan_rs_frame"
where
  "decode_contact report report_len high_precision p slot b3 b4 px py frame =
     (let area_x_unit = saturating_sub (dp_width_x p) FINGER_WIDTH_REDUCE;
          area_y_unit = saturating_sub (dp_width_y p) FINGER_WIDTH_REDUCE;
          contact = (contacts frame ! slot)\<lparr>active := 1, pos_x := px, pos_y := dp_max_y p - py,
            pressure := scaled_pressure b4 (dp_pressure_adjustment p)\<rparr>;
          frame = store_contact slot contact frame
      in if dp_report_features p AND FEATURE_REPORT_MK \<noteq> 0 then
           (case (if high_precision then read_byte report report_len (MK_DATA_OFFSET + slot)
                  else Some b3) of
              None \<Rightarrow> (- 22, frame)
            | Some mk \<Rightarrow>
                let mk_x = ucast (mk AND 0x0f);
                    mk_y = ucast (drop_bit 4 mk);
                    area_x = saturating_mul mk_x area_x_unit;
                    area_y = saturating_mul mk_y area_y_unit;
                    contact = contact\<lparr>tool_width := mk_x,
                      touch_major := max area_x area_y, touch_minor := min area_x area_y\<rparr>
                in (0, frame\<lparr>contacts := (contacts frame)[slot := contact]\<rparr>))
         else (0, frame))"

text \<open>
  \<open>for slot in 0..MAX_CONTACTS\<close> with the running \<open>finger_offset\<close>; an early \<open>return\<close> leaves
  the loop with its status. \<open>n\<close> counts the slots still to visit.
\<close>

fun decode_slots ::
  "u8 list \<Rightarrow> nat \<Rightarrow> bool \<Rightarrow> decode_params \<Rightarrow> u8 \<Rightarrow> nat \<Rightarrow> nat \<Rightarrow> nat \<Rightarrow> elan_rs_frame \<Rightarrow>
    int \<times> elan_rs_frame"
where
  "decode_slots report report_len high_precision p tp_info 0 slot finger_offset frame = (0, frame)"
| "decode_slots report report_len high_precision p tp_info (Suc n) slot finger_offset frame =
     (if tp_info AND push_bit (3 + slot) 1 = 0 then
        decode_slots report report_len high_precision p tp_info n (Suc slot) finger_offset frame
      else
        case checked_add_usize finger_offset FINGER_DATA_LEN of
          None \<Rightarrow> (- 22, frame)
        | Some end_offset \<Rightarrow>
            if end_offset > report_len then (- 22, frame) else
            let b0 = unwrap_or (read_byte report report_len finger_offset) 0;
                b1 = unwrap_or (read_byte report report_len (finger_offset + 1)) 0;
                b2 = unwrap_or (read_byte report report_len (finger_offset + 2)) 0;
                b3 = unwrap_or (read_byte report report_len (finger_offset + 3)) 0;
                b4 = unwrap_or (read_byte report report_len (finger_offset + 4)) 0;
                (px, py) = finger_position high_precision b0 b1 b2 b3;
                (status, frame) =
                  (if px \<le> dp_max_x p \<and> py \<le> dp_max_y p
                   then decode_contact report report_len high_precision p slot b3 b4 px py frame
                   else (0, frame))
            in if status \<noteq> 0 then (status, frame)
               else decode_slots report report_len high_precision p tp_info n (Suc slot)
                      end_offset frame)"

declare decode_slots.simps(2) [simp del]

definition decode_absolute ::
  "u8 list \<Rightarrow> nat \<Rightarrow> bool \<Rightarrow> decode_params \<Rightarrow> elan_rs_frame \<Rightarrow> int \<times> elan_rs_frame"
where
  "decode_absolute report report_len high_precision p frame =
     (case read_byte report report_len TOUCH_INFO_OFFSET of
        None \<Rightarrow> (- 22, frame)
      | Some tp_info \<Rightarrow>
          let frame = frame\<lparr>kind := ELAN_RS_FRAME_ABSOLUTE,
                buttons := ucast (tp_info AND 0x07),
                hover := (case read_byte report report_len HOVER_INFO_OFFSET of
                    None \<Rightarrow> 0
                  | Some v \<Rightarrow> (if v AND 0x40 \<noteq> 0 then 1 else 0))\<rparr>
          in decode_slots report report_len high_precision p tp_info ELAN_RS_MAX_CONTACTS 0
               FINGER_DATA_OFFSET frame)"

definition decode_trackpoint ::
  "u8 list \<Rightarrow> nat \<Rightarrow> elan_rs_frame \<Rightarrow> int \<times> elan_rs_frame"
where
  "decode_trackpoint report report_len frame =
     (let packet = REPORT_ID_OFFSET + 1 in
      if packet + 6 > report_len then (- 22, frame) else
      let b0 = unwrap_or (read_byte report report_len packet) 0;
          b1 = unwrap_or (read_byte report report_len (packet + 1)) 0;
          b2 = unwrap_or (read_byte report report_len (packet + 2)) 0;
          b3 = unwrap_or (read_byte report report_len (packet + 3)) 0;
          b4 = unwrap_or (read_byte report report_len (packet + 4)) 0;
          b5 = unwrap_or (read_byte report report_len (packet + 5)) 0;
          frame = frame\<lparr>kind := ELAN_RS_FRAME_TRACKPOINT, buttons := ucast (b0 AND 0x07)\<rparr>
      in if b3 AND 0x0f = 0x06 then
           (0, frame\<lparr>rel_x := ucast b4 - push_bit 1 (ucast (b1 XOR 0x80)),
                     rel_y := push_bit 1 (ucast (b2 XOR 0x80)) - ucast b5,
                     rel_valid := 1\<rparr>)
         else (0, frame))"

text \<open>
  The entry point. A null pointer is \<open>None\<close>; the output frame is the one the caller passed
  when the call returns before zeroing it.
\<close>

definition elan_rs_decode_report ::
  "u8 list option \<Rightarrow> nat \<Rightarrow> decode_params \<Rightarrow> elan_rs_frame option \<Rightarrow> int \<times> elan_rs_frame option"
where
  "elan_rs_decode_report report report_len p out =
     (case (report, out) of
        (Some bytes, Some _) \<Rightarrow>
          (case read_byte bytes report_len REPORT_ID_OFFSET of
             None \<Rightarrow> (- 22, out)
           | Some report_id \<Rightarrow>
               let frame = EMPTY_FRAME;
                   (status, frame) =
                     (if report_id = REPORT_ID then decode_absolute bytes report_len False p frame
                      else if report_id = REPORT_ID2
                        then decode_absolute bytes report_len True p frame
                      else if report_id = TRACKPOINT_REPORT_ID \<or> report_id = TRACKPOINT_REPORT_ID2
                        then decode_trackpoint bytes report_len frame
                      else (- 71, frame))
               in (status, Some frame))
      | _ \<Rightarrow> (- 22, out))"

section \<open>Watchdog policy and recovery sequence\<close>

definition elan_rs_watchdog_action :: "u32 \<Rightarrow> s32 \<Rightarrow> u32 \<Rightarrow> u32 \<Rightarrow> u32" where
  "elan_rs_watchdog_action open_count probe_status report_errors report_error_threshold =
     (if open_count = 0 then ELAN_RS_WATCHDOG_DISARMED
      else if sint probe_status < 0 \<or>
        (report_error_threshold \<noteq> 0 \<and> report_errors \<ge> report_error_threshold)
        then ELAN_RS_WATCHDOG_RECOVER
      else ELAN_RS_WATCHDOG_OBSERVE)"

definition elan_rs_recovery_next :: "u32 \<Rightarrow> s32 \<Rightarrow> u32" where
  "elan_rs_recovery_next phase operation_status =
     (if sint operation_status < 0 then ELAN_RS_RECOVERY_FAILED
      else if phase = ELAN_RS_RECOVERY_IDLE then ELAN_RS_RECOVERY_RELEASE_INPUT
      else if phase = ELAN_RS_RECOVERY_RELEASE_INPUT then ELAN_RS_RECOVERY_REINITIALIZE
      else if phase = ELAN_RS_RECOVERY_REINITIALIZE then ELAN_RS_RECOVERY_VERIFY
      else if phase = ELAN_RS_RECOVERY_VERIFY then ELAN_RS_RECOVERY_RESTORE_MODE
      else if phase = ELAN_RS_RECOVERY_RESTORE_MODE then ELAN_RS_RECOVERY_COMPLETE
      else if phase = ELAN_RS_RECOVERY_COMPLETE then ELAN_RS_RECOVERY_IDLE
      else ELAN_RS_RECOVERY_FAILED)"

definition elan_rs_abi_version :: u32 where
  "elan_rs_abi_version = 1"

section \<open>What a touch report says\<close>

text \<open>
  A declarative reading of an absolute report, against which the loop is verified. Slot \<open>k\<close> is
  present when bit \<open>3 + k\<close> of the touch byte is set; the finger records of the present slots
  are packed, so the record of a slot lies after those of the present slots below it.
\<close>

definition slot_present :: "u8 \<Rightarrow> nat \<Rightarrow> bool" where
  "slot_present tp_info slot \<longleftrightarrow> bit tp_info (3 + slot)"

definition present_below :: "u8 \<Rightarrow> nat \<Rightarrow> nat" where
  "present_below tp_info slot = length (filter (slot_present tp_info) [0..<slot])"

definition finger_record :: "u8 \<Rightarrow> nat \<Rightarrow> nat" where
  "finger_record tp_info slot = FINGER_DATA_OFFSET + FINGER_DATA_LEN * present_below tp_info slot"

definition slot_position :: "u8 list \<Rightarrow> bool \<Rightarrow> u8 \<Rightarrow> nat \<Rightarrow> u32 \<times> u32" where
  "slot_position report high_precision tp_info slot =
     (let f = finger_record tp_info slot in
      finger_position high_precision (report ! f) (report ! (f + 1)) (report ! (f + 2))
        (report ! (f + 3)))"

definition slot_in_range :: "u8 list \<Rightarrow> bool \<Rightarrow> decode_params \<Rightarrow> u8 \<Rightarrow> nat \<Rightarrow> bool" where
  "slot_in_range report high_precision p tp_info slot \<longleftrightarrow>
     slot_present tp_info slot \<and>
     fst (slot_position report high_precision tp_info slot) \<le> dp_max_x p \<and>
     snd (slot_position report high_precision tp_info slot) \<le> dp_max_y p"

definition area_byte :: "u8 list \<Rightarrow> bool \<Rightarrow> u8 \<Rightarrow> nat \<Rightarrow> u8" where
  "area_byte report high_precision tp_info slot =
     (if high_precision then report ! (MK_DATA_OFFSET + slot)
      else report ! (finger_record tp_info slot + 3))"

definition located_contact :: "u8 list \<Rightarrow> bool \<Rightarrow> decode_params \<Rightarrow> u8 \<Rightarrow> nat \<Rightarrow> elan_rs_contact" where
  "located_contact report high_precision p tp_info slot = EMPTY_CONTACT\<lparr>active := 1,
     pos_x := fst (slot_position report high_precision tp_info slot),
     pos_y := dp_max_y p - snd (slot_position report high_precision tp_info slot),
     pressure := scaled_pressure (report ! (finger_record tp_info slot + 4))
       (dp_pressure_adjustment p)\<rparr>"

definition contact_area :: "decode_params \<Rightarrow> u8 \<Rightarrow> u32 \<times> u32" where
  "contact_area p mk =
     (saturating_mul (ucast (mk AND 0x0f)) (saturating_sub (dp_width_x p) FINGER_WIDTH_REDUCE),
      saturating_mul (ucast (drop_bit 4 mk)) (saturating_sub (dp_width_y p) FINGER_WIDTH_REDUCE))"

definition reported_contact :: "u8 list \<Rightarrow> bool \<Rightarrow> decode_params \<Rightarrow> u8 \<Rightarrow> nat \<Rightarrow> elan_rs_contact" where
  "reported_contact report high_precision p tp_info slot =
     (if \<not> slot_in_range report high_precision p tp_info slot then EMPTY_CONTACT
      else if dp_report_features p AND FEATURE_REPORT_MK = 0
        then located_contact report high_precision p tp_info slot
      else let mk = area_byte report high_precision tp_info slot;
               (area_x, area_y) = contact_area p mk
           in (located_contact report high_precision p tp_info slot)\<lparr>
                tool_width := ucast (mk AND 0x0f),
                touch_major := max area_x area_y, touch_minor := min area_x area_y\<rparr>)"

text \<open>
  A report is complete up to a slot when it holds the finger records of the slots below it and
  the area bytes of those that are in range.
\<close>

definition slot_complete :: "u8 list \<Rightarrow> nat \<Rightarrow> bool \<Rightarrow> decode_params \<Rightarrow> u8 \<Rightarrow> nat \<Rightarrow> bool" where
  "slot_complete report report_len high_precision p tp_info slot \<longleftrightarrow>
     (slot_present tp_info slot \<longrightarrow>
        finger_record tp_info slot + FINGER_DATA_LEN \<le> report_len) \<and>
     (slot_in_range report high_precision p tp_info slot \<and> high_precision \<and>
      dp_report_features p AND FEATURE_REPORT_MK \<noteq> 0 \<longrightarrow> MK_DATA_OFFSET + slot < report_len)"

definition absolute_complete :: "u8 list \<Rightarrow> nat \<Rightarrow> bool \<Rightarrow> decode_params \<Rightarrow> bool" where
  "absolute_complete report report_len high_precision p \<longleftrightarrow>
     TOUCH_INFO_OFFSET < report_len \<and>
     list_all (slot_complete report report_len high_precision p (report ! TOUCH_INFO_OFFSET))
       [0..<ELAN_RS_MAX_CONTACTS]"

definition range_mask :: "u8 list \<Rightarrow> bool \<Rightarrow> decode_params \<Rightarrow> u8 \<Rightarrow> nat \<Rightarrow> u32" where
  "range_mask report high_precision p tp_info n =
     fold (\<lambda>slot m. if slot_in_range report high_precision p tp_info slot
       then m OR push_bit slot 1 else m) [0..<n] 0"

section \<open>The decoder meets the reading\<close>

lemma present_below_Suc:
  "present_below tp (Suc slot) = present_below tp slot + (if slot_present tp slot then 1 else 0)"
  by (simp add: present_below_def)

lemma finger_record_Suc:
  "finger_record tp (Suc slot) =
    finger_record tp slot + (if slot_present tp slot then FINGER_DATA_LEN else 0)"
  by (simp add: finger_record_def present_below_Suc)

lemma present_below_le: "present_below tp slot \<le> slot"
  unfolding present_below_def by (rule order_trans [OF length_filter_le]) simp

lemma range_mask_Suc:
  "range_mask r hp p tp (Suc n) =
    (if slot_in_range r hp p tp n then range_mask r hp p tp n OR push_bit n 1
     else range_mask r hp p tp n)"
  by (simp add: range_mask_def)

text \<open>The frame after the slots below \<open>slot\<close> have been visited.\<close>

definition partial_frame ::
  "u8 list \<Rightarrow> bool \<Rightarrow> decode_params \<Rightarrow> u8 \<Rightarrow> nat \<Rightarrow> elan_rs_frame \<Rightarrow> elan_rs_frame"
where
  "partial_frame report high_precision p tp_info slot frame = frame\<lparr>
     contacts := map (reported_contact report high_precision p tp_info) [0..<slot] @
       replicate (ELAN_RS_MAX_CONTACTS - slot) EMPTY_CONTACT,
     contact_mask := range_mask report high_precision p tp_info slot\<rparr>"

lemma partial_frame_out_of_range:
  assumes "\<not> slot_in_range r hp p tp slot" "slot < ELAN_RS_MAX_CONTACTS"
  shows "partial_frame r hp p tp (Suc slot) frame = partial_frame r hp p tp slot frame"
proof -
  have "replicate (ELAN_RS_MAX_CONTACTS - slot) EMPTY_CONTACT =
      EMPTY_CONTACT # replicate (ELAN_RS_MAX_CONTACTS - Suc slot) EMPTY_CONTACT"
    using assms(2) by (simp add: Suc_diff_Suc flip: replicate_Suc)
  with assms(1) show ?thesis
    by (simp add: partial_frame_def range_mask_Suc reported_contact_def)
qed

lemma decode_contact_partial:
  assumes "slot_in_range r hp p tp slot" "slot < ELAN_RS_MAX_CONTACTS"
    and "slot_complete r len hp p tp slot"
    and "slot_position r hp tp slot = (px, py)"
  shows "decode_contact r len hp p slot (r ! (finger_record tp slot + 3))
      (r ! (finger_record tp slot + 4)) px py (partial_frame r hp p tp slot frame) =
    (0, partial_frame r hp p tp (Suc slot) frame)"
proof -
  have rep: "replicate (ELAN_RS_MAX_CONTACTS - slot) EMPTY_CONTACT =
      EMPTY_CONTACT # replicate (ELAN_RS_MAX_CONTACTS - Suc slot) EMPTY_CONTACT"
    using assms(2) by (simp add: Suc_diff_Suc flip: replicate_Suc)
  have upd: "(xs @ a # ys)[length xs := b] = xs @ b # ys" for xs :: "elan_rs_contact list" and a b ys
    by simp
  have nth: "(map f [0..<slot] @ a # ys) ! slot = a" for f and a :: elan_rs_contact and ys
    by (simp add: nth_append)
  have set: "(map f [0..<slot] @ a # ys)[slot := b] = map f [0..<slot] @ b # ys"
    for f and a b :: elan_rs_contact and ys
    using upd [of "map f [0..<slot]" a ys b] by simp
  show ?thesis
    using assms(1,3,4)
    by (auto simp: decode_contact_def partial_frame_def store_contact_def range_mask_Suc rep nth set
        reported_contact_def located_contact_def contact_area_def area_byte_def read_byte_def
        slot_complete_def Let_def)
qed

lemma decode_slots_present:
  assumes "slot_present tp slot" "slot < ELAN_RS_MAX_CONTACTS"
  shows "decode_slots r len hp p tp (Suc n) slot (finger_record tp slot) frame =
    (if finger_record tp (Suc slot) > len then (- 22, frame) else
      let f = finger_record tp slot;
          (px, py) = finger_position hp (r ! f) (r ! (f + 1)) (r ! (f + 2)) (r ! (f + 3));
          (status, frame) = (if px \<le> dp_max_x p \<and> py \<le> dp_max_y p
            then decode_contact r len hp p slot (r ! (f + 3)) (r ! (f + 4)) px py frame
            else (0, frame))
      in if status \<noteq> 0 then (status, frame)
         else decode_slots r len hp p tp n (Suc slot) (finger_record tp (Suc slot)) frame)"
proof -
  have "finger_record tp slot \<le> 29"
    using present_below_le [of tp slot] assms(2) by (simp add: finger_record_def etp_consts)
  then have add: "checked_add_usize (finger_record tp slot) FINGER_DATA_LEN =
      Some (finger_record tp (Suc slot))"
    using assms(1) by (simp add: checked_add_usize_def finger_record_Suc etp_consts)
  have read: "unwrap_or (read_byte r len (finger_record tp slot + i)) 0 =
      r ! (finger_record tp slot + i)"
    if "finger_record tp (Suc slot) \<le> len" "i < 5" for i
    using assms(1) that by (simp add: read_byte_def unwrap_or_def finger_record_Suc etp_consts)
  show ?thesis
    using assms(1) read [of 0] read [of 1] read [of 2] read [of 3] read [of 4]
    by (simp add: decode_slots.simps(2) and_exp_eq_0_iff_not_bit slot_present_def add Let_def)
qed

lemma decode_slots_step:
  assumes slot: "slot < ELAN_RS_MAX_CONTACTS"
    and complete: "slot_complete r len hp p tp slot"
  shows "decode_slots r len hp p tp (Suc n) slot (finger_record tp slot)
      (partial_frame r hp p tp slot frame) =
    decode_slots r len hp p tp n (Suc slot) (finger_record tp (Suc slot))
      (partial_frame r hp p tp (Suc slot) frame)"
proof (cases "slot_present tp slot")
  case False
  then have "\<not> slot_in_range r hp p tp slot"
    by (simp add: slot_in_range_def)
  with False slot show ?thesis
    by (simp add: decode_slots.simps(2) and_exp_eq_0_iff_not_bit slot_present_def
        finger_record_Suc partial_frame_out_of_range)
next
  case True
  then have fits: "finger_record tp (Suc slot) \<le> len"
    using complete by (simp add: slot_complete_def finger_record_Suc)
  obtain px py where pos: "slot_position r hp tp slot = (px, py)"
    by force
  then have pos': "finger_position hp (r ! finger_record tp slot)
      (r ! (finger_record tp slot + 1)) (r ! (finger_record tp slot + 2))
      (r ! (finger_record tp slot + 3)) = (px, py)"
    by (simp add: slot_position_def Let_def)
  have step: "(if px \<le> dp_max_x p \<and> py \<le> dp_max_y p
      then decode_contact r len hp p slot (r ! (finger_record tp slot + 3))
        (r ! (finger_record tp slot + 4)) px py (partial_frame r hp p tp slot frame)
      else (0, partial_frame r hp p tp slot frame)) =
    (0, partial_frame r hp p tp (Suc slot) frame)"
    using True pos slot complete
    by (auto simp: slot_in_range_def partial_frame_out_of_range decode_contact_partial)
  show ?thesis
    using True pos' fits by (simp add: decode_slots_present [OF True slot] step Let_def)
qed

lemma decode_slots_partial:
  assumes "slot + n = ELAN_RS_MAX_CONTACTS"
    and "\<forall>k. slot \<le> k \<and> k < ELAN_RS_MAX_CONTACTS \<longrightarrow> slot_complete r len hp p tp k"
  shows "decode_slots r len hp p tp n slot (finger_record tp slot)
      (partial_frame r hp p tp slot frame) =
    (0, partial_frame r hp p tp ELAN_RS_MAX_CONTACTS frame)"
  using assms
proof (induction n arbitrary: slot)
  case 0
  then show ?case by simp
next
  case (Suc n)
  then show ?case
    by (subst decode_slots_step) auto
qed

lemma decode_slots_stop:
  assumes slot: "slot < ELAN_RS_MAX_CONTACTS"
    and incomplete: "\<not> slot_complete r len hp p tp slot"
  shows "fst (decode_slots r len hp p tp (Suc n) slot (finger_record tp slot)
      (partial_frame r hp p tp slot frame)) = - 22"
proof -
  have present: "slot_present tp slot"
    using incomplete by (auto simp: slot_complete_def slot_in_range_def)
  obtain px py where pos: "slot_position r hp tp slot = (px, py)"
    by force
  then have pos': "finger_position hp (r ! finger_record tp slot)
      (r ! (finger_record tp slot + 1)) (r ! (finger_record tp slot + 2))
      (r ! (finger_record tp slot + 3)) = (px, py)"
    by (simp add: slot_position_def Let_def)
  show ?thesis
  proof (cases "finger_record tp (Suc slot) \<le> len")
    case False
    then show ?thesis
      by (simp add: decode_slots_present [OF present slot])
  next
    case True
    then have "slot_in_range r hp p tp slot" "hp" "len \<le> MK_DATA_OFFSET + slot"
      "dp_report_features p AND FEATURE_REPORT_MK \<noteq> 0"
      using incomplete present by (auto simp: slot_complete_def finger_record_Suc)
    moreover from this have "px \<le> dp_max_x p" "py \<le> dp_max_y p"
      using pos by (auto simp: slot_in_range_def)
    ultimately show ?thesis
      using True pos'
      by (simp add: decode_slots_present [OF present slot] decode_contact_def read_byte_def Let_def)
  qed
qed

lemma decode_slots_incomplete:
  assumes "slot + n = ELAN_RS_MAX_CONTACTS"
    and "\<exists>k. slot \<le> k \<and> k < ELAN_RS_MAX_CONTACTS \<and> \<not> slot_complete r len hp p tp k"
  shows "fst (decode_slots r len hp p tp n slot (finger_record tp slot)
      (partial_frame r hp p tp slot frame)) = - 22"
  using assms
proof (induction n arbitrary: slot)
  case 0
  then show ?case by auto
next
  case (Suc n)
  show ?case
  proof (cases "slot_complete r len hp p tp slot")
    case True
    then have "\<exists>k. Suc slot \<le> k \<and> k < ELAN_RS_MAX_CONTACTS \<and> \<not> slot_complete r len hp p tp k"
      using Suc.prems(2) by (metis le_neq_implies_less Suc_leI)
    with Suc True show ?thesis
      by (subst decode_slots_step) auto
  next
    case False
    with Suc.prems(1) show ?thesis
      by (intro decode_slots_stop) auto
  qed
qed

text \<open>The header of an absolute frame, before any contact.\<close>

definition absolute_header :: "u8 list \<Rightarrow> nat \<Rightarrow> elan_rs_frame" where
  "absolute_header report report_len = EMPTY_FRAME\<lparr>kind := ELAN_RS_FRAME_ABSOLUTE,
     buttons := ucast (report ! TOUCH_INFO_OFFSET AND 0x07),
     hover := (if HOVER_INFO_OFFSET < report_len \<and> report ! HOVER_INFO_OFFSET AND 0x40 \<noteq> 0
       then 1 else 0)\<rparr>"

lemma decode_absolute_start:
  assumes "TOUCH_INFO_OFFSET < report_len"
  shows "decode_absolute report report_len hp p EMPTY_FRAME =
    decode_slots report report_len hp p (report ! TOUCH_INFO_OFFSET) ELAN_RS_MAX_CONTACTS 0
      (finger_record (report ! TOUCH_INFO_OFFSET) 0)
      (partial_frame report hp p (report ! TOUCH_INFO_OFFSET) 0
        (absolute_header report report_len))"
proof -
  let ?tp = "report ! TOUCH_INFO_OFFSET"
  have header: "EMPTY_FRAME\<lparr>kind := ELAN_RS_FRAME_ABSOLUTE, buttons := ucast (?tp AND 0x07),
      hover := (case read_byte report report_len HOVER_INFO_OFFSET of None \<Rightarrow> 0
        | Some v \<Rightarrow> (if v AND 0x40 \<noteq> 0 then 1 else 0))\<rparr> =
      partial_frame report hp p ?tp 0 (absolute_header report report_len)"
    by (simp add: partial_frame_def absolute_header_def EMPTY_FRAME_def range_mask_def
        read_byte_def)
  have start: "FINGER_DATA_OFFSET = finger_record ?tp 0"
    by (simp add: finger_record_def present_below_def)
  have info: "read_byte report report_len TOUCH_INFO_OFFSET = Some ?tp"
    using assms by (simp add: read_byte_def)
  show ?thesis
    unfolding decode_absolute_def info option.case Let_def header start ..
qed

lemma decode_absolute_complete:
  assumes "absolute_complete report report_len hp p"
  shows "decode_absolute report report_len hp p EMPTY_FRAME =
    (0, partial_frame report hp p (report ! TOUCH_INFO_OFFSET) ELAN_RS_MAX_CONTACTS
      (absolute_header report report_len))"
proof -
  have len: "TOUCH_INFO_OFFSET < report_len"
    using assms by (simp add: absolute_complete_def)
  show ?thesis
    unfolding decode_absolute_start [OF len]
    by (rule decode_slots_partial) (use assms in \<open>auto simp: absolute_complete_def list_all_iff\<close>)
qed

lemma decode_absolute_incomplete:
  assumes "\<not> absolute_complete report report_len hp p"
  shows "fst (decode_absolute report report_len hp p EMPTY_FRAME) = - 22"
proof (cases "TOUCH_INFO_OFFSET < report_len")
  case False
  then show ?thesis
    by (simp add: decode_absolute_def read_byte_def)
next
  case True
  let ?tp = "report ! TOUCH_INFO_OFFSET"
  have eq: "decode_absolute report report_len hp p EMPTY_FRAME =
      decode_slots report report_len hp p ?tp ELAN_RS_MAX_CONTACTS 0 (finger_record ?tp 0)
        (partial_frame report hp p ?tp 0 (absolute_header report report_len))"
    by (rule decode_absolute_start [OF True])
  show ?thesis
    unfolding eq
    by (rule decode_slots_incomplete) (use assms True in \<open>auto simp: absolute_complete_def list_all_iff\<close>)
qed

definition is_trackpoint_id :: "u8 \<Rightarrow> bool" where
  "is_trackpoint_id b \<longleftrightarrow> b = TRACKPOINT_REPORT_ID \<or> b = TRACKPOINT_REPORT_ID2"

lemmas report_ids = REPORT_ID_def REPORT_ID2_def TRACKPOINT_REPORT_ID_def TRACKPOINT_REPORT_ID2_def

lemma reported_contact_cases:
  "reported_contact report hp p tp slot = EMPTY_CONTACT \<and> \<not> slot_in_range report hp p tp slot \<or>
   active (reported_contact report hp p tp slot) = 1 \<and> slot_in_range report hp p tp slot"
  by (simp add: reported_contact_def located_contact_def Let_def split: prod.splits)

lemma clamp_bounds: "lo \<le> hi \<Longrightarrow> lo \<le> clamp v lo hi \<and> clamp v lo hi \<le> hi"
  by (simp add: clamp_def)

lemma uint_scaled_pressure:
  "uint (scaled_pressure raw adj) = clamp (sint (ucast raw + adj :: s32)) 0 255"
proof -
  have "0 \<le> clamp v 0 255" "clamp v 0 255 < 2 ^ 32" for v
    using clamp_bounds [of 0 255 v] by auto
  then show ?thesis
    by (simp add: scaled_pressure_def MAX_PRESSURE_def uint_word_of_int)
qed

lemma scaled_pressure_bound: "scaled_pressure raw adj \<le> 255"
  using clamp_bounds [of 0 255] by (simp add: word_le_def uint_scaled_pressure)

lemma scaled_pressure_exact:
  assumes "0 \<le> sint adj" "sint adj < 2 ^ 31 - 256"
  shows "uint (scaled_pressure raw adj) = min 255 (uint raw + sint adj)"
proof -
  have bound: "0 \<le> uint raw" "uint raw < 256"
    using uint_lt2p [of raw] by simp_all
  have "signed_take_bit 31 (uint raw) = uint raw"
    by (rule signed_take_bit_int_eq_self) (use bound in \<open>auto intro: order_trans [OF _ bound(1)]\<close>)
  with bound have raw: "sint (ucast raw :: s32) = uint raw" "uint raw < 256"
    by (simp_all add: sint_uint unsigned_ucast_eq take_bit_int_eq_self)
  have "signed_take_bit 31 (uint raw + sint adj) = uint raw + sint adj"
    by (rule signed_take_bit_int_eq_self)
      (use assms raw(2) in \<open>auto intro: order_trans [OF _ add_nonneg_nonneg [OF bound(1) assms(1)]]\<close>)
  then have "sint (ucast raw + adj :: s32) = uint raw + sint adj"
    by (simp add: sint_word_ariths raw(1))
  then show ?thesis
    using add_nonneg_nonneg [OF bound(1) assms(1)] by (simp add: uint_scaled_pressure clamp_def)
qed

lemma low_nibble_le: "ucast (mk AND 0x0F) \<le> (15 :: u32)" for mk :: u8
proof -
  have "unat (mk AND 0x0F) \<le> 15"
    using word_and_le1 [of mk 15] by (simp add: word_le_nat_alt)
  then show ?thesis
    by (simp add: word_le_nat_alt unsigned_ucast_eq take_bit_nat_eq_self)
qed

lemma word_sub_le_self: "a \<le> m \<Longrightarrow> m - a \<le> m" for a m :: "'a::len word"
  by (simp add: word_le_nat_alt unat_sub)

lemma reported_contact_ok: "contact_ok p (reported_contact report hp p tp slot)"
proof (cases "slot_in_range report hp p tp slot")
  case False
  then show ?thesis
    by (simp add: reported_contact_def contact_ok_def EMPTY_CONTACT_def)
next
  case True
  then show ?thesis
    by (auto simp: reported_contact_def contact_ok_def located_contact_def EMPTY_CONTACT_def Let_def
        scaled_pressure_bound low_nibble_le slot_in_range_def word_sub_le_self min_le_iff_disj
        split: prod.splits)
qed

lemma range_mask_bit:
  "n \<le> 32 \<Longrightarrow> bit (range_mask r hp p tp n) k \<longleftrightarrow> k < n \<and> slot_in_range r hp p tp k"
proof (induction n)
  case 0
  then show ?case by (simp add: range_mask_def)
next
  case (Suc n)
  then show ?case
    by (auto simp: range_mask_Suc bit_simps less_Suc_eq)
qed


section \<open>The recovery sequence as a state machine\<close>

text \<open>
  The numeric phases of the ABI as a datatype, ordered by their codes, and one step of the
  sequence as a function on it: a failed operation leads to \<open>Failed\<close> from every phase, and
  before completion every step moves up in the order.
\<close>

datatype recovery_phase =
  Idle | ReleaseInput | Reinitialize | Verify | RestoreMode | Completed | Failed

definition phase_code :: "recovery_phase \<Rightarrow> u32" where
  "phase_code ph = (case ph of
     Idle \<Rightarrow> ELAN_RS_RECOVERY_IDLE
   | ReleaseInput \<Rightarrow> ELAN_RS_RECOVERY_RELEASE_INPUT
   | Reinitialize \<Rightarrow> ELAN_RS_RECOVERY_REINITIALIZE
   | Verify \<Rightarrow> ELAN_RS_RECOVERY_VERIFY
   | RestoreMode \<Rightarrow> ELAN_RS_RECOVERY_RESTORE_MODE
   | Completed \<Rightarrow> ELAN_RS_RECOVERY_COMPLETE
   | Failed \<Rightarrow> ELAN_RS_RECOVERY_FAILED)"

definition phase_rank :: "recovery_phase \<Rightarrow> nat" where
  "phase_rank ph = unat (phase_code ph)"

lemmas recovery_codes =
  ELAN_RS_RECOVERY_IDLE_def ELAN_RS_RECOVERY_RELEASE_INPUT_def ELAN_RS_RECOVERY_REINITIALIZE_def
  ELAN_RS_RECOVERY_VERIFY_def ELAN_RS_RECOVERY_RESTORE_MODE_def ELAN_RS_RECOVERY_COMPLETE_def
  ELAN_RS_RECOVERY_FAILED_def

lemma phase_code_inject: "phase_code a = phase_code b \<longleftrightarrow> a = b"
  by (cases a; cases b) (simp_all add: phase_code_def recovery_codes)

instantiation recovery_phase :: linorder
begin

definition less_eq_recovery_phase :: "recovery_phase \<Rightarrow> recovery_phase \<Rightarrow> bool" where
  "less_eq_recovery_phase a b \<longleftrightarrow> phase_rank a \<le> phase_rank b"

definition less_recovery_phase :: "recovery_phase \<Rightarrow> recovery_phase \<Rightarrow> bool" where
  "less_recovery_phase a b \<longleftrightarrow> phase_rank a < phase_rank b"

instance
proof
  fix a b c :: recovery_phase
  show "a < b \<longleftrightarrow> a \<le> b \<and> \<not> b \<le> a"
    by (auto simp: less_eq_recovery_phase_def less_recovery_phase_def)
  show "a \<le> a"
    by (simp add: less_eq_recovery_phase_def)
  show "a \<le> b \<Longrightarrow> b \<le> c \<Longrightarrow> a \<le> c"
    by (simp add: less_eq_recovery_phase_def)
  show "a \<le> b \<Longrightarrow> b \<le> a \<Longrightarrow> a = b"
    by (auto simp: less_eq_recovery_phase_def phase_rank_def
        simp flip: word_unat_eq_iff phase_code_inject intro!: antisym)
  show "a \<le> b \<or> b \<le> a"
    by (auto simp: less_eq_recovery_phase_def)
qed

end

fun recovery_step :: "recovery_phase \<Rightarrow> bool \<Rightarrow> recovery_phase" where
  "recovery_step _ False = Failed"
| "recovery_step Idle True = ReleaseInput"
| "recovery_step ReleaseInput True = Reinitialize"
| "recovery_step Reinitialize True = Verify"
| "recovery_step Verify True = RestoreMode"
| "recovery_step RestoreMode True = Completed"
| "recovery_step Completed True = Idle"
| "recovery_step Failed True = Failed"

lemma recovery_next_step:
  "elan_rs_recovery_next (phase_code ph) st = phase_code (recovery_step ph (0 \<le> sint st))"
  by (cases ph; cases "0 \<le> sint st")
    (simp_all add: elan_rs_recovery_next_def phase_code_def recovery_codes)

lemma recovery_step_progress:
  "ph < Completed \<Longrightarrow> ph < recovery_step ph ok"
  by (cases ph; cases ok)
    (simp_all add: less_recovery_phase_def phase_rank_def phase_code_def recovery_codes)

definition recovery_run :: "u32 \<Rightarrow> s32 list \<Rightarrow> u32" where
  "recovery_run phase sts = foldl elan_rs_recovery_next phase sts"

lemma recovery_run_failed [simp]: "recovery_run ELAN_RS_RECOVERY_FAILED sts = ELAN_RS_RECOVERY_FAILED"
  by (induction sts) (simp_all add: recovery_run_def elan_rs_recovery_next_def recovery_codes)

lemma recovery_run_negative:
  "\<exists>st \<in> set sts. sint st < 0 \<Longrightarrow> recovery_run phase sts = ELAN_RS_RECOVERY_FAILED"
proof (induction sts arbitrary: phase)
  case Nil
  then show ?case by simp
next
  case (Cons st sts)
  show ?case
  proof (cases "sint st < 0")
    case True
    then show ?thesis
      using recovery_run_failed [of sts]
      by (simp add: recovery_run_def elan_rs_recovery_next_def)
  next
    case False
    with Cons show ?thesis
      by (simp add: recovery_run_def)
  qed
qed

lemma watchdog_recover_iff:
  "elan_rs_watchdog_action n st errs lim = ELAN_RS_WATCHDOG_RECOVER \<longleftrightarrow>
    n \<noteq> 0 \<and> (sint st < 0 \<or> lim \<noteq> 0 \<and> lim \<le> errs)"
  by (simp add: elan_rs_watchdog_action_def etp_consts)

section \<open>The contract of the ABI\<close>

lemma decode_report_absolute:
  assumes "REPORT_ID_OFFSET < len" "absolute_complete r len hp p"
    and "r ! REPORT_ID_OFFSET = (if hp then REPORT_ID2 else REPORT_ID)"
  shows "elan_rs_decode_report (Some r) len p (Some f0) =
    (0, Some (partial_frame r hp p (r ! TOUCH_INFO_OFFSET) ELAN_RS_MAX_CONTACTS
      (absolute_header r len)))"
  using assms by (cases hp) (simp_all add: elan_rs_decode_report_def read_byte_def
      decode_absolute_complete report_ids)

lemma contact_ok_partial_frame:
  "list_all (contact_ok p) (contacts (partial_frame r hp p tp ELAN_RS_MAX_CONTACTS frame))"
  by (simp add: partial_frame_def list_all_iff reported_contact_ok)

lemma contact_ok_empty: "contact_ok p EMPTY_CONTACT"
  by (simp add: contact_ok_def EMPTY_CONTACT_def)

lemma decode_trackpoint_frame:
  "decode_trackpoint r len EMPTY_FRAME = (0, f) \<Longrightarrow>
    kind f = ELAN_RS_FRAME_TRACKPOINT \<and> contacts f = replicate ELAN_RS_MAX_CONTACTS EMPTY_CONTACT"
  by (auto simp: decode_trackpoint_def Let_def EMPTY_FRAME_def split: if_splits)

lemma decode_absolute_frame:
  assumes "decode_absolute r len hp p EMPTY_FRAME = (0, f)"
  shows "f = partial_frame r hp p (r ! TOUCH_INFO_OFFSET) ELAN_RS_MAX_CONTACTS
      (absolute_header r len) \<and> absolute_complete r len hp p"
  using assms decode_absolute_complete [of r len hp p] decode_absolute_incomplete [of r len hp p]
  by (cases "absolute_complete r len hp p") auto

lemma decode_absolute_status: "fst (decode_absolute r len hp p EMPTY_FRAME) \<in> {0, - 22}"
  using decode_absolute_complete [of r len hp p] decode_absolute_incomplete [of r len hp p]
  by (cases "absolute_complete r len hp p") auto

lemma decode_trackpoint_status: "fst (decode_trackpoint r len f) \<in> {0, - 22}"
  by (simp add: decode_trackpoint_def Let_def)

interpretation rust_core: report_decoder elan_rs_decode_report
proof
  show "elan_rs_decode_report None len p out = (- EINVAL, out)" for len p out
    by (simp add: elan_rs_decode_report_def EINVAL_def)
  show "fst (elan_rs_decode_report ro len p out) \<in> {0, - EINVAL, - EPROTO}" for ro len p out
    using decode_absolute_status decode_trackpoint_status
    by (auto simp: elan_rs_decode_report_def errno_defs Let_def split: option.splits prod.splits)
      (metis fst_conv)+
next
  fix r len p f0 out
  assume "elan_rs_decode_report (Some r) len p (Some f0) = (0, out)"
  then show "\<exists>f. out = Some f \<and>
      (kind f = ELAN_RS_FRAME_ABSOLUTE \<or> kind f = ELAN_RS_FRAME_TRACKPOINT) \<and>
      length (contacts f) = ELAN_RS_MAX_CONTACTS \<and> list_all (contact_ok p) (contacts f)"
    by (auto simp: elan_rs_decode_report_def Let_def contact_ok_partial_frame
        split: option.splits prod.splits if_splits
        dest!: decode_absolute_frame decode_trackpoint_frame)
      (auto simp: partial_frame_def absolute_header_def ELAN_RS_MAX_CONTACTS_def contact_ok_empty
        list_all_iff)
qed

section \<open>Properties\<close>

text \<open>The parameters and the touch report of \<open>tests/kernel_rust_core.rs\<close>, for the witnesses.\<close>

definition sample_params :: decode_params where
  "sample_params = \<lparr>dp_max_x = 1024, dp_max_y = 1024, dp_width_x = 100, dp_width_y = 100,
     dp_pressure_adjustment = 25, dp_report_features = 1\<rparr>"

definition sample_touch_report :: "u8 list" where
  "sample_touch_report = [0, 0, 0x5d, 0x09, 0x12, 0x34, 0x56, 0x43, 100] @ replicate 23 0"

lemma sample_report_complete:
  "REPORT_ID_OFFSET < 32" "absolute_complete sample_touch_report 32 False sample_params"
  "sample_touch_report ! REPORT_ID_OFFSET = (if False then REPORT_ID2 else REPORT_ID)"
  by code_simp+

lemma sint_magnitude_sign:
  fixes a b :: u8
  shows "sint (ucast a - ucast b * 2 :: s32) = uint a - 2 * uint b"
    and "sint (ucast b * 2 - ucast a :: s32) = 2 * uint b - uint a"
proof -
  have ab: "0 \<le> uint a" "uint a < 256" "0 \<le> uint b" "uint b < 256"
    using uint_lt2p [of a] uint_lt2p [of b] by simp_all
  have eqs: "(ucast a - ucast b * 2 :: s32) = word_of_int (uint a - 2 * uint b)"
    "(ucast b * 2 - ucast a :: s32) = word_of_int (2 * uint b - uint a)"
    by simp_all
  show "sint (ucast a - ucast b * 2 :: s32) = uint a - 2 * uint b"
    unfolding eqs by (rule sint_of_int_small) (use ab in linarith)+
  show "sint (ucast b * 2 - ucast a :: s32) = 2 * uint b - uint a"
    unfolding eqs by (rule sint_of_int_small) (use ab in linarith)+
qed

lemma decode_trackpoint_eq:
  assumes "9 \<le> len"
  shows "decode_trackpoint r len f = (0,
    let f = f\<lparr>kind := ELAN_RS_FRAME_TRACKPOINT, buttons := ucast (r ! 3 AND 7)\<rparr>
    in if r ! 6 AND 0x0F = 6
       then f\<lparr>rel_x := ucast (r ! 7) - ucast (r ! 4 XOR 0x80) * 2,
              rel_y := ucast (r ! 5 XOR 0x80) * 2 - ucast (r ! 8), rel_valid := 1\<rparr>
       else f)"
  using assms
  by (simp add: decode_trackpoint_def Let_def read_byte_def unwrap_or_def REPORT_ID_OFFSET_def)

text \<open>
  C32: The decoder's status is 0, -EINVAL (-22) or -EPROTO (-71), and which one is decided by the
  report: too short for a report id is -22; an absolute report (normal or high precision) is
  accepted exactly when it holds a finger record for every present slot and, for a
  high-precision report with area reporting, the area byte of every contact in range; a
  trackpoint report is accepted exactly when it has its seven bytes; any other id is -71.
\<close>

theorem decode_report_status:
  "fst (elan_rs_decode_report (Some report) report_len p (Some out)) =
    (if report_len \<le> REPORT_ID_OFFSET then - 22
     else if report ! REPORT_ID_OFFSET = REPORT_ID then
       (if absolute_complete report report_len False p then 0 else - 22)
     else if report ! REPORT_ID_OFFSET = REPORT_ID2 then
       (if absolute_complete report report_len True p then 0 else - 22)
     else if is_trackpoint_id (report ! REPORT_ID_OFFSET) then
       (if REPORT_ID_OFFSET + 7 \<le> report_len then 0 else - 22)
     else - 71)"
  by (auto simp: elan_rs_decode_report_def read_byte_def Let_def decode_absolute_complete
      is_trackpoint_id_def decode_trackpoint_def report_ids
      split: prod.splits dest: decode_absolute_incomplete [THEN eq_fst_iff [THEN iffD1, OF sym]])

text \<open>
  C9: The slot loop of the decoder implements the declarative reading of the report: on a
  complete absolute report every contact is the one read from the packed finger record of its
  slot (empty when the slot is absent or out of range), the contact mask has exactly the bits
  of the slots in range, and buttons and kind are those of the touch byte.
\<close>

theorem decode_report_contacts:
  assumes "REPORT_ID_OFFSET < len" "absolute_complete r len hp p"
    and "r ! REPORT_ID_OFFSET = (if hp then REPORT_ID2 else REPORT_ID)"
  shows "\<exists>f. elan_rs_decode_report (Some r) len p (Some f0) = (0, Some f) \<and>
    kind f = ELAN_RS_FRAME_ABSOLUTE \<and>
    buttons f = ucast (r ! TOUCH_INFO_OFFSET AND 7) \<and>
    contacts f = map (reported_contact r hp p (r ! TOUCH_INFO_OFFSET)) [0..<5] \<and>
    (\<forall>k. bit (contact_mask f) k \<longleftrightarrow> k < 5 \<and> slot_in_range r hp p (r ! TOUCH_INFO_OFFSET) k)"
  unfolding decode_report_absolute [OF assms]
  by (simp add: partial_frame_def absolute_header_def range_mask_bit ELAN_RS_MAX_CONTACTS_def)

theorem decode_report_contacts_witness:
  "\<exists>f. elan_rs_decode_report (Some sample_touch_report) 32 sample_params (Some EMPTY_FRAME) =
      (0, Some f) \<and> kind f = ELAN_RS_FRAME_ABSOLUTE \<and> buttons f = 1"
proof -
  have "ucast (sample_touch_report ! TOUCH_INFO_OFFSET AND 7) = (1 :: u32)"
    by code_simp
  with decode_report_contacts [OF sample_report_complete, of EMPTY_FRAME]
  show ?thesis by auto
qed

text \<open>
  Whatever the bytes, a frame the decoder reports success for is an absolute or a trackpoint
  frame with five contacts, each with coordinates inside the pad, pressure at most 255, width
  at most 15 and the minor axis not above the major one.
\<close>

theorem decode_report_bounds:
  assumes "elan_rs_decode_report (Some r) len p (Some f0) = (0, Some f)"
  shows "(kind f = ELAN_RS_FRAME_ABSOLUTE \<or> kind f = ELAN_RS_FRAME_TRACKPOINT) \<and>
    length (contacts f) = 5 \<and>
    (\<forall>c \<in> set (contacts f). pos_x c \<le> dp_max_x p \<and> pos_y c \<le> dp_max_y p \<and>
      pressure c \<le> 255 \<and> tool_width c \<le> 15 \<and> touch_minor c \<le> touch_major c)"
  using rust_core.decode_success [OF assms]
  by (auto simp: list_all_iff contact_ok_def ELAN_RS_MAX_CONTACTS_def)

theorem decode_report_bounds_witness:
  "\<exists>f. elan_rs_decode_report (Some sample_touch_report) 32 sample_params (Some EMPTY_FRAME) =
      (0, Some f) \<and> length (contacts f) = 5 \<and> (\<forall>c \<in> set (contacts f). pos_x c \<le> 1024)"
proof -
  have pad: "dp_max_x sample_params = 1024"
    by (simp add: sample_params_def)
  obtain f where "elan_rs_decode_report (Some sample_touch_report) 32 sample_params
      (Some EMPTY_FRAME) = (0, Some f)"
    using decode_report_absolute [OF sample_report_complete] by blast
  from this decode_report_bounds [OF this] pad show ?thesis by auto
qed

text \<open>
  C35: A trackpoint report with the motion marker in the low nibble of its fourth packet byte
  yields relative motion: each axis is the difference of its magnitude byte and twice its
  sign byte with bit 7 inverted, computed without overflow, so it lies in -510..255 for x and
  -255..510 for y; without the marker the frame carries buttons only.
\<close>

theorem decode_trackpoint_motion:
  assumes "9 \<le> len" "is_trackpoint_id (r ! 2)"
  shows "\<exists>f. elan_rs_decode_report (Some r) len p (Some f0) = (0, Some f) \<and>
    kind f = ELAN_RS_FRAME_TRACKPOINT \<and> buttons f = ucast (r ! 3 AND 7) \<and>
    (if r ! 6 AND 0x0F = 6
     then rel_valid f = 1 \<and>
       sint (rel_x f) = uint (r ! 7) - 2 * uint (r ! 4 XOR 0x80) \<and>
       sint (rel_y f) = 2 * uint (r ! 5 XOR 0x80) - uint (r ! 8) \<and>
       sint (rel_x f) \<in> {-510..255} \<and> sint (rel_y f) \<in> {-255..510}
     else rel_valid f = 0 \<and> rel_x f = 0 \<and> rel_y f = 0)"
proof -
  have byte: "0 \<le> uint b" "uint b \<le> 255" for b :: u8
    using uint_lt2p [of b] by simp_all
  have range: "uint a - 2 * uint b \<in> {-510..255}" "2 * uint b - uint a \<in> {-255..510}" for a b :: u8
    unfolding atLeastAtMost_iff using byte [of a] byte [of b] by linarith+
  have "elan_rs_decode_report (Some r) len p (Some f0) =
      (let d = decode_trackpoint r len EMPTY_FRAME in (fst d, Some (snd d)))"
    using assms
    by (auto simp: elan_rs_decode_report_def is_trackpoint_id_def report_ids read_byte_def
        REPORT_ID_OFFSET_def split: prod.splits)
  moreover define a b where "a = r ! 4 XOR 0x80" and "b = r ! 5 XOR 0x80"
  ultimately show ?thesis
    using range
    by (simp add: decode_trackpoint_eq [OF assms(1)] Let_def sint_magnitude_sign EMPTY_FRAME_def
        flip: a_def b_def)
qed

theorem decode_trackpoint_motion_witness:
  "\<exists>f. elan_rs_decode_report (Some [0, 0, 0x5e, 0x05, 0x81, 0x7f, 0x06, 10, 20]) 9 sample_params
      (Some EMPTY_FRAME) = (0, Some f) \<and> kind f = ELAN_RS_FRAME_TRACKPOINT"
proof -
  have "is_trackpoint_id ([0, 0, 0x5e, 0x05, 0x81, 0x7f, 0x06, 10, 20] ! 2)"
    by code_simp
  with decode_trackpoint_motion [of 9 "[0, 0, 0x5e, 0x05, 0x81, 0x7f, 0x06, 10, 20]"
      sample_params EMPTY_FRAME]
  show ?thesis by auto
qed

text \<open>
  The recovery sequence is bounded: five operations take it from the idle phase to
  completion exactly when none of them fails, and to the failed phase otherwise.
\<close>

theorem recovery_sequence:
  assumes "length sts = 5"
  shows "recovery_run ELAN_RS_RECOVERY_IDLE sts =
    (if \<forall>st \<in> set sts. 0 \<le> sint st then ELAN_RS_RECOVERY_COMPLETE else ELAN_RS_RECOVERY_FAILED)"
proof (cases "\<forall>st \<in> set sts. 0 \<le> sint st")
  case True
  obtain a b c d e where "sts = [a, b, c, d, e]"
    using assms by (auto simp: numeral_eq_Suc length_Suc_conv)
  with True show ?thesis
    by (simp add: recovery_run_def elan_rs_recovery_next_def recovery_codes)
next
  case False
  then show ?thesis
    by (auto intro: recovery_run_negative simp: not_le)
qed

theorem recovery_sequence_witness:
  "recovery_run ELAN_RS_RECOVERY_IDLE [0, 0, 0, 0, 0] = ELAN_RS_RECOVERY_COMPLETE \<and>
   recovery_run ELAN_RS_RECOVERY_IDLE [0, 0, - 5, 0, 0] = ELAN_RS_RECOVERY_FAILED"
  using recovery_sequence [of "[0, 0, 0, 0, 0]"] recovery_sequence [of "[0, 0, - 5, 0, 0]"]
  by simp

text \<open>
  The recovery sequence fails closed: from any phase, and whatever operations follow, a
  single failed operation leaves the sequence in the failed phase.
\<close>

theorem recovery_fail_closed:
  assumes "st \<in> set sts" "sint st < 0"
  shows "recovery_run phase sts = ELAN_RS_RECOVERY_FAILED"
  using assms by (intro recovery_run_negative) auto

theorem recovery_fail_closed_witness:
  "recovery_run ELAN_RS_RECOVERY_VERIFY [0, - 110, 0, 0, 0, 0, 0] = ELAN_RS_RECOVERY_FAILED"
  by (rule recovery_fail_closed [of "- 110"]) simp_all


end
