(* ===== verification/Elan_Data.thy ===== *)
theory Elan_Data
  imports Elan_I2c Elan_Smbus
begin

text \<open>
  The driver's own state: \<open>struct elan_tp_data\<close> of \<open>upstream/elan_i2c_core.c\<close>, and the programs
  over it. A driver program threads the structure together with the call trace; calls through
  \<open>data->ops\<close> and calls into the kernel only extend the trace.
\<close>

section \<open>The device structure\<close>

text \<open>
  The properties the driver sets on a \<open>struct input_dev\<close> it allocates. An axis entry is
  maximum and resolution (the minimum, fuzz and flat are always 0).
\<close>

record input_dev =
  dev_name :: string
  id_vendor :: u16
  id_product :: u16
  evbit_abs :: bool
  keybit :: "button set"
  relbit :: "rel_axis set"
  prop_pointer :: bool
  prop_pointing_stick :: bool
  prop_buttonpad :: bool
  mt_slots :: nat
  abs_max :: "abs_axis \<rightharpoonup> u32"
  abs_res :: "abs_axis \<Rightarrow> u32"

text \<open>
  The fields of \<open>struct elan_tp_data\<close>. The kernel objects embedded in it (mutex, work item,
  completion, regulator) live in the trace; \<open>open_count\<close> and \<open>report_count\<close> are the values of
  the two atomics.
\<close>

record elan_tp_data =
  client :: i2c_client
  input :: "input_dev option"
  tp_input :: "input_dev option"
  ops :: elan_transport_ops
  in_fw_update :: bool
  open_count :: u32
  report_count :: u64
  report_errors :: u32
  watchdog_recoveries :: u32
  watchdog_enabled :: bool
  max_x :: u32
  max_y :: u32
  width_x :: u32
  width_y :: u32
  x_res :: u32
  y_res :: u32
  pattern :: u8
  product_id :: u16
  fw_version :: u8
  sm_version :: u8
  iap_version :: u8
  fw_checksum :: u16
  report_features :: u32
  report_len :: u32
  pressure_adjustment :: s32
  mode :: u8
  ic_type :: u16
  fw_validpage_count :: u16
  fw_page_size :: u16
  fw_signature_address :: u32
  min_baseline :: u8
  max_baseline :: u8
  baseline_ready :: bool
  clickpad :: u8
  middle_button :: bool
  quirks :: u32

record driver =
  tp :: elan_tp_data
  io_trace :: trace

type_synonym 'a drv = "(driver, 'a) state"

section \<open>Driver programs\<close>

text \<open>Reading and writing the structure, and running a kernel call or a transport operation.\<close>

definition getd :: "(elan_tp_data \<Rightarrow> 'a) \<Rightarrow> 'a drv" where
  "getd f = do { s \<leftarrow> State_Monad.get; return (f (tp s)) }"

definition modd :: "(elan_tp_data \<Rightarrow> elan_tp_data) \<Rightarrow> unit drv" where
  "modd f = do { s \<leftarrow> State_Monad.get; State_Monad.set (s\<lparr>tp := f (tp s)\<rparr>) }"

definition xio :: "'a io \<Rightarrow> 'a drv" where
  "xio m = do {
     s \<leftarrow> State_Monad.get;
     let (a, t) = run_state m (io_trace s);
     State_Monad.set (s\<lparr>io_trace := t\<rparr>);
     return a
   }"

definition via_ops :: "(elan_transport_ops \<Rightarrow> i2c_client \<Rightarrow> 'a io) \<Rightarrow> 'a drv" where
  "via_ops f = do {
     d \<leftarrow> getd (\<lambda>d. d);
     xio (f (ops d) (client d))
   }"

lemma result_getd [simp]: "result (getd f) s = f (tp s)"
  and final_getd [simp]: "final (getd f) s = s"
  by (simp_all add: getd_def result_def final_def)

lemma final_modd [simp]: "final (modd f) s = s\<lparr>tp := f (tp s)\<rparr>"
  by (simp add: modd_def final_def)

lemma result_xio [simp]: "result (xio m) s = result m (io_trace s)"
  and final_xio [simp]: "final (xio m) s = s\<lparr>io_trace := final m (io_trace s)\<rparr>"
  by (simp_all add: xio_def result_def final_def Let_def split: prod.splits)

lemma result_via_ops [simp]:
    "result (via_ops f) s = result (f (ops (tp s)) (client (tp s))) (io_trace s)"
  and final_via_ops [simp]:
    "final (via_ops f) s = s\<lparr>io_trace := final (f (ops (tp s)) (client (tp s))) (io_trace s)\<rparr>"
  by (simp_all add: via_ops_def)

lemma wp_driver [wp_simps]:
  "wp (getd f) Q s \<longleftrightarrow> Q (f (tp s)) s"
  "wp (modd g) R s \<longleftrightarrow> R () (s\<lparr>tp := g (tp s)\<rparr>)"
  "wp (xio m) S s \<longleftrightarrow> wp m (\<lambda>a t. S a (s\<lparr>io_trace := t\<rparr>)) (io_trace s)"
  "wp (via_ops h) S s \<longleftrightarrow>
    wp (h (ops (tp s)) (client (tp s))) (\<lambda>a t. S a (s\<lparr>io_trace := t\<rparr>)) (io_trace s)"
  by (simp_all add: wp_def)

text \<open>Step by step; the result and the trace of a transport operation are abstracted.\<close>

lemma wp_getdI [wp_intros]: "Q (f (tp s)) s \<Longrightarrow> wp (getd f) Q s"
  by (simp add: wp_driver)

lemma wp_moddI [wp_intros]: "Q () (s\<lparr>tp := g (tp s)\<rparr>) \<Longrightarrow> wp (modd g) Q s"
  by (simp add: wp_driver)

lemma wp_xioI [wp_intros]:
  "wp m (\<lambda>a t. Q a (s\<lparr>io_trace := t\<rparr>)) (io_trace s) \<Longrightarrow> wp (xio m) Q s"
  by (simp add: wp_driver)

lemma wp_via_opsI [wp_intros]:
  "(\<And>r t. result (f (ops (tp s)) (client (tp s))) (io_trace s) = r \<Longrightarrow>
      final (f (ops (tp s)) (client (tp s))) (io_trace s) = t \<Longrightarrow> Q r (s\<lparr>io_trace := t\<rparr>)) \<Longrightarrow>
    wp (via_ops f) Q s"
  by (simp add: wp_def)

section \<open>Relations on driver runs\<close>

text \<open>
  \<open>drv_rel T R\<close>: when the device uses the table \<open>T\<close>, it keeps it and its client, and the trace
  grows within \<open>R\<close>. \<open>keeps g\<close>: the part \<open>g\<close> of the structure is unchanged.
\<close>

definition drv_rel ::
  "elan_transport_ops \<Rightarrow> (trace \<Rightarrow> trace \<Rightarrow> bool) \<Rightarrow> driver \<Rightarrow> driver \<Rightarrow> bool"
where
  "drv_rel T R s s' \<longleftrightarrow> (ops (tp s) = T \<longrightarrow>
     ops (tp s') = T \<and> client (tp s') = client (tp s) \<and> R (io_trace s) (io_trace s'))"

definition keeps :: "(elan_tp_data \<Rightarrow> 'a) \<Rightarrow> driver \<Rightarrow> driver \<Rightarrow> bool" where
  "keeps g s s' \<longleftrightarrow> g (tp s') = g (tp s)"

lemma drv_rel_preorder [rel_rules]: "preorder_rel R \<Longrightarrow> preorder_rel (drv_rel T R)"
  by (rule preorder_relI) (auto simp: drv_rel_def intro: preorder_rel_refl preorder_rel_trans)

lemma keeps_preorder [rel_rules]: "preorder_rel (keeps g)"
  by (rule preorder_relI) (auto simp: keeps_def)

lemma drv_rel_getd [rel_rules]: "preorder_rel R \<Longrightarrow> state_io_rel (drv_rel T R) (getd f)"
  by (simp add: io_rel_iff drv_rel_def preorder_rel_refl)

lemma drv_rel_modd [rel_rules]:
  "preorder_rel R \<Longrightarrow> (\<And>d. ops (f d) = ops d) \<Longrightarrow> (\<And>d. client (f d) = client d) \<Longrightarrow>
    state_io_rel (drv_rel T R) (modd f)"
  by (simp add: io_rel_iff drv_rel_def preorder_rel_refl)

lemma drv_rel_xio [rel_rules]: "state_io_rel R m \<Longrightarrow> state_io_rel (drv_rel T R) (xio m)"
  by (simp add: io_rel_iff drv_rel_def)

lemma drv_rel_via_ops [rel_rules]:
  "(\<And>c. state_io_rel R (f T c)) \<Longrightarrow> state_io_rel (drv_rel T R) (via_ops f)"
  by (auto simp: io_rel_iff drv_rel_def)

lemma keeps_getd [rel_rules]: "state_io_rel (keeps g) (getd f)"
  by (simp add: io_rel_iff keeps_def)

lemma keeps_modd [rel_rules]: "(\<And>d. g (f d) = g d) \<Longrightarrow> state_io_rel (keeps g) (modd f)"
  by (simp add: io_rel_iff keeps_def)

lemma keeps_xio [rel_rules]: "state_io_rel (keeps g) (xio m)"
  by (simp add: io_rel_iff keeps_def)

lemma keeps_via_ops [rel_rules]: "state_io_rel (keeps g) (via_ops h)"
  by (simp add: io_rel_iff keeps_def)

lemma drv_rel_mono:
  "state_io_rel (drv_rel T R) m \<Longrightarrow> (\<And>t t'. R t t' \<Longrightarrow> S t t') \<Longrightarrow> state_io_rel (drv_rel T S) m"
  by (erule io_rel_mono) (simp add: drv_rel_def)

lemma drv_rel_bus_balanced:
  "state_io_rel (drv_rel T (emits bus_call)) m \<Longrightarrow> state_io_rel (drv_rel T balanced) m"
  by (erule drv_rel_mono) (rule emits_bus_balanced)

lemma balanced_notify [rel_rules]:
  "irq_delta (c, 0, []) = 0 \<Longrightarrow> mutex_delta (c, 0, []) = 0 \<Longrightarrow> state_io_rel balanced (notify c)"
  by (simp add: io_rel_iff balanced_def)

text \<open>An operation of the table \<open>T\<close>, when all that matters is how it extends the trace.\<close>

lemma wp_via_rel:
  assumes "\<And>c. state_io_rel R (f T c)" "ops (tp s) = T"
    and "\<And>r t. result (f T (client (tp s))) (io_trace s) = r \<Longrightarrow> R (io_trace s) t \<Longrightarrow>
      Q r (s\<lparr>io_trace := t\<rparr>)"
  shows "wp (via_ops f) Q s"
  using assms(2,3) io_relD [OF assms(1)] by (simp add: wp_def)

text \<open>
  The same with the result and the trace spelled out: a step of a run on the table \<open>T\<close> appends
  some \<open>u\<close> to the trace.
\<close>

lemma wp_via_run:
  assumes "\<And>c. state_io_rel extends (f T c)" "ops (tp s) = T"
    and "\<And>r u. result (f T (client (tp s))) (io_trace s) = r \<Longrightarrow>
      final (f T (client (tp s))) (io_trace s) = io_trace s @ u \<Longrightarrow>
      Q r (s\<lparr>io_trace := io_trace s @ u\<rparr>)"
  shows "wp (via_ops f) Q s"
proof -
  obtain u where "final (f T (client (tp s))) (io_trace s) = io_trace s @ u"
    using io_relD [OF assms(1)] by (blast elim: extendsE)
  then show ?thesis
    using assms(2,3) by (simp add: wp_def)
qed

lemma wp_drv_run:
  assumes "state_io_rel (drv_rel T extends) m" "ops (tp s) = T"
    and "\<And>r s' u. result m s = r \<Longrightarrow> final m s = s' \<Longrightarrow> ops (tp s') = T \<Longrightarrow>
      client (tp s') = client (tp s) \<Longrightarrow> io_trace s' = io_trace s @ u \<Longrightarrow> Q r s'"
  shows "wp m Q s"
  using io_relD [OF assms(1), of s] assms(2,3)
  by (auto simp: wp_def drv_rel_def elim!: extendsE)

lemma drv_rel_bus_extends:
  "state_io_rel (drv_rel T (emits P)) m \<Longrightarrow> state_io_rel (drv_rel T extends) m"
  by (erule drv_rel_mono) (rule emits_extends)

text \<open>Steps on the table \<open>T\<close> that leave the structure alone.\<close>

definition quiet_run :: "elan_transport_ops \<Rightarrow> driver \<Rightarrow> driver \<Rightarrow> bool" where
  "quiet_run T s s' \<longleftrightarrow> (ops (tp s) = T \<longrightarrow> tp s' = tp s \<and> extends (io_trace s) (io_trace s'))"

lemma quiet_run_preorder: "preorder_rel (quiet_run T)"
  by (rule preorder_relI) (auto simp: quiet_run_def intro: extends_trans)

text \<open>The device is bound to one of the two transports of the driver.\<close>

definition bound_to :: "environment \<Rightarrow> driver \<Rightarrow> bool" where
  "bound_to E s \<longleftrightarrow> ops (tp s) = elan_i2c_ops E \<or> ops (tp s) = elan_smbus_ops E"

lemma bound_to_transport: "bound_to E s \<Longrightarrow> transport (ops (tp s))"
  by (auto simp: bound_to_def i2c.transport_axioms smbus.transport_axioms)

lemma bound_to_checked: "bound_to E s \<Longrightarrow> checked_transport (ops (tp s)) E"
  by (auto simp: bound_to_def i2c_checked.checked_transport_axioms
      smbus_checked.checked_transport_axioms)

lemma balanced_trans: "balanced t u \<Longrightarrow> balanced u v \<Longrightarrow> balanced t v"
  by (simp add: balanced_def)

lemma balanced_refl [simp]: "balanced t t"
  by (simp add: balanced_def)

lemma balanced_step [simp]:
  "irq_delta x = 0 \<Longrightarrow> mutex_delta x = 0 \<Longrightarrow> balanced t (u @ [x]) = balanced t u"
  by (simp add: balanced_def)

section \<open>A sample device\<close>

text \<open>
  The environment and the device the witnesses run on: a bus on which every call succeeds with
  \<open>bytes\<close>, and a touchpad with the geometry of the tests under \<open>tests/kernel_rust_core.rs\<close>.
\<close>

definition sample_reply :: "u8 list \<Rightarrow> kcall \<Rightarrow> reply" where
  "sample_reply bytes c = (case c of
     Bus (I2cTransfer msgs) \<Rightarrow>
       (int (length msgs), take (read_length msgs) (bytes @ replicate (read_length msgs) 0))
   | Bus (I2cMasterSend b n) \<Rightarrow> (int n, [])
   | Bus (I2cMasterRecv n) \<Rightarrow> (int n, take n (bytes @ replicate n 0))
   | Bus (SmbusReadBlock cmd) \<Rightarrow> (int (min 32 (length bytes)), take 32 bytes)
   | Sched (WaitForCompletion ms) \<Rightarrow> (int ms, [])
   | _ \<Rightarrow> (0, []))"

definition sample_environment :: "u8 list \<Rightarrow> environment" where
  "sample_environment bytes = \<lparr>answer = \<lambda>t c. sample_reply bytes c, property_u32 = \<lambda>_. None,
     property_bool = \<lambda>_. False, config_enabled = \<lambda>_. True, dmi_match = \<lambda>_. False,
     char_signed = True, stack_junk = []\<rparr>"

lemma sample_contract: "bus_contract (sample_environment bytes)"
  by (auto simp: bus_contract_def sample_environment_def sample_reply_def MAX_ERRNO_def
      I2C_SMBUS_BLOCK_MAX_def split: kcall.splits bus_op.splits sched_op.splits)

definition sample_input :: input_dev where
  "sample_input = \<lparr>dev_name = ''Elan Touchpad'', id_vendor = 0x04f3, id_product = 0, evbit_abs = True,
     keybit = {BTN_LEFT}, relbit = {}, prop_pointer = True, prop_pointing_stick = False,
     prop_buttonpad = True, mt_slots = 5, abs_max = \<lambda>_. None, abs_res = \<lambda>_. 0\<rparr>"

definition sample_tp :: "elan_transport_ops \<Rightarrow> elan_tp_data" where
  "sample_tp opt = \<lparr>client = \<lparr>addr = 0x15, flags = 0\<rparr>, input = Some sample_input,
     tp_input = Some sample_input, ops = opt, in_fw_update = False, open_count = 1,
     report_count = 0, report_errors = 0, watchdog_recoveries = 0, watchdog_enabled = True,
     max_x = 1024, max_y = 1024, width_x = 100, width_y = 100, x_res = 30, y_res = 30,
     pattern = 1, product_id = 0, fw_version = 1, sm_version = 1, iap_version = 1,
     fw_checksum = 0, report_features = 1, report_len = 34, pressure_adjustment = 25,
     mode = 1, ic_type = 0x0D, fw_validpage_count = 448, fw_page_size = 128,
     fw_signature_address = 0xDFFA, min_baseline = 0, max_baseline = 0,
     baseline_ready = False, clickpad = 0, middle_button = False, quirks = 0\<rparr>"

definition sample_driver :: "elan_transport_ops \<Rightarrow> driver" where
  "sample_driver opt = \<lparr>tp = sample_tp opt, io_trace = []\<rparr>"

end
