(* ===== verification/Elan_Init.thy ===== *)
theory Elan_Init
  imports Elan_Data "HOL-Library.Signed_Division"
begin

text \<open>
  Bringing the controller up, from \<open>upstream/elan_i2c_core.c\<close>: the quirk and firmware tables,
  power and sleep with their retries, the initialisation sequence, and the queries that fill
  the device structure. A call that passes \<open>&data->field\<close> is \<open>op_out\<close>: it hands the
  operation the field's value and stores what it returns.
\<close>

definition ETP_RETRY_COUNT :: nat where [etp_consts]: "ETP_RETRY_COUNT = 3"
definition ETP_QUIRK_QUICK_WAKEUP :: u32 where [etp_consts]: "ETP_QUIRK_QUICK_WAKEUP = BIT 0"

definition op_out ::
  "(elan_tp_data \<Rightarrow> 'b) \<Rightarrow> ('b \<Rightarrow> elan_tp_data \<Rightarrow> elan_tp_data) \<Rightarrow>
    (elan_transport_ops \<Rightarrow> i2c_client \<Rightarrow> 'b \<Rightarrow> (int \<times> 'b) io) \<Rightarrow> int drv"
where
  "op_out get put f = do {
     v \<leftarrow> getd get;
     (error, v) \<leftarrow> via_ops (\<lambda>opt c. f opt c v);
     modd (put v);
     return error
   }"

section \<open>Tables\<close>

definition elan_i2c_quirks :: "(u16 \<times> u16 \<times> u32) list" where
  "elan_i2c_quirks = [
     (0x0D, ETP_PRODUCT_ID_DELBIN, ETP_QUIRK_QUICK_WAKEUP),
     (0x0D, ETP_PRODUCT_ID_WHITEBOX, ETP_QUIRK_QUICK_WAKEUP),
     (0x10, ETP_PRODUCT_ID_VOXEL, ETP_QUIRK_QUICK_WAKEUP),
     (0x14, ETP_PRODUCT_ID_MAGPIE, ETP_QUIRK_QUICK_WAKEUP),
     (0x14, ETP_PRODUCT_ID_BOBBA, ETP_QUIRK_QUICK_WAKEUP)]"

definition elan_i2c_lookup_quirks :: "u16 \<Rightarrow> u16 \<Rightarrow> u32" where
  "elan_i2c_lookup_quirks ic product =
     (let q = fold (\<lambda>(ic', product', quirk) q.
            if ic' = ic \<and> product' = product then quirk else q) elan_i2c_quirks 0
      in if ic \<ge> 0x0D \<and> product \<ge> 0x123 then q OR ETP_QUIRK_QUICK_WAKEUP else q)"

definition elan_get_fwinfo :: "u16 \<Rightarrow> u8 \<Rightarrow> int \<times> u16 \<times> u32 \<times> u16" where
  "elan_get_fwinfo ic iap =
     (let pages =
        (if ic \<in> {0x00, 0x06, 0x08} then Some 512
         else if ic \<in> {0x03, 0x07, 0x09, 0x0A, 0x0B, 0x0C} then Some 768
         else if ic = 0x0D then Some 896
         else if ic = 0x0E then Some 640
         else if ic = 0x10 then Some 1024
         else if ic = 0x11 then Some 1280
         else if ic = 0x13 then Some 2048
         else if ic \<in> {0x14, 0x15} then Some 1024
         else if ic = 0x19 then Some 2032
         else None)
      in case pages of
           None \<Rightarrow> (- ENXIO, 0, 0, 0)
         | Some count \<Rightarrow>
             let signature_address =
               ucast count * ucast ETP_FW_PAGE_SIZE - of_nat ETP_FW_SIGNATURE_SIZE
             in if ic \<in> {0x14, 0x15} \<and> iap \<ge> 2
                  then (0, count div 8, signature_address, ETP_FW_PAGE_SIZE_512)
                else if ic \<ge> 0x0D \<and> iap \<ge> 1
                  then (0, count div 2, signature_address, ETP_FW_PAGE_SIZE_128)
                else (0, count, signature_address, ETP_FW_PAGE_SIZE))"

section \<open>Power and sleep\<close>

definition elan_set_power :: "bool \<Rightarrow> int drv" where
  "elan_set_power on =
     do_retry ETP_RETRY_COUNT (\<lambda>error. error \<ge> 0) (via_ops (\<lambda>opt c. power_control opt c on))
       (xio (notify (Msleep 30)))"

definition elan_sleep :: "int drv" where
  "elan_sleep =
     do_retry ETP_RETRY_COUNT (\<lambda>error. error = 0) (via_ops (\<lambda>opt c. sleep_control opt c True))
       (xio (notify (Msleep 30)))"

section \<open>Initialisation\<close>

definition elan_query_product :: "int drv" where
  "elan_query_product = do {
     error \<leftarrow> op_out product_id (\<lambda>v d. d\<lparr>product_id := v\<rparr>) get_product_id;
     if error \<noteq> 0 then return error else do {
       error \<leftarrow> op_out pattern (\<lambda>v d. d\<lparr>pattern := v\<rparr>) get_pattern;
       if error \<noteq> 0 then return error else do {
         p \<leftarrow> getd pattern;
         error \<leftarrow> op_out (\<lambda>d. (ic_type d, sm_version d, clickpad d))
           (\<lambda>(ic, sm, click) d. d\<lparr>ic_type := ic, sm_version := sm, clickpad := click\<rparr>)
           (\<lambda>opt c. get_sm_version opt c p);
         if error \<noteq> 0 then return error else return 0
       }
     }
   }"

definition elan_check_ASUS_special_fw :: "elan_tp_data \<Rightarrow> bool" where
  "elan_check_ASUS_special_fw d =
     (if ic_type d = 0x0E
      then 0x05 \<le> product_id d \<and> product_id d \<le> 0x07 \<or> product_id d = 0x09 \<or> product_id d = 0x13
      else ic_type d = 0x08 \<and> product_id d = 0x26)"

text \<open>One attempt: \<open>__elan_initialize\<close>.\<close>

definition elan_initialize_once :: "bool \<Rightarrow> int drv" where
  "elan_initialize_once skip_reset = do {
     error \<leftarrow> (if \<not> skip_reset then via_ops initialize else return 0);
     if error \<noteq> 0 then return error else do {
     error \<leftarrow> elan_query_product;
     if error \<noteq> 0 then return error else do {
     special \<leftarrow> getd elan_check_ASUS_special_fw;
     error \<leftarrow> (if special then via_ops (\<lambda>opt c. sleep_control opt c False) else return 0);
     if error \<noteq> 0 then return error else do {
     (if special then xio (notify (Msleep 200)) else return ());
     modd (\<lambda>d. d\<lparr>mode := mode d OR ETP_ENABLE_ABS\<rparr>);
     m \<leftarrow> getd mode;
     error \<leftarrow> via_ops (\<lambda>opt c. set_mode opt c m);
     if error \<noteq> 0 then return error else do {
     error \<leftarrow> (if \<not> special then via_ops (\<lambda>opt c. sleep_control opt c False) else return 0);
     if error \<noteq> 0 then return error else return 0
     }}}}
   }"

text \<open>The retry loop of \<open>elan_initialize\<close>: only the first attempt may skip the reset.\<close>

fun elan_initialize_loop :: "nat \<Rightarrow> bool \<Rightarrow> int drv" where
  "elan_initialize_loop repeat skip_reset = do {
     error \<leftarrow> elan_initialize_once skip_reset;
     if error = 0 then return 0 else do {
       xio (notify (Msleep 30));
       if repeat - 1 > 0 then elan_initialize_loop (repeat - 1) False else return error
     }
   }"

declare elan_initialize_loop.simps [simp del]

definition elan_initialize :: "bool \<Rightarrow> int drv" where
  "elan_initialize skip_reset = elan_initialize_loop ETP_RETRY_COUNT skip_reset"

section \<open>Device information and parameters\<close>

definition elan_query_device_info :: "int drv" where
  "elan_query_device_info = do {
     p \<leftarrow> getd pattern;
     error \<leftarrow> op_out fw_version (\<lambda>v d. d\<lparr>fw_version := v\<rparr>) (\<lambda>opt c. get_version opt c p False);
     if error \<noteq> 0 then return error else do {
     error \<leftarrow> op_out fw_checksum (\<lambda>v d. d\<lparr>fw_checksum := v\<rparr>) (\<lambda>opt c. get_checksum opt c False);
     if error \<noteq> 0 then return error else do {
     error \<leftarrow> op_out iap_version (\<lambda>v d. d\<lparr>iap_version := v\<rparr>) (\<lambda>opt c. get_version opt c p True);
     if error \<noteq> 0 then return error else do {
     error \<leftarrow> op_out pressure_adjustment (\<lambda>v d. d\<lparr>pressure_adjustment := v\<rparr>)
       get_pressure_adjustment;
     if error \<noteq> 0 then return error else do {
     error \<leftarrow> op_out (\<lambda>d. (report_features d, report_len d))
       (\<lambda>(feat, len) d. d\<lparr>report_features := feat, report_len := len\<rparr>)
       (\<lambda>opt c. get_report_features opt c p);
     if error \<noteq> 0 then return error else do {
     modd (\<lambda>d. d\<lparr>quirks := elan_i2c_lookup_quirks (ic_type d) (product_id d)\<rparr>);
     modd (\<lambda>d. case elan_get_fwinfo (ic_type d) (iap_version d) of (_, count, signature, pg) \<Rightarrow>
       d\<lparr>fw_validpage_count := count, fw_signature_address := signature, fw_page_size := pg\<rparr>);
     return 0
     }}}}}
   }"

text \<open>
  \<open>(int)(char)val\<close> depends on the signedness of plain \<open>char\<close>; \<open>/\<close> truncates towards zero and
  the result is converted to \<open>unsigned int\<close>.
\<close>

definition char_value :: "environment \<Rightarrow> u8 \<Rightarrow> int" where
  "char_value E val = (if char_signed E then sint val else uint val)"

definition elan_convert_resolution :: "environment \<Rightarrow> u8 \<Rightarrow> u8 \<Rightarrow> u32" where
  "elan_convert_resolution E val pat =
     (let res = (if pat \<le> 0x01 then char_value E val * 10 + 790
                 else (char_value E val + 3) * 100)
      in word_of_int (res * 10 sdiv 254))"

text \<open>
  The three steps of \<open>elan_query_device_parameters\<close> that fall back to the device when a
  property is missing. \<open>None\<close> is a division by zero, which traps.
\<close>

definition query_size :: "environment \<Rightarrow> int drv" where
  "query_size E =
     (let ask = op_out (\<lambda>d. (max_x d, max_y d)) (\<lambda>(mx, my) d. d\<lparr>max_x := mx, max_y := my\<rparr>) get_max
      in case property_u32 E ''touchscreen-size-x'' of
           None \<Rightarrow> ask
         | Some sx \<Rightarrow> do {
             modd (\<lambda>d. d\<lparr>max_x := sx\<rparr>);
             case property_u32 E ''touchscreen-size-y'' of
               None \<Rightarrow> ask
             | Some sy \<Rightarrow> do {
                 modd (\<lambda>d. d\<lparr>max_y := sy\<rparr>);
                 modd (\<lambda>d. d\<lparr>max_x := max_x d - 1, max_y := max_y d - 1\<rparr>);
                 return 0
               }
           })"

definition query_traces :: "environment \<Rightarrow> (int \<times> u32 \<times> u32) drv" where
  "query_traces E =
     (case (property_u32 E ''elan,x_traces'', property_u32 E ''elan,y_traces'') of
        (Some nx, Some ny) \<Rightarrow> return (0, nx, ny)
      | (px, _) \<Rightarrow> via_ops (\<lambda>opt c. get_num_traces opt c (case px of None \<Rightarrow> 0 | Some nx \<Rightarrow> nx, 0)))"

definition divide_by_zero :: "int option drv" where
  "divide_by_zero = do { xio (notify (Fault DivideByZero)); return None }"

definition query_resolution :: "environment \<Rightarrow> int option drv" where
  "query_resolution E =
     (case (property_u32 E ''touchscreen-x-mm'', property_u32 E ''touchscreen-y-mm'') of
        (Some x_mm, Some y_mm) \<Rightarrow>
          if x_mm = 0 then divide_by_zero else do {
            modd (\<lambda>d. d\<lparr>x_res := (max_x d + 1) div x_mm\<rparr>);
            if y_mm = 0 then divide_by_zero else do {
              modd (\<lambda>d. d\<lparr>y_res := (max_y d + 1) div y_mm\<rparr>);
              return (Some 0)
            }
          }
      | _ \<Rightarrow> do {
          (error, hw_x_res, hw_y_res) \<leftarrow> via_ops (\<lambda>opt c. get_resolution opt c (0, 0));
          if error \<noteq> 0 then return (Some error) else do {
            modd (\<lambda>d. d\<lparr>x_res := elan_convert_resolution E hw_x_res (pattern d)\<rparr>);
            modd (\<lambda>d. d\<lparr>y_res := elan_convert_resolution E hw_y_res (pattern d)\<rparr>);
            return (Some 0)
          }
        })"

definition elan_query_device_parameters :: "environment \<Rightarrow> int option drv" where
  "elan_query_device_parameters E = do {
     error \<leftarrow> query_size E;
     if error \<noteq> 0 then return (Some error) else do {
     (error, x_traces, y_traces) \<leftarrow> query_traces E;
     if error \<noteq> 0 then return (Some error) else
     if x_traces = 0 then divide_by_zero else do {
     modd (\<lambda>d. d\<lparr>width_x := max_x d div x_traces\<rparr>);
     if y_traces = 0 then divide_by_zero else do {
     modd (\<lambda>d. d\<lparr>width_y := max_y d div y_traces\<rparr>);
     outcome \<leftarrow> query_resolution E;
     if outcome \<noteq> Some 0 then return outcome else do {
     (if property_bool E ''elan,clickpad'' then modd (\<lambda>d. d\<lparr>clickpad := 1\<rparr>) else return ());
     (if property_bool E ''elan,middle-button'' then modd (\<lambda>d. d\<lparr>middle_button := True\<rparr>)
      else return ());
     return (Some 0)
     }}}}
   }"

section \<open>Bus traffic only\<close>

lemma drv_rel_op_out [rel_rules]:
  assumes "preorder_rel R" "\<And>c v. state_io_rel R (f T c v)"
    and "\<And>v d. ops (put v d) = ops d" "\<And>v d. client (put v d) = client d"
  shows "state_io_rel (drv_rel T R) (op_out get put f)"
  unfolding op_out_def using assms by (intro rel_rules) auto

lemma keeps_op_out [rel_rules]:
  "(\<And>v d. g (put v d) = g d) \<Longrightarrow> state_io_rel (keeps g) (op_out get put f)"
  unfolding op_out_def by (intro rel_rules) auto

context transport
begin

lemma set_power_bus [rel_rules]: "state_io_rel (drv_rel T (emits bus_call)) (elan_set_power on)"
  and sleep_bus [rel_rules]: "state_io_rel (drv_rel T (emits bus_call)) elan_sleep"
  by (auto simp: elan_set_power_def elan_sleep_def intro!: rel_rules bus_ops)

lemma query_product_bus [rel_rules]: "state_io_rel (drv_rel T (emits bus_call)) elan_query_product"
  unfolding elan_query_product_def
  by (intro rel_rules bus_ops) (auto split: prod.splits)

lemma initialize_once_bus [rel_rules]:
  "state_io_rel (drv_rel T (emits bus_call)) (elan_initialize_once b)"
  unfolding elan_initialize_once_def
  by (intro rel_rules bus_ops) auto

lemma initialize_bus [rel_rules]: "state_io_rel (drv_rel T (emits bus_call)) (elan_initialize b)"
proof -
  have "state_io_rel (drv_rel T (emits bus_call)) (elan_initialize_loop n b)" for n
  proof (induction n arbitrary: b)
    case 0
    show ?case by (subst elan_initialize_loop.simps) (auto intro!: rel_rules)
  next
    case (Suc n)
    then show ?case by (subst elan_initialize_loop.simps) (auto intro!: rel_rules)
  qed
  then show ?thesis by (simp add: elan_initialize_def)
qed

lemma query_device_info_bus [rel_rules]:
  "state_io_rel (drv_rel T (emits bus_call)) elan_query_device_info"
  unfolding elan_query_device_info_def
  by (intro rel_rules bus_ops) (auto split: prod.splits)

end

section \<open>Facts about one attempt and the loop\<close>

lemma initialize_unroll:
  "elan_initialize b = do {
     e1 \<leftarrow> elan_initialize_once b;
     if e1 = 0 then return 0 else do {
       xio (notify (Msleep 30));
       e2 \<leftarrow> elan_initialize_once False;
       if e2 = 0 then return 0 else do {
         xio (notify (Msleep 30));
         e3 \<leftarrow> elan_initialize_once False;
         if e3 = 0 then return 0 else do {
           xio (notify (Msleep 30));
           return e3
         }
       }
     }
   }"
proof -
  have unfold: "elan_initialize_loop (Suc n) b = do {
      e \<leftarrow> elan_initialize_once b;
      if e = 0 then return 0 else do {
        xio (notify (Msleep 30));
        if 0 < n then elan_initialize_loop n False else return e } }" for n b
    by (subst elan_initialize_loop.simps) (simp cong: if_cong)
  show ?thesis
    unfolding elan_initialize_def ETP_RETRY_COUNT_def numeral_3_eq_3 unfold
    by (simp cong: if_cong)
qed

lemma result_op_out [simp]:
    "result (op_out get put f) s = fst (result (f (ops (tp s)) (client (tp s)) (get (tp s))) (io_trace s))"
  and final_op_out [simp]:
    "final (op_out get put f) s = s\<lparr>
      tp := put (snd (result (f (ops (tp s)) (client (tp s)) (get (tp s))) (io_trace s))) (tp s),
      io_trace := final (f (ops (tp s)) (client (tp s)) (get (tp s))) (io_trace s)\<rparr>"
  by (simp_all add: op_out_def split: prod.splits)

lemma wp_op_out [wp_simps]:
  "wp (op_out get put f) Q s \<longleftrightarrow>
    wp (f (ops (tp s)) (client (tp s)) (get (tp s)))
      (\<lambda>r t. Q (fst r) (s\<lparr>tp := put (snd r) (tp s), io_trace := t\<rparr>)) (io_trace s)"
  by (simp add: wp_def)

lemma wp_op_outI [wp_intros]:
  "(\<And>r v t. result (f (ops (tp s)) (client (tp s)) (get (tp s))) (io_trace s) = (r, v) \<Longrightarrow>
      final (f (ops (tp s)) (client (tp s)) (get (tp s))) (io_trace s) = t \<Longrightarrow>
      Q r (s\<lparr>tp := put v (tp s), io_trace := t\<rparr>)) \<Longrightarrow>
    wp (op_out get put f) Q s"
  by (cases "result (f (ops (tp s)) (client (tp s)) (get (tp s))) (io_trace s)") (simp add: wp_def)

lemma wp_op_out_run:
  assumes "\<And>c v. state_io_rel extends (f T c v)" "ops (tp s) = T"
    and "\<And>r v u. result (f T (client (tp s)) (get (tp s))) (io_trace s) = (r, v) \<Longrightarrow>
      final (f T (client (tp s)) (get (tp s))) (io_trace s) = io_trace s @ u \<Longrightarrow>
      Q r (s\<lparr>tp := put v (tp s), io_trace := io_trace s @ u\<rparr>)"
  shows "wp (op_out get put f) Q s"
proof -
  obtain u where "final (f T (client (tp s)) (get (tp s))) (io_trace s) = io_trace s @ u"
    using io_relD [OF assms(1)] by (blast elim: extendsE)
  then show ?thesis
    using assms(2,3) by (cases "result (f T (client (tp s)) (get (tp s))) (io_trace s)") (simp add: wp_def)
qed

lemma mode_absolute [simp]: "(m OR ETP_ENABLE_ABS) AND ETP_ENABLE_ABS = ETP_ENABLE_ABS" for m :: u8
  by (rule bit_word_eqI) (auto simp: bit_simps)

text \<open>
  During a run from \<open>s0\<close> to \<open>s\<close> the controller accepted exactly the mode now stored, which has the
  absolute bit, and was woken.
\<close>

definition absolute_mode_set :: "driver \<Rightarrow> driver \<Rightarrow> bool" where
  "absolute_mode_set s0 s \<longleftrightarrow> mode (tp s) AND ETP_ENABLE_ABS = ETP_ENABLE_ABS \<and>
     acknowledged (io_trace s0) (io_trace s)
       (set_mode (ops (tp s)) (client (tp s)) (mode (tp s))) 0 \<and>
     acknowledged (io_trace s0) (io_trace s)
       (sleep_control (ops (tp s)) (client (tp s)) False) 0"

text \<open>The states of a run on the table \<open>T\<close>: same transport and client, longer trace.\<close>

definition runs_to :: "elan_transport_ops \<Rightarrow> driver \<Rightarrow> driver \<Rightarrow> bool" where
  "runs_to T s s' \<longleftrightarrow> ops (tp s') = T \<and> client (tp s') = client (tp s) \<and>
     extends (io_trace s) (io_trace s')"

lemma runs_to_refl: "ops (tp s) = T \<Longrightarrow> runs_to T s s"
  by (simp add: runs_to_def)

lemma runs_to_trans: "runs_to T s t \<Longrightarrow> runs_to T t u \<Longrightarrow> runs_to T s u"
  by (auto simp: runs_to_def intro: extends_trans)

lemma runs_to_pause: "runs_to T s t \<Longrightarrow> runs_to T s (t\<lparr>io_trace := io_trace t @ u\<rparr>)"
  by (auto simp: runs_to_def intro: extends_appendI)

lemma runs_to_ops: "runs_to T s t \<Longrightarrow> ops (tp t) = T"
  by (simp add: runs_to_def)

lemma absolute_mode_set_mono:
  assumes "absolute_mode_set s1 s" "extends (io_trace s0) (io_trace s1)"
    and "extends (io_trace s) (io_trace s')" "tp s' = tp s"
  shows "absolute_mode_set s0 s'"
  using assms(1)
  by (auto simp: absolute_mode_set_def assms(4) intro: acknowledged_mono [OF _ assms(2,3)])

context transport
begin

lemma initialize_once_success:
  assumes "ops (tp s) = T"
  shows "wp (elan_initialize_once b) (\<lambda>r s'. runs_to T s s' \<and> (r = 0 \<longrightarrow> absolute_mode_set s s')) s"
  unfolding elan_initialize_once_def
  by (intro wp_via_run [where T = T] wp_bindI wp_ifI wp_returnI wp_getdI wp_moddI wp_xioI wp_notifyI
      wp_drv_run [OF drv_rel_bus_extends [OF query_product_bus]] extends_ops)
    (use assms in \<open>auto simp: absolute_mode_set_def runs_to_def
      intro: acknowledgedI\<close>)

lemma initialize_wp:
  assumes "ops (tp s) = T"
  shows "wp (elan_initialize b) (\<lambda>r s'. runs_to T s s' \<and> (r = 0 \<longrightarrow> absolute_mode_set s s')) s"
proof -
  have later: "wp (elan_initialize_once b) (\<lambda>r s'. runs_to T s s' \<and> (r = 0 \<longrightarrow> absolute_mode_set s s')) t"
    if "runs_to T s t" for b and t :: driver
    using initialize_once_success [OF runs_to_ops [OF that], of b] that
    by (auto simp: wp_def runs_to_def intro: extends_trans absolute_mode_set_mono)
  note start = runs_to_refl [OF assms]
  show ?thesis
    unfolding initialize_unroll
    by (intro wp_bindI wp_ifI wp_returnI wp_xioI wp_notifyI wp_mono [OF later])
      (auto intro: start runs_to_pause)
qed

end

section \<open>Facts about the tables and the parameters\<close>

lemma fwinfo_cases:
  "elan_get_fwinfo ic iap = (- ENXIO, 0, 0, 0) \<or>
    (\<exists>count sig pg. elan_get_fwinfo ic iap = (0, count, sig, pg) \<and>
      pg \<in> {64, 128, 512} \<and> 0 < count \<and> unat count * unat pg = unat sig + 6 \<and> 32000 < unat sig)"
  by (auto simp: elan_get_fwinfo_def etp_consts Let_def)

text \<open>A property that the division in \<open>query_resolution\<close> traps on.\<close>

definition zero_mm :: "environment \<Rightarrow> bool" where
  "zero_mm E \<longleftrightarrow> (case (property_u32 E ''touchscreen-x-mm'', property_u32 E ''touchscreen-y-mm'') of
     (Some x_mm, Some y_mm) \<Rightarrow> x_mm = 0 \<or> y_mm = 0 | _ \<Rightarrow> False)"

lemma wp_case_optionI [wp_intros]:
  "(p = None \<Longrightarrow> wp m Q s) \<Longrightarrow> (\<And>x. p = Some x \<Longrightarrow> wp (f x) Q s) \<Longrightarrow>
    wp (case p of None \<Rightarrow> m | Some x \<Rightarrow> f x) Q s"
  by (simp split: option.splits)

lemma query_resolution_trap:
  "wp (query_resolution E) (\<lambda>r s'. r = None \<longleftrightarrow> zero_mm E) s"
  unfolding query_resolution_def divide_by_zero_def
  by (intro wp_intros) (auto simp: zero_mm_def)

lemma query_parameters_wp:
  "wp (elan_query_device_parameters E) (\<lambda>r s'. r = None \<longleftrightarrow>
      result (query_size E) s = 0 \<and>
      (case result (query_traces E) (final (query_size E) s) of (error, nx, ny) \<Rightarrow>
        error = 0 \<and> (nx = 0 \<or> ny = 0 \<or> zero_mm E))) s"
  unfolding elan_query_device_parameters_def divide_by_zero_def
  by (intro wp_intros wp_abstract [of "query_size E"] wp_abstract [of "query_traces E"]
      wp_mono [OF query_resolution_trap]) auto

section \<open>Properties\<close>

text \<open>
  The firmware geometry table is consistent: for a known controller the pages exactly cover
  the image up to the end of its six signature bytes, in pages of 64, 128 or 512 bytes; an
  unknown controller is -ENXIO with every value cleared.
\<close>

theorem fwinfo_geometry:
  "case elan_get_fwinfo ic iap of (error, count, sig, pg) \<Rightarrow>
    (error = 0 \<and> pg \<in> {64, 128, 512} \<and> 0 < count \<and> unat count * unat pg = unat sig + 6) \<or>
    (error = - ENXIO \<and> count = 0 \<and> sig = 0 \<and> pg = 0)"
  using fwinfo_cases [of ic iap] by auto

text \<open>
  \<open>elan_i2c_lookup_quirks\<close> asks for a quick wake-up (no reset on resume) exactly for the five
  listed controllers and for every product from 0x123 on with an IC type of at least 0x0D.
\<close>

theorem lookup_quirks_spec:
  "elan_i2c_lookup_quirks ic product =
    (if (ic, product) \<in> {(0x0D, 0x00C2), (0x0D, 0x00B8), (0x10, 0x00BF), (0x14, 0x0120), (0x14, 0x0121)} \<or>
        (0x0D \<le> ic \<and> 0x123 \<le> product) then 1 else 0)"
  by (auto simp: elan_i2c_lookup_quirks_def elan_i2c_quirks_def etp_consts BIT_def Let_def
      ETP_QUIRK_QUICK_WAKEUP_def)


text \<open>
  On either transport, when \<open>elan_initialize\<close> returns 0, the absolute-report bit is set in the
  stored mode, and during this run the controller acknowledged exactly that mode and acknowledged
  the wake-up.
\<close>

theorem initialize_success:
  assumes "bound_to E s" and "result (elan_initialize skip_reset) s = 0"
  shows "absolute_mode_set s (final (elan_initialize skip_reset) s)"
  using transport.initialize_wp [OF bound_to_transport [OF assms(1)] refl, of skip_reset] assms(2)
  by (simp add: wp_def)

definition sample_smbus :: driver where
  "sample_smbus = sample_driver (elan_smbus_ops (sample_environment [0x55, 0x55, 0x55, 0x55, 0x55]))"

lemma sample_initialize: "result (elan_initialize False) sample_smbus = 0"
  by code_simp

lemma sample_smbus_bound: "bound_to (sample_environment [0x55, 0x55, 0x55, 0x55, 0x55]) sample_smbus"
  by (simp add: bound_to_def sample_smbus_def sample_driver_def sample_tp_def)

theorem initialize_success_witness:
  "absolute_mode_set sample_smbus (final (elan_initialize False) sample_smbus)"
  using initialize_success [OF sample_smbus_bound sample_initialize] .

text \<open>
  C37: \<open>elan_query_device_parameters\<close> traps on a division by zero exactly when the size query and
  the trace query succeed and a trace count, or one of two given \<open>-mm\<close> properties, is zero; no
  other path of it can fault.
\<close>

theorem query_parameters_trap:
  "result (elan_query_device_parameters E) s = None \<longleftrightarrow>
    result (query_size E) s = 0 \<and>
    (case result (query_traces E) (final (query_size E) s) of (error, nx, ny) \<Rightarrow>
      error = 0 \<and> (nx = 0 \<or> ny = 0 \<or> zero_mm E))"
  using query_parameters_wp [of E s] by (simp add: wp_def)

text \<open>
  C38: For a raw resolution below 128 the conversion to dots per millimetre does not depend on the
  signedness of plain \<open>char\<close> and cannot wrap: it is the exact quotient, between 31 and 81 for
  old patterns and between 11 and 511 for new ones.
\<close>

theorem convert_resolution_exact:
  assumes "val < 128"
  shows "uint (elan_convert_resolution E val pat) =
      (if pat \<le> 1 then (uint val * 10 + 790) * 10 div 254 else (uint val + 3) * 1000 div 254)"
proof -
  have small: "0 \<le> uint val" "uint val < 128"
    using assms by (simp_all add: word_less_def)
  have "signed_take_bit 7 (uint val) = uint val"
    by (rule signed_take_bit_int_eq_self) (use small in \<open>auto intro: order_trans [OF _ small(1)]\<close>)
  then have char: "char_value E val = uint val"
    by (simp add: char_value_def sint_uint)
  have sdiv: "k sdiv 254 = k div 254" if "0 \<le> k" for k :: int
    using that by (cases "k = 0") (simp_all add: signed_divide_int_def)
  have word: "uint (word_of_int (k div 254) :: u32) = k div 254"
    if "0 \<le> k" "k < 4294967296" for k
    using that mult_div_mod_eq [of 254 k] pos_mod_sign [of 254 k]
    by (simp add: uint_word_of_int pos_imp_zdiv_nonneg_iff)
  show ?thesis
  proof (cases "pat \<le> 1")
    case True
    have "uint (word_of_int ((uint val * 10 + 790) * 10 div 254) :: u32) =
        (uint val * 10 + 790) * 10 div 254"
      by (rule word) (use small in simp_all)
    moreover have "(uint val * 10 + 790) * 10 sdiv 254 = (uint val * 10 + 790) * 10 div 254"
      by (rule sdiv) (use small in simp)
    ultimately show ?thesis
      using True by (simp only: elan_convert_resolution_def char Let_def if_True)
  next
    case False
    have "uint (word_of_int ((uint val + 3) * 1000 div 254) :: u32) = (uint val + 3) * 1000 div 254"
      by (rule word) (use small in simp_all)
    moreover have "(uint val + 3) * 100 * 10 sdiv 254 = (uint val + 3) * 100 * 10 div 254"
      by (rule sdiv) (use small in simp)
    ultimately show ?thesis
      using False by (simp only: elan_convert_resolution_def char Let_def if_False mult.assoc)
        (simp add: False)
  qed
qed

theorem convert_resolution_exact_witness:
  "uint (elan_convert_resolution (sample_environment []) 41 1) = 47"
  using convert_resolution_exact [of 41 "sample_environment []" 1] by simp

end
