(* ===== verification/Elan_Shim.thy ===== *)
theory Elan_Shim
  imports Elan_Rust_Core
begin

text \<open>
  \<open>kernel/rust-shim/elan_rs_shim.c\<close>: hands a raw report to the decoder and replays the decoded
  frame to the input core.
\<close>

section \<open>Emitting a frame\<close>

definition emit :: "input_node \<Rightarrow> input_event \<Rightarrow> unit io" where
  "emit node ev = notify (Input node ev)"

fun emit_all :: "input_node \<Rightarrow> input_event list \<Rightarrow> unit io" where
  "emit_all node [] = return ()"
| "emit_all node (ev # evs) = do { emit node ev; emit_all node evs }"

text \<open>The calls the loop of \<open>elan_rs_emit_absolute\<close> makes for one slot.\<close>

definition slot_events :: "elan_rs_report_context \<Rightarrow> nat \<Rightarrow> elan_rs_contact \<Rightarrow> input_event list" where
  "slot_events ctx slot contact =
     MtSlot slot #
     (if active contact = 0 then [MtSlotInactive]
      else [MtSlotState True,
            Abs ABS_MT_POSITION_X (pos_x contact),
            Abs ABS_MT_POSITION_Y (pos_y contact),
            Abs ABS_MT_PRESSURE (pressure contact)] @
           (if ctx_report_features ctx \<noteq> 0
            then [Abs ABS_TOOL_WIDTH (tool_width contact),
                  Abs ABS_MT_TOUCH_MAJOR (touch_major contact),
                  Abs ABS_MT_TOUCH_MINOR (touch_minor contact)]
            else []))"

definition elan_rs_emit_absolute :: "elan_rs_report_context \<Rightarrow> elan_rs_frame \<Rightarrow> unit io" where
  "elan_rs_emit_absolute ctx frame = do {
     notify (Power PmWakeupEvent);
     emit_all Touchpad (concat (map (\<lambda>slot. slot_events ctx slot (contacts frame ! slot))
       [0..<ELAN_RS_MAX_CONTACTS]));
     emit_all Touchpad
       [Key BTN_LEFT (buttons frame AND BIT 0),
        Key BTN_MIDDLE (buttons frame AND BIT 2),
        Key BTN_RIGHT (buttons frame AND BIT 1),
        Abs ABS_DISTANCE (if hover frame \<noteq> 0 then 1 else 0),
        PointerEmulation True,
        Sync]
   }"

definition elan_rs_emit_trackpoint :: "elan_rs_report_context \<Rightarrow> elan_rs_frame \<Rightarrow> int io" where
  "elan_rs_emit_trackpoint ctx frame =
     (if \<not> ctx_trackpoint ctx then return (- ENODEV) else do {
        notify (Power PmWakeupEvent);
        emit_all Trackpoint
          ([Key BTN_LEFT (buttons frame AND BIT 0),
            Key BTN_RIGHT (buttons frame AND BIT 1),
            Key BTN_MIDDLE (buttons frame AND BIT 2)] @
           (if rel_valid frame \<noteq> 0 then [Rel REL_X (rel_x frame), Rel REL_Y (rel_y frame)]
            else []) @
           [Sync]);
        return 0
      })"

definition emit_frame :: "elan_rs_report_context \<Rightarrow> elan_rs_frame \<Rightarrow> int io" where
  "emit_frame ctx frame =
     (if kind frame = ELAN_RS_FRAME_ABSOLUTE
        then do { elan_rs_emit_absolute ctx frame; return 0 }
      else if kind frame = ELAN_RS_FRAME_TRACKPOINT then elan_rs_emit_trackpoint ctx frame
      else return (- EPROTO))"

definition context_params :: "elan_rs_report_context \<Rightarrow> decode_params" where
  "context_params ctx = \<lparr>dp_max_x = ctx_max_x ctx, dp_max_y = ctx_max_y ctx,
     dp_width_x = ctx_width_x ctx, dp_width_y = ctx_width_y ctx,
     dp_pressure_adjustment = ctx_pressure_adjustment ctx,
     dp_report_features = ctx_report_features ctx\<rparr>"

text \<open>
  \<open>struct elan_rs_frame frame\<close> is a local the decoder fills; \<open>stack_frame\<close> is what it holds
  before.
\<close>

definition elan_rs_emit_report ::
  "elan_rs_frame \<Rightarrow> elan_rs_report_context \<Rightarrow> u8 list \<Rightarrow> nat \<Rightarrow> int io"
where
  "elan_rs_emit_report stack_frame ctx report report_len =
     (case elan_rs_decode_report (Some report) report_len (context_params ctx)
             (Some stack_frame) of
        (error, out) \<Rightarrow>
          if error \<noteq> 0 then return error else emit_frame ctx (the out))"

section \<open>The trace of an emission\<close>

definition input_trace :: "input_node \<Rightarrow> input_event list \<Rightarrow> trace" where
  "input_trace node evs = map (\<lambda>ev. (Input node ev, (0, []))) evs"

lemma final_emit_all [simp]: "final (emit_all node evs) t = t @ input_trace node evs"
  by (induction evs arbitrary: t) (simp_all add: emit_def input_trace_def)

definition touch_events :: "elan_rs_report_context \<Rightarrow> elan_rs_frame \<Rightarrow> input_event list" where
  "touch_events ctx f =
     concat (map (\<lambda>slot. slot_events ctx slot (contacts f ! slot)) [0..<ELAN_RS_MAX_CONTACTS]) @
     [Key BTN_LEFT (buttons f AND BIT 0), Key BTN_MIDDLE (buttons f AND BIT 2),
      Key BTN_RIGHT (buttons f AND BIT 1), Abs ABS_DISTANCE (if hover f \<noteq> 0 then 1 else 0),
      PointerEmulation True, Sync]"

definition point_events :: "elan_rs_frame \<Rightarrow> input_event list" where
  "point_events f =
     [Key BTN_LEFT (buttons f AND BIT 0), Key BTN_RIGHT (buttons f AND BIT 1),
      Key BTN_MIDDLE (buttons f AND BIT 2)] @
     (if rel_valid f \<noteq> 0 then [Rel REL_X (rel_x f), Rel REL_Y (rel_y f)] else []) @ [Sync]"

definition wakeup :: "kcall \<times> reply" where
  "wakeup = (Power PmWakeupEvent, (0, []))"

lemma final_emit_absolute [simp]:
  "final (elan_rs_emit_absolute ctx f) t =
    t @ wakeup # input_trace Touchpad (touch_events ctx f)"
  by (simp add: elan_rs_emit_absolute_def touch_events_def input_trace_def wakeup_def
      del: emit_all.simps)

lemma final_emit_trackpoint [simp]:
  "final (elan_rs_emit_trackpoint ctx f) t =
    (if ctx_trackpoint ctx then t @ wakeup # input_trace Trackpoint (point_events f) else t)"
  by (simp add: elan_rs_emit_trackpoint_def point_events_def input_trace_def wakeup_def
      del: emit_all.simps)

lemma result_emit_trackpoint [simp]:
  "result (elan_rs_emit_trackpoint ctx f) t = (if ctx_trackpoint ctx then 0 else - ENODEV)"
  by (simp add: elan_rs_emit_trackpoint_def)

text \<open>Nothing the shim does touches the interrupt line, the mutex or the bus.\<close>

fun input_call :: "kcall \<Rightarrow> bool" where
  "input_call (Input _ _) = True"
| "input_call (Power PmWakeupEvent) = True"
| "input_call _ = False"

lemma emits_emit_all [rel_rules]: "state_io_rel (emits input_call) (emit_all node evs)"
  by (induction evs) (auto simp: emit_def intro!: rel_rules)

lemma emits_emit_frame: "state_io_rel (emits input_call) (emit_frame ctx f)"
  by (auto simp: emit_frame_def elan_rs_emit_absolute_def elan_rs_emit_trackpoint_def
      simp del: emit_all.simps intro!: rel_rules)

lemma emits_emit_report: "state_io_rel (emits input_call) (elan_rs_emit_report f0 ctx r len)"
  by (auto simp: elan_rs_emit_report_def emits_emit_frame split: prod.splits intro!: rel_rules)

lemma emits_input_balanced: "emits input_call t t' \<Longrightarrow> balanced t t'"
proof (elim emitsE)
  fix u assume "t' = t @ u" and u: "\<And>c r. (c, r) \<in> set u \<Longrightarrow> input_call c"
  have "irq_delta x = 0 \<and> mutex_delta x = 0" if "input_call (fst x)" for x
    using that by (cases x rule: irq_delta.cases) (auto elim: input_call.elims)
  with u have "irq_depth u = 0 \<and> mutex_depth u = 0"
    by (induction u) fastforce+
  with \<open>t' = t @ u\<close> show "balanced t t'"
    by (simp add: balanced_def)
qed

lemma input_program_balanced:
  "state_io_rel (emits input_call) m \<Longrightarrow> state_io_rel balanced m"
  by (erule io_rel_mono) (rule emits_input_balanced)

section \<open>What a client of a correct decoder may conclude\<close>

definition event_in_range :: "decode_params \<Rightarrow> input_event \<Rightarrow> bool" where
  "event_in_range p ev \<longleftrightarrow> (case ev of
     MtSlot slot \<Rightarrow> slot < ELAN_RS_MAX_CONTACTS
   | Abs axis v \<Rightarrow>
       (axis = ABS_MT_POSITION_X \<longrightarrow> v \<le> dp_max_x p) \<and>
       (axis = ABS_MT_POSITION_Y \<longrightarrow> v \<le> dp_max_y p) \<and>
       (axis = ABS_MT_PRESSURE \<longrightarrow> v \<le> 255) \<and>
       (axis = ABS_TOOL_WIDTH \<longrightarrow> v \<le> 15) \<and>
       (axis = ABS_DISTANCE \<longrightarrow> v \<le> 1)
   | _ \<Rightarrow> True)"

lemma slot_events_in_range:
  "slot < ELAN_RS_MAX_CONTACTS \<Longrightarrow> contact_ok p c \<Longrightarrow>
    list_all (event_in_range p) (slot_events ctx slot c)"
  by (simp add: slot_events_def event_in_range_def contact_ok_def)

context report_decoder
begin

lemma emitted_in_range:
  assumes "decode (Some r) len p (Some f0) = (0, Some f)"
    and "final (emit_frame ctx f) t = t @ u"
    and "(Input node ev, reply) \<in> set u"
  shows "event_in_range p ev"
proof -
  have range: "list_all (event_in_range p)
      (concat (map (\<lambda>slot. slot_events ctx slot (contacts f ! slot)) [0..<ELAN_RS_MAX_CONTACTS]))"
    using decode_contact_ok [OF assms(1)] slot_events_in_range
    by (fastforce simp: list_all_iff)
  then show ?thesis
    using assms(2,3)
    by (auto simp: emit_frame_def touch_events_def point_events_def input_trace_def wakeup_def
        list_all_iff event_in_range_def split: if_splits)
qed

lemma never_unknown_frame:
  assumes "decode (Some r) len p (Some f0) = (0, Some f)"
  shows "result (emit_frame ctx f) t \<in> {0, - ENODEV}"
  using decode_success [OF assms]
  by (auto simp: emit_frame_def)

end

lemma report_in_range:
  assumes "final (elan_rs_emit_report f0 ctx r len) t = t @ u"
    and "(Input node ev, reply) \<in> set u"
  shows "event_in_range (context_params ctx) ev"
proof -
  obtain err out where dec: "elan_rs_decode_report (Some r) len (context_params ctx) (Some f0) =
      (err, out)"
    by fastforce
  show ?thesis
  proof (cases "err = 0")
    case True
    then obtain f where "out = Some f"
      using dec by (auto elim: rust_core.decode_successE)
    then show ?thesis
      using rust_core.emitted_in_range [OF _ _ assms(2)] dec assms(1) True
      by (simp add: elan_rs_emit_report_def)
  next
    case False
    then show ?thesis
      using dec assms by (simp add: elan_rs_emit_report_def)
  qed
qed

section \<open>Properties\<close>

text \<open>
  Every value the shim reports to the input core is inside the range its axis advertises:
  slots below five, positions inside the pad, pressure at most 255, width at most 15, distance at
  most 1, for every report, context, length and stack content.
\<close>

theorem emit_report_in_range:
  assumes "final (elan_rs_emit_report f0 ctx r len) t = t @ u"
    and "(Input node ev, reply) \<in> set u"
  shows "event_in_range (context_params ctx) ev"
  using assms by (rule report_in_range)

definition sample_context :: elan_rs_report_context where
  "sample_context = \<lparr>ctx_trackpoint = True, ctx_max_x = 1024, ctx_max_y = 1024,
     ctx_width_x = 100, ctx_width_y = 100, ctx_pressure_adjustment = 25,
     ctx_report_features = 1\<rparr>"

lemma sample_emit_report:
  "\<exists>u. final (elan_rs_emit_report EMPTY_FRAME sample_context sample_touch_report 32) [] = [] @ u \<and>
    (Input Touchpad Sync, 0, []) \<in> set u"
proof -
  have "context_params sample_context = sample_params"
    by (simp add: context_params_def sample_context_def sample_params_def)
  with decode_report_absolute [OF sample_report_complete, of EMPTY_FRAME] show ?thesis
    by (simp add: elan_rs_emit_report_def emit_frame_def partial_frame_def absolute_header_def
        touch_events_def input_trace_def)
qed

theorem emit_report_in_range_witness:
  "event_in_range (context_params sample_context) Sync"
  using sample_emit_report
  by (auto intro: emit_report_in_range)

end
