(* ===== verification/Elan_Report.thy ===== *)
theory Elan_Report
  imports Elan_Shim Elan_Data
begin

text \<open>
  The report routines the C driver keeps beside the Rust core (\<open>elan_report_contact\<close>,
  \<open>elan_report_absolute\<close> and \<open>elan_report_trackpoint\<close> of \<open>upstream/elan_i2c_core.c\<close>, marked
  \<open>__maybe_unused\<close>), and how the events they produce compare with those of the shim.
  \<open>finger_data\<close> is the suffix of the packet its pointer addresses.
\<close>

section \<open>The C routines\<close>

definition ETP_MAX_PRESSURE :: u32 where [etp_consts]: "ETP_MAX_PRESSURE = 255"
definition ETP_FWIDTH_REDUCE :: u32 where [etp_consts]: "ETP_FWIDTH_REDUCE = 90"

definition elan_report_contact ::
  "elan_tp_data \<Rightarrow> nat \<Rightarrow> bool \<Rightarrow> bool \<Rightarrow> u8 list \<Rightarrow> u8 list \<Rightarrow> unit io"
where
  "elan_report_contact d contact_num contact_valid high_precision packet finger_data =
     (if contact_valid then
        let (px, py) =
          (if high_precision
           then (ucast (be16_to_cpu finger_data), ucast (be16_to_cpu (drop 2 finger_data)))
           else (push_bit 4 (ucast (finger_data ! 0 AND 0xf0)) OR ucast (finger_data ! 1),
                 push_bit 8 (ucast (finger_data ! 0 AND 0x0f)) OR ucast (finger_data ! 2)))
        in if px > max_x d \<or> py > max_y d then return () else
        let scaled = ucast (finger_data ! 4) + pressure_adjustment d;
            scaled = (if scaled > ETP_MAX_PRESSURE then ETP_MAX_PRESSURE else scaled)
        in do {
          emit_all Touchpad
            [MtSlot contact_num, MtSlotState True,
             Abs ABS_MT_POSITION_X px,
             Abs ABS_MT_POSITION_Y (max_y d - py),
             Abs ABS_MT_PRESSURE scaled];
          if report_features d AND ETP_FEATURE_REPORT_MK \<noteq> 0 then
            let mk_data = (if high_precision then packet ! (ETP_MK_DATA_OFFSET + contact_num)
                           else finger_data ! 3);
                mk_x = ucast (mk_data AND 0x0f);
                mk_y = ucast (drop_bit 4 mk_data);
                area_x = mk_x * (width_x d - ETP_FWIDTH_REDUCE);
                area_y = mk_y * (width_y d - ETP_FWIDTH_REDUCE)
            in emit_all Touchpad
                 [Abs ABS_TOOL_WIDTH mk_x,
                  Abs ABS_MT_TOUCH_MAJOR (max area_x area_y),
                  Abs ABS_MT_TOUCH_MINOR (min area_x area_y)]
          else return ()
        }
      else emit_all Touchpad [MtSlot contact_num, MtSlotInactive])"

text \<open>The finger loop; \<open>n\<close> counts the slots still to visit.\<close>

fun elan_report_fingers ::
  "elan_tp_data \<Rightarrow> u8 list \<Rightarrow> bool \<Rightarrow> u8 \<Rightarrow> nat \<Rightarrow> nat \<Rightarrow> u8 list \<Rightarrow> unit io"
where
  "elan_report_fingers d packet high_precision tp_info 0 i finger_data = return ()"
| "elan_report_fingers d packet high_precision tp_info (Suc n) i finger_data = do {
     let contact_valid = (tp_info AND BIT (3 + i) \<noteq> 0);
     elan_report_contact d i contact_valid high_precision packet finger_data;
     elan_report_fingers d packet high_precision tp_info n (Suc i)
       (if contact_valid then drop ETP_FINGER_DATA_LEN finger_data else finger_data)
   }"

definition elan_report_absolute :: "elan_tp_data \<Rightarrow> u8 list \<Rightarrow> bool \<Rightarrow> unit io" where
  "elan_report_absolute d packet high_precision = do {
     let tp_info = packet ! ETP_TOUCH_INFO_OFFSET;
     let hover_info = packet ! ETP_HOVER_INFO_OFFSET;
     notify (Power PmWakeupEvent);
     elan_report_fingers d packet high_precision tp_info ETP_MAX_FINGERS 0
       (drop ETP_FINGER_DATA_OFFSET packet);
     emit_all Touchpad
       [Key BTN_LEFT (ucast (tp_info AND BIT 0)),
        Key BTN_MIDDLE (ucast (tp_info AND BIT 2)),
        Key BTN_RIGHT (ucast (tp_info AND BIT 1)),
        Abs ABS_DISTANCE (if hover_info AND BIT 6 \<noteq> 0 then 1 else 0),
        PointerEmulation True,
        Sync]
   }"

definition elan_report_trackpoint :: "elan_tp_data \<Rightarrow> u8 list \<Rightarrow> unit io" where
  "elan_report_trackpoint d report = do {
     let packet = drop (ETP_REPORT_ID_OFFSET + 1) report;
     notify (Power PmWakeupEvent);
     if tp_input d = None then return () else
       emit_all Trackpoint
         ([Key BTN_LEFT (ucast (packet ! 0 AND 0x01)),
           Key BTN_RIGHT (ucast (packet ! 0 AND 0x02)),
           Key BTN_MIDDLE (ucast (packet ! 0 AND 0x04))] @
          (if packet ! 3 AND 0x0F = 0x06
           then [Rel REL_X (ucast (packet ! 4) - push_bit 1 (ucast (packet ! 1 XOR 0x80))),
                 Rel REL_Y (push_bit 1 (ucast (packet ! 2 XOR 0x80)) - ucast (packet ! 5))]
           else []) @
          [Sync])
   }"

text \<open>The context the interrupt handler builds for the shim.\<close>

definition report_context :: "elan_tp_data \<Rightarrow> elan_rs_report_context" where
  "report_context d = \<lparr>ctx_trackpoint = (tp_input d \<noteq> None), ctx_max_x = max_x d,
     ctx_max_y = max_y d, ctx_width_x = width_x d, ctx_width_y = width_y d,
     ctx_pressure_adjustment = pressure_adjustment d, ctx_report_features = report_features d\<rparr>"

section \<open>Event by event\<close>

text \<open>
  The area arithmetic of the two sides agrees while a trace is at least
  \<open>ETP_FWIDTH_REDUCE\<close> wide and the product fits, the pressure arithmetic while the adjustment
  is a small non-negative number.
\<close>

definition same_arithmetic :: "elan_tp_data \<Rightarrow> bool" where
  "same_arithmetic d \<longleftrightarrow>
     90 \<le> width_x d \<and> width_x d < 2 ^ 28 \<and> 90 \<le> width_y d \<and> width_y d < 2 ^ 28 \<and>
     pressure_adjustment d < 2 ^ 30 \<and> (report_features d = 0 \<or> report_features d = 1)"

definition reference_slot_events ::
  "elan_tp_data \<Rightarrow> u8 list \<Rightarrow> bool \<Rightarrow> u8 \<Rightarrow> nat \<Rightarrow> input_event list"
where
  "reference_slot_events d packet hp info slot =
     (let p = context_params (report_context d) in
      if slot_present info slot \<and> \<not> slot_in_range packet hp p info slot then []
      else slot_events (report_context d) slot (reported_contact packet hp p info slot))"

lemma wide_be16:
  "ucast (be16_to_cpu (b # c # rest)) = (push_bit 8 (ucast b) OR ucast c :: u32)"
  by (rule bit_word_eqI) (auto simp: be16_to_cpu_def bit_simps dest: bit_imp_le_length)

lemma finger_position_be16:
  "finger_position True b0 b1 b2 b3 =
    (ucast (be16_to_cpu (b0 # b1 # rest)), ucast (be16_to_cpu (b2 # b3 # rest')))"
  by (simp only: finger_position_def wide_be16 if_True)

lemma saturating_area:
  fixes w :: u32 and nib :: u32
  assumes "90 \<le> w" "w < 2 ^ 28" "nib \<le> 15"
  shows "saturating_mul nib (saturating_sub w FINGER_WIDTH_REDUCE) = nib * (w - ETP_FWIDTH_REDUCE)"
proof -
  have "unat nib * unat (w - 90) < 2 ^ 32"
  proof -
    have "unat (w - 90) < 2 ^ 28" "unat nib \<le> 15"
      using assms by (simp_all add: word_less_nat_alt word_le_nat_alt unat_sub)
    then have "unat nib * unat (w - 90) \<le> 15 * 2 ^ 28"
      by (intro mult_le_mono) auto
    then show ?thesis by simp
  qed
  moreover have "\<not> w < 90"
    using assms(1) by (rule leD)
  ultimately show ?thesis
    by (simp add: saturating_mul_def saturating_sub_def etp_consts)
qed

lemma clamped_pressure:
  fixes raw :: u8 and adj :: s32
  assumes "adj < 2 ^ 30"
  shows "(if ucast raw + adj > ETP_MAX_PRESSURE then ETP_MAX_PRESSURE else ucast raw + adj) =
    scaled_pressure raw adj"
proof -
  have adj: "0 \<le> uint adj" "uint adj < 1073741824"
    using assms by (simp_all add: word_less_def)
  have raw: "0 \<le> uint raw" "uint raw < 256"
    using uint_lt2p [of raw] by simp_all
  have cast: "uint (ucast raw :: u32) = uint raw"
    using raw by (simp add: unsigned_ucast_eq take_bit_int_eq_self)
  have "uint raw + uint adj < 2 ^ 32"
    using raw adj by simp
  then have sum: "uint (ucast raw + adj :: u32) = uint raw + uint adj"
    by (simp add: uint_word_ariths cast)
  have "signed_take_bit 31 (uint adj) = uint adj"
    by (rule signed_take_bit_int_eq_self) (use adj in \<open>auto intro: order_trans [OF _ adj(1)]\<close>)
  then have sint: "sint adj = uint adj"
    by (simp add: sint_uint)
  have "uint (scaled_pressure raw adj) = min 255 (uint raw + uint adj)"
    using scaled_pressure_exact [of adj raw] adj sint by simp
  then show ?thesis
    by (simp add: word_uint_eq_iff word_less_def sum ETP_MAX_PRESSURE_def min_def)
qed

lemma split_finger_record:
  assumes "5 \<le> length xs"
  obtains a b c d e rest where "xs = a # b # c # d # e # rest"
proof -
  have "Suc (Suc (Suc (Suc (Suc 0)))) \<le> length xs"
    using assms by simp
  then show ?thesis
    using that by (auto simp only: Suc_le_length_iff)
qed

lemma high_nibble_le: "ucast (drop_bit 4 b) \<le> (15 :: u32)" for b :: u8
proof -
  have "unat b div 16 < 16"
    using unsigned_less [of b, where ?'a = nat] by simp
  then have "unat (drop_bit 4 b) < 16"
    by (simp add: unat_drop_bit_eq drop_bit_nat_def del: drop_bit_numeral_bit1 drop_bit_numeral_bit0)
  then show ?thesis
    by (simp add: word_le_nat_alt unsigned_ucast_eq take_bit_nat_eq_self)
qed

lemma slot_layout:
  assumes "drop f packet = b0 # b1 # b2 # b3 # b4 # rest"
  shows "packet ! f = b0" "packet ! Suc f = b1" "packet ! (f + 2) = b2" "packet ! (f + 3) = b3"
    "packet ! (f + 4) = b4" "drop 2 (drop f packet) = b2 # b3 # b4 # rest"
proof -
  have "f \<le> length packet"
    using assms by (metis drop_all linear list.distinct(1))
  then have "packet ! (f + i) = (b0 # b1 # b2 # b3 # b4 # rest) ! i" for i
    by (simp flip: assms)
  from this [of 0] this [of 1] this [of 2] this [of 3] this [of 4]
  show "packet ! f = b0" "packet ! Suc f = b1" "packet ! (f + 2) = b2" "packet ! (f + 3) = b3"
    "packet ! (f + 4) = b4"
    by simp_all
  show "drop 2 (drop f packet) = b2 # b3 # b4 # rest"
    by (simp only: assms) simp
qed

lemma reference_contact_trace:
  assumes ok: "same_arithmetic d" and len: "finger_record info slot + 5 \<le> length packet"
  shows "final (elan_report_contact d slot (slot_present info slot) hp packet
      (drop (finger_record info slot) packet)) t =
    t @ input_trace Touchpad (reference_slot_events d packet hp info slot)"
proof (cases "slot_present info slot")
  case False
  then show ?thesis
    by (simp add: elan_report_contact_def reference_slot_events_def slot_events_def Let_def
        reported_contact_def slot_in_range_def EMPTY_CONTACT_def del: emit_all.simps)
next
  case True
  let ?f = "finger_record info slot" and ?p = "context_params (report_context d)"
  have "5 \<le> length (drop ?f packet)"
    using len by simp
  then obtain b0 b1 b2 b3 b4 rest where split: "drop ?f packet = b0 # b1 # b2 # b3 # b4 # rest"
    by (rule split_finger_record)
  note bytes = slot_layout [OF split]
  let ?fd = "drop ?f packet"
  obtain px py where pos: "slot_position packet hp info slot = (px, py)"
    by fastforce
  have position: "(if hp then (ucast (be16_to_cpu ?fd), ucast (be16_to_cpu (drop 2 ?fd)))
      else (push_bit 4 (ucast (?fd ! 0 AND 0xf0)) OR ucast (?fd ! 1),
            push_bit 8 (ucast (?fd ! 0 AND 0x0f)) OR ucast (?fd ! 2))) = (px, py)"
    unfolding pos [symmetric] slot_position_def Let_def bytes(3,6)
    by (cases hp) (simp_all add: split bytes finger_position_def wide_be16 numeral_2_eq_2)
  have mk: "(if hp then packet ! (ETP_MK_DATA_OFFSET + slot) else ?fd ! 3) =
      area_byte packet hp info slot"
    by (simp add: area_byte_def split bytes etp_consts)
  have raw: "?fd ! 4 = packet ! (?f + 4)"
    by (simp only: bytes(5)) (simp add: split)
  have area: "saturating_mul (ucast (m AND 0x0f)) (saturating_sub (width_x d) FINGER_WIDTH_REDUCE) =
        ucast (m AND 0x0f) * (width_x d - ETP_FWIDTH_REDUCE)"
      "saturating_mul (ucast (drop_bit 4 m)) (saturating_sub (width_y d) FINGER_WIDTH_REDUCE) =
        ucast (drop_bit 4 m) * (width_y d - ETP_FWIDTH_REDUCE)" for m :: u8
    using ok by (auto simp: same_arithmetic_def intro!: saturating_area low_nibble_le high_nibble_le)
  have pressure: "(if ucast b + pressure_adjustment d > ETP_MAX_PRESSURE then ETP_MAX_PRESSURE
      else ucast b + pressure_adjustment d) = scaled_pressure b (pressure_adjustment d)" for b :: u8
    using ok by (intro clamped_pressure) (simp add: same_arithmetic_def)
  have features: "report_features d = 0 \<or> report_features d = 1"
    using ok by (auto simp: same_arithmetic_def)
  show ?thesis
    unfolding elan_report_contact_def position mk raw Let_def pressure
    using features True
    by (auto simp: reference_slot_events_def slot_events_def Let_def
        reported_contact_def slot_in_range_def pos area contact_area_def
        located_contact_def EMPTY_CONTACT_def context_params_def report_context_def final_if
        FEATURE_REPORT_MK_def input_trace_def not_less
        simp del: emit_all.simps)
qed

section \<open>The whole report\<close>

definition reference_events :: "elan_tp_data \<Rightarrow> u8 list \<Rightarrow> bool \<Rightarrow> input_event list" where
  "reference_events d packet hp =
     (let info = packet ! ETP_TOUCH_INFO_OFFSET in
      concat (map (reference_slot_events d packet hp info) [0..<ETP_MAX_FINGERS]) @
      [Key BTN_LEFT (ucast (info AND BIT 0)), Key BTN_MIDDLE (ucast (info AND BIT 2)),
       Key BTN_RIGHT (ucast (info AND BIT 1)),
       Abs ABS_DISTANCE (if packet ! ETP_HOVER_INFO_OFFSET AND BIT 6 \<noteq> 0 then 1 else 0),
       PointerEmulation True, Sync])"

lemma input_trace_append: "input_trace n (xs @ ys) = input_trace n xs @ input_trace n ys"
  by (simp add: input_trace_def)

lemma reference_fingers_trace:
  assumes "same_arithmetic d" "slot + n \<le> 5" "29 \<le> length packet"
  shows "final (elan_report_fingers d packet hp info n slot
      (drop (finger_record info slot) packet)) t =
    t @ input_trace Touchpad
      (concat (map (reference_slot_events d packet hp info) [slot..<slot + n]))"
  using assms(2)
proof (induction n arbitrary: slot t)
  case 0
  show ?case by (simp add: input_trace_def)
next
  case (Suc n)
  have len: "finger_record info slot + 5 \<le> length packet"
    using Suc.prems assms(3) present_below_le [of info slot]
    by (simp add: finger_record_def etp_consts)
  have valid: "info AND BIT (3 + slot) \<noteq> 0 \<longleftrightarrow> slot_present info slot"
    by (simp add: BIT_def and_push_bit_eq_0 slot_present_def del: push_bit_of_1)
  have advance: "(if slot_present info slot
        then drop ETP_FINGER_DATA_LEN (drop (finger_record info slot) packet)
        else drop (finger_record info slot) packet) = drop (finger_record info (Suc slot)) packet"
    by (simp add: finger_record_Suc etp_consts add.commute)
  have upt: "[slot..<slot + Suc n] = slot # [Suc slot..<Suc slot + n]"
    by (simp add: upt_rec)
  show ?case
    using Suc.IH [of "Suc slot"] Suc.prems
    by (simp add: Let_def valid advance upt input_trace_append
        reference_contact_trace [OF assms(1) len] del: upt_Suc add_Suc_right)
qed

lemma reference_absolute_trace:
  assumes "same_arithmetic d" "29 \<le> length packet"
  shows "final (elan_report_absolute d packet hp) t =
    t @ wakeup # input_trace Touchpad (reference_events d packet hp)"
proof -
  have "finger_record info 0 = ETP_FINGER_DATA_OFFSET" for info
    by (simp add: finger_record_def present_below_def etp_consts)
  then show ?thesis
    using reference_fingers_trace [of d 0 5 packet hp "packet ! ETP_TOUCH_INFO_OFFSET"
        "t @ [wakeup]"] assms
    by (simp add: elan_report_absolute_def reference_events_def Let_def wakeup_def
        input_trace_append ETP_MAX_FINGERS_def del: emit_all.simps)
qed

section \<open>The shim against the routines\<close>

text \<open>What the shim sends for a complete absolute report.\<close>

definition shim_events :: "elan_tp_data \<Rightarrow> u8 list \<Rightarrow> bool \<Rightarrow> input_event list" where
  "shim_events d packet hp =
     (let info = packet ! ETP_TOUCH_INFO_OFFSET; ctx = report_context d in
      concat (map (\<lambda>slot. slot_events ctx slot
          (reported_contact packet hp (context_params ctx) info slot)) [0..<ETP_MAX_FINGERS]) @
      [Key BTN_LEFT (ucast (info AND BIT 0)), Key BTN_MIDDLE (ucast (info AND BIT 2)),
       Key BTN_RIGHT (ucast (info AND BIT 1)),
       Abs ABS_DISTANCE (if packet ! ETP_HOVER_INFO_OFFSET AND BIT 6 \<noteq> 0 then 1 else 0),
       PointerEmulation True, Sync])"

lemma button_bits:
  "ucast (b AND 7) AND (1 :: u32) = ucast (b AND 1)"
  "ucast (b AND 7) AND (2 :: u32) = ucast (b AND 2)"
  "ucast (b AND 7) AND (4 :: u32) = ucast (b AND 4)" for b :: u8
proof -
  have "ucast (b AND 7) AND (ucast m :: u32) = ucast (b AND m)" if "7 AND m = m" for m :: u8
    using that by (simp add: and.assoc flip: unsigned_and_eq)
  from this [of 1] this [of 2] this [of 4]
  show "ucast (b AND 7) AND (1 :: u32) = ucast (b AND 1)"
    "ucast (b AND 7) AND (2 :: u32) = ucast (b AND 2)"
    "ucast (b AND 7) AND (4 :: u32) = ucast (b AND 4)"
    by simp_all
qed

lemma shim_absolute_trace:
  assumes "r ! REPORT_ID_OFFSET = (if hp then REPORT_ID2 else REPORT_ID)"
    and "absolute_complete r len hp (context_params (report_context d))" "30 < len"
  shows "result (elan_rs_emit_report f0 (report_context d) r len) t = 0"
    and "final (elan_rs_emit_report f0 (report_context d) r len) t =
      t @ wakeup # input_trace Touchpad (shim_events d r hp)"
proof -
  let ?p = "context_params (report_context d)" and ?info = "r ! TOUCH_INFO_OFFSET"
  let ?f = "partial_frame r hp ?p ?info ELAN_RS_MAX_CONTACTS (absolute_header r len)"
  have dec: "elan_rs_decode_report (Some r) len ?p (Some f0) = (0, Some ?f)"
    using assms by (intro decode_report_absolute) (simp_all add: REPORT_ID_OFFSET_def)
  have ev: "touch_events (report_context d) ?f = shim_events d r hp"
    using assms(3)
    by (simp add: touch_events_def shim_events_def Let_def partial_frame_def absolute_header_def
        read_byte_def etp_consts BIT_def button_bits upt_conv_Cons)
  show "result (elan_rs_emit_report f0 (report_context d) r len) t = 0"
    "final (elan_rs_emit_report f0 (report_context d) r len) t =
      t @ wakeup # input_trace Touchpad (shim_events d r hp)"
    by (simp_all add: elan_rs_emit_report_def dec emit_frame_def ev)
      (simp_all add: partial_frame_def absolute_header_def)
qed

section \<open>Properties\<close>

definition slot_out_of_range :: "elan_tp_data \<Rightarrow> u8 list \<Rightarrow> bool \<Rightarrow> nat \<Rightarrow> bool" where
  "slot_out_of_range d packet hp slot \<longleftrightarrow>
     slot_present (packet ! ETP_TOUCH_INFO_OFFSET) slot \<and>
     \<not> slot_in_range packet hp (context_params (report_context d))
         (packet ! ETP_TOUCH_INFO_OFFSET) slot"

lemma shim_slot_out_of_range:
  "slot_out_of_range d packet hp slot \<Longrightarrow>
    slot_events (report_context d) slot (reported_contact packet hp
      (context_params (report_context d)) (packet ! ETP_TOUCH_INFO_OFFSET) slot) =
    [MtSlot slot, MtSlotInactive]"
  by (simp add: slot_events_def reported_contact_def slot_out_of_range_def EMPTY_CONTACT_def)

lemma reference_slot_split:
  "reference_slot_events d packet hp (packet ! ETP_TOUCH_INFO_OFFSET) slot =
    (if slot_out_of_range d packet hp slot then []
     else slot_events (report_context d) slot (reported_contact packet hp
      (context_params (report_context d)) (packet ! ETP_TOUCH_INFO_OFFSET) slot))"
  by (auto simp: reference_slot_events_def slot_out_of_range_def Let_def)

lemma events_agree:
  assumes "\<forall>slot < 5. \<not> slot_out_of_range d r hp slot"
  shows "reference_events d r hp = shim_events d r hp"
  using assms
  by (auto simp: reference_events_def shim_events_def Let_def reference_slot_split
      ETP_MAX_FINGERS_def intro!: arg_cong [where f = concat])

text \<open>
  C10: The shim (Rust decoder plus replay) and the C routine it replaces, \<open>elan_report_absolute\<close>,
  make exactly the same input-core calls in the same order for a complete absolute report all of
  whose touching fingers are inside the pad, normal or high precision, as long as each trace is
  at least 90 units wide and the width, pressure and feature values are of the size the
  controllers report.
\<close>

theorem shim_matches_reference_absolute:
  assumes "r ! REPORT_ID_OFFSET = (if hp then REPORT_ID2 else REPORT_ID)"
    and "absolute_complete r len hp (context_params (report_context d))"
    and "30 < len" "len \<le> length r" and "same_arithmetic d"
    and "\<forall>slot < 5. \<not> slot_out_of_range d r hp slot"
  shows "result (elan_rs_emit_report f0 (report_context d) r len) t = 0 \<and>
    final (elan_rs_emit_report f0 (report_context d) r len) t = final (elan_report_absolute d r hp) t"
  using assms
  by (simp add: shim_absolute_trace reference_absolute_trace events_agree)

lemma sample_report_context:
  "context_params (report_context (sample_tp opt)) = sample_params"
  by (simp add: context_params_def report_context_def sample_tp_def sample_params_def)

lemma sample_report_reference:
  "same_arithmetic (sample_tp opt)"
  "\<forall>slot < 5. \<not> slot_out_of_range (sample_tp opt) sample_touch_report False slot"
proof -
  show "same_arithmetic (sample_tp opt)"
    by (simp add: same_arithmetic_def sample_tp_def)
  have "\<forall>slot \<in> set [0..<5]. \<not> (slot_present (sample_touch_report ! ETP_TOUCH_INFO_OFFSET) slot \<and>
     \<not> slot_in_range sample_touch_report False sample_params
         (sample_touch_report ! ETP_TOUCH_INFO_OFFSET) slot)"
    by code_simp
  then show "\<forall>slot < 5. \<not> slot_out_of_range (sample_tp opt) sample_touch_report False slot"
    by (auto simp: slot_out_of_range_def sample_report_context)
qed

text \<open>The witnesses run on the sample device on an I2C bus.\<close>

abbreviation sample_device :: elan_tp_data where
  "sample_device \<equiv> sample_tp (elan_i2c_ops (sample_environment []))"

theorem shim_matches_reference_absolute_witness:
  "final (elan_rs_emit_report EMPTY_FRAME (report_context sample_device) sample_touch_report 32) [] =
    final (elan_report_absolute sample_device sample_touch_report False) []"
proof -
  have "32 \<le> length sample_touch_report"
    by (simp add: sample_touch_report_def)
  then show ?thesis
    using shim_matches_reference_absolute [of sample_touch_report False 32 sample_device
        EMPTY_FRAME "[]"] sample_report_complete sample_report_reference
    by (simp add: sample_report_context)
qed

text \<open>
  C34: Where they differ: a touching finger outside the pad. The shim releases its slot, the C
  routine leaves the slot as it was; every other call is the same, in the same order.
\<close>

theorem shim_releases_out_of_range:
  assumes "r ! REPORT_ID_OFFSET = (if hp then REPORT_ID2 else REPORT_ID)"
    and "absolute_complete r len hp (context_params (report_context d))"
    and "30 < len" "len \<le> length r" and "same_arithmetic d"
  shows "\<exists>per_slot tail.
    final (elan_rs_emit_report f0 (report_context d) r len) t = t @ wakeup # input_trace Touchpad
      (concat (map (\<lambda>slot. if slot_out_of_range d r hp slot then [MtSlot slot, MtSlotInactive]
        else per_slot slot) [0..<5]) @ tail) \<and>
    final (elan_report_absolute d r hp) t = t @ wakeup # input_trace Touchpad
      (concat (map (\<lambda>slot. if slot_out_of_range d r hp slot then []
        else per_slot slot) [0..<5]) @ tail)"
proof -
  let ?per_slot = "\<lambda>slot. slot_events (report_context d) slot (reported_contact r hp
      (context_params (report_context d)) (r ! ETP_TOUCH_INFO_OFFSET) slot)"
  have "shim_events d r hp = concat (map (\<lambda>slot. if slot_out_of_range d r hp slot
      then [MtSlot slot, MtSlotInactive] else ?per_slot slot) [0..<5]) @ drop (length
      (concat (map ?per_slot [0..<5]))) (shim_events d r hp)"
    by (auto simp: shim_events_def Let_def shim_slot_out_of_range ETP_MAX_FINGERS_def
        intro!: arg_cong [where f = concat])
  moreover have "reference_events d r hp = concat (map (\<lambda>slot. if slot_out_of_range d r hp slot
      then [] else ?per_slot slot) [0..<5]) @ drop (length
      (concat (map ?per_slot [0..<5]))) (shim_events d r hp)"
    by (auto simp: shim_events_def reference_events_def Let_def reference_slot_split
        ETP_MAX_FINGERS_def intro!: arg_cong [where f = concat])
  ultimately show ?thesis
    using shim_absolute_trace(2) [OF assms(1-3)] reference_absolute_trace [OF assms(5), of r hp t]
      assms(3,4)
    by (intro exI [of _ ?per_slot] exI [of _ "drop (length (concat (map ?per_slot [0..<5])))
        (shim_events d r hp)"]) simp
qed

definition sample_far_report :: "u8 list" where
  "sample_far_report = [0, 0, 0x5d, 0x09, 0xf2, 0x34, 0x56, 0x43, 100] @ replicate 23 0"

lemma sample_far_report_complete:
  "sample_far_report ! REPORT_ID_OFFSET = REPORT_ID"
  "absolute_complete sample_far_report 32 False sample_params"
  "slot_present (sample_far_report ! ETP_TOUCH_INFO_OFFSET) 0"
  "\<not> slot_in_range sample_far_report False sample_params
    (sample_far_report ! ETP_TOUCH_INFO_OFFSET) 0"
  by code_simp+

theorem shim_releases_out_of_range_witness:
  "slot_out_of_range sample_device sample_far_report False 0 \<and>
    (\<exists>per_slot tail. final (elan_report_absolute sample_device sample_far_report False) [] =
      wakeup # input_trace Touchpad (concat (map (\<lambda>slot.
        if slot_out_of_range sample_device sample_far_report False slot then []
        else per_slot slot) [0..<5]) @ tail))"
proof -
  have "32 \<le> length sample_far_report"
    by (simp add: sample_far_report_def)
  then have "\<exists>per_slot tail.
    final (elan_rs_emit_report EMPTY_FRAME (report_context sample_device) sample_far_report 32)
      [] = [] @ wakeup # input_trace Touchpad (concat (map (\<lambda>slot.
        if slot_out_of_range sample_device sample_far_report False slot
        then [MtSlot slot, MtSlotInactive] else per_slot slot) [0..<5]) @ tail) \<and>
    final (elan_report_absolute sample_device sample_far_report False) [] =
      [] @ wakeup # input_trace Touchpad (concat (map (\<lambda>slot.
        if slot_out_of_range sample_device sample_far_report False slot then []
        else per_slot slot) [0..<5]) @ tail)"
    using sample_far_report_complete sample_report_reference(1)
    by (intro shim_releases_out_of_range) (simp_all add: sample_report_context)
  then show ?thesis
    using sample_far_report_complete
    by (auto simp: slot_out_of_range_def sample_report_context)
qed


definition sample_trackpoint_report :: "u8 list" where
  "sample_trackpoint_report = [0, 0, 0x5e, 0x05, 0x00, 0x80, 0x06, 10, 3] @ replicate 23 0"


end
