(* ===== verification/Elan_Firmware.thy ===== *)
theory Elan_Firmware
  imports Elan_Init
begin

text \<open>
  The firmware updater of \<open>upstream/elan_i2c_core.c\<close>: page checksums, the page loop with its
  retries, \<open>__elan_update_firmware\<close> (\<open>elan_update_firmware_steps\<close>) and
  \<open>elan_update_firmware\<close>. The image is the list of bytes of \<open>struct firmware\<close>; a page pointer is
  the suffix it addresses.
\<close>

section \<open>Pages\<close>

text \<open>\<open>for (j = 0; j < n; j += 2) checksum += (page[j + 1] << 8) | page[j]\<close>\<close>

definition page_checksum :: "u8 list \<Rightarrow> nat \<Rightarrow> u16" where
  "page_checksum page n =
     fold (\<lambda>k checksum. checksum + (push_bit 8 (ucast (page ! (2 * k + 1))) OR ucast (page ! (2 * k))))
       [0..<(n + 1) div 2] 0"

definition elan_write_fw_block :: "u16 \<Rightarrow> u8 list \<Rightarrow> u16 \<Rightarrow> nat \<Rightarrow> int drv" where
  "elan_write_fw_block page_size page checksum idx =
     do_retry ETP_RETRY_COUNT (\<lambda>error. error = 0)
       (via_ops (\<lambda>opt c. write_fw_block opt c page_size page checksum idx)) (return ())"

text \<open>
  The page loop. \<open>n\<close> counts the pages left, \<open>i\<close> is the page index and \<open>sw_checksum\<close> the running
  sum.
\<close>

fun write_pages :: "u8 list \<Rightarrow> nat \<Rightarrow> nat \<Rightarrow> u16 \<Rightarrow> (int \<times> u16) drv" where
  "write_pages fw 0 i sw_checksum = return (0, sw_checksum)"
| "write_pages fw (Suc n) i sw_checksum = do {
     size \<leftarrow> getd fw_page_size;
     let page = drop (i * unat size) fw;
     let checksum = page_checksum page (unat size);
     error \<leftarrow> elan_write_fw_block size page checksum i;
     if error \<noteq> 0 then return (error, sw_checksum)
     else write_pages fw n (Suc i) (sw_checksum + checksum)
   }"

section \<open>The update\<close>

text \<open>\<open>None\<close> is the division by a page size of zero, which traps.\<close>

definition elan_update_firmware_steps :: "u8 list \<Rightarrow> int option drv" where
  "elan_update_firmware_steps fw = do {
     (ic, iap, size) \<leftarrow> getd (\<lambda>d. (ic_type d, iap_version d, fw_page_size d));
     error \<leftarrow> via_ops (\<lambda>opt c. prepare_fw_update opt c ic iap size);
     if error \<noteq> 0 then return (Some error) else do {
     let iap_start_addr = le16_to_cpu (drop (ETP_IAP_START_ADDR * 2) fw);
     if size = 0 then divide_by_zero else do {
     let boot_page_count = (of_nat (unat iap_start_addr * 2 div unat size) :: u16);
     count \<leftarrow> getd fw_validpage_count;
     (error, sw_checksum) \<leftarrow>
       write_pages fw (unat count - unat boot_page_count) (unat boot_page_count) 0;
     if error \<noteq> 0 then return (Some error) else do {
     xio (notify (Msleep 600));
     error \<leftarrow> via_ops finish_fw_update;
     if error \<noteq> 0 then return (Some error) else do {
     (error, checksum) \<leftarrow> via_ops (\<lambda>opt c. get_checksum opt c True 0);
     if error \<noteq> 0 then return (Some error)
     else if sw_checksum \<noteq> checksum then return (Some (- EIO))
     else return (Some 0)
     }}}}
   }"

definition elan_update_firmware :: "u8 list \<Rightarrow> int option drv" where
  "elan_update_firmware fw = do {
     xio (notify (Sched DisableIrq));
     modd (\<lambda>d. d\<lparr>in_fw_update := True\<rparr>);
     outcome \<leftarrow> elan_update_firmware_steps fw;
     case outcome of
       None \<Rightarrow> return None
     | Some retval \<Rightarrow> do {
         (if retval \<noteq> 0 then do { _ \<leftarrow> via_ops iap_reset; return () }
          else do { _ \<leftarrow> elan_initialize False; _ \<leftarrow> elan_query_device_info; return () });
         modd (\<lambda>d. d\<lparr>in_fw_update := False\<rparr>);
         xio (notify (Sched EnableIrq));
         return (Some retval)
       }
   }"

section \<open>Checksums\<close>

lemma page_checksum_upto:
  "fold (\<lambda>k checksum. checksum + (push_bit 8 (ucast (page ! (2 * k + 1))) OR ucast (page ! (2 * k))))
       [0..<m] c = c + (\<Sum>k<m. le16_to_cpu [page ! (2 * k), page ! (2 * k + 1)])"
  for c :: u16
  by (induction m) (simp_all add: le16_to_cpu_def or.commute add.assoc)

lemma page_checksum_sum:
  "page_checksum page n = (\<Sum>k<(n + 1) div 2. le16_to_cpu [page ! (2 * k), page ! (2 * k + 1)])"
  by (simp only: page_checksum_def page_checksum_upto add_0)

text \<open>The checksum of the pages \<open>i\<close> to \<open>i + n - 1\<close> of an image.\<close>

definition image_checksum :: "u8 list \<Rightarrow> nat \<Rightarrow> nat \<Rightarrow> nat \<Rightarrow> u16" where
  "image_checksum fw page_size i n =
     (\<Sum>k<n. page_checksum (drop ((i + k) * page_size) fw) page_size)"

lemma image_checksum_Suc:
  "image_checksum fw page_size i (Suc n) =
    page_checksum (drop (i * page_size) fw) page_size + image_checksum fw page_size (Suc i) n"
  by (simp only: image_checksum_def sum.lessThan_Suc_shift) simp

section \<open>The page loop\<close>

lemma write_fw_block_keeps [rel_rules]:
  "state_io_rel (keeps g) (elan_write_fw_block sz page csum i)"
  unfolding elan_write_fw_block_def by (intro rel_rules)

lemma tp_write_fw_block [simp]: "tp (final (elan_write_fw_block sz page csum i) s) = tp s"
  using io_relD [OF write_fw_block_keeps [of "\<lambda>d. d"]] by (simp add: keeps_def)

lemma write_pages_keeps [rel_rules]: "state_io_rel (keeps g) (write_pages fw n i sw)"
  by (induction n arbitrary: i sw) (auto simp: Let_def intro!: rel_rules)

text \<open>A page was acknowledged when, during the run, some attempt to write it returned 0.\<close>

definition page_written :: "driver \<Rightarrow> driver \<Rightarrow> u8 list \<Rightarrow> nat \<Rightarrow> bool" where
  "page_written s0 s fw i \<longleftrightarrow> (let d = tp s0; sz = fw_page_size d; page = drop (i * unat sz) fw in
     acknowledged (io_trace s0) (io_trace s)
       (write_fw_block (ops d) (client d) sz page (page_checksum page (unat sz)) i) 0)"

text \<open>The update reads only these parts of the structure.\<close>

definition update_fields :: "elan_tp_data \<Rightarrow> elan_transport_ops \<times> i2c_client \<times> u16 \<times> u16" where
  "update_fields d = (ops d, client d, fw_page_size d, fw_validpage_count d)"

lemma page_written_mono:
  assumes "page_written s1 s fw i" "update_fields (tp s1) = update_fields (tp s0)"
    and "extends (io_trace s0) (io_trace s1)" "extends (io_trace s) (io_trace s')"
  shows "page_written s0 s' fw i"
proof -
  have eqs: "ops (tp s1) = ops (tp s0)" "client (tp s1) = client (tp s0)"
      "fw_page_size (tp s1) = fw_page_size (tp s0)"
    using assms(2) by (simp_all add: update_fields_def)
  show ?thesis
    using assms(1) unfolding page_written_def Let_def eqs
    by (rule acknowledged_mono [OF _ assms(3,4)])
qed

context transport
begin

lemma write_fw_block_wp:
  assumes "ops (tp s) = T" "sz = fw_page_size (tp s)" "page = drop (i * unat sz) fw"
    "csum = page_checksum page (unat sz)"
  shows "wp (elan_write_fw_block sz page csum i)
    (\<lambda>e s'. tp s' = tp s \<and> extends (io_trace s) (io_trace s') \<and> (e = 0 \<longrightarrow> page_written s s' fw i)) s"
proof -
  let ?body = "via_ops (\<lambda>opt c. write_fw_block opt c sz page csum i)"
  have body: "state_io_rel (quiet_run T) ?body"
    unfolding io_rel_iff quiet_run_def
    using io_relD [OF bus_program_extends [OF bus_write_fw_block]] by simp
  have pause: "state_io_rel (quiet_run T) (return ())"
    by (intro io_rel_return quiet_run_preorder)
  have "quiet_run T s (final (elan_write_fw_block sz page csum i) s)"
    unfolding elan_write_fw_block_def
    by (rule io_relD) (intro io_rel_do_retry quiet_run_preorder body pause)
  moreover have "page_written s (final (elan_write_fw_block sz page csum i) s) fw i"
    if ok: "result (elan_write_fw_block sz page csum i) s = 0"
  proof -
    obtain s' where s': "quiet_run T s s'" "result ?body s' = 0"
      "final (elan_write_fw_block sz page csum i) s = final ?body s'"
      using do_retry_success [OF ok [unfolded elan_write_fw_block_def] refl body pause
        quiet_run_preorder] by (auto simp: elan_write_fw_block_def)
    then show ?thesis
      using assms by (auto simp: page_written_def quiet_run_def Let_def intro: acknowledgedI)
  qed
  ultimately show ?thesis
    using assms(1) by (simp add: wp_def quiet_run_def)
qed

lemma write_pages_wp:
  assumes "ops (tp s) = T"
  shows "wp (write_pages fw n i sw) (\<lambda>r s'. tp s' = tp s \<and> extends (io_trace s) (io_trace s') \<and>
    (fst r = 0 \<longrightarrow> snd r = sw + image_checksum fw (unat (fw_page_size (tp s))) i n \<and>
      (\<forall>k<n. page_written s s' fw (i + k)))) s"
  using assms
proof (induction n arbitrary: i sw s)
  case 0
  then show ?case by (simp add: wp_simps image_checksum_def)
next
  case (Suc n)
  show ?case
    unfolding write_pages.simps
    apply (intro wp_intros wp_mono [OF write_fw_block_wp] wp_mono [OF Suc.IH] refl)
    using Suc.prems apply (auto simp: image_checksum_Suc add.assoc less_Suc_eq_0_disj
        intro: extends_trans)
     apply (erule page_written_mono; simp)
    apply (drule spec, drule (1) mp, erule page_written_mono; simp)
    done
qed

lemma write_pages_balanced: "state_io_rel (drv_rel T balanced) (write_pages fw n i sw)"
  by (induction n arbitrary: i sw)
    (auto simp: Let_def elan_write_fw_block_def intro!: rel_rules balanced_ops)

lemma update_steps_balanced:
  "state_io_rel (drv_rel T balanced) (elan_update_firmware_steps fw)"
  unfolding elan_update_firmware_steps_def divide_by_zero_def
  by (intro rel_rules balanced_ops write_pages_balanced) (auto intro!: rel_rules balanced_ops)

lemma update_firmware_wp:
  assumes "ops (tp s) = T"
  shows "wp (elan_update_firmware fw) (\<lambda>r s'. r \<noteq> None \<longrightarrow>
    ops (tp s') = T \<and> client (tp s') = client (tp s) \<and> \<not> in_fw_update (tp s') \<and>
    balanced (io_trace s) (io_trace s')) s"
  unfolding elan_update_firmware_def
  by (intro wp_intros wp_rel [OF update_steps_balanced]
      wp_rel [OF drv_rel_bus_balanced [OF initialize_bus]]
      wp_rel [OF drv_rel_bus_balanced [OF query_device_info_bus]]
      wp_via_rel [where f = iap_reset and R = balanced and T = T] balanced_ops)
    (use assms in \<open>auto simp: drv_rel_def balanced_def\<close>)

end

section \<open>What success means\<close>

definition boot_page :: "elan_tp_data \<Rightarrow> u8 list \<Rightarrow> nat" where
  "boot_page d fw = unat (of_nat (unat (le16_to_cpu (drop (ETP_IAP_START_ADDR * 2) fw)) * 2 div
     unat (fw_page_size d)) :: u16)"

text \<open>
  During the run every page from the boot page on was acknowledged, the update was finished, and
  the controller reported the checksum of exactly these pages.
\<close>

definition firmware_verified :: "driver \<Rightarrow> driver \<Rightarrow> u8 list \<Rightarrow> bool" where
  "firmware_verified s0 s fw \<longleftrightarrow> (let d = tp s0; boot = boot_page d fw;
       n = unat (fw_validpage_count d) - boot in
     (\<forall>k<n. page_written s0 s fw (boot + k)) \<and>
     acknowledged (io_trace s0) (io_trace s) (finish_fw_update (ops d) (client d)) 0 \<and>
     acknowledged (io_trace s0) (io_trace s) (get_checksum (ops d) (client d) True 0)
       (0, image_checksum fw (unat (fw_page_size d)) boot n))"

lemma firmware_verifiedI:
  assumes "\<forall>k<unat (fw_validpage_count (tp s)) - boot_page (tp s) fw.
      page_written s1 s2 fw (boot_page (tp s) fw + k)"
    and "tp s1 = tp s" "extends (io_trace s) (io_trace s1)" "extends (io_trace s2) (io_trace s')"
    and "acknowledged (io_trace s) (io_trace s') (finish_fw_update (ops (tp s)) (client (tp s))) 0"
    and "acknowledged (io_trace s) (io_trace s') (get_checksum (ops (tp s)) (client (tp s)) True 0)
      (0, image_checksum fw (unat (fw_page_size (tp s))) (boot_page (tp s) fw)
        (unat (fw_validpage_count (tp s)) - boot_page (tp s) fw))"
  shows "firmware_verified s s' fw"
proof -
  have "update_fields (tp s1) = update_fields (tp s)"
    by (simp add: assms(2))
  then have "page_written s s' fw (boot_page (tp s) fw + k)"
    if "k < unat (fw_validpage_count (tp s)) - boot_page (tp s) fw" for k
    using page_written_mono [OF _ _ assms(3,4)] assms(1) that by blast
  then show ?thesis
    unfolding firmware_verified_def Let_def using assms(5,6) by blast
qed

lemma firmware_verified_mono:
  assumes "firmware_verified s1 s fw" "update_fields (tp s1) = update_fields (tp s0)"
    and "extends (io_trace s0) (io_trace s1)" "extends (io_trace s) (io_trace s')"
  shows "firmware_verified s0 s' fw"
proof -
  have eqs: "ops (tp s1) = ops (tp s0)" "client (tp s1) = client (tp s0)"
      "fw_page_size (tp s1) = fw_page_size (tp s0)"
      "fw_validpage_count (tp s1) = fw_validpage_count (tp s0)"
    using assms(2) by (simp_all add: update_fields_def)
  note v = assms(1) [unfolded firmware_verified_def boot_page_def Let_def eqs]
  show ?thesis
    unfolding firmware_verified_def boot_page_def Let_def
    by (intro conjI allI impI page_written_mono [OF _ assms(2-4)]
        acknowledged_mono [OF _ assms(3,4)]) (use v in blast)+
qed

context transport
begin

lemma update_steps_wp:
  assumes "ops (tp s) = T"
  shows "wp (elan_update_firmware_steps fw) (\<lambda>r s'. tp s' = tp s \<and> extends (io_trace s) (io_trace s') \<and>
    (r = None \<longrightarrow> fw_page_size (tp s) = 0) \<and> (r = Some 0 \<longrightarrow> firmware_verified s s' fw)) s"
  unfolding elan_update_firmware_steps_def divide_by_zero_def
  by (intro wp_via_run [where T = T] wp_bindI wp_ifI wp_returnI wp_getdI wp_letI wp_xioI wp_notifyI
      wp_case_prodI wp_mono [OF write_pages_wp] extends_ops)
    (use assms in \<open>auto elim!: extendsE intro!: firmware_verifiedI [unfolded boot_page_def]
  intro: acknowledgedI\<close>)

lemma update_success_wp:
  assumes "ops (tp s) = T"
  shows "wp (elan_update_firmware fw) (\<lambda>r s'. (r = None \<longrightarrow> fw_page_size (tp s) = 0) \<and>
    (r = Some 0 \<longrightarrow> firmware_verified s s' fw)) s"
proof -
  let ?s1 = "s\<lparr>io_trace := io_trace s @ [(Sched DisableIrq, 0, [])],
    tp := (tp s)\<lparr>in_fw_update := True\<rparr>\<rparr>"
  have fields: "update_fields (tp ?s1) = update_fields (tp s)"
    by (simp add: update_fields_def)
  have "extends (io_trace s) (io_trace ?s1)"
    by simp
  note lift = firmware_verified_mono [OF _ fields this]
  show ?thesis
    unfolding elan_update_firmware_def
    by (intro wp_via_run [where T = T] wp_bindI wp_ifI wp_returnI wp_getdI wp_moddI wp_xioI wp_notifyI
      wp_case_optionI wp_mono [OF update_steps_wp] wp_drv_run [OF drv_rel_bus_extends [OF initialize_bus]]
      wp_drv_run [OF drv_rel_bus_extends [OF query_device_info_bus]] extends_ops)
     (use assms in \<open>auto elim!: extendsE\<close>, (erule lift, simp)+)
qed

end

section \<open>Properties\<close>

text \<open>
  C6: \<open>elan_update_firmware\<close> returns success only when every page from the boot page on was
  acknowledged by the controller, the update was finished without error, and the controller's own
  checksum is the sum over exactly these pages.
\<close>

theorem update_firmware_verified:
  assumes "bound_to E s" and "result (elan_update_firmware fw) s = Some 0"
  shows "firmware_verified s (final (elan_update_firmware fw) s) fw"
  using transport.update_success_wp [OF bound_to_transport [OF assms(1)] refl, of fw] assms(2)
  by (simp add: wp_def)

text \<open>
  A five-page image whose last page starts the main firmware, and an SMBus controller in IAP mode
  that acknowledges the page and reports its checksum, 0x00C0.
\<close>

definition sample_image :: "u8 list" where
  "sample_image = replicate 256 0 @ [64, 0, 0, 0, 0, 0, 128, 0] @ replicate 56 0"

definition sample_update :: driver where
  "sample_update = (let s = sample_driver (elan_smbus_ops (sample_environment [0x00, 0xC0])) in
     s\<lparr>tp := (tp s)\<lparr>fw_validpage_count := 5, fw_page_size := 64\<rparr>\<rparr>)"

lemma sample_image_facts:
  "page_checksum (drop 256 sample_image) 64 = 0x00C0"
  "le16_to_cpu (drop 262 sample_image) = 128"
  by code_simp+

lemma sample_block_replies:
  "answer (sample_environment bytes) t (Bus (SmbusReadBlock cmd)) =
    (int (min 32 (length bytes)), take 32 bytes)"
  "answer (sample_environment bytes) t (Bus (SmbusWriteByte b)) = (0, [])"
  "answer (sample_environment bytes) t (Bus (SmbusWriteBlock cmd n v)) = (0, [])"
  by (simp_all add: sample_environment_def sample_reply_def)

lemma sample_fill: "fill zeroed_block I2C_SMBUS_BLOCK_MAX [0, 0xC0] = [0, 0xC0] @ replicate 30 0"
  by code_simp

lemma sample_update_ops:
  fixes c t v
  defines "T \<equiv> elan_smbus_ops (sample_environment [0x00, 0xC0])"
  shows "result (prepare_fw_update T c ic iap sz) t = 0"
    and "result (write_fw_block T c sz page csum i) t = 0"
    and "result (finish_fw_update T c) t = 0"
    and "result (get_checksum T c True v) t = (0, 0x00C0)"
  by (simp_all add: T_def elan_smbus_ops_def smbus_op_defs elan_smbus_finish_fw_update_def
      elan_smbus_iap_get_mode_def elan_smbus_set_flash_key_def elan_smbus_iap_reset_def
      i2c_smbus_write_byte_def i2c_smbus_write_block_data_def sample_block_replies sample_fill
      be16_to_cpu_def etp_consts result_if final_if)

lemma sample_update_result: "result (elan_update_firmware sample_image) sample_update = Some 0"
proof -
  let ?s = "\<lambda>t. sample_update\<lparr>io_trace := t, tp := (tp sample_update)\<lparr>in_fw_update := True\<rparr>\<rparr>"
  have page: "result (elan_write_fw_block 64 page csum i) (?s t) = 0" for page csum i t
    by (simp add: elan_write_fw_block_def do_retry.simps result_if sample_update_def
        sample_driver_def sample_tp_def Let_def sample_update_ops)
  have "result (elan_update_firmware_steps sample_image) (?s t) = Some 0" for t
    using page [unfolded sample_update_def sample_driver_def sample_tp_def Let_def]
    by (simp add: elan_update_firmware_steps_def sample_image_facts result_if final_if
        sample_update_def sample_driver_def sample_tp_def Let_def sample_update_ops
        ETP_IAP_START_ADDR_def)
  then show ?thesis
    by (simp add: elan_update_firmware_def)
qed

theorem update_firmware_verified_witness:
  "firmware_verified sample_update (final (elan_update_firmware sample_image) sample_update)
    sample_image"
proof (rule update_firmware_verified [OF _ sample_update_result])
  show "bound_to (sample_environment [0x00, 0xC0]) sample_update"
    by (simp add: bound_to_def sample_update_def sample_driver_def sample_tp_def Let_def)
qed

text \<open>
  C26: On either transport an update that returns, whether it succeeded or failed and wherever it
  failed, clears \<open>in_fw_update\<close>, leaves the interrupt disable depth and the mutex as they were, and
  keeps the transport.
\<close>

theorem update_firmware_restores:
  assumes "bound_to E s" and "fw_page_size (tp s) \<noteq> 0"
  shows "(\<exists>r. result (elan_update_firmware fw) s = Some r) \<and>
    (let s' = final (elan_update_firmware fw) s in
      \<not> in_fw_update (tp s') \<and> ops (tp s') = ops (tp s) \<and>
      irq_depth (io_trace s') = irq_depth (io_trace s) \<and>
      mutex_depth (io_trace s') = mutex_depth (io_trace s))"
proof -
  have ops: "transport (ops (tp s))"
    by (rule bound_to_transport [OF assms(1)])
  show ?thesis
    using transport.update_success_wp [OF ops refl, of fw]
      transport.update_firmware_wp [OF ops refl, of fw] assms(2)
    by (auto simp: wp_def balanced_def Let_def)
qed

theorem update_firmware_restores_witness:
  "irq_depth (io_trace (final (elan_update_firmware sample_image)
    (sample_driver (elan_i2c_ops (sample_environment []))))) = 0"
  using update_firmware_restores [of "sample_environment []"
      "sample_driver (elan_i2c_ops (sample_environment []))" sample_image]
  by (simp add: sample_driver_def sample_tp_def Let_def bound_to_def)



end
