(* ===== verification/Elan_Recovery.thy ===== *)
theory Elan_Recovery
  imports Elan_Report Elan_Init
begin

text \<open>
  The runtime watchdog, the in-place recovery and the interrupt handler of
  \<open>upstream/elan_i2c_core.c\<close>. The phase of a recovery and the watchdog's decision come from the
  Rust core (theory \<open>Elan_Rust_Core\<close>); a C \<open>int\<close> passed to it is the 32-bit word of its value.
\<close>

section \<open>Recovery\<close>

definition ETP_WATCHDOG_REPORT_ERRORS :: u32
  where [etp_consts]: "ETP_WATCHDOG_REPORT_ERRORS = 3"

definition elan_release_inputs :: "unit drv" where
  "elan_release_inputs = do {
     xio (emit_all Touchpad (concat (map (\<lambda>i. [MtSlot i, MtSlotInactive]) [0..<ETP_MAX_FINGERS])));
     xio (emit_all Touchpad
       [Key BTN_LEFT 0, Key BTN_MIDDLE 0, Key BTN_RIGHT 0, PointerEmulation True, Sync]);
     trackpoint \<leftarrow> getd tp_input;
     if trackpoint \<noteq> None
     then xio (emit_all Trackpoint [Key BTN_LEFT 0, Key BTN_MIDDLE 0, Key BTN_RIGHT 0, Sync])
     else return ()
   }"

definition elan_watchdog_ping :: "int drv" where
  "elan_watchdog_ping =
     do_retry ETP_RETRY_COUNT (\<lambda>error. error = 0) (via_ops health_check)
       (xio (notify (Msleep 30)))"

definition elan_recover_locked :: "int drv" where
  "elan_recover_locked = do {
     let phase = elan_rs_recovery_next ELAN_RS_RECOVERY_IDLE 0;
     if phase \<noteq> ELAN_RS_RECOVERY_RELEASE_INPUT then return (- EPROTO) else do {
     elan_release_inputs;
     modd (\<lambda>d. d\<lparr>report_errors := 0\<rparr>);
     let phase = elan_rs_recovery_next phase 0;
     if phase \<noteq> ELAN_RS_RECOVERY_REINITIALIZE then return (- EPROTO) else do {
     error \<leftarrow> elan_initialize False;
     let phase = elan_rs_recovery_next phase (word_of_int error);
     if phase = ELAN_RS_RECOVERY_FAILED then return error else
     if phase \<noteq> ELAN_RS_RECOVERY_VERIFY then return (- EPROTO) else do {
     error \<leftarrow> elan_watchdog_ping;
     let phase = elan_rs_recovery_next phase (word_of_int error);
     if phase = ELAN_RS_RECOVERY_FAILED then return error else
     if phase \<noteq> ELAN_RS_RECOVERY_RESTORE_MODE then return (- EPROTO) else do {
     m \<leftarrow> getd mode;
     error \<leftarrow> via_ops (\<lambda>opt c. set_mode opt c m);
     let phase = elan_rs_recovery_next phase (word_of_int error);
     if phase = ELAN_RS_RECOVERY_FAILED then return error else
     if phase \<noteq> ELAN_RS_RECOVERY_COMPLETE then return (- EPROTO) else return 0
     }}}}
   }"

section \<open>The watchdog\<close>

text \<open>\<open>atomic_read\<close> returns a signed \<open>int\<close>; the Rust core takes it as \<open>u32\<close>.\<close>

definition elan_queue_watchdog :: "unit drv" where
  "elan_queue_watchdog = do {
     (enabled, users) \<leftarrow> getd (\<lambda>d. (watchdog_enabled d, open_count d));
     if enabled \<and> 0 < sint users then xio (notify (Sched ScheduleWork)) else return ()
   }"

definition elan_watchdog_work :: "unit drv" where
  "elan_watchdog_work = do {
     xio (notify (Sched MutexLock));
     action \<leftarrow> getd (\<lambda>d. elan_rs_watchdog_action (open_count d) 0 (report_errors d)
       ETP_WATCHDOG_REPORT_ERRORS);
     (if action = ELAN_RS_WATCHDOG_RECOVER then do {
        xio (notify (Sched DisableIrq));
        error \<leftarrow> elan_recover_locked;
        (if error \<noteq> 0 then return ()
         else modd (\<lambda>d. d\<lparr>watchdog_recoveries := watchdog_recoveries d + 1\<rparr>));
        xio (notify (Sched EnableIrq))
      } else return ());
     xio (notify (Sched MutexUnlock))
   }"

definition elan_cancel_watchdog :: "unit drv" where
  "elan_cancel_watchdog = xio (notify (Sched CancelWorkSync))"

definition elan_input_open :: "int drv" where
  "elan_input_open = do {
     modd (\<lambda>d. d\<lparr>open_count := open_count d + 1\<rparr>);
     return 0
   }"

definition elan_input_close :: "unit drv" where
  "elan_input_close = do {
     modd (\<lambda>d. d\<lparr>open_count := open_count d - 1\<rparr>);
     users \<leftarrow> getd open_count;
     if users = 0 then xio (notify (Sched CancelWorkSync)) else return ()
   }"

section \<open>The interrupt handler\<close>

text \<open>
  \<open>report\<close> and the decoder's frame are locals; what they hold before is taken from the
  environment and from \<open>stack_frame\<close>. The return value is always \<open>IRQ_HANDLED\<close>.
\<close>

definition elan_isr :: "environment \<Rightarrow> elan_rs_frame \<Rightarrow> unit drv" where
  "elan_isr E stack_frame = do {
     updating \<leftarrow> getd in_fw_update;
     if updating then xio (notify (Sched Complete)) else do {
       len \<leftarrow> getd report_len;
       (error, report) \<leftarrow> via_ops (\<lambda>opt c.
         get_report opt c (uninitialized E ETP_MAX_REPORT_LEN) len);
       if error \<noteq> 0 then do {
         errors \<leftarrow> getd (\<lambda>d. report_errors d + 1);
         modd (\<lambda>d. d\<lparr>report_errors := errors\<rparr>);
         enabled \<leftarrow> getd watchdog_enabled;
         users \<leftarrow> getd open_count;
         if enabled \<and> elan_rs_watchdog_action users 0 errors ETP_WATCHDOG_REPORT_ERRORS =
           ELAN_RS_WATCHDOG_RECOVER
         then elan_queue_watchdog
         else return ()
       } else do {
         modd (\<lambda>d. d\<lparr>report_errors := 0\<rparr>);
         modd (\<lambda>d. d\<lparr>report_count := report_count d + 1\<rparr>);
         context \<leftarrow> getd report_context;
         error \<leftarrow> xio (elan_rs_emit_report stack_frame context report (unat len));
         return ()
       }
     }
   }"

section \<open>Statuses of the steps\<close>

lemma errno_status_word: "errno_status e \<Longrightarrow> sint (word_of_int e :: s32) = e"
  by (intro sint_of_int_small) (simp_all add: errno_status_def MAX_ERRNO_def)

text \<open>With a status the Rust state machine fails exactly on an error.\<close>

lemma recovery_next_status:
  assumes "errno_status e"
  shows "elan_rs_recovery_next phase (word_of_int e) =
    (if e \<noteq> 0 then ELAN_RS_RECOVERY_FAILED else elan_rs_recovery_next phase 0)"
  using assms errno_status_word [OF assms]
  by (auto simp: elan_rs_recovery_next_def errno_status_def)

text \<open>What every step promises: an errno status, and the same transport.\<close>

definition checked :: "elan_transport_ops \<Rightarrow> int \<Rightarrow> driver \<Rightarrow> bool" where
  "checked T r s \<longleftrightarrow> errno_status r \<and> ops (tp s) = T"

lemma wp_via_checked:
  assumes "\<And>c t. errno_status (result (f T c) t)" "ops (tp s) = T"
    and "\<And>r t. errno_status r \<Longrightarrow> Q r (s\<lparr>io_trace := t\<rparr>)"
  shows "wp (via_ops f) Q s"
  using assms by (simp add: wp_def)

lemma wp_op_out_checked:
  assumes "\<And>c v t. errno_status (fst (result (f T c v) t))" "ops (tp s) = T"
    and "\<And>r v t. errno_status r \<Longrightarrow> Q r (s\<lparr>tp := put v (tp s), io_trace := t\<rparr>)"
  shows "wp (op_out get put f) Q s"
  using assms by (simp add: wp_def)

text \<open>
  Under an errno status the phase machine is straight-line code: release, reset the error count,
  initialise, ping, set the mode, stopping at the first error.
\<close>

definition straight_recovery :: "int drv" where
  "straight_recovery = do {
     elan_release_inputs;
     modd (\<lambda>d. d\<lparr>report_errors := 0\<rparr>);
     e \<leftarrow> elan_initialize False;
     if e \<noteq> 0 then return e else do {
       e \<leftarrow> elan_watchdog_ping;
       if e \<noteq> 0 then return e else do {
         m \<leftarrow> getd mode;
         via_ops (\<lambda>opt c. set_mode opt c m)
       }
     }
   }"

lemma recovery_phases [simp]:
  "elan_rs_recovery_next ELAN_RS_RECOVERY_IDLE 0 = ELAN_RS_RECOVERY_RELEASE_INPUT"
  "elan_rs_recovery_next ELAN_RS_RECOVERY_RELEASE_INPUT 0 = ELAN_RS_RECOVERY_REINITIALIZE"
  "elan_rs_recovery_next ELAN_RS_RECOVERY_REINITIALIZE 0 = ELAN_RS_RECOVERY_VERIFY"
  "elan_rs_recovery_next ELAN_RS_RECOVERY_VERIFY 0 = ELAN_RS_RECOVERY_RESTORE_MODE"
  "elan_rs_recovery_next ELAN_RS_RECOVERY_RESTORE_MODE 0 = ELAN_RS_RECOVERY_COMPLETE"
  by (simp_all add: elan_rs_recovery_next_def recovery_codes)

lemma recovery_phases_failed [simp]:
  "ELAN_RS_RECOVERY_VERIFY \<noteq> ELAN_RS_RECOVERY_FAILED"
  "ELAN_RS_RECOVERY_RESTORE_MODE \<noteq> ELAN_RS_RECOVERY_FAILED"
  "ELAN_RS_RECOVERY_COMPLETE \<noteq> ELAN_RS_RECOVERY_FAILED"
  by (simp_all add: recovery_codes)

lemma tp_release_inputs [simp]: "tp (final elan_release_inputs s) = tp s"
  by (simp add: elan_release_inputs_def final_if del: emit_all.simps)

context checked_transport
begin

lemma query_product_checked:
  assumes "bus_contract E" "ops (tp s) = T"
  shows "wp elan_query_product (checked T) s"
  unfolding elan_query_product_def
  by (intro wp_op_out_checked [where T = T] wp_bindI wp_ifI wp_returnI wp_getdI
      op_statuses [OF assms(1)])
    (use assms(2) in \<open>auto simp: checked_def split: prod.splits\<close>)

lemma initialize_once_checked:
  assumes "bus_contract E" "ops (tp s) = T"
  shows "wp (elan_initialize_once b) (checked T) s"
  unfolding elan_initialize_once_def
  by (intro wp_via_checked [where T = T] wp_bindI wp_ifI wp_returnI wp_getdI wp_moddI wp_xioI
      wp_notifyI wp_mono [OF query_product_checked [OF assms(1)]] op_statuses [OF assms(1)])
    (use assms(2) in \<open>auto simp: checked_def\<close>)

lemma initialize_checked:
  assumes "bus_contract E" "ops (tp s) = T"
  shows "wp (elan_initialize b) (checked T) s"
  unfolding initialize_unroll
  by (intro wp_bindI wp_ifI wp_returnI wp_xioI wp_notifyI
      wp_mono [OF initialize_once_checked [OF assms(1)]])
    (use assms(2) in \<open>auto simp: checked_def\<close>)

lemma watchdog_ping_checked:
  assumes "bus_contract E" "ops (tp s) = T"
  shows "wp elan_watchdog_ping (checked T) s"
  unfolding elan_watchdog_ping_def checked_def
proof (rule do_retry_wp)
  show "ops (tp s) = T" by (rule assms)
next
  fix s :: driver assume "ops (tp s) = T"
  then show "wp (via_ops health_check) (\<lambda>e s'. errno_status e \<and> ops (tp s') = T) s"
    by (intro wp_via_checked [where T = T] op_statuses [OF assms(1)]) auto
qed (auto simp: wp_simps)

lemma recover_straight:
  assumes E: "bus_contract E" and ops: "ops (tp s) = T"
  shows "run_state elan_recover_locked s = run_state straight_recovery s"
proof -
  have init: "errno_status (result (elan_initialize b) s)" "ops (tp (final (elan_initialize b) s)) = T"
    if "ops (tp s) = T" for b and s :: driver
    using initialize_checked [OF E that, of b] by (simp_all add: wp_def checked_def)
  have ping: "errno_status (result elan_watchdog_ping s)" "ops (tp (final elan_watchdog_ping s)) = T"
    if "ops (tp s) = T" for s :: driver
    using watchdog_ping_checked [OF E that] by (simp_all add: wp_def checked_def)
  show ?thesis
    using ops
    by (simp add: run_state_eq elan_recover_locked_def straight_recovery_def result_if final_if
        Let_def init ping op_statuses [OF E] recovery_next_status)
qed

end

section \<open>Interrupt depth and mutex\<close>

lemma watchdog_ping_keeps [rel_rules]: "state_io_rel (keeps g) elan_watchdog_ping"
  unfolding elan_watchdog_ping_def by (intro rel_rules)

context transport
begin

lemma release_balanced [rel_rules]: "state_io_rel (drv_rel T balanced) elan_release_inputs"
  unfolding elan_release_inputs_def
  by (intro rel_rules input_program_balanced)

lemma watchdog_ping_bus [rel_rules]: "state_io_rel (drv_rel T (emits bus_call)) elan_watchdog_ping"
  unfolding elan_watchdog_ping_def
  by (intro rel_rules bus_ops) auto

lemma recover_balanced [rel_rules]: "state_io_rel (drv_rel T balanced) elan_recover_locked"
  unfolding elan_recover_locked_def
  by (intro rel_rules balanced_ops drv_rel_bus_balanced [OF initialize_bus]
      drv_rel_bus_balanced [OF watchdog_ping_bus]) auto

lemma queue_balanced [rel_rules]: "state_io_rel (drv_rel T balanced) elan_queue_watchdog"
  unfolding elan_queue_watchdog_def
  by (intro rel_rules) auto

lemma isr_balanced: "state_io_rel (drv_rel T balanced) (elan_isr E f0)"
  unfolding elan_isr_def
  by (intro rel_rules balanced_ops input_program_balanced emits_emit_report) auto

lemma watchdog_work_wp:
  assumes "ops (tp s) = T"
  shows "wp elan_watchdog_work (\<lambda>_ s'. ops (tp s') = T \<and> client (tp s') = client (tp s) \<and>
    balanced (io_trace s) (io_trace s')) s"
  unfolding elan_watchdog_work_def
  by (intro wp_intros wp_rel [OF recover_balanced])
    (use assms in \<open>auto simp: drv_rel_def balanced_def\<close>)

end

section \<open>Outcomes\<close>

definition release_trace :: "elan_tp_data \<Rightarrow> trace" where
  "release_trace d =
     input_trace Touchpad (concat (map (\<lambda>i. [MtSlot i, MtSlotInactive]) [0..<5]) @
       [Key BTN_LEFT 0, Key BTN_MIDDLE 0, Key BTN_RIGHT 0, PointerEmulation True, Sync]) @
     (if tp_input d = None then []
      else input_trace Trackpoint [Key BTN_LEFT 0, Key BTN_MIDDLE 0, Key BTN_RIGHT 0, Sync])"

lemma final_release_inputs [simp]:
  "final elan_release_inputs s = s\<lparr>io_trace := io_trace s @ release_trace (tp s)\<rparr>"
  by (simp add: elan_release_inputs_def release_trace_def final_if input_trace_append
      ETP_MAX_FINGERS_def del: emit_all.simps)

lemma wp_release_inputs [wp_intros]:
  "Q () (s\<lparr>io_trace := io_trace s @ release_trace (tp s)\<rparr>) \<Longrightarrow> wp elan_release_inputs Q s"
  by (simp add: wp_def)

lemma initialize_keeps [rel_rules]:
  assumes "\<And>d v. g (d\<lparr>product_id := v\<rparr>) = g d" "\<And>d v. g (d\<lparr>pattern := v\<rparr>) = g d"
    and "\<And>d ic sm click. g (d\<lparr>ic_type := ic, sm_version := sm, clickpad := click\<rparr>) = g d"
    and "\<And>d. g (d\<lparr>mode := mode d OR ETP_ENABLE_ABS\<rparr>) = g d"
  shows "state_io_rel (keeps g) (elan_initialize b)"
proof -
  have "state_io_rel (keeps g) (elan_initialize_once b)" for b
    unfolding elan_initialize_once_def elan_query_product_def
    by (intro rel_rules) (auto simp: assms split: prod.splits)
  then show ?thesis
    unfolding initialize_unroll by (intro rel_rules) auto
qed

text \<open>What a successful recovery has established, during the run from \<open>s0\<close> to \<open>s\<close>.\<close>

definition recovered :: "driver \<Rightarrow> driver \<Rightarrow> bool" where
  "recovered s0 s \<longleftrightarrow> absolute_mode_set s0 s \<and>
     acknowledged (io_trace s0) (io_trace s) (health_check (ops (tp s)) (client (tp s))) 0"

context transport
begin

lemma ping_success:
  assumes "ops (tp s) = T"
  shows "wp elan_watchdog_ping (\<lambda>r s'. tp s' = tp s \<and> extends (io_trace s) (io_trace s') \<and>
    (r = 0 \<longrightarrow> acknowledged (io_trace s) (io_trace s') (health_check T (client (tp s))) 0)) s"
proof -
  have body: "state_io_rel (quiet_run T) (via_ops health_check)"
    unfolding io_rel_iff quiet_run_def
    using io_relD [OF bus_program_extends [OF bus_health_check]] by simp
  have pause: "state_io_rel (quiet_run T) (xio (notify (Msleep 30)))"
    by (simp add: io_rel_iff quiet_run_def)
  have "quiet_run T s (final elan_watchdog_ping s)"
    unfolding elan_watchdog_ping_def
    by (rule io_relD) (intro io_rel_do_retry quiet_run_preorder body pause)
  moreover have "acknowledged (io_trace s) (io_trace (final elan_watchdog_ping s))
      (health_check T (client (tp s))) 0" if ok: "result elan_watchdog_ping s = 0"
  proof -
    obtain s' where "quiet_run T s s'" "result (via_ops health_check) s' = 0"
      "final elan_watchdog_ping s = final (via_ops health_check) s'"
      using do_retry_success [OF ok [unfolded elan_watchdog_ping_def] refl body pause
        quiet_run_preorder] by (auto simp: elan_watchdog_ping_def)
    then show ?thesis
      using assms by (auto simp: quiet_run_def intro: acknowledgedI)
  qed
  ultimately show ?thesis
    using assms by (simp add: wp_def quiet_run_def)
qed

lemma initialize_recovering:
  assumes "ops (tp s) = T"
  shows "wp (elan_initialize b) (\<lambda>r s'. runs_to T s s' \<and> report_errors (tp s') = report_errors (tp s) \<and>
    (r = 0 \<longrightarrow> absolute_mode_set s s')) s"
  using initialize_wp [OF assms, of b] io_relD [OF initialize_keeps [of report_errors b], of s]
  by (simp add: wp_def keeps_def)

lemma straight_recovery_wp:
  assumes "ops (tp s) = T"
  shows "wp straight_recovery (\<lambda>r s'. report_errors (tp s') = 0 \<and>
    (\<exists>u. io_trace s' = io_trace s @ release_trace (tp s) @ u) \<and> (r = 0 \<longrightarrow> recovered s s')) s"
  unfolding straight_recovery_def
  by (intro wp_bindI wp_ifI wp_returnI wp_getdI wp_moddI wp_release_inputs
      wp_mono [OF initialize_recovering] wp_mono [OF ping_success] wp_via_run [where T = T] extends_ops)
    (use assms in \<open>auto simp: recovered_def runs_to_def elim!: extendsE\<close>,
      (erule absolute_mode_set_mono acknowledged_mono; simp)+)

end

lemma watchdog_work_final:
  "final elan_watchdog_work s =
    (if open_count (tp s) \<noteq> 0 \<and> 3 \<le> report_errors (tp s) then
       let s0 = s\<lparr>io_trace := io_trace s @ [(Sched MutexLock, 0, []), (Sched DisableIrq, 0, [])]\<rparr>;
           ok = (result elan_recover_locked s0 = 0); s1 = final elan_recover_locked s0
       in s1\<lparr>tp := (if ok then (tp s1)\<lparr>watchdog_recoveries := watchdog_recoveries (tp s1) + 1\<rparr> else tp s1),
             io_trace := io_trace s1 @ [(Sched EnableIrq, 0, []), (Sched MutexUnlock, 0, [])]\<rparr>
     else s\<lparr>io_trace := io_trace s @ [(Sched MutexLock, 0, []), (Sched MutexUnlock, 0, [])]\<rparr>)"
  by (simp add: elan_watchdog_work_def watchdog_recover_iff ETP_WATCHDOG_REPORT_ERRORS_def
      final_if Let_def)

lemma isr_final:
  "final (elan_isr E f0) s =
    (let d = tp s;
         read = get_report (ops d) (client d) (uninitialized E ETP_MAX_REPORT_LEN) (report_len d);
         t = final read (io_trace s)
     in if in_fw_update d then s\<lparr>io_trace := io_trace s @ [(Sched Complete, 0, [])]\<rparr>
        else if fst (result read (io_trace s)) \<noteq> 0 then
          s\<lparr>tp := d\<lparr>report_errors := report_errors d + 1\<rparr>,
            io_trace := t @ (if watchdog_enabled d \<and> 0 < sint (open_count d) \<and> 3 \<le> report_errors d + 1
              then [(Sched ScheduleWork, 0, [])] else [])\<rparr>
        else s\<lparr>tp := d\<lparr>report_errors := 0, report_count := report_count d + 1\<rparr>,
            io_trace := final (elan_rs_emit_report f0 (report_context d)
              (snd (result read (io_trace s))) (unat (report_len d))) t\<rparr>)"
proof -
  have same_context: "report_context (d\<lparr>report_errors := e, report_count := n\<rparr>) = report_context d" for d e n
    by (simp add: report_context_def)
  have users: "0 < sint n \<Longrightarrow> n \<noteq> 0" for n :: u32
    by auto
  show ?thesis
    by (auto simp: elan_isr_def elan_queue_watchdog_def watchdog_recover_iff final_if Let_def
        ETP_WATCHDOG_REPORT_ERRORS_def same_context dest: users split: prod.splits)
qed

section \<open>Properties\<close>

lemma recover_eq:
  assumes "bus_contract E" "bound_to E s"
  shows "run_state elan_recover_locked s = run_state straight_recovery s"
  by (rule checked_transport.recover_straight [OF bound_to_checked [OF assms(2)] assms(1) refl])

text \<open>
  C7: On a bus that keeps its contract the recovery driven by the Rust phase machine is the
  straight-line procedure: release the inputs, clear the error count, initialise with reset, ping,
  restore the mode, stopping with the first error. None of the -EPROTO branches is reachable.
\<close>

theorem recovery_straight_line:
  assumes "bus_contract E" and "bound_to E s"
  shows "run_state elan_recover_locked s = run_state straight_recovery s"
  using assms by (rule recover_eq)

theorem recovery_straight_line_witness:
  "run_state elan_recover_locked sample_smbus = run_state straight_recovery sample_smbus"
  by (rule recovery_straight_line [OF sample_contract sample_smbus_bound])


lemma sample_recover: "result straight_recovery sample_smbus = 0"
  by code_simp


text \<open>
  The work item recovers exactly when a node is open and at least three consecutive reads
  failed, in which case it disables the interrupt around the recovery and counts it when it
  succeeded; otherwise it only takes and releases the mutex.
\<close>

theorem watchdog_work_policy:
  "final elan_watchdog_work s =
    (if open_count (tp s) \<noteq> 0 \<and> 3 \<le> report_errors (tp s) then
       let s0 = s\<lparr>io_trace := io_trace s @ [(Sched MutexLock, 0, []), (Sched DisableIrq, 0, [])]\<rparr>;
           ok = (result elan_recover_locked s0 = 0); s1 = final elan_recover_locked s0
       in s1\<lparr>tp := (if ok then (tp s1)\<lparr>watchdog_recoveries := watchdog_recoveries (tp s1) + 1\<rparr> else tp s1),
             io_trace := io_trace s1 @ [(Sched EnableIrq, 0, []), (Sched MutexUnlock, 0, [])]\<rparr>
     else s\<lparr>io_trace := io_trace s @ [(Sched MutexLock, 0, []), (Sched MutexUnlock, 0, [])]\<rparr>)"
  by (rule watchdog_work_final)

text \<open>
  The interrupt handler, case by case: during a firmware update it only signals the completion;
  a failed read counts one more error and queues the watchdog work exactly when the watchdog is
  enabled, a node is open and three errors have been reached; a good read clears the errors,
  counts the report and hands it to the shim with the current geometry.
\<close>

theorem isr_outcome:
  "final (elan_isr E f0) s =
    (let d = tp s;
         read = get_report (ops d) (client d) (uninitialized E ETP_MAX_REPORT_LEN) (report_len d);
         t = final read (io_trace s)
     in if in_fw_update d then s\<lparr>io_trace := io_trace s @ [(Sched Complete, 0, [])]\<rparr>
        else if fst (result read (io_trace s)) \<noteq> 0 then
          s\<lparr>tp := d\<lparr>report_errors := report_errors d + 1\<rparr>,
            io_trace := t @ (if watchdog_enabled d \<and> 0 < sint (open_count d) \<and> 3 \<le> report_errors d + 1
              then [(Sched ScheduleWork, 0, [])] else [])\<rparr>
        else s\<lparr>tp := d\<lparr>report_errors := 0, report_count := report_count d + 1\<rparr>,
            io_trace := final (elan_rs_emit_report f0 (report_context d)
              (snd (result read (io_trace s))) (unat (report_len d))) t\<rparr>)"
  by (rule isr_final)

text \<open>
  A dead report stream is noticed: with the watchdog enabled, a node open and no error so far,
  three failing reads in a row queue the work with an error count of three, and the work then
  chooses to recover.
\<close>

theorem three_failures_queue_recovery:
  assumes "\<not> in_fw_update (tp s)" "watchdog_enabled (tp s)" "0 < sint (open_count (tp s))"
    and "report_errors (tp s) = 0"
    and "\<And>t. fst (result (get_report (ops (tp s)) (client (tp s)) (uninitialized E ETP_MAX_REPORT_LEN)
      (report_len (tp s))) t) \<noteq> 0"
  shows "let s3 = final (elan_isr E f0) (final (elan_isr E f0) (final (elan_isr E f0) s)) in
    report_errors (tp s3) = 3 \<and> last (io_trace s3) = (Sched ScheduleWork, 0, []) \<and>
    elan_rs_watchdog_action (open_count (tp s3)) 0 (report_errors (tp s3))
      ETP_WATCHDOG_REPORT_ERRORS = ELAN_RS_WATCHDOG_RECOVER"
proof -
  let ?read = "get_report (ops (tp s)) (client (tp s)) (uninitialized E ETP_MAX_REPORT_LEN)
      (report_len (tp s))"
  have "open_count (tp s) \<noteq> 0"
    using assms(3) by auto
  have isr: "\<exists>t'. final (elan_isr E f0) (s\<lparr>tp := (tp s)\<lparr>report_errors := n\<rparr>, io_trace := t\<rparr>) =
      s\<lparr>tp := (tp s)\<lparr>report_errors := n + 1\<rparr>, io_trace := t' @
        (if 3 \<le> n + 1 then [(Sched ScheduleWork, 0, [])] else [])\<rparr>" for n t
    by (rule exI [of _ "final ?read t"]) (use assms in \<open>simp add: isr_final Let_def\<close>)
  have "s = s\<lparr>tp := (tp s)\<lparr>report_errors := 0\<rparr>, io_trace := io_trace s\<rparr>"
    by (simp flip: assms(4))
  then obtain t1 where t1: "final (elan_isr E f0) s =
      s\<lparr>tp := (tp s)\<lparr>report_errors := 1\<rparr>, io_trace := t1\<rparr>"
    using isr [where n = 0 and t = "io_trace s"] by auto
  obtain t2 where t2: "final (elan_isr E f0) (s\<lparr>tp := (tp s)\<lparr>report_errors := 1\<rparr>, io_trace := t1\<rparr>) =
      s\<lparr>tp := (tp s)\<lparr>report_errors := 2\<rparr>, io_trace := t2\<rparr>"
    using isr [where n = 1 and t = t1] by auto
  obtain t3 where t3: "final (elan_isr E f0) (s\<lparr>tp := (tp s)\<lparr>report_errors := 2\<rparr>, io_trace := t2\<rparr>) =
      s\<lparr>tp := (tp s)\<lparr>report_errors := 3\<rparr>, io_trace := t3 @ [(Sched ScheduleWork, 0, [])]\<rparr>"
    using isr [where n = 2 and t = t2] by auto
  show ?thesis
    using \<open>open_count (tp s) \<noteq> 0\<close>
    by (simp add: t1 t2 t3 Let_def watchdog_recover_iff ETP_WATCHDOG_REPORT_ERRORS_def)
qed

text \<open>On the sample bus a report read delivers five bytes, never the 34 asked for.\<close>

lemma sample_read_fails:
  "fst (result (get_report (ops (tp sample_smbus)) c (uninitialized E n) len) t) \<noteq> 0" if "len = 34"
  using that
  by (simp add: sample_smbus_def sample_driver_def sample_tp_def elan_smbus_ops_def
      elan_smbus_get_report_def sample_environment_def sample_reply_def result_if Let_def etp_consts)

theorem three_failures_queue_recovery_witness:
  "let isr = elan_isr (sample_environment []) EMPTY_FRAME in
    report_errors (tp (final isr (final isr (final isr sample_smbus)))) = 3"
  using three_failures_queue_recovery [of sample_smbus "sample_environment []" EMPTY_FRAME] sample_read_fails
  by (simp add: sample_smbus_def sample_driver_def sample_tp_def Let_def)

end
