(* ===== verification/Elan_Sysfs.thy ===== *)
theory Elan_Sysfs
  imports Elan_Firmware Elan_Recovery
begin

text \<open>
  The sysfs attributes of \<open>upstream/elan_i2c_core.c\<close>. A show routine returns what
  \<open>sysfs_emit\<close> returns, the number of characters, together with the text it wrote; a store routine
  returns the byte count it was given or an error. Both run as drivers programs: the mutex and the
  interrupt line are calls in the trace.
\<close>

section \<open>Formatted output and input\<close>

text \<open>The conversions the driver uses: \<open>%d\<close>, \<open>%u\<close>, \<open>%lld\<close> and \<open>%04x\<close>.\<close>

definition digit :: "nat \<Rightarrow> char" where
  "digit n = char_of (if n < 10 then 48 + n else 87 + n)"

fun dec_string :: "nat \<Rightarrow> string" where
  "dec_string n = (if n < 10 then [digit n] else dec_string (n div 10) @ [digit (n mod 10)])"

declare dec_string.simps [simp del]

definition int_string :: "int \<Rightarrow> string" where
  "int_string k = (if k < 0 then CHR ''-'' # dec_string (nat (- k)) else dec_string (nat k))"

definition hex4_string :: "u16 \<Rightarrow> string" where
  "hex4_string w = map (\<lambda>k. digit (unat (drop_bit (4 * k) w AND 0xF))) [3, 2, 1, 0]"

definition sysfs_emit :: "string \<Rightarrow> int \<times> string" where
  "sysfs_emit text = (int (length text), text)"

text \<open>\<open>sysfs_streq\<close>: equal, or equal but for one trailing newline.\<close>

definition sysfs_streq :: "string \<Rightarrow> string \<Rightarrow> bool" where
  "sysfs_streq a b \<longleftrightarrow> a = b \<or> a = b @ [CHR 0x0A] \<or> b = a @ [CHR 0x0A]"

definition newline :: string where "newline = [CHR 0x0A]"

text \<open>\<open>error ?: count\<close>\<close>

definition error_or_count :: "int \<Rightarrow> nat \<Rightarrow> int" where
  "error_or_count error count = (if error \<noteq> 0 then error else int count)"

section \<open>Read-only attributes\<close>

definition elan_sysfs_read_fw_checksum :: "(int \<times> string) drv" where
  "elan_sysfs_read_fw_checksum =
     getd (\<lambda>d. sysfs_emit (''0x'' @ hex4_string (fw_checksum d) @ newline))"

definition elan_sysfs_read_product_id :: "(int \<times> string) drv" where
  "elan_sysfs_read_product_id =
     getd (\<lambda>d. sysfs_emit (dec_string (unat (product_id d)) @ ''.0'' @ newline))"

definition elan_sysfs_read_fw_ver :: "(int \<times> string) drv" where
  "elan_sysfs_read_fw_ver =
     getd (\<lambda>d. sysfs_emit (dec_string (unat (fw_version d)) @ ''.0'' @ newline))"

definition elan_sysfs_read_sm_ver :: "(int \<times> string) drv" where
  "elan_sysfs_read_sm_ver =
     getd (\<lambda>d. sysfs_emit (dec_string (unat (sm_version d)) @ ''.0'' @ newline))"

definition elan_sysfs_read_iap_ver :: "(int \<times> string) drv" where
  "elan_sysfs_read_iap_ver =
     getd (\<lambda>d. sysfs_emit (dec_string (unat (iap_version d)) @ ''.0'' @ newline))"

definition runtime_watchdog_show :: "(int \<times> string) drv" where
  "runtime_watchdog_show = getd (\<lambda>d. sysfs_emit (
     ''enabled='' @ dec_string (if watchdog_enabled d then 1 else 0) @
     '' recoveries='' @ dec_string (unat (watchdog_recoveries d)) @
     '' reports='' @ int_string (sint (report_count d)) @
     '' report_errors='' @ dec_string (unat (report_errors d)) @ newline))"

definition elan_sysfs_read_mode :: "environment \<Rightarrow> (int \<times> string) drv" where
  "elan_sysfs_read_mode E = do {
     error \<leftarrow> xio (status_of E (Sched MutexLockInterruptible));
     if error \<noteq> 0 then return (error, []) else do {
       (error, m) \<leftarrow> via_ops (\<lambda>opt c. iap_get_mode opt c MAIN_MODE);
       xio (notify (Sched MutexUnlock));
       if error \<noteq> 0 then return (error, [])
       else return (sysfs_emit (int_string (tp_mode_value m) @ newline))
     }
   }"

definition min_show :: "environment \<Rightarrow> (int \<times> string) drv" where
  "min_show E = do {
     retval \<leftarrow> xio (status_of E (Sched MutexLockInterruptible));
     if retval \<noteq> 0 then return (retval, []) else do {
       out \<leftarrow> getd (\<lambda>d. if \<not> baseline_ready d then (- ENODATA, [])
         else sysfs_emit (dec_string (unat (min_baseline d))));
       xio (notify (Sched MutexUnlock));
       return out
     }
   }"

definition max_show :: "environment \<Rightarrow> (int \<times> string) drv" where
  "max_show E = do {
     retval \<leftarrow> xio (status_of E (Sched MutexLockInterruptible));
     if retval \<noteq> 0 then return (retval, []) else do {
       out \<leftarrow> getd (\<lambda>d. if \<not> baseline_ready d then (- ENODATA, [])
         else sysfs_emit (dec_string (unat (max_baseline d))));
       xio (notify (Sched MutexUnlock));
       return out
     }
   }"

section \<open>Firmware update\<close>

definition fw_signature_bytes :: "u8 list" where
  "fw_signature_bytes = [0xAA, 0x55, 0xCC, 0x33, 0xFF, 0xFF]"

definition firmware_name :: "elan_tp_data \<Rightarrow> string" where
  "firmware_name d = ''elan_i2c_'' @ dec_string (unat (product_id d)) @ ''.0.bin''"

text \<open>
  \<open>kasprintf\<close> is an allocation that may fail; \<open>request_firmware\<close> answers with a status and the
  image. \<open>None\<close> is a trap inside the update.
\<close>

definition elan_sysfs_update_fw :: "environment \<Rightarrow> nat \<Rightarrow> int option drv" where
  "elan_sysfs_update_fw E count = do {
     pages \<leftarrow> getd fw_validpage_count;
     if pages = 0 then return (Some (- EINVAL)) else do {
     fw_name \<leftarrow> getd firmware_name;
     failed \<leftarrow> xio (status_of E (Kmalloc (length fw_name + 1)));
     if failed \<noteq> 0 then return (Some (- ENOMEM)) else do {
     (error, fw) \<leftarrow> xio (call E (RequestFirmware fw_name));
     if error \<noteq> 0 then return (Some error) else do {
     sig \<leftarrow> getd (\<lambda>d. unat (fw_signature_address d));
     outcome \<leftarrow>
       (if length fw < sig + length fw_signature_bytes then return (Some (- EBADF))
        else if take (length fw_signature_bytes) (drop sig fw) \<noteq> fw_signature_bytes
          then return (Some (- EBADF))
        else do {
          error \<leftarrow> xio (status_of E (Sched MutexLockInterruptible));
          if error \<noteq> 0 then return (Some error) else do {
            outcome \<leftarrow> elan_update_firmware fw;
            xio (notify (Sched MutexUnlock));
            return outcome
          }
        });
     xio (notify ReleaseFirmware);
     return (case outcome of None \<Rightarrow> None | Some error \<Rightarrow> Some (error_or_count error count))
     }}}
   }"

section \<open>Calibration and baseline\<close>

definition set_device_mode :: "int drv" where
  "set_device_mode = do { m \<leftarrow> getd mode; via_ops (\<lambda>opt c. set_mode opt c m) }"

text \<open>
  The polling loop of \<open>calibrate_store\<close>; it returns the last status and the tries left, 0 after a
  timeout.
\<close>

fun calibrate_poll :: "nat \<Rightarrow> u8 list \<Rightarrow> (int \<times> nat) drv" where
  "calibrate_poll tries val = do {
     xio (notify (Msleep 250));
     (retval, val) \<leftarrow> via_ops (\<lambda>opt c. calibrate_result opt c val);
     if retval = 0 \<and> val ! 0 = 0 then return (retval, tries)
     else if tries - 1 = 0 then return (retval, 0)
     else calibrate_poll (tries - 1) val
   }"

declare calibrate_poll.simps [simp del]

text \<open>The tail both calibration handlers share, from \<open>out_disable_calibrate\<close> on.\<close>

definition leave_calibrate :: "int \<Rightarrow> int drv" where
  "leave_calibrate retval = do {
     modd (\<lambda>d. d\<lparr>mode := mode d AND NOT ETP_ENABLE_CALIBRATE\<rparr>);
     error \<leftarrow> set_device_mode;
     return (if error \<noteq> 0 \<and> retval = 0 then error else retval)
   }"

definition calibrate_store :: "environment \<Rightarrow> nat \<Rightarrow> int drv" where
  "calibrate_store E count = do {
     retval \<leftarrow> xio (status_of E (Sched MutexLockInterruptible));
     if retval \<noteq> 0 then return retval else do {
     xio (notify (Sched DisableIrq));
     modd (\<lambda>d. d\<lparr>mode := mode d OR ETP_ENABLE_CALIBRATE\<rparr>);
     retval \<leftarrow> set_device_mode;
     retval \<leftarrow>
       (if retval \<noteq> 0 then do {
          modd (\<lambda>d. d\<lparr>mode := mode d AND NOT ETP_ENABLE_CALIBRATE\<rparr>);
          return retval
        } else do {
          retval \<leftarrow> via_ops calibrate;
          if retval \<noteq> 0 then leave_calibrate retval else do {
            (retval, tries) \<leftarrow>
              calibrate_poll 20 ((uninitialized E ETP_CALIBRATE_MAX_LEN)[0 := 0xff]);
            leave_calibrate (if tries = 0 then - ETIMEDOUT else retval)
          }
        });
     xio (notify (Sched EnableIrq));
     xio (notify (Sched MutexUnlock));
     return (error_or_count retval count)
     }
   }"

definition acquire_store :: "environment \<Rightarrow> nat \<Rightarrow> int drv" where
  "acquire_store E count = do {
     retval \<leftarrow> xio (status_of E (Sched MutexLockInterruptible));
     if retval \<noteq> 0 then return retval else do {
     xio (notify (Sched DisableIrq));
     modd (\<lambda>d. d\<lparr>baseline_ready := False\<rparr>);
     modd (\<lambda>d. d\<lparr>mode := mode d OR ETP_ENABLE_CALIBRATE\<rparr>);
     retval \<leftarrow> set_device_mode;
     retval \<leftarrow>
       (if retval \<noteq> 0 then do {
          modd (\<lambda>d. d\<lparr>mode := mode d AND NOT ETP_ENABLE_CALIBRATE\<rparr>);
          return retval
        } else do {
          xio (notify (Msleep 250));
          retval \<leftarrow> op_out max_baseline (\<lambda>v d. d\<lparr>max_baseline := v\<rparr>)
            (\<lambda>opt c. get_baseline_data opt c True);
          if retval \<noteq> 0 then leave_calibrate retval else do {
            retval \<leftarrow> op_out min_baseline (\<lambda>v d. d\<lparr>min_baseline := v\<rparr>)
              (\<lambda>opt c. get_baseline_data opt c False);
            if retval \<noteq> 0 then leave_calibrate retval else do {
              modd (\<lambda>d. d\<lparr>baseline_ready := True\<rparr>);
              leave_calibrate retval
            }
          }
        });
     xio (notify (Sched EnableIrq));
     xio (notify (Sched MutexUnlock));
     return (error_or_count retval count)
     }
   }"

section \<open>Recovery on request\<close>

definition recover_store :: "environment \<Rightarrow> string \<Rightarrow> nat \<Rightarrow> int drv" where
  "recover_store E buf count =
     (if \<not> sysfs_streq buf ''1'' then return (- EINVAL) else do {
        error \<leftarrow> xio (status_of E (Sched MutexLockInterruptible));
        if error \<noteq> 0 then return error else do {
          xio (notify (Sched DisableIrq));
          error \<leftarrow> elan_recover_locked;
          xio (notify (Sched EnableIrq));
          xio (notify (Sched MutexUnlock));
          if error \<noteq> 0 then return error else return (int count)
        }
      })"

section \<open>The attribute tables\<close>

text \<open>
  Which routine an attribute name reaches; the second group is the directory \<open>baseline\<close>. A store
  routine that cannot trap is lifted to the type of the firmware update.
\<close>

definition no_trap :: "int drv \<Rightarrow> int option drv" where
  "no_trap m = do { r \<leftarrow> m; return (Some r) }"

definition elan_sysfs_show :: "environment \<Rightarrow> string \<Rightarrow> (int \<times> string) drv option" where
  "elan_sysfs_show E = map_of [
     (''product_id'', elan_sysfs_read_product_id),
     (''firmware_version'', elan_sysfs_read_fw_ver),
     (''sample_version'', elan_sysfs_read_sm_ver),
     (''iap_version'', elan_sysfs_read_iap_ver),
     (''fw_checksum'', elan_sysfs_read_fw_checksum),
     (''runtime_watchdog'', runtime_watchdog_show),
     (''mode'', elan_sysfs_read_mode E),
     (''baseline/min'', min_show E),
     (''baseline/max'', max_show E)]"

definition elan_sysfs_store :: "environment \<Rightarrow> string \<Rightarrow> (string \<Rightarrow> nat \<Rightarrow> int option drv) option" where
  "elan_sysfs_store E = map_of [
     (''calibrate'', \<lambda>buf count. no_trap (calibrate_store E count)),
     (''recover'', \<lambda>buf count. no_trap (recover_store E buf count)),
     (''update_fw'', \<lambda>buf count. elan_sysfs_update_fw E count),
     (''baseline/acquire'', \<lambda>buf count. no_trap (acquire_store E count))]"

section \<open>Interrupt depth and mutex\<close>

text \<open>What every handler promises on the table \<open>T\<close>.\<close>

definition restores :: "elan_transport_ops \<Rightarrow> driver \<Rightarrow> driver \<Rightarrow> bool" where
  "restores T s s' \<longleftrightarrow> ops (tp s') = T \<and> client (tp s') = client (tp s) \<and>
     balanced (io_trace s) (io_trace s')"

lemma restores_iff: "drv_rel T balanced s s' \<longleftrightarrow> (ops (tp s) = T \<longrightarrow> restores T s s')"
  by (simp add: drv_rel_def restores_def)

context transport
begin

lemma set_device_mode_balanced [rel_rules]: "state_io_rel (drv_rel T balanced) set_device_mode"
  unfolding set_device_mode_def by (intro rel_rules balanced_ops)

lemma leave_calibrate_balanced [rel_rules]:
  "state_io_rel (drv_rel T balanced) (leave_calibrate r)"
  unfolding leave_calibrate_def by (intro rel_rules set_device_mode_balanced) auto

lemma calibrate_poll_balanced [rel_rules]:
  "state_io_rel (drv_rel T balanced) (calibrate_poll n val)"
proof (induction n arbitrary: val)
  case 0
  show ?case
    by (subst calibrate_poll.simps) (intro rel_rules balanced_ops; simp)
next
  case (Suc n)
  then show ?case
    by (subst calibrate_poll.simps) (intro rel_rules balanced_ops; simp)
qed

lemma calibrate_store_restores:
  assumes "ops (tp s) = T"
  shows "wp (calibrate_store E count) (\<lambda>_ s'. restores T s s') s"
  unfolding calibrate_store_def
  by (intro wp_intros wp_rel [OF set_device_mode_balanced] wp_rel [OF leave_calibrate_balanced]
      wp_rel [OF calibrate_poll_balanced] wp_via_rel [where f = calibrate and R = balanced and T = T]
      balanced_ops)
    (use assms in \<open>auto simp: drv_rel_def restores_def balanced_def\<close>)

lemma baseline_balanced:
  "state_io_rel (drv_rel T balanced) (op_out max_baseline (\<lambda>v d. d\<lparr>max_baseline := v\<rparr>)
    (\<lambda>opt c. get_baseline_data opt c True))"
  "state_io_rel (drv_rel T balanced) (op_out min_baseline (\<lambda>v d. d\<lparr>min_baseline := v\<rparr>)
    (\<lambda>opt c. get_baseline_data opt c False))"
  by (intro rel_rules balanced_ops; simp)+

lemma acquire_store_restores:
  assumes "ops (tp s) = T"
  shows "wp (acquire_store E count) (\<lambda>_ s'. restores T s s') s"
  unfolding acquire_store_def
  by (intro wp_bindI wp_ifI wp_returnI wp_moddI wp_xioI wp_notifyI wp_status_ofI
      wp_rel [OF set_device_mode_balanced] wp_rel [OF leave_calibrate_balanced]
      wp_rel [OF baseline_balanced(1)] wp_rel [OF baseline_balanced(2)])
    (use assms in \<open>auto simp: drv_rel_def restores_def balanced_def\<close>)

lemma recover_store_restores:
  assumes "ops (tp s) = T"
  shows "wp (recover_store E buf count) (\<lambda>_ s'. restores T s s') s"
  unfolding recover_store_def
  by (intro wp_intros wp_rel [OF recover_balanced])
    (use assms in \<open>auto simp: drv_rel_def restores_def balanced_def\<close>)

lemma show_restores:
  assumes "ops (tp s) = T"
  shows "wp (min_show E) (\<lambda>_ s'. restores T s s') s"
    and "wp (max_show E) (\<lambda>_ s'. restores T s s') s"
  unfolding min_show_def max_show_def
  by (intro wp_intros; use assms in \<open>auto simp: restores_def balanced_def\<close>)+

lemma read_mode_restores:
  assumes "ops (tp s) = T"
  shows "wp (elan_sysfs_read_mode E) (\<lambda>_ s'. restores T s s') s"
  unfolding elan_sysfs_read_mode_def
  by (intro wp_intros wp_via_rel [where R = balanced and T = T] balanced_ops)
    (use assms in \<open>auto simp: restores_def balanced_def\<close>)

lemma update_fw_restores:
  assumes "ops (tp s) = T"
  shows "wp (elan_sysfs_update_fw E count) (\<lambda>r s'. r \<noteq> None \<longrightarrow> restores T s s') s"
  unfolding elan_sysfs_update_fw_def
  by (intro wp_intros wp_mono [OF update_firmware_wp])
    (use assms in \<open>auto simp: restores_def balanced_def split: option.splits\<close>)

end

section \<open>The calibration bit\<close>

lemma calibrate_bit_cleared [simp]:
  "((m OR ETP_ENABLE_CALIBRATE) AND NOT ETP_ENABLE_CALIBRATE) AND ETP_ENABLE_CALIBRATE = 0"
  "(m AND NOT ETP_ENABLE_CALIBRATE) AND ETP_ENABLE_CALIBRATE = 0" for m :: u8
  by (simp_all add: and.assoc)

lemma calibrate_bit_restored:
  fixes m :: u8
  assumes "m AND ETP_ENABLE_CALIBRATE = 0"
  shows "(m OR ETP_ENABLE_CALIBRATE) AND NOT ETP_ENABLE_CALIBRATE = m"
proof (rule bit_word_eqI)
  fix n
  assume "n < LENGTH(8)"
  have "bit (m AND ETP_ENABLE_CALIBRATE) n = bit (0 :: u8) n"
    by (simp only: assms)
  then show "bit ((m OR ETP_ENABLE_CALIBRATE) AND NOT ETP_ENABLE_CALIBRATE) n = bit m n"
    using \<open>n < LENGTH(8)\<close> by (auto simp: bit_simps)
qed

lemma set_device_mode_keeps [rel_rules]: "state_io_rel (keeps g) set_device_mode"
  unfolding set_device_mode_def by (intro rel_rules)

lemma calibrate_poll_keeps [rel_rules]: "state_io_rel (keeps g) (calibrate_poll n val)"
proof (induction n arbitrary: val)
  case 0
  show ?case by (subst calibrate_poll.simps) (intro rel_rules; simp)
next
  case (Suc n)
  then show ?case by (subst calibrate_poll.simps) (intro rel_rules; simp)
qed

lemma leave_calibrate_mode:
  "wp (leave_calibrate r) (\<lambda>_ s'. mode (tp s') = mode (tp s) AND NOT ETP_ENABLE_CALIBRATE) s"
  unfolding leave_calibrate_def
  by (intro wp_intros wp_rel [OF set_device_mode_keeps [of mode]]) (simp add: keeps_def)

lemma calibrate_store_mode:
  assumes "mode (tp s) AND ETP_ENABLE_CALIBRATE = 0"
  shows "wp (calibrate_store E count) (\<lambda>_ s'. mode (tp s') = mode (tp s)) s"
  unfolding calibrate_store_def
  by (intro wp_intros wp_rel [OF set_device_mode_keeps [of mode]] wp_mono [OF leave_calibrate_mode]
      wp_rel [OF calibrate_poll_keeps [of mode]])
    (simp_all add: keeps_def calibrate_bit_restored [OF assms])

lemma acquire_store_mode:
  assumes "mode (tp s) AND ETP_ENABLE_CALIBRATE = 0"
  shows "wp (acquire_store E count) (\<lambda>_ s'. mode (tp s') = mode (tp s)) s"
  unfolding acquire_store_def
  by (intro wp_intros wp_rel [OF set_device_mode_keeps [of mode]] wp_mono [OF leave_calibrate_mode])
    (simp_all add: keeps_def calibrate_bit_restored [OF assms])

section \<open>What a successful calibration and baseline read mean\<close>

lemma error_or_count_success:
  "errno_status r \<Longrightarrow> error_or_count r count = int count \<Longrightarrow> r = 0"
  by (auto simp: error_or_count_def errno_status_def split: if_splits)

text \<open>
  During the run the controller accepted calibration mode, started, reported completion (a first
  result byte of 0), and was put back into the mode stored now, which has no calibration bit.
\<close>

definition mode_switched :: "driver \<Rightarrow> driver \<Rightarrow> bool" where
  "mode_switched s0 s \<longleftrightarrow> mode (tp s) AND ETP_ENABLE_CALIBRATE = 0 \<and>
     acknowledged (io_trace s0) (io_trace s)
       (set_mode (ops (tp s)) (client (tp s)) (mode (tp s0) OR ETP_ENABLE_CALIBRATE)) 0 \<and>
     acknowledged (io_trace s0) (io_trace s)
       (set_mode (ops (tp s)) (client (tp s)) (mode (tp s))) 0"

definition calibrated :: "driver \<Rightarrow> driver \<Rightarrow> bool" where
  "calibrated s0 s \<longleftrightarrow> mode_switched s0 s \<and>
     acknowledged (io_trace s0) (io_trace s) (calibrate (ops (tp s)) (client (tp s))) 0 \<and>
     (\<exists>v v'. acknowledged (io_trace s0) (io_trace s)
       (calibrate_result (ops (tp s)) (client (tp s)) v) (0, v') \<and> v' ! 0 = 0)"

text \<open>Likewise for the baselines, which are the values the controller delivered.\<close>

definition baseline_acquired :: "driver \<Rightarrow> driver \<Rightarrow> bool" where
  "baseline_acquired s0 s \<longleftrightarrow> mode_switched s0 s \<and> baseline_ready (tp s) \<and>
     (\<exists>x. acknowledged (io_trace s0) (io_trace s)
       (get_baseline_data (ops (tp s)) (client (tp s)) True x) (0, max_baseline (tp s))) \<and>
     (\<exists>x. acknowledged (io_trace s0) (io_trace s)
       (get_baseline_data (ops (tp s)) (client (tp s)) False x) (0, min_baseline (tp s)))"

context checked_transport
begin

lemma set_device_mode_run:
  assumes E: "bus_contract E" and ops: "ops (tp s) = T"
    and Q: "\<And>r u. errno_status r \<Longrightarrow>
      result (set_mode T (client (tp s)) (mode (tp s))) (io_trace s) = r \<Longrightarrow>
      final (set_mode T (client (tp s)) (mode (tp s))) (io_trace s) = io_trace s @ u \<Longrightarrow>
      Q r (s\<lparr>io_trace := io_trace s @ u\<rparr>)"
  shows "wp set_device_mode Q s"
  unfolding set_device_mode_def
  by (intro wp_intros wp_via_run [where T = T] extends_ops)
    (use ops op_statuses(4) [OF E] Q in auto)

lemma leave_calibrate_run:
  assumes E: "bus_contract E" and ops: "ops (tp s) = T" and r: "errno_status r"
    and Q: "\<And>r' u m. errno_status r' \<Longrightarrow> m = mode (tp s) AND NOT ETP_ENABLE_CALIBRATE \<Longrightarrow>
      (r' = 0 \<Longrightarrow> r = 0 \<and> acknowledged (io_trace s) (io_trace s @ u) (set_mode T (client (tp s)) m) 0) \<Longrightarrow>
      Q r' (s\<lparr>tp := (tp s)\<lparr>mode := m\<rparr>, io_trace := io_trace s @ u\<rparr>)"
  shows "wp (leave_calibrate r) Q s"
  unfolding leave_calibrate_def
  by (intro wp_bindI wp_moddI wp_returnI set_device_mode_run [OF E])
    (use ops r in \<open>auto intro!: Q intro: acknowledgedI\<close>)

lemma calibrate_poll_run:
  assumes E: "bus_contract E" and ops: "ops (tp s) = T"
  shows "wp (calibrate_poll n val) (\<lambda>p s'. tp s' = tp s \<and> extends (io_trace s) (io_trace s') \<and>
    errno_status (fst p) \<and> (0 < snd p \<longrightarrow> fst p = 0 \<and> (\<exists>v v'. acknowledged (io_trace s) (io_trace s')
      (calibrate_result T (client (tp s)) v) (0, v') \<and> v' ! 0 = 0))) s"
    (is "wp _ (?post s) s")
proof -
  have later: "?post s p s''" if "?post s' p s''" "tp s' = tp s" "extends (io_trace s) (io_trace s')"
    for p s s' s''
    using that by (auto intro: extends_trans) (blast intro: acknowledged_mono [OF _ _ extends_refl])
  have status: "errno_status r" if "result (calibrate_result T c v) t = (r, v')" for c v t r v'
    using op_statuses(10) [OF E, of c v t] that by simp
  show ?thesis
    using ops
  proof (induction n arbitrary: val s)
    case 0
    show ?case
      by (subst calibrate_poll.simps, intro wp_bindI wp_ifI wp_xioI wp_notifyI wp_returnI
          wp_case_prodI wp_via_run [where T = T] extends_ops)
        (auto simp: 0 intro: acknowledgedI dest: status)
  next
    case (Suc n)
    have IH: "wp (calibrate_poll n val) (?post s) t"
      if "tp t = tp s" "extends (io_trace s) (io_trace t)" for t :: driver and val
    proof -
      have "ops (tp t) = T"
        using Suc.prems that(1) by simp
      from Suc.IH [OF this, of val] show ?thesis
        by (rule wp_mono) (rule later [OF _ that])
    qed
    show ?case
      by (subst calibrate_poll.simps, unfold diff_Suc_1, intro wp_bindI wp_ifI wp_xioI wp_notifyI
          wp_returnI wp_case_prodI wp_via_run [where T = T] extends_ops IH)
        (auto simp: Suc.prems dest: status, (force intro: acknowledgedI)+)
  qed
qed

lemma calibrate_store_success:
  assumes E: "bus_contract E" and ops: "ops (tp s) = T"
    and lock: "fst (answer E (io_trace s) (Sched MutexLockInterruptible)) = 0"
  shows "wp (calibrate_store E count) (\<lambda>r s'. r = int count \<longrightarrow> calibrated s s') s"
  unfolding calibrate_store_def
  apply (intro wp_bindI wp_ifI wp_returnI wp_moddI wp_xioI wp_notifyI wp_status_ofI wp_case_prodI
      set_device_mode_run [OF E] leave_calibrate_run [OF E] wp_mono [OF calibrate_poll_run [OF E]]
      wp_via_run [where T = T and f = calibrate] extends_ops)
  by (use lock op_statuses(9) [OF E] in \<open>auto simp: ops calibrated_def mode_switched_def
    dest!: error_or_count_success intro: acknowledgedI elim!: extendsE\<close>,
    ((erule acknowledged_mono; simp) | (intro exI conjI, erule acknowledged_mono; simp))+)

text \<open>Reading the two baselines and leaving calibration mode, as one step.\<close>

definition baselines_taken :: "driver \<Rightarrow> driver \<Rightarrow> bool" where
  "baselines_taken s s' \<longleftrightarrow> ops (tp s') = T \<and> client (tp s') = client (tp s) \<and> baseline_ready (tp s') \<and>
     extends (io_trace s) (io_trace s') \<and> mode (tp s') = mode (tp s) AND NOT ETP_ENABLE_CALIBRATE \<and>
     acknowledged (io_trace s) (io_trace s') (set_mode T (client (tp s)) (mode (tp s'))) 0 \<and>
     (\<exists>x. acknowledged (io_trace s) (io_trace s') (get_baseline_data T (client (tp s)) True x) (0, max_baseline (tp s'))) \<and>
     (\<exists>x. acknowledged (io_trace s) (io_trace s') (get_baseline_data T (client (tp s)) False x) (0, min_baseline (tp s')))"

lemma baseline_data_run:
  assumes E: "bus_contract E" and ops: "ops (tp s) = T"
    and Q: "\<And>r v u. errno_status r \<Longrightarrow>
      (r = 0 \<Longrightarrow> acknowledged (io_trace s) (io_trace s @ u) (get_baseline_data T (client (tp s)) b (get (tp s))) (0, v)) \<Longrightarrow>
      Q r (s\<lparr>tp := put v (tp s), io_trace := io_trace s @ u\<rparr>)"
  shows "wp (op_out get put (\<lambda>opt c. get_baseline_data opt c b)) Q s"
proof (intro wp_op_out_run [where T = T] ops extends_ops)
  fix r v u
  assume run: "result (get_baseline_data T (client (tp s)) b (get (tp s))) (io_trace s) = (r, v)"
    "final (get_baseline_data T (client (tp s)) b (get (tp s))) (io_trace s) = io_trace s @ u"
  then show "Q r (s\<lparr>tp := put v (tp s), io_trace := io_trace s @ u\<rparr>)"
    using op_statuses(11) [OF E, of "client (tp s)" b "get (tp s)" "io_trace s"]
    by (intro Q) (auto intro: acknowledgedI)
qed

lemma baselines_run:
  assumes E: "bus_contract E" and ops: "ops (tp s) = T"
  shows "wp (do {
       retval \<leftarrow> op_out max_baseline (\<lambda>v d. d\<lparr>max_baseline := v\<rparr>) (\<lambda>opt c. get_baseline_data opt c True);
       if retval \<noteq> 0 then leave_calibrate retval else do {
         retval \<leftarrow> op_out min_baseline (\<lambda>v d. d\<lparr>min_baseline := v\<rparr>) (\<lambda>opt c. get_baseline_data opt c False);
         if retval \<noteq> 0 then leave_calibrate retval else do {
           modd (\<lambda>d. d\<lparr>baseline_ready := True\<rparr>);
           leave_calibrate retval
         }
       }
     }) (\<lambda>r s'. errno_status r \<and> (r = 0 \<longrightarrow> baselines_taken s s')) s"
  apply (intro wp_bindI wp_ifI wp_moddI baseline_data_run [OF E] leave_calibrate_run [OF E])
  by (use ops in \<open>auto simp: baselines_taken_def elim!: acknowledged_mono\<close>,
      (rule exI, erule acknowledged_mono; simp)+)

lemma acquire_store_success:
  assumes E: "bus_contract E" and ops: "ops (tp s) = T"
    and lock: "fst (answer E (io_trace s) (Sched MutexLockInterruptible)) = 0"
  shows "wp (acquire_store E count) (\<lambda>r s'. r = int count \<longrightarrow> baseline_acquired s s') s"
  unfolding acquire_store_def
  apply (intro wp_mono [OF baselines_run [OF E]] wp_bindI wp_ifI wp_returnI wp_moddI wp_xioI wp_notifyI wp_status_ofI
      set_device_mode_run [OF E])
  by (use lock in \<open>auto simp: ops baselines_taken_def baseline_acquired_def mode_switched_def
      dest!: error_or_count_success elim!: extendsE\<close>,
    ((erule acknowledged_mono; simp) | (rule exI, erule acknowledged_mono; simp) |
     (rule acknowledgedI, assumption, assumption, simp, simp))+)

end

section \<open>Reading the text back\<close>

definition digit_value :: "char \<Rightarrow> nat" where
  "digit_value c = (if of_char c < (58 :: nat) then of_char c - 48 else of_char c - 87)"

definition dec_value :: "string \<Rightarrow> nat" where
  "dec_value text = foldl (\<lambda>n c. 10 * n + digit_value c) 0 text"

definition hex_value :: "string \<Rightarrow> nat" where
  "hex_value text = foldl (\<lambda>n c. 16 * n + digit_value c) 0 text"

lemma digit_value_digit: "n < 16 \<Longrightarrow> digit_value (digit n) = n"
  by (auto simp: digit_value_def digit_def)

lemma dec_value_dec_string: "dec_value (dec_string n) = n"
proof (induction n rule: dec_string.induct)
  case (1 n)
  then show ?case
    by (subst dec_string.simps) (auto simp: dec_value_def digit_value_digit)
qed

lemma set_dec_string: "set (dec_string n) \<subseteq> digit ` {..<10}"
proof (induction n rule: dec_string.induct)
  case (1 n)
  then show ?case
    by (subst dec_string.simps) auto
qed

lemma dec_string_inject: "dec_string m = dec_string n \<longleftrightarrow> m = n"
  by (metis dec_value_dec_string)

lemma nibble_value: "unat (drop_bit (4 * k) w AND 0xF) = unat w div 16 ^ k mod 16" for w :: u16
proof -
  have "drop_bit (4 * k) w AND 0xF = take_bit 4 (drop_bit (4 * k) w)"
    by (simp only: take_bit_eq_mask) (simp add: mask_eq_exp_minus_1)
  then have "unat (drop_bit (4 * k) w AND 0xF) = take_bit 4 (drop_bit (4 * k) (unat w))"
    by (simp only: unsigned_take_bit_eq unat_drop_bit_eq)
  also have "\<dots> = unat w div 16 ^ k mod 16"
    by (simp only: take_bit_nat_def drop_bit_nat_def power_mult) simp
  finally show ?thesis .
qed

lemma nibble_sum: "16 * (16 * (16 * (n div 4096 mod 16) + n div 256 mod 16) + n div 16 mod 16) + n mod 16 = n"
  if "n < 65536" for n :: nat
proof -
  have "n div 4096 mod 16 = n div 16 div 16 div 16" "n div 256 = n div 16 div 16"
    using that by (simp_all add: div_mult2_eq [symmetric] less_mult_imp_div_less)
  then show ?thesis
    by (simp only:) (metis mult_div_mod_eq)
qed

lemma hex_value_hex4_string: "hex_value (hex4_string w) = unat w"
proof -
  have "unat w < 65536"
    using unsigned_less [of w, where ?'a = nat] by simp
  moreover from this have "unat w div 4096 mod 16 = unat w div 4096"
    by (simp add: less_mult_imp_div_less)
  ultimately show ?thesis
    unfolding hex_value_def hex4_string_def list.map nibble_value
    using nibble_sum [of "unat w"] by (simp add: digit_value_digit)
qed

section \<open>Rejected images\<close>

definition valid_image :: "elan_tp_data \<Rightarrow> u8 list \<Rightarrow> bool" where
  "valid_image d fw \<longleftrightarrow> unat (fw_signature_address d) + 6 \<le> length fw \<and>
     take 6 (drop (unat (fw_signature_address d)) fw) = [0xAA, 0x55, 0xCC, 0x33, 0xFF, 0xFF]"

lemma signature_length [simp]: "length fw_signature_bytes = 6"
  by (simp add: fw_signature_bytes_def)

lemma valid_image_alt:
  "valid_image d fw \<longleftrightarrow> unat (fw_signature_address d) + length fw_signature_bytes \<le> length fw \<and>
     take (length fw_signature_bytes) (drop (unat (fw_signature_address d)) fw) = fw_signature_bytes"
  by (simp only: valid_image_def signature_length) (simp add: fw_signature_bytes_def)

section \<open>Properties\<close>

text \<open>
  No sysfs handler leaks a lock: whatever the bus answers and on whichever path it returns,
  each leaves the mutex, the interrupt disable depth and the transport as it found them.
\<close>

theorem sysfs_handlers_restore:
  assumes "bound_to E s"
  shows "restores (ops (tp s)) s (final (calibrate_store E' count) s) \<and>
    restores (ops (tp s)) s (final (acquire_store E' count) s) \<and>
    restores (ops (tp s)) s (final (recover_store E' buf count) s) \<and>
    restores (ops (tp s)) s (final (elan_sysfs_read_mode E') s) \<and>
    restores (ops (tp s)) s (final (min_show E') s) \<and>
    restores (ops (tp s)) s (final (max_show E') s)"
proof -
  note T = bound_to_transport [OF assms]
  show ?thesis
    using transport.calibrate_store_restores [OF T refl, of E' count]
      transport.acquire_store_restores [OF T refl, of E' count]
      transport.recover_store_restores [OF T refl, of E' buf count]
      transport.read_mode_restores [OF T refl, of E'] transport.show_restores [OF T refl, of E']
    by (simp add: wp_def)
qed

theorem sysfs_handlers_restore_witness:
  "mutex_depth (io_trace (final (calibrate_store (sample_environment []) 1) sample_smbus)) = 0"
  using sysfs_handlers_restore [OF sample_smbus_bound, of "sample_environment []" 1]
  by (simp add: restores_def balanced_def sample_smbus_def sample_driver_def)

text \<open>
  Neither calibration handler can leave the device in calibration mode: whatever fails, the
  stored mode is afterwards what it was before.
\<close>

theorem calibration_mode_restored:
  assumes "mode (tp s) AND ETP_ENABLE_CALIBRATE = 0"
  shows "mode (tp (final (calibrate_store E count) s)) = mode (tp s) \<and>
    mode (tp (final (acquire_store E count) s)) = mode (tp s)"
  using calibrate_store_mode [OF assms, of E count] acquire_store_mode [OF assms, of E count]
  by (simp add: wp_def)

theorem calibration_mode_restored_witness:
  "mode (tp (final (calibrate_store (sample_environment []) 1) sample_smbus)) = 1"
  using calibration_mode_restored [of sample_smbus "sample_environment []" 1]
  by (simp add: sample_smbus_def sample_driver_def sample_tp_def ETP_ENABLE_CALIBRATE_def)

text \<open>
  C39: \<open>calibrate\<close> reports success (the byte count) only when the controller accepted calibration
  mode, started a calibration, reported its completion within the run, and was put back into
  normal mode.
\<close>

theorem calibrate_success:
  assumes "bus_contract E" "bound_to E s"
    and "fst (answer E (io_trace s) (Sched MutexLockInterruptible)) = 0"
    and "result (calibrate_store E count) s = int count"
  shows "calibrated s (final (calibrate_store E count) s)"
  using checked_transport.calibrate_store_success [OF bound_to_checked [OF assms(2)] assms(1) refl assms(3), of count]
    assms(4) by (simp add: wp_def)

lemma sample_calibrate:
  "result (calibrate_store (sample_environment [0x00, 0xC0]) 2) sample_update = 2"
  by code_simp

text \<open>
  \<open>acquire\<close> reports success only when the controller delivered both baselines within the run, in
  calibration mode; they are the values stored and shown, and the device is back in normal mode.
\<close>

theorem acquire_success:
  assumes "bus_contract E" "bound_to E s"
    and "fst (answer E (io_trace s) (Sched MutexLockInterruptible)) = 0"
    and "result (acquire_store E count) s = int count"
  shows "baseline_acquired s (final (acquire_store E count) s)"
  using checked_transport.acquire_store_success [OF bound_to_checked [OF assms(2)] assms(1) refl assms(3), of count]
    assms(4) by (simp add: wp_def)

lemma sample_update_bound: "bound_to (sample_environment [0x00, 0xC0]) sample_update"
  by (simp add: bound_to_def sample_update_def sample_driver_def sample_tp_def Let_def)

lemma sample_lock:
  "answer (sample_environment bytes) t (Sched MutexLockInterruptible) = (0, [])"
  by (simp add: sample_environment_def sample_reply_def)

theorem calibrate_success_witness:
  "calibrated sample_update (final (calibrate_store (sample_environment [0x00, 0xC0]) 2) sample_update)"
  using calibrate_success [OF sample_contract sample_update_bound, of 2] sample_calibrate
  by (simp add: sample_lock)

lemma sample_acquire:
  "result (acquire_store (sample_environment [0x00, 0xC0]) 2) sample_update = 2"
  by code_simp

theorem acquire_success_witness:
  "baseline_acquired sample_update
    (final (acquire_store (sample_environment [0x00, 0xC0]) 2) sample_update)"
  using acquire_success [OF sample_contract sample_update_bound, of 2] sample_acquire
  by (simp add: sample_lock)

text \<open>
  An image that is too short for the controller, or does not carry the signature at the
  controller's signature address, is rejected with -EBADF before the mutex, the interrupt line or
  the bus is touched; the image is released and the device structure unchanged.
\<close>

theorem update_fw_rejects_image:
  assumes "fw_validpage_count (tp s) \<noteq> 0"
    and "\<And>t n. fst (answer E t (Kmalloc n)) = 0"
    and "\<And>t name. answer E t (RequestFirmware name) = (0, fw)"
    and "\<not> valid_image (tp s) fw" and "0 < count"
  shows "result (elan_sysfs_update_fw E count) s = Some (- EBADF) \<and>
    tp (final (elan_sysfs_update_fw E count) s) = tp s \<and>
    map fst (io_trace (final (elan_sysfs_update_fw E count) s)) = map fst (io_trace s) @
      [Kmalloc (length (firmware_name (tp s)) + 1), RequestFirmware (firmware_name (tp s)), ReleaseFirmware]"
  using assms
  by (auto simp: elan_sysfs_update_fw_def valid_image_alt result_if final_if error_or_count_def)

definition sample_loader :: "u8 list \<Rightarrow> environment" where
  "sample_loader fw = (sample_environment [])\<lparr>answer := \<lambda>t c.
     case c of RequestFirmware name \<Rightarrow> (0, fw) | _ \<Rightarrow> (0, [])\<rparr>"

theorem update_fw_rejects_image_witness:
  "result (elan_sysfs_update_fw (sample_loader [1, 2, 3]) 1) sample_smbus = Some (- EBADF)"
  using update_fw_rejects_image [of sample_smbus "sample_loader [1, 2, 3]" "[1, 2, 3]" 1]
  by (simp add: sample_loader_def sample_smbus_def sample_driver_def sample_tp_def valid_image_def)

text \<open>
  On a device whose geometry came from \<open>elan_get_fwinfo\<close> the firmware store routine never traps
  and, whatever the image and the bus, restores the mutex, the interrupt line and the transport.
\<close>

theorem update_fw_never_traps:
  assumes "bound_to E s"
    and "elan_get_fwinfo ic iap = (err, fw_validpage_count (tp s), fw_signature_address (tp s), fw_page_size (tp s))"
  shows "(\<exists>r. result (elan_sysfs_update_fw E' count) s = Some r) \<and>
    restores (ops (tp s)) s (final (elan_sysfs_update_fw E' count) s)"
proof -
  note T = bound_to_transport [OF assms(1)]
  have "fw_page_size (tp s) \<noteq> 0 \<or> fw_validpage_count (tp s) = 0"
    using fwinfo_cases [of ic iap] assms(2) by auto
  then have "wp (elan_sysfs_update_fw E' count) (\<lambda>r s'. r \<noteq> None) s"
    unfolding elan_sysfs_update_fw_def
    by (intro wp_intros wp_mono [OF transport.update_success_wp [OF T]]) (auto split: option.splits)
  then show ?thesis
    using transport.update_fw_restores [OF T refl, of E' count] by (auto simp: wp_def)
qed

theorem update_fw_never_traps_witness:
  "\<exists>r. result (elan_sysfs_update_fw (sample_environment []) 1) sample_smbus = Some r"
  using update_fw_never_traps [OF sample_smbus_bound, of "0x0D" 1 0 "sample_environment []" 1]
  by (simp add: sample_smbus_def sample_driver_def sample_tp_def elan_get_fwinfo_def etp_consts)


end
