(* ===== verification/Elan_Pm.thy ===== *)
theory Elan_Pm
  imports Elan_Recovery
begin

text \<open>
  System sleep: \<open>elan_suspend\<close> and \<open>elan_resume\<close> of \<open>upstream/elan_i2c_core.c\<close>. A successful
  suspend returns with the interrupt disabled; resume enables it again on every path.
\<close>

section \<open>Suspend and resume\<close>

definition device_may_wakeup :: "environment \<Rightarrow> bool io" where
  "device_may_wakeup E = do { v \<leftarrow> status_of E (Power DeviceMayWakeup); return (v \<noteq> 0) }"

text \<open>
  Whether the device may wake the system is a setting of userspace, which is frozen while the system
  sleeps: the kernel gives the same answer at suspend and at resume.
\<close>

definition steady_wakeup :: "environment \<Rightarrow> bool \<Rightarrow> bool" where
  "steady_wakeup E w \<longleftrightarrow> (\<forall>t. fst (answer E t (Power DeviceMayWakeup)) \<noteq> 0 \<longleftrightarrow> w)"

lemma wakeup_answer:
  "answer E t (Power DeviceMayWakeup) = (v, bytes) \<Longrightarrow> steady_wakeup E w \<Longrightarrow> v \<noteq> 0 \<longleftrightarrow> w"
  unfolding steady_wakeup_def by (metis fst_conv)

text \<open>The part of \<open>elan_suspend\<close> after the watchdog work was cancelled, and the whole of it.\<close>

definition elan_suspend_locked :: "environment \<Rightarrow> int drv" where
  "elan_suspend_locked E = do {
     ret \<leftarrow> xio (status_of E (Sched MutexLockInterruptible));
     if ret \<noteq> 0 then return ret else do {
     xio (notify (Sched DisableIrq));
     wakeup_source \<leftarrow> xio (device_may_wakeup E);
     ret \<leftarrow>
       (if wakeup_source then elan_sleep else do {
          ret \<leftarrow> elan_set_power False;
          if ret \<noteq> 0 then return ret else do {
            ret \<leftarrow> xio (status_of E (Power RegulatorDisable));
            (if ret \<noteq> 0 then do { _ \<leftarrow> elan_set_power True; return () } else return ());
            return ret
          }
        });
     (if ret \<noteq> 0 then xio (notify (Sched EnableIrq)) else return ());
     xio (notify (Sched MutexUnlock));
     return ret
     }
   }"

definition elan_suspend :: "environment \<Rightarrow> int drv" where
  "elan_suspend E = do {
     xio (notify (Sched CancelWorkSync));
     elan_suspend_locked E
   }"

definition elan_resume :: "environment \<Rightarrow> int drv" where
  "elan_resume E = do {
     wakeup_source \<leftarrow> xio (device_may_wakeup E);
     error \<leftarrow> (if \<not> wakeup_source then xio (status_of E (Power RegulatorEnable)) else return 0);
     error \<leftarrow>
       (if error \<noteq> 0 then return error else do {
          error \<leftarrow> elan_set_power True;
          if error \<noteq> 0 then return error else do {
            quick \<leftarrow> getd (\<lambda>d. quirks d AND ETP_QUIRK_QUICK_WAKEUP \<noteq> 0);
            elan_initialize quick
          }
        });
     xio (notify (Sched EnableIrq));
     return error
   }"

section \<open>Interrupt depth and mutex\<close>

text \<open>The interrupt depth moves by \<open>k\<close>, the mutex is as before.\<close>

definition shifts :: "elan_transport_ops \<Rightarrow> int \<Rightarrow> driver \<Rightarrow> driver \<Rightarrow> bool" where
  "shifts T k s s' \<longleftrightarrow> ops (tp s') = T \<and> client (tp s') = client (tp s) \<and>
     irq_depth (io_trace s') = irq_depth (io_trace s) + k \<and>
     mutex_depth (io_trace s') = mutex_depth (io_trace s)"

context transport
begin

lemmas pm_balanced =
  drv_rel_bus_balanced [OF set_power_bus] drv_rel_bus_balanced [OF sleep_bus]
  drv_rel_bus_balanced [OF initialize_bus]

lemma suspend_locked_shifts:
  assumes "ops (tp s) = T"
  shows "wp (elan_suspend_locked E) (\<lambda>r s'. shifts T (if r = 0 then 1 else 0) s s') s"
  unfolding elan_suspend_locked_def device_may_wakeup_def
  by (intro wp_intros wp_rel [OF pm_balanced(1)] wp_rel [OF pm_balanced(2)])
    (use assms in \<open>auto simp: drv_rel_def shifts_def balanced_def\<close>)

lemma suspend_shifts:
  assumes "ops (tp s) = T"
  shows "wp (elan_suspend E) (\<lambda>r s'. shifts T (if r = 0 then 1 else 0) s s') s"
  unfolding elan_suspend_def
  by (intro wp_bindI wp_xioI wp_notifyI wp_mono [OF suspend_locked_shifts])
    (use assms in \<open>auto simp: shifts_def\<close>)

lemma resume_shifts:
  assumes "ops (tp s) = T"
  shows "wp (elan_resume E) (\<lambda>r s'. shifts T (- 1) s s') s"
  unfolding elan_resume_def device_may_wakeup_def
  by (intro wp_intros wp_rel [OF pm_balanced(1)] wp_rel [OF pm_balanced(3)])
    (use assms in \<open>auto simp: drv_rel_def shifts_def balanced_def\<close>)

end

lemma set_power_keeps [rel_rules]: "state_io_rel (keeps g) (elan_set_power on)"
  and sleep_keeps [rel_rules]: "state_io_rel (keeps g) elan_sleep"
  unfolding elan_set_power_def elan_sleep_def by (intro rel_rules)+

lemma suspend_locked_keeps [rel_rules]: "state_io_rel (keeps g) (elan_suspend_locked E)"
  unfolding elan_suspend_locked_def by (intro rel_rules)

lemma suspend_keeps: "state_io_rel (keeps g) (elan_suspend E)"
  unfolding elan_suspend_def by (intro rel_rules)

section \<open>Properties\<close>

text \<open>
  A suspend that fails leaves the interrupt line as it was, one that succeeds leaves it disabled
  once more, and the mutex is free either way; the device structure is never changed by it.
\<close>

theorem suspend_outcome:
  assumes "bound_to E s"
  shows "let s' = final (elan_suspend E') s in tp s' = tp s \<and>
    irq_depth (io_trace s') = irq_depth (io_trace s) + (if result (elan_suspend E') s = 0 then 1 else 0) \<and>
    mutex_depth (io_trace s') = mutex_depth (io_trace s)"
  using transport.suspend_shifts [OF bound_to_transport [OF assms] refl, of E']
    io_relD [OF suspend_keeps [of "\<lambda>d. d" E'], of s]
  by (simp add: wp_def shifts_def keeps_def Let_def)

theorem suspend_outcome_witness:
  "tp (final (elan_suspend (sample_environment [])) sample_smbus) = tp sample_smbus"
  using suspend_outcome [OF sample_smbus_bound, of "sample_environment []"] by (simp add: Let_def)

text \<open>
  A successful suspend followed by a resume, whether the resume succeeds or fails, brings the
  interrupt disable depth back to where it was: the interrupt is never lost and never enabled
  twice.
\<close>

theorem suspend_resume_balanced:
  assumes "bound_to E s" and "result (elan_suspend E') s = 0"
  shows "irq_depth (io_trace (final (elan_resume E'') (final (elan_suspend E') s))) =
    irq_depth (io_trace s)"
proof -
  note T = bound_to_transport [OF assms(1)]
  let ?s1 = "final (elan_suspend E') s"
  have suspended: "shifts (ops (tp s)) 1 s ?s1"
    using transport.suspend_shifts [OF T refl, of E'] assms(2) by (simp add: wp_def)
  then have "ops (tp ?s1) = ops (tp s)"
    by (simp add: shifts_def)
  then have "shifts (ops (tp s)) (- 1) ?s1 (final (elan_resume E'') ?s1)"
    using transport.resume_shifts [OF T, of ?s1 E''] by (simp add: wp_def)
  with suspended show ?thesis
    by (simp add: shifts_def)
qed

lemma sample_suspend: "result (elan_suspend (sample_environment [])) sample_smbus = 0"
  by code_simp

theorem suspend_resume_balanced_witness:
  "irq_depth (io_trace (final (elan_resume (sample_environment []))
    (final (elan_suspend (sample_environment [])) sample_smbus))) = 0"
  using suspend_resume_balanced [OF sample_smbus_bound sample_suspend]
  by (simp add: sample_smbus_def sample_driver_def)

end
