(* ===== verification/Elan_Probe.thy ===== *)
theory Elan_Probe
  imports Elan_Recovery
begin

text \<open>
  Binding a device: \<open>elan_probe\<close> of \<open>upstream/elan_i2c_core.c\<close>, the two input nodes it sets up,
  and the cleanup the driver core runs (device-managed actions, last registered first) when a
  probe fails or the device is removed. The regulator use count is read off the trace.
\<close>

section \<open>Input nodes\<close>

definition ELAN_VENDOR_ID :: u16 where [etp_consts]: "ELAN_VENDOR_ID = 0x04f3"
definition ETP_FINGER_WIDTH :: u32 where [etp_consts]: "ETP_FINGER_WIDTH = 15"

text \<open>What \<open>devm_input_allocate_device\<close> returns: a zeroed structure.\<close>

definition zeroed_input :: input_dev where
  "zeroed_input = \<lparr>dev_name = [], id_vendor = 0, id_product = 0, evbit_abs = False,
     keybit = {}, relbit = {}, prop_pointer = False, prop_pointing_stick = False,
     prop_buttonpad = False, mt_slots = 0, abs_max = \<lambda>_. None, abs_res = \<lambda>_. 0\<rparr>"

text \<open>\<open>input_set_abs_params\<close> with minimum, fuzz and flat 0, and \<open>input_abs_set_res\<close>.\<close>

definition input_set_abs_params :: "abs_axis \<Rightarrow> u32 \<Rightarrow> input_dev \<Rightarrow> input_dev" where
  "input_set_abs_params axis limit dev =
     dev\<lparr>evbit_abs := True, abs_max := (abs_max dev)(axis \<mapsto> limit)\<rparr>"

definition input_abs_set_res :: "abs_axis \<Rightarrow> u32 \<Rightarrow> input_dev \<Rightarrow> input_dev" where
  "input_abs_set_res axis res dev = dev\<lparr>abs_res := (abs_res dev)(axis := res)\<rparr>"

definition elan_setup_trackpoint_input_device :: "environment \<Rightarrow> int drv" where
  "elan_setup_trackpoint_input_device E = do {
     failed \<leftarrow> xio (status_of E (Probe (InputAllocate Trackpoint)));
     if failed \<noteq> 0 then return (- ENOMEM) else do {
       product \<leftarrow> getd product_id;
       let dev = zeroed_input\<lparr>dev_name := ''Elan TrackPoint'', id_vendor := ELAN_VENDOR_ID,
         id_product := product\<rparr>;
       let dev = dev\<lparr>relbit := {REL_X, REL_Y}, keybit := {BTN_LEFT, BTN_RIGHT, BTN_MIDDLE}\<rparr>;
       let dev = dev\<lparr>prop_pointer := True, prop_pointing_stick := True\<rparr>;
       modd (\<lambda>d. d\<lparr>tp_input := Some dev\<rparr>);
       return 0
     }
   }"

text \<open>The capabilities of the touchpad node, in the order the code sets them.\<close>

definition set_touchpad_buttons :: "elan_tp_data \<Rightarrow> input_dev \<Rightarrow> input_dev" where
  "set_touchpad_buttons d dev =
     (let dev = dev\<lparr>evbit_abs := True, prop_pointer := True\<rparr>;
          dev = (if clickpad d \<noteq> 0 then dev\<lparr>prop_buttonpad := True\<rparr>
                 else let dev = dev\<lparr>keybit := insert BTN_RIGHT (keybit dev)\<rparr>
                      in if middle_button d then dev\<lparr>keybit := insert BTN_MIDDLE (keybit dev)\<rparr>
                         else dev)
      in dev\<lparr>keybit := insert BTN_LEFT (keybit dev)\<rparr>)"

definition set_touchpad_axes :: "elan_tp_data \<Rightarrow> input_dev \<Rightarrow> input_dev" where
  "set_touchpad_axes d dev =
     (let max_width = max (width_x d) (width_y d);
          min_width = min (width_x d) (width_y d);
          mk = report_features d AND ETP_FEATURE_REPORT_MK \<noteq> 0;
          dev = input_set_abs_params ABS_X (max_x d) dev;
          dev = input_set_abs_params ABS_Y (max_y d) dev;
          dev = input_abs_set_res ABS_X (x_res d) dev;
          dev = input_abs_set_res ABS_Y (y_res d) dev;
          dev = input_set_abs_params ABS_PRESSURE ETP_MAX_PRESSURE dev;
          dev = (if mk then input_set_abs_params ABS_TOOL_WIDTH ETP_FINGER_WIDTH dev else dev);
          dev = input_set_abs_params ABS_DISTANCE 1 dev;
          dev = input_set_abs_params ABS_MT_POSITION_X (max_x d) dev;
          dev = input_set_abs_params ABS_MT_POSITION_Y (max_y d) dev;
          dev = input_abs_set_res ABS_MT_POSITION_X (x_res d) dev;
          dev = input_abs_set_res ABS_MT_POSITION_Y (y_res d) dev;
          dev = input_set_abs_params ABS_MT_PRESSURE ETP_MAX_PRESSURE dev
      in if mk
         then input_set_abs_params ABS_MT_TOUCH_MINOR (ETP_FINGER_WIDTH * min_width)
           (input_set_abs_params ABS_MT_TOUCH_MAJOR (ETP_FINGER_WIDTH * max_width) dev)
         else dev)"

definition elan_setup_input_device :: "environment \<Rightarrow> int drv" where
  "elan_setup_input_device E = do {
     failed \<leftarrow> xio (status_of E (Probe (InputAllocate Touchpad)));
     if failed \<noteq> 0 then return (- ENOMEM) else do {
       d \<leftarrow> getd (\<lambda>d. d);
       let dev = zeroed_input\<lparr>dev_name := ''Elan Touchpad'', id_vendor := ELAN_VENDOR_ID,
         id_product := product_id d\<rparr>;
       error \<leftarrow> xio (status_of E (Probe (InputMtInitSlots ETP_MAX_FINGERS)));
       if error \<noteq> 0 then return error else do {
         let dev = dev\<lparr>mt_slots := ETP_MAX_FINGERS\<rparr>;
         let dev = set_touchpad_axes d (set_touchpad_buttons d dev);
         modd (\<lambda>d. d\<lparr>input := Some dev\<rparr>);
         return 0
       }
     }
   }"

section \<open>Probe\<close>

definition DRIVER_NAME :: string where "DRIVER_NAME = ''elan_i2c''"

definition elan_id :: "string list" where "elan_id = [DRIVER_NAME]"

definition elan_of_match :: "string list" where "elan_of_match = [''elan,ekth3000'']"

definition elan_runtime_watchdog_dmi :: "(string \<times> string) list list" where
  "elan_runtime_watchdog_dmi =
     [[(''sys_vendor'', ''LENOVO''), (''product_version'', ''ThinkPad P53'')]]"

text \<open>\<open>dmi_check_system\<close>: some entry of the table matches the machine.\<close>

definition dmi_check_system :: "environment \<Rightarrow> (string \<times> string) list list \<Rightarrow> bool" where
  "dmi_check_system E table = list_ex (dmi_match E) table"

definition IRQF_TRIGGER_FALLING :: u32 where "IRQF_TRIGGER_FALLING = 2"
definition IRQF_ONESHOT :: u32 where "IRQF_ONESHOT = 0x2000"

text \<open>\<open>kzalloc\<close> of the structure, followed by the two pointers stored into it.\<close>

definition zeroed_tp :: "i2c_client \<Rightarrow> elan_transport_ops \<Rightarrow> elan_tp_data" where
  "zeroed_tp c opt = \<lparr>client = c, input = None, tp_input = None, ops = opt, in_fw_update = False,
     open_count = 0, report_count = 0, report_errors = 0, watchdog_recoveries = 0,
     watchdog_enabled = False, max_x = 0, max_y = 0, width_x = 0, width_y = 0, x_res = 0,
     y_res = 0, pattern = 0, product_id = 0, fw_version = 0, sm_version = 0, iap_version = 0,
     fw_checksum = 0, report_features = 0, report_len = 0, pressure_adjustment = 0, mode = 0,
     ic_type = 0, fw_validpage_count = 0, fw_page_size = 0, fw_signature_address = 0,
     min_baseline = 0, max_baseline = 0, baseline_ready = False, clickpad = 0,
     middle_button = False, quirks = 0\<rparr>"

text \<open>The transport the adapter supports; the plain I2C one is preferred.\<close>

definition probe_transport :: "environment \<Rightarrow> elan_transport_ops option io" where
  "probe_transport E = do {
     i2c \<leftarrow> (if config_enabled E ''CONFIG_MOUSE_ELAN_I2C_I2C''
       then status_of E (Probe CheckI2cFunctionality) else return 0);
     if i2c \<noteq> 0 then return (Some (elan_i2c_ops E)) else do {
       smbus \<leftarrow> (if config_enabled E ''CONFIG_MOUSE_ELAN_I2C_SMBUS''
         then status_of E (Probe CheckSmbusFunctionality) else return 0);
       if smbus \<noteq> 0 then return (Some (elan_smbus_ops E)) else return None
     }
   }"

text \<open>\<open>devm_add_action_or_reset\<close>: the action runs at once when it cannot be registered.\<close>

definition devm_add_action_or_reset :: "environment \<Rightarrow> string \<Rightarrow> unit drv \<Rightarrow> int drv" where
  "devm_add_action_or_reset E name action = do {
     error \<leftarrow> xio (status_of E (Probe (DevmAddAction name)));
     (if error \<noteq> 0 then action else return ());
     return error
   }"

definition elan_disable_regulator :: "unit drv" where
  "elan_disable_regulator = xio (notify (Power RegulatorDisable))"

text \<open>
  The three parts of \<open>elan_probe\<close>: from the allocation to the powered device, bringing the
  controller up, and making the device available. \<open>None\<close> is the division that traps in
  \<open>elan_query_device_parameters\<close>. The completion, the mutex and the work item are initialised
  here; they are part of the trace and start unused.
\<close>

definition elan_probe_resources ::
  "environment \<Rightarrow> i2c_client \<Rightarrow> elan_transport_ops \<Rightarrow> int drv"
where
  "elan_probe_resources E c transport_ops = do {
     failed \<leftarrow> xio (status_of E (Probe DevmKzalloc));
     if failed \<noteq> 0 then return (- ENOMEM) else do {
     modd (\<lambda>_. zeroed_tp c transport_ops);
     modd (\<lambda>d. d\<lparr>open_count := 0\<rparr>);
     modd (\<lambda>d. d\<lparr>report_count := 0\<rparr>);
     modd (\<lambda>d. d\<lparr>watchdog_enabled := property_bool E ''elan,runtime-watchdog'' \<or>
       dmi_check_system E elan_runtime_watchdog_dmi\<rparr>);
     error \<leftarrow> devm_add_action_or_reset E ''elan_cancel_watchdog'' elan_cancel_watchdog;
     if error \<noteq> 0 then return error else do {
     error \<leftarrow> xio (status_of E (Probe (RegulatorGet ''vcc'')));
     if error \<noteq> 0 then return error else do {
     error \<leftarrow> xio (status_of E (Power RegulatorEnable));
     if error \<noteq> 0 then return error else do {
     error \<leftarrow> devm_add_action_or_reset E ''elan_disable_regulator'' elan_disable_regulator;
     if error \<noteq> 0 then return error else return 0
     }}}}
   }"

definition elan_probe_controller :: "environment \<Rightarrow> int option drv" where
  "elan_probe_controller E = do {
     error \<leftarrow> xio (status_of E (Bus SmbusReadByte));
     if error < 0 then return (Some (- ENXIO)) else do {
     error \<leftarrow> elan_initialize False;
     if error \<noteq> 0 then return (Some error) else do {
     error \<leftarrow> elan_query_device_info;
     if error \<noteq> 0 then return (Some error) else do {
     outcome \<leftarrow> elan_query_device_parameters E;
     if outcome \<noteq> Some 0 then return outcome else return (Some 0)
     }}}
   }"

definition elan_probe_nodes :: "environment \<Rightarrow> int drv" where
  "elan_probe_nodes E = do {
     error \<leftarrow> elan_setup_input_device E;
     if error \<noteq> 0 then return error else do {
     error \<leftarrow> (if property_bool E ''elan,trackpoint'' then elan_setup_trackpoint_input_device E
       else return 0);
     if error \<noteq> 0 then return error else do {
     trigger \<leftarrow> xio (status_of E (Probe IrqGetTriggerType));
     let irqflags = (word_of_int trigger :: u32);
     let irqflags = (if irqflags = 0 then IRQF_TRIGGER_FALLING else irqflags);
     error \<leftarrow> xio (status_of E (Probe (RequestThreadedIrq (irqflags OR IRQF_ONESHOT))));
     if error \<noteq> 0 then return error else do {
     error \<leftarrow> xio (status_of E (Probe (InputRegister Touchpad)));
     if error \<noteq> 0 then return error else do {
     trackpoint \<leftarrow> getd tp_input;
     if trackpoint \<noteq> None then do {
       error \<leftarrow> xio (status_of E (Probe (InputRegister Trackpoint)));
       if error \<noteq> 0 then return error else return 0
     } else return 0
     }}}}
   }"

definition elan_probe :: "environment \<Rightarrow> i2c_client \<Rightarrow> int option drv" where
  "elan_probe E c =
     (if elan_rs_abi_version \<noteq> ELAN_RS_ABI_VERSION then return (Some (- EPROTO)) else do {
        transport_ops \<leftarrow> xio (probe_transport E);
        case transport_ops of None \<Rightarrow> return (Some (- EIO)) | Some opt \<Rightarrow> do {
          error \<leftarrow> elan_probe_resources E c opt;
          if error \<noteq> 0 then return (Some error) else do {
          outcome \<leftarrow> elan_probe_controller E;
          if outcome \<noteq> Some 0 then return outcome else do {
          error \<leftarrow> elan_probe_nodes E;
          return (Some error)
          }}
        }
      })"

section \<open>Device-managed cleanup\<close>

text \<open>
  The driver core runs the actions a device registered, the last one first, when its probe
  failed and when it is removed. Which actions are registered is read off the trace.
\<close>

fun registered_actions :: "trace \<Rightarrow> string list" where
  "registered_actions [] = []"
| "registered_actions ((Probe (DevmAddAction name), ret, _) # t) =
     (if ret = 0 then name # registered_actions t else registered_actions t)"
| "registered_actions (_ # t) = registered_actions t"

definition devres_action :: "string \<Rightarrow> unit drv" where
  "devres_action name =
     (if name = ''elan_cancel_watchdog'' then elan_cancel_watchdog
      else if name = ''elan_disable_regulator'' then elan_disable_regulator
      else return ())"

fun devres_release :: "string list \<Rightarrow> unit drv" where
  "devres_release [] = return ()"
| "devres_release (name # names) = do { devres_action name; devres_release names }"

definition elan_bind :: "environment \<Rightarrow> i2c_client \<Rightarrow> int option drv" where
  "elan_bind E c = do {
     s0 \<leftarrow> State_Monad.get;
     outcome \<leftarrow> elan_probe E c;
     if outcome = Some 0 \<or> outcome = None then return outcome else do {
       s \<leftarrow> State_Monad.get;
       devres_release (rev (registered_actions (drop (length (io_trace s0)) (io_trace s))));
       return outcome
     }
   }"

section \<open>The regulator\<close>

fun vcc_delta :: "kcall \<times> reply \<Rightarrow> int" where
  "vcc_delta (Power RegulatorEnable, r) = (if fst r = 0 then 1 else 0)"
| "vcc_delta (Power RegulatorDisable, r) = (if fst r = 0 then -1 else 0)"
| "vcc_delta _ = 0"

definition vcc_users :: "trace \<Rightarrow> int" where
  "vcc_users t = sum_list (map vcc_delta t)"

lemma vcc_users_append [simp]: "vcc_users (t @ u) = vcc_users t + vcc_users u"
  and vcc_users_Nil [simp]: "vcc_users [] = 0"
  and vcc_users_Cons [simp]: "vcc_users (x # t) = vcc_delta x + vcc_users t"
  by (simp_all add: vcc_users_def)

lemma registered_actions_append [simp]:
  "registered_actions (t @ u) = registered_actions t @ registered_actions u"
  by (induction t rule: registered_actions.induct) simp_all

text \<open>
  The calls of a run that neither move the regulator nor register an action, and leave the
  interrupt line, the mutex and the work queue alone.
\<close>

fun plain_call :: "kcall \<Rightarrow> bool" where
  "plain_call (Power RegulatorEnable) = False"
| "plain_call (Power RegulatorDisable) = False"
| "plain_call (Probe (DevmAddAction _)) = False"
| "plain_call (Sched _) = False"
| "plain_call _ = True"

lemma plain_call_step:
  "plain_call c \<Longrightarrow> vcc_delta (c, r) = 0 \<and> registered_actions ((c, r) # t) = registered_actions t \<and>
    irq_delta (c, r) = 0 \<and> mutex_delta (c, r) = 0"
  by (cases c rule: plain_call.cases; cases r) simp_all

lemma plain_run:
  "\<forall>x \<in> set u. plain_call (fst x) \<Longrightarrow> vcc_users u = 0 \<and> registered_actions u = [] \<and>
    irq_depth u = 0 \<and> mutex_depth u = 0"
  by (induction u) (use plain_call_step in \<open>auto simp del: registered_actions.simps(2,3)\<close>)

lemma bus_call_plain: "bus_call c \<Longrightarrow> plain_call c"
  by (cases c rule: plain_call.cases) simp_all

text \<open>Every regulator enable that was granted has a registered disable.\<close>

definition settled :: "trace \<Rightarrow> bool" where
  "settled u \<longleftrightarrow>
     vcc_users u = int (length (filter (\<lambda>name. name = ''elan_disable_regulator'') (registered_actions u)))"

lemma settled_plain: "emits plain_call t t' \<Longrightarrow> \<exists>u. t' = t @ u \<and> vcc_users u = 0 \<and> registered_actions u = [] \<and>
    irq_depth u = 0 \<and> mutex_depth u = 0"
  by (auto simp: emits_def dest: plain_run)

context transport
begin

lemma plain_ops: "state_io_rel (drv_rel T (emits bus_call)) m \<Longrightarrow> state_io_rel (drv_rel T (emits plain_call)) m"
  by (erule drv_rel_mono) (auto intro: emits_mono bus_call_plain)

lemma query_size_plain: "state_io_rel (drv_rel T (emits plain_call)) (query_size E)"
  unfolding query_size_def Let_def
  by (intro rel_rules plain_ops [OF drv_rel_op_out] bus_ops) (auto split: prod.splits)

lemma query_traces_plain: "state_io_rel (drv_rel T (emits plain_call)) (query_traces E)"
  unfolding query_traces_def
  by (auto split: option.splits prod.splits intro!: rel_rules plain_ops [OF drv_rel_via_ops] bus_ops)

lemma query_resolution_plain: "state_io_rel (drv_rel T (emits plain_call)) (query_resolution E)"
  unfolding query_resolution_def divide_by_zero_def
  by (auto split: option.splits prod.splits intro!: rel_rules plain_ops [OF drv_rel_via_ops] bus_ops)

lemma query_parameters_plain:
  "state_io_rel (drv_rel T (emits plain_call)) (elan_query_device_parameters E)"
  unfolding elan_query_device_parameters_def divide_by_zero_def
  by (intro rel_rules query_size_plain query_traces_plain query_resolution_plain) auto

lemma controller_plain: "state_io_rel (drv_rel T (emits plain_call)) (elan_probe_controller E)"
  unfolding elan_probe_controller_def
  by (intro rel_rules query_parameters_plain plain_ops [OF initialize_bus]
      plain_ops [OF query_device_info_bus]) auto

lemma nodes_plain: "state_io_rel (drv_rel T (emits plain_call)) (elan_probe_nodes E)"
  unfolding elan_probe_nodes_def elan_setup_input_device_def elan_setup_trackpoint_input_device_def
  by (intro rel_rules) auto

end

text \<open>What a part of the probe appended to the trace, and the balance it left.\<close>

definition probe_balance :: "bool \<Rightarrow> driver \<Rightarrow> driver \<Rightarrow> bool" where
  "probe_balance bound s s' \<longleftrightarrow> (\<exists>u. io_trace s' = io_trace s @ u \<and> settled u \<and>
     (bound \<longrightarrow> vcc_users u = 1 \<and> registered_actions u = [''elan_cancel_watchdog'', ''elan_disable_regulator'']) \<and>
     irq_depth u = 0 \<and> mutex_depth u = 0)"

lemma probe_resources_balance:
  "wp (elan_probe_resources E c opt) (\<lambda>r s'. probe_balance (r = 0) s s' \<and> (r = 0 \<longrightarrow> ops (tp s') = opt)) s"
  unfolding elan_probe_resources_def devm_add_action_or_reset_def elan_cancel_watchdog_def
    elan_disable_regulator_def
  by (intro wp_intros) (simp_all add: probe_balance_def settled_def zeroed_tp_def ENOMEM_def)

lemma probe_transport_run:
  "wp (probe_transport E) (\<lambda>r t'. emits plain_call t t' \<and>
    (\<forall>opt. r = Some opt \<longrightarrow> opt = elan_i2c_ops E \<or> opt = elan_smbus_ops E)) t"
  unfolding probe_transport_def
  by (intro wp_intros) (auto simp: emits_def)

lemma probe_balance_plain:
  assumes "probe_balance b s s'" "emits plain_call (io_trace s') t"
  shows "probe_balance b s (s'\<lparr>io_trace := t\<rparr>)"
  using assms settled_plain [OF assms(2)] by (auto simp: probe_balance_def settled_def)

lemma probe_balance_trans:
  assumes "emits plain_call (io_trace s) t" "probe_balance b (s\<lparr>io_trace := t\<rparr>) s'"
  shows "probe_balance b s s'"
  using assms(2) settled_plain [OF assms(1)] by (auto simp: probe_balance_def settled_def)

lemma probe_balance_step:
  assumes "drv_rel T (emits plain_call) s' s''" "ops (tp s') = T" "probe_balance True s s'"
  shows "probe_balance b s s''"
  using assms settled_plain [of "io_trace s'" "io_trace s''"]
  by (auto simp: probe_balance_def settled_def drv_rel_def)

lemma probe_balance_weaken: "probe_balance b s s' \<Longrightarrow> (b' \<Longrightarrow> b) \<Longrightarrow> probe_balance b' s s'"
  by (auto simp: probe_balance_def)

lemma probe_bound_part:
  assumes T: "transport opt"
  shows "wp (do {
          error \<leftarrow> elan_probe_resources E c opt;
          if error \<noteq> 0 then return (Some error) else do {
          outcome \<leftarrow> elan_probe_controller E;
          if outcome \<noteq> Some 0 then return outcome else do {
          error \<leftarrow> elan_probe_nodes E;
          return (Some error)
          }}
        }) (\<lambda>r s'. probe_balance (r = Some 0) s s') s"
proof -
  have controller: "wp (elan_probe_controller E) (\<lambda>r s'. probe_balance True s s' \<and> ops (tp s') = opt) s'"
    if "probe_balance True s s'" "ops (tp s') = opt" for s'
    by (rule wp_rel [OF transport.controller_plain [OF T, of E]])
      (use that in \<open>auto intro: probe_balance_step simp: drv_rel_def\<close>)
  have nodes: "wp (elan_probe_nodes E) (\<lambda>r s'. probe_balance True s s') s'"
    if "probe_balance True s s'" "ops (tp s') = opt" for s'
    by (rule wp_rel [OF transport.nodes_plain [OF T, of E]])
      (use that in \<open>auto intro: probe_balance_step\<close>)
  show ?thesis
    by (intro wp_bindI wp_ifI wp_returnI wp_mono [OF probe_resources_balance] wp_mono [OF controller]
        wp_mono [OF nodes]) (auto elim: probe_balance_weaken)
qed

lemma probe_balanced: "wp (elan_probe E c) (\<lambda>r s'. probe_balance (r = Some 0) s s') s"
proof -
  have checked: "emits plain_call (io_trace s) t \<and>
      (\<forall>opt. r = Some opt \<longrightarrow> opt = elan_i2c_ops E \<or> opt = elan_smbus_ops E)"
    if "result (probe_transport E) (io_trace s) = r" "final (probe_transport E) (io_trace s) = t"
    for r t
    using probe_transport_run [of E "io_trace s"] that by (simp add: wp_def)
  have bound: "wp (do {
          error \<leftarrow> elan_probe_resources E c opt;
          if error \<noteq> 0 then return (Some error) else do {
          outcome \<leftarrow> elan_probe_controller E;
          if outcome \<noteq> Some 0 then return outcome else do {
          error \<leftarrow> elan_probe_nodes E;
          return (Some error)
          }}
        }) (\<lambda>r s'. probe_balance (r = Some 0) s s') (s\<lparr>io_trace := t\<rparr>)"
    if "opt = elan_i2c_ops E \<or> opt = elan_smbus_ops E" "emits plain_call (io_trace s) t" for opt t
    by (rule wp_mono [OF probe_bound_part])
      (use that in \<open>auto intro: probe_balance_trans i2c.transport_axioms smbus.transport_axioms\<close>)
  have refl: "probe_balance False s s"
    by (simp add: probe_balance_def settled_def)
  show ?thesis
    unfolding elan_probe_def
    by (intro wp_bindI wp_ifI wp_returnI wp_xioI wp_abstract [of "probe_transport E"]
        wp_case_optionI bound)
      (auto dest: checked intro: refl probe_balance_plain [OF refl] elim: probe_balance_weaken)
qed

lemma devres_release_vcc:
  "vcc_users (io_trace (final (devres_release names) s)) = vcc_users (io_trace s) -
    int (length (filter (\<lambda>name. name = ''elan_disable_regulator'') names))"
  by (induction names arbitrary: s)
    (simp_all add: devres_action_def elan_cancel_watchdog_def elan_disable_regulator_def final_if)

section \<open>What a successful probe has set up\<close>

text \<open>The touchpad node advertises exactly the geometry the decoder will be given.\<close>

definition node_advertises :: "elan_tp_data \<Rightarrow> input_dev \<Rightarrow> bool" where
  "node_advertises d dev \<longleftrightarrow>
     dev_name dev = ''Elan Touchpad'' \<and> id_vendor dev = 0x04f3 \<and> id_product dev = product_id d \<and>
     mt_slots dev = 5 \<and> prop_pointer dev \<and> (prop_buttonpad dev \<longleftrightarrow> clickpad d \<noteq> 0) \<and>
     keybit dev = {BTN_LEFT} \<union> (if clickpad d \<noteq> 0 then {} else {BTN_RIGHT}) \<union>
       (if clickpad d = 0 \<and> middle_button d then {BTN_MIDDLE} else {}) \<and>
     abs_max dev ABS_X = Some (max_x d) \<and> abs_max dev ABS_Y = Some (max_y d) \<and>
     abs_max dev ABS_MT_POSITION_X = Some (max_x d) \<and>
     abs_max dev ABS_MT_POSITION_Y = Some (max_y d) \<and>
     abs_max dev ABS_PRESSURE = Some 255 \<and> abs_max dev ABS_MT_PRESSURE = Some 255 \<and>
     abs_max dev ABS_DISTANCE = Some 1 \<and>
     abs_max dev ABS_TOOL_WIDTH = (if bit (report_features d) 0 then Some 15 else None) \<and>
     abs_max dev ABS_MT_TOUCH_MAJOR =
       (if bit (report_features d) 0 then Some (15 * max (width_x d) (width_y d)) else None) \<and>
     abs_max dev ABS_MT_TOUCH_MINOR =
       (if bit (report_features d) 0 then Some (15 * min (width_x d) (width_y d)) else None) \<and>
     abs_res dev ABS_X = x_res d \<and> abs_res dev ABS_Y = y_res d \<and>
     abs_res dev ABS_MT_POSITION_X = x_res d \<and> abs_res dev ABS_MT_POSITION_Y = y_res d"

definition probed :: "environment \<Rightarrow> i2c_client \<Rightarrow> driver \<Rightarrow> bool" where
  "probed E c s \<longleftrightarrow> bound_to E s \<and> client (tp s) = c \<and>
     mode (tp s) = ETP_ENABLE_ABS \<and> \<not> in_fw_update (tp s) \<and> open_count (tp s) = 0 \<and>
     report_errors (tp s) = 0 \<and> watchdog_recoveries (tp s) = 0 \<and> \<not> baseline_ready (tp s) \<and>
     unat (report_len (tp s)) \<le> ETP_MAX_REPORT_LEN \<and>
     quirks (tp s) = elan_i2c_lookup_quirks (ic_type (tp s)) (product_id (tp s)) \<and>
     snd (elan_get_fwinfo (ic_type (tp s)) (iap_version (tp s))) =
       (fw_validpage_count (tp s), fw_signature_address (tp s), fw_page_size (tp s)) \<and>
     (\<exists>dev. input (tp s) = Some dev \<and> node_advertises (tp s) dev) \<and>
     (tp_input (tp s) = None \<longleftrightarrow> \<not> property_bool E ''elan,trackpoint'')"

lemma mk_bit: "f AND ETP_FEATURE_REPORT_MK \<noteq> 0 \<longleftrightarrow> bit f 0" for f :: u32
  unfolding ETP_FEATURE_REPORT_MK_def BIT_def by (simp only: and_push_bit_eq_0 not_not)

lemma input_params [simp]:
  "abs_max (input_set_abs_params axis m dev) = (abs_max dev)(axis \<mapsto> m)"
  "abs_res (input_set_abs_params axis m dev) = abs_res dev"
  "abs_max (input_abs_set_res axis r dev) = abs_max dev"
  "abs_res (input_abs_set_res axis r dev) = (abs_res dev)(axis := r)"
  by (simp_all add: input_set_abs_params_def input_abs_set_res_def)

lemma input_params_identity [simp]:
  "dev_name (input_set_abs_params axis m dev) = dev_name dev"
  "id_vendor (input_set_abs_params axis m dev) = id_vendor dev"
  "id_product (input_set_abs_params axis m dev) = id_product dev"
  "mt_slots (input_set_abs_params axis m dev) = mt_slots dev"
  "prop_pointer (input_set_abs_params axis m dev) = prop_pointer dev"
  "prop_buttonpad (input_set_abs_params axis m dev) = prop_buttonpad dev"
  "keybit (input_set_abs_params axis m dev) = keybit dev"
  "dev_name (input_abs_set_res axis r dev) = dev_name dev"
  "id_vendor (input_abs_set_res axis r dev) = id_vendor dev"
  "id_product (input_abs_set_res axis r dev) = id_product dev"
  "mt_slots (input_abs_set_res axis r dev) = mt_slots dev"
  "prop_pointer (input_abs_set_res axis r dev) = prop_pointer dev"
  "prop_buttonpad (input_abs_set_res axis r dev) = prop_buttonpad dev"
  "keybit (input_abs_set_res axis r dev) = keybit dev"
  by (simp_all add: input_set_abs_params_def input_abs_set_res_def)

lemma touchpad_axes:
  "abs_max (set_touchpad_axes d dev) = (abs_max dev)(ABS_X \<mapsto> max_x d, ABS_Y \<mapsto> max_y d,
     ABS_PRESSURE \<mapsto> 255, ABS_TOOL_WIDTH := (if bit (report_features d) 0 then Some 15 else abs_max dev ABS_TOOL_WIDTH),
     ABS_DISTANCE \<mapsto> 1, ABS_MT_POSITION_X \<mapsto> max_x d, ABS_MT_POSITION_Y \<mapsto> max_y d, ABS_MT_PRESSURE \<mapsto> 255,
     ABS_MT_TOUCH_MAJOR := (if bit (report_features d) 0 then Some (15 * max (width_x d) (width_y d))
       else abs_max dev ABS_MT_TOUCH_MAJOR),
     ABS_MT_TOUCH_MINOR := (if bit (report_features d) 0 then Some (15 * min (width_x d) (width_y d))
       else abs_max dev ABS_MT_TOUCH_MINOR))"
  unfolding set_touchpad_axes_def mk_bit Let_def
  by (cases "bit (report_features d) 0"; rule ext)
    (simp_all add: ETP_FINGER_WIDTH_def ETP_MAX_PRESSURE_def)

lemma touchpad_resolutions:
  "abs_res (set_touchpad_axes d dev) = (abs_res dev)(ABS_X := x_res d, ABS_Y := y_res d,
     ABS_MT_POSITION_X := x_res d, ABS_MT_POSITION_Y := y_res d)"
  by (simp add: set_touchpad_axes_def Let_def)

lemma touchpad_identity:
  "dev_name (set_touchpad_axes d dev) = dev_name dev" "id_vendor (set_touchpad_axes d dev) = id_vendor dev"
  "id_product (set_touchpad_axes d dev) = id_product dev" "mt_slots (set_touchpad_axes d dev) = mt_slots dev"
  "prop_pointer (set_touchpad_axes d dev) = prop_pointer dev"
  "prop_buttonpad (set_touchpad_axes d dev) = prop_buttonpad dev"
  "keybit (set_touchpad_axes d dev) = keybit dev"
  by (simp_all add: set_touchpad_axes_def Let_def)

lemma touchpad_node_advertises:
  "node_advertises d (set_touchpad_axes d (set_touchpad_buttons d
    (zeroed_input\<lparr>dev_name := ''Elan Touchpad'', id_vendor := ELAN_VENDOR_ID,
       id_product := product_id d, mt_slots := ETP_MAX_FINGERS\<rparr>)))"
  unfolding node_advertises_def touchpad_axes touchpad_resolutions touchpad_identity
  by (cases "clickpad d = 0"; cases "middle_button d")
    (auto simp: set_touchpad_buttons_def zeroed_input_def ELAN_VENDOR_ID_def ETP_MAX_FINGERS_def Let_def)

text \<open>What the bring-up leaves alone, and what the parameter queries do.\<close>

definition untouched :: "elan_tp_data \<Rightarrow> bool \<times> u32 \<times> u32 \<times> u32 \<times> bool \<times> input_dev option \<times> u8" where
  "untouched d = (in_fw_update d, open_count d, report_errors d, watchdog_recoveries d,
     baseline_ready d, tp_input d, mode d AND NOT ETP_ENABLE_ABS)"

definition identified :: "elan_tp_data \<Rightarrow> u32 \<times> u8 \<times> u16 \<times> u16 \<times> u8 \<times> u32 \<times> u16 \<times> u32 \<times> u16" where
  "identified d = (report_len d, mode d, ic_type d, product_id d, iap_version d, quirks d, fw_validpage_count d,
     fw_signature_address d, fw_page_size d)"

lemma absolute_masked [simp]: "(m OR ETP_ENABLE_ABS) AND NOT ETP_ENABLE_ABS = m AND NOT ETP_ENABLE_ABS" for m :: u8
  by (rule bit_word_eqI) (auto simp: bit_simps)

lemma absolute_only:
  fixes m :: u8
  assumes "m AND NOT ETP_ENABLE_ABS = 0" "m AND ETP_ENABLE_ABS = ETP_ENABLE_ABS"
  shows "m = ETP_ENABLE_ABS"
proof -
  have "m = (m AND NOT ETP_ENABLE_ABS) OR (m AND ETP_ENABLE_ABS)"
    by (rule bit_word_eqI) (auto simp: bit_simps)
  then show ?thesis
    by (simp only: assms or.left_neutral)
qed

lemma initialize_untouched: "state_io_rel (keeps untouched) (elan_initialize b)"
  by (rule initialize_keeps) (simp_all add: untouched_def)

lemma query_info_untouched: "state_io_rel (keeps untouched) elan_query_device_info"
  unfolding elan_query_device_info_def
  by (intro rel_rules) (auto simp: untouched_def split: prod.splits)

lemma keeps_query_size: "\<lbrakk>\<And>d v. g (d\<lparr>max_x := v\<rparr>) = g d; \<And>d v. g (d\<lparr>max_y := v\<rparr>) = g d\<rbrakk> \<Longrightarrow>
    state_io_rel (keeps g) (query_size E)"
  unfolding query_size_def Let_def by (intro rel_rules) (auto split: prod.splits)

lemma keeps_query_traces: "state_io_rel (keeps g) (query_traces E)"
  unfolding query_traces_def by (auto split: option.splits prod.splits intro!: rel_rules)

lemma keeps_query_resolution: "\<lbrakk>\<And>d v. g (d\<lparr>x_res := v\<rparr>) = g d; \<And>d v. g (d\<lparr>y_res := v\<rparr>) = g d\<rbrakk> \<Longrightarrow>
    state_io_rel (keeps g) (query_resolution E)"
  unfolding query_resolution_def divide_by_zero_def
  by (auto split: option.splits prod.splits intro!: rel_rules)

lemma keeps_query_parameters:
  assumes "\<And>d v. g (d\<lparr>max_x := v\<rparr>) = g d" "\<And>d v. g (d\<lparr>max_y := v\<rparr>) = g d"
    and "\<And>d v. g (d\<lparr>x_res := v\<rparr>) = g d" "\<And>d v. g (d\<lparr>y_res := v\<rparr>) = g d"
    and "\<And>d v. g (d\<lparr>width_x := v\<rparr>) = g d" "\<And>d v. g (d\<lparr>width_y := v\<rparr>) = g d"
    and "\<And>d. g (d\<lparr>clickpad := 1\<rparr>) = g d" "\<And>d. g (d\<lparr>middle_button := True\<rparr>) = g d"
  shows "state_io_rel (keeps g) (elan_query_device_parameters E)"
  unfolding elan_query_device_parameters_def divide_by_zero_def
  by (intro rel_rules keeps_query_size keeps_query_traces keeps_query_resolution) (auto simp: assms)

lemma query_info_identified:
  assumes "bound_to E s"
  shows "wp elan_query_device_info (\<lambda>r s'. r = 0 \<longrightarrow> mode (tp s') = mode (tp s) \<and>
    unat (report_len (tp s')) \<le> ETP_MAX_REPORT_LEN \<and>
    quirks (tp s') = elan_i2c_lookup_quirks (ic_type (tp s')) (product_id (tp s')) \<and>
    snd (elan_get_fwinfo (ic_type (tp s')) (iap_version (tp s'))) =
      (fw_validpage_count (tp s'), fw_signature_address (tp s'), fw_page_size (tp s'))) s"
  unfolding elan_query_device_info_def
  by (intro wp_intros)
    (auto split: prod.splits dest: transport.report_features_fit [OF bound_to_transport [OF assms]])

text \<open>A device whose controller has been brought up, before the nodes exist.\<close>

definition brought_up :: "environment \<Rightarrow> i2c_client \<Rightarrow> driver \<Rightarrow> bool" where
  "brought_up E c s \<longleftrightarrow> bound_to E s \<and> client (tp s) = c \<and> mode (tp s) = ETP_ENABLE_ABS \<and>
     untouched (tp s) = untouched (zeroed_tp c (ops (tp s))) \<and>
     unat (report_len (tp s)) \<le> ETP_MAX_REPORT_LEN \<and>
     quirks (tp s) = elan_i2c_lookup_quirks (ic_type (tp s)) (product_id (tp s)) \<and>
     snd (elan_get_fwinfo (ic_type (tp s)) (iap_version (tp s))) =
       (fw_validpage_count (tp s), fw_signature_address (tp s), fw_page_size (tp s))"

lemma same_transport:
  assumes "bound_to E s"
  shows "wp (elan_initialize b) (\<lambda>r s'. ops (tp s') = ops (tp s) \<and> client (tp s') = client (tp s)) s"
    and "wp elan_query_device_info (\<lambda>r s'. ops (tp s') = ops (tp s) \<and> client (tp s') = client (tp s)) s"
  using io_relD [OF transport.initialize_bus [OF bound_to_transport [OF assms]], of s b]
    io_relD [OF transport.query_device_info_bus [OF bound_to_transport [OF assms]], of s]
  by (simp_all add: wp_def drv_rel_def)

lemma probe_initialized:
  assumes "bound_to E s" "untouched (tp s) = untouched (zeroed_tp c opt)"
  shows "wp (elan_initialize False) (\<lambda>r s'. ops (tp s') = ops (tp s) \<and> client (tp s') = client (tp s) \<and>
    untouched (tp s') = untouched (tp s) \<and> (r = 0 \<longrightarrow> mode (tp s') = ETP_ENABLE_ABS)) s"
proof -
  have "untouched (tp (final (elan_initialize False) s)) = untouched (tp s)"
    using io_relD [OF initialize_untouched] by (simp add: keeps_def)
  moreover have "mode (tp (final (elan_initialize False) s)) AND NOT ETP_ENABLE_ABS = 0"
    using calculation assms(2) by (simp add: untouched_def zeroed_tp_def)
  ultimately show ?thesis
    using same_transport(1) [OF assms(1), of False]
      transport.initialize_wp [OF bound_to_transport [OF assms(1)] refl, of False]
    by (auto simp: wp_def absolute_mode_set_def intro: absolute_only)
qed

lemma probe_queried:
  assumes "bound_to E s"
  shows "wp elan_query_device_info (\<lambda>r s'. ops (tp s') = ops (tp s) \<and> client (tp s') = client (tp s) \<and>
    untouched (tp s') = untouched (tp s) \<and> (r = 0 \<longrightarrow> mode (tp s') = mode (tp s) \<and>
    unat (report_len (tp s')) \<le> ETP_MAX_REPORT_LEN \<and>
    quirks (tp s') = elan_i2c_lookup_quirks (ic_type (tp s')) (product_id (tp s')) \<and>
    snd (elan_get_fwinfo (ic_type (tp s')) (iap_version (tp s'))) =
      (fw_validpage_count (tp s'), fw_signature_address (tp s'), fw_page_size (tp s')))) s"
  using same_transport(2) [OF assms] query_info_identified [OF assms]
    io_relD [OF query_info_untouched, of s]
  by (auto simp: wp_def keeps_def)

lemma probe_measured:
  "wp (elan_query_device_parameters E) (\<lambda>_ s'. (ops (tp s'), client (tp s')) = (ops (tp s), client (tp s)) \<and>
    untouched (tp s') = untouched (tp s) \<and> identified (tp s') = identified (tp s)) s"
  using io_relD [OF keeps_query_parameters [of "\<lambda>d. (ops d, client d)" E], of s]
    io_relD [OF keeps_query_parameters [of untouched E], of s]
    io_relD [OF keeps_query_parameters [of identified E], of s]
  by (simp add: wp_def keeps_def untouched_def identified_def)

lemma controller_brought_up:
  assumes "bound_to E s" "client (tp s) = c" "untouched (tp s) = untouched (zeroed_tp c opt)"
  shows "wp (elan_probe_controller E) (\<lambda>r s'. r = Some 0 \<longrightarrow> brought_up E c s') s"
proof -
  have pinged: "bound_to E (s\<lparr>io_trace := t\<rparr>)" for t
    using assms(1) by (simp add: bound_to_def)
  have init: "wp (elan_initialize False) (\<lambda>r s'. bound_to E s' \<and> client (tp s') = c \<and>
      untouched (tp s') = untouched (zeroed_tp c opt) \<and> (r = 0 \<longrightarrow> mode (tp s') = ETP_ENABLE_ABS))
      (s\<lparr>io_trace := t\<rparr>)" for t
    by (rule wp_mono [OF probe_initialized [OF pinged]]) (use assms in \<open>auto simp: bound_to_def\<close>)
  show ?thesis
    unfolding elan_probe_controller_def
    by (intro wp_bindI wp_ifI wp_returnI wp_xioI wp_status_ofI wp_mono [OF init]
        wp_mono [OF probe_queried] wp_mono [OF probe_measured])
      (auto simp: bound_to_def brought_up_def untouched_def zeroed_tp_def identified_def)
qed

lemma advertises_cong:
  "node_advertises d dev \<Longrightarrow> node_advertises (d\<lparr>input := i, tp_input := j\<rparr>) dev"
  "node_advertises d dev \<Longrightarrow> node_advertises (d\<lparr>input := i\<rparr>) dev"
  by (simp_all add: node_advertises_def)

lemma input_node_set_up:
  "wp (elan_setup_input_device E) (\<lambda>r s'. r = 0 \<longrightarrow>
    (\<exists>dev. node_advertises (tp s) dev \<and> tp s' = (tp s)\<lparr>input := Some dev\<rparr>)) s"
  unfolding elan_setup_input_device_def
  by (intro wp_intros) (auto simp: ENOMEM_def intro!: touchpad_node_advertises)

lemma trackpoint_node_set_up:
  "wp (elan_setup_trackpoint_input_device E) (\<lambda>r s'. r = 0 \<longrightarrow>
    (\<exists>dev. tp s' = (tp s)\<lparr>tp_input := Some dev\<rparr>)) s"
  unfolding elan_setup_trackpoint_input_device_def
  by (intro wp_intros) (auto simp: ENOMEM_def)

lemma nodes_set_up:
  assumes "tp_input (tp s) = None"
  shows "wp (elan_probe_nodes E) (\<lambda>r s'. r = 0 \<longrightarrow>
    tp s' = (tp s)\<lparr>input := input (tp s'), tp_input := tp_input (tp s')\<rparr> \<and>
    (\<exists>dev. input (tp s') = Some dev \<and> node_advertises (tp s) dev) \<and>
    (tp_input (tp s') = None \<longleftrightarrow> \<not> property_bool E ''elan,trackpoint'')) s"
  unfolding elan_probe_nodes_def
  by (intro wp_bindI wp_ifI wp_letI wp_returnI wp_getdI wp_xioI wp_status_ofI
      wp_mono [OF input_node_set_up] wp_mono [OF trackpoint_node_set_up])
    (use assms in auto)

lemma resources_zeroed:
  "wp (elan_probe_resources E c opt) (\<lambda>r s'. r = 0 \<longrightarrow>
    (\<exists>w. tp s' = (zeroed_tp c opt)\<lparr>watchdog_enabled := w\<rparr>)) s"
  unfolding elan_probe_resources_def devm_add_action_or_reset_def
  by (intro wp_intros wp_abstract) (auto simp: ENOMEM_def zeroed_tp_def)

lemma probed_intro:
  assumes "brought_up E c s" "tp s' = (tp s)\<lparr>input := Some dev, tp_input := node\<rparr>"
    and "node_advertises (tp s) dev" "node = None \<longleftrightarrow> \<not> property_bool E ''elan,trackpoint''"
  shows "probed E c s'"
  using assms
  by (auto simp: probed_def brought_up_def bound_to_def untouched_def zeroed_tp_def
      intro!: advertises_cong)

lemma nodes_probed:
  assumes "brought_up E c s"
  shows "wp (elan_probe_nodes E) (\<lambda>r s'. r = 0 \<longrightarrow> probed E c s') s"
proof -
  have "tp_input (tp s) = None"
    using assms by (simp add: brought_up_def untouched_def zeroed_tp_def)
  from nodes_set_up [OF this, of E] show ?thesis
    by (rule wp_mono) (auto intro: probed_intro [OF assms])
qed

lemma probe_success_wp: "wp (elan_probe E c) (\<lambda>r s'. r = Some 0 \<longrightarrow> probed E c s') s"
proof -
  have transport: "wp (probe_transport E) (\<lambda>r t. \<forall>opt. r = Some opt \<longrightarrow>
      opt = elan_i2c_ops E \<or> opt = elan_smbus_ops E) t" for t
    by (rule wp_mono [OF probe_transport_run]) simp
  have resources: "wp (elan_probe_resources E c opt) (\<lambda>r s'. r = 0 \<longrightarrow> bound_to E s' \<and>
      client (tp s') = c \<and> untouched (tp s') = untouched (zeroed_tp c opt)) s"
    if "opt = elan_i2c_ops E \<or> opt = elan_smbus_ops E" for opt s
    by (rule wp_mono [OF resources_zeroed])
      (use that in \<open>auto simp: bound_to_def zeroed_tp_def untouched_def\<close>)
  show ?thesis
    unfolding elan_probe_def
    by (intro wp_bindI wp_ifI wp_returnI wp_xioI wp_mono [OF transport] wp_case_optionI
        wp_mono [OF resources] wp_mono [OF controller_brought_up] wp_mono [OF nodes_probed])
      (auto simp: EPROTO_def EIO_def)
qed

section \<open>Properties\<close>

text \<open>
  C12: A probe that returns 0 leaves a consistent device: bound to one of the two transports, in
  absolute mode with calibration off, no update running, nobody using it and no error counted;
  quirks and firmware geometry are the table entries of the controller found, a report fits the
  handler's buffer; the touchpad node
  advertises exactly the geometry the decoder is given, and the trackpoint node exists exactly
  when the firmware declares one.
\<close>

theorem probe_success:
  assumes "result (elan_probe E c) s = Some 0"
  shows "probed E c (final (elan_probe E c) s)"
  using probe_success_wp [of E c s] assms by (simp add: wp_def)

text \<open>
  C27: The regulator is balanced: unless the probe traps, after binding it has been enabled once
  more exactly when the probe succeeded; on every failing path, whichever step failed, the driver
  core's cleanup gives back what had been enabled.
\<close>

theorem probe_regulator_balance:
  assumes "result (elan_bind E c) s = Some r"
  shows "vcc_users (io_trace (final (elan_bind E c) s)) = vcc_users (io_trace s) + (if r = 0 then 1 else 0)"
proof -
  let ?s' = "final (elan_probe E c) s"
  have r: "result (elan_probe E c) s = Some r"
    using assms by (simp add: elan_bind_def result_if split: if_splits)
  obtain u where u: "io_trace ?s' = io_trace s @ u" "settled u" "r = 0 \<longrightarrow> vcc_users u = 1"
    using probe_balanced [of E c s] r by (auto simp: wp_def probe_balance_def)
  then show ?thesis
    using r by (simp add: elan_bind_def final_if devres_release_vcc settled_def rev_filter [symmetric])
qed

text \<open>
  A machine with an SMBus-only adapter on which every step of the probe succeeds; its controller
  answers every report query with \<open>report\<close>, in the sample environment with one finger, and the
  watchdog is enabled.
\<close>

definition device_environment :: "reply \<Rightarrow> environment" where
  "device_environment report = (sample_environment [])\<lparr>answer := \<lambda>t c.
     case c of Probe CheckSmbusFunctionality \<Rightarrow> (1, [])
     | Bus (SmbusReadBlock cmd) \<Rightarrow>
         if cmd = ETP_SMBUS_HELLOPACKET_CMD then (5, [0x55, 0x55, 0x55, 0x55, 0x55])
         else if cmd = ETP_SMBUS_PACKET_QUERY then report
         else (3, [0x55, 0x12, 0x34])
     | _ \<Rightarrow> sample_reply [] c,
     property_bool := \<lambda>name. name = ''elan,runtime-watchdog''\<rparr>"

definition packet_reply :: reply where
  "packet_reply = (32, [0x5D, 0x08, 0x11, 0x20, 0x30, 0x21, 0x40] @ replicate 25 0)"

abbreviation probe_environment :: environment where
  "probe_environment \<equiv> device_environment packet_reply"

definition sample_client :: i2c_client where
  "sample_client = \<lparr>addr = 0x15, flags = 0\<rparr>"

text \<open>The probe, part by part: the structure it starts from is overwritten.\<close>

definition device_powered :: "reply \<Rightarrow> driver" where
  "device_powered report = final (elan_probe_resources (device_environment report) sample_client
     (elan_smbus_ops (device_environment report)))
     (sample_smbus\<lparr>io_trace := final (probe_transport (device_environment report)) (io_trace sample_smbus)\<rparr>)"

lemma sample_controller:
  "result (elan_probe_controller (device_environment report)) (device_powered report) = Some 0"
  by code_simp

lemma sample_answers:
  "answer (device_environment report) t (Probe c) = (if c = CheckSmbusFunctionality then 1 else 0, [])"
  "answer (device_environment report) t (Power q) = (0, [])"
  by (simp_all add: device_environment_def sample_reply_def split: probe_op.splits)

lemma sample_nodes: "result (elan_probe_nodes (device_environment report)) s = 0"
  by (simp add: elan_probe_nodes_def elan_setup_input_device_def sample_answers result_if final_if
      Let_def elan_setup_trackpoint_input_device_def)

lemma sample_transport:
  "result (probe_transport (device_environment report)) t = Some (elan_smbus_ops (device_environment report))"
  by (simp add: probe_transport_def result_if final_if sample_answers)
    (simp add: device_environment_def sample_environment_def)

lemma sample_resources:
  "result (elan_probe_resources (device_environment report) sample_client opt) s = 0"
  by (simp add: elan_probe_resources_def devm_add_action_or_reset_def result_if final_if sample_answers)

lemma sample_probe: "result (elan_probe (device_environment report) sample_client) sample_smbus = Some 0"
  using sample_controller [of report]
  by (simp add: elan_probe_def sample_transport sample_resources sample_nodes result_if
      device_powered_def elan_rs_abi_version_def ELAN_RS_ABI_VERSION_def)

theorem probe_success_witness:
  "probed probe_environment sample_client
    (final (elan_probe probe_environment sample_client) sample_smbus)"
  by (rule probe_success [OF sample_probe])

lemma sample_bind: "result (elan_bind probe_environment sample_client) sample_smbus = Some 0"
  using sample_probe by (simp add: elan_bind_def result_if)

theorem probe_regulator_balance_witness:
  "vcc_users (io_trace (final (elan_bind probe_environment sample_client) sample_smbus)) = 1"
  using probe_regulator_balance [OF sample_bind]
  by (simp add: sample_smbus_def sample_driver_def)

end
