(* ===== verification/Elan_System.thy ===== *)
theory Elan_System
  imports Elan_Sysfs Elan_Pm Elan_Probe
begin

text \<open>
  The driver as a whole: the handlers of the other theories as the steps of one transition
  system, taken in any order the kernel allows. A step is one handler run; what runs inside a
  handler without the mutex or the interrupt disabled is not interleaved further here, except that
  suspend is split where the code leaves the interrupt and the work queue free; the interrupt
  handler is taken apart in \<open>Elan_Preemption\<close>.
\<close>

section \<open>States and steps\<close>

datatype sleep_phase = Awake | Suspending | Asleep

text \<open>
  \<open>users\<close> is how often userspace holds the nodes open, \<open>queued\<close> whether the watchdog work is on
  the work queue.
\<close>

record system =
  drv :: driver
  users :: nat
  queued :: bool
  phase :: sleep_phase

datatype event =
    Interrupt elan_rs_frame
  | WatchdogWork
  | Open
  | Close
  | Show string
  | Store string string nat
  | CancelForSuspend
  | Suspend
  | Resume

fun work_pending :: "bool \<Rightarrow> trace \<Rightarrow> bool" where
  "work_pending b [] = b"
| "work_pending b ((Sched ScheduleWork, _) # t) = work_pending True t"
| "work_pending b ((Sched CancelWorkSync, _) # t) = work_pending False t"
| "work_pending b (_ # t) = work_pending b t"

text \<open>Running a handler: the structure and the trace move on, the work queue follows the trace.\<close>

definition added :: "'a drv \<Rightarrow> driver \<Rightarrow> trace" where
  "added m s = drop (length (io_trace s)) (io_trace (final m s))"

definition advance :: "'a drv \<Rightarrow> system \<Rightarrow> system" where
  "advance m S = S\<lparr>drv := final m (drv S), queued := work_pending (queued S) (added m (drv S))\<rparr>"

text \<open>
  The interrupt handler runs while the line is enabled, the work item when it is queued, a system
  call while userspace is running, that is until suspend begins.
\<close>

inductive elan_step :: "environment \<Rightarrow> event \<Rightarrow> system \<Rightarrow> system \<Rightarrow> bool"
  for E :: environment
where
  interrupt: "irq_depth (io_trace (drv S)) = 0 \<Longrightarrow>
    elan_step E (Interrupt f0) S (advance (elan_isr E f0) S)"
| watchdog: "queued S \<Longrightarrow>
    elan_step E WatchdogWork S (advance elan_watchdog_work (S\<lparr>queued := False\<rparr>))"
| open_node: "phase S = Awake \<Longrightarrow>
    elan_step E Open S (advance elan_input_open (S\<lparr>users := users S + 1\<rparr>))"
| close_node: "phase S = Awake \<Longrightarrow> users S = Suc n \<Longrightarrow>
    elan_step E Close S (advance elan_input_close (S\<lparr>users := n\<rparr>))"
| show_attribute: "phase S = Awake \<Longrightarrow> elan_sysfs_show E name = Some m \<Longrightarrow>
    elan_step E (Show name) S (advance m S)"
| store_attribute: "phase S = Awake \<Longrightarrow> elan_sysfs_store E name = Some f \<Longrightarrow>
    result (f buf count) (drv S) \<noteq> None \<Longrightarrow>
    elan_step E (Store name buf count) S (advance (f buf count) S)"
| cancel: "phase S = Awake \<Longrightarrow>
    elan_step E CancelForSuspend S
      (advance (xio (notify (Sched CancelWorkSync))) (S\<lparr>phase := Suspending\<rparr>))"
| suspend: "phase S = Suspending \<Longrightarrow>
    elan_step E Suspend S (advance (elan_suspend_locked E)
      (S\<lparr>phase := (if result (elan_suspend_locked E) (drv S) = 0 then Asleep else Awake)\<rparr>))"
| resume: "phase S = Asleep \<Longrightarrow>
    elan_step E Resume S (advance (elan_resume E) (S\<lparr>phase := Awake\<rparr>))"

inductive_cases elan_step_elim: "elan_step E e S S'"

inductive_simps watchdog_step_iff: "elan_step E WatchdogWork S S'"
inductive_simps interrupt_step_iff: "elan_step E (Interrupt f0) S S'"

text \<open>A freshly bound device, on a trace that starts with its probe.\<close>

definition bound_system :: "environment \<Rightarrow> i2c_client \<Rightarrow> system \<Rightarrow> bool" where
  "bound_system E c S \<longleftrightarrow> (\<exists>s0. io_trace s0 = [] \<and> result (elan_probe E c) s0 = Some 0 \<and>
     S = \<lparr>drv = final (elan_probe E c) s0, users = 0, queued = False, phase = Awake\<rparr>)"

definition elan_next :: "environment \<Rightarrow> system \<Rightarrow> system \<Rightarrow> bool" where
  "elan_next E S S' \<longleftrightarrow> (\<exists>e. elan_step E e S S')"

section \<open>Invariants of a transition system\<close>

locale invariant_system =
  fixes start :: "'s \<Rightarrow> bool"
    and step :: "'s \<Rightarrow> 's \<Rightarrow> bool"
    and invariant :: "'s \<Rightarrow> bool"
  assumes start_invariant: "start S \<Longrightarrow> invariant S"
    and step_invariant: "invariant S \<Longrightarrow> step S S' \<Longrightarrow> invariant S'"
begin

lemma steps_invariant: "step\<^sup>*\<^sup>* S S' \<Longrightarrow> invariant S \<Longrightarrow> invariant S'"
  by (induction rule: rtranclp_induct) (auto intro: step_invariant)

lemma start_steps_invariant: "start S \<Longrightarrow> step\<^sup>*\<^sup>* S S' \<Longrightarrow> invariant S'"
  using start_invariant steps_invariant by blast

end

section \<open>What every handler keeps\<close>

text \<open>
  The part of the structure that no handler but open and close changes once the device is bound, and
  what stays true of the rest between two handlers.
\<close>

definition fixed :: "elan_tp_data \<Rightarrow> i2c_client \<times> input_dev option \<times> input_dev option \<times> bool \<times>
    u32 \<times> u32 \<times> u32 \<times> u32 \<times> u32" where
  "fixed d = (client d, input d, tp_input d, watchdog_enabled d, open_count d, max_x d, max_y d,
     width_x d, width_y d)"

definition known_geometry :: "elan_tp_data \<Rightarrow> bool" where
  "known_geometry d \<longleftrightarrow> (\<exists>ic iap err. elan_get_fwinfo ic iap =
     (err, fw_validpage_count d, fw_signature_address d, fw_page_size d))"

definition steady :: "elan_tp_data \<Rightarrow> elan_tp_data \<Rightarrow> bool" where
  "steady d0 d \<longleftrightarrow> fixed d = fixed d0 \<and> unat (report_len d) \<le> ETP_MAX_REPORT_LEN \<and> known_geometry d"

text \<open>A program keeps \<open>P\<close> of the structure, on a device bound to the table \<open>T\<close>.\<close>

definition upholds :: "elan_transport_ops \<Rightarrow> (elan_tp_data \<Rightarrow> bool) \<Rightarrow> driver \<Rightarrow> driver \<Rightarrow> bool" where
  "upholds T P s s' \<longleftrightarrow> (ops (tp s) = T \<and> P (tp s) \<longrightarrow> ops (tp s') = T \<and> P (tp s'))"

lemma upholds_preorder [rel_rules]: "preorder_rel (upholds T P)"
  by (rule preorder_relI) (auto simp: upholds_def)

lemma upholds_getd [rel_rules]: "state_io_rel (upholds T P) (getd f)"
  by (simp add: io_rel_iff upholds_def)

lemma upholds_modd [rel_rules]:
  "(\<And>d. ops (f d) = ops d) \<Longrightarrow> (\<And>d. P d \<Longrightarrow> P (f d)) \<Longrightarrow> state_io_rel (upholds T P) (modd f)"
  by (simp add: io_rel_iff upholds_def)

lemma upholds_xio [rel_rules]: "state_io_rel (upholds T P) (xio m)"
  and upholds_via_ops [rel_rules]: "state_io_rel (upholds T P) (via_ops h)"
  by (simp_all add: io_rel_iff upholds_def)

lemma upholds_op_out [rel_rules]:
  "(\<And>v d. ops (put v d) = ops d) \<Longrightarrow>
   (\<And>d c t. P d \<Longrightarrow> P (put (snd (result (f T c (get d)) t)) d)) \<Longrightarrow>
   state_io_rel (upholds T P) (op_out get put f)"
  by (simp add: io_rel_iff upholds_def)

text \<open>
  \<open>ready am nu d0\<close>: steady since \<open>d0\<close>, and, as the flags say, in absolute mode without calibration
  and with no firmware update running. A handler that changes one of them on the way keeps the
  other.
\<close>

definition ready :: "bool \<Rightarrow> bool \<Rightarrow> elan_tp_data \<Rightarrow> elan_tp_data \<Rightarrow> bool" where
  "ready am nu d0 d \<longleftrightarrow> steady d0 d \<and> (am \<longrightarrow> mode d = ETP_ENABLE_ABS) \<and> (nu \<longrightarrow> \<not> in_fw_update d)"

lemmas ready_defs = ready_def steady_def fixed_def known_geometry_def

lemma upholds_do_retry_via [rel_rules]:
  "state_io_rel (upholds T P) (do_retry n ok (via_ops h) (xio m))"
  "state_io_rel (upholds T P) (do_retry n ok (via_ops h) (return ()))"
  by (intro io_rel_do_retry rel_rules)+

lemma upholds_power [rel_rules]:
  "state_io_rel (upholds T P) (elan_set_power on)" "state_io_rel (upholds T P) elan_sleep"
  "state_io_rel (upholds T P) elan_watchdog_ping" "state_io_rel (upholds T P) set_device_mode"
  "state_io_rel (upholds T P) elan_release_inputs" "state_io_rel (upholds T P) elan_queue_watchdog"
  unfolding elan_set_power_def elan_sleep_def elan_watchdog_ping_def set_device_mode_def
    elan_release_inputs_def elan_queue_watchdog_def
  by (intro rel_rules)+

lemma initialize_upholds [rel_rules]: "state_io_rel (upholds T (ready am nu d0)) (elan_initialize b)"
proof -
  have "state_io_rel (upholds T (ready am nu d0)) (elan_initialize_once b)" for b
    unfolding elan_initialize_once_def elan_query_product_def
    by (intro rel_rules) (auto simp: ready_defs split: prod.splits)
  then show ?thesis
    unfolding initialize_unroll by (intro rel_rules) auto
qed

lemma recover_upholds [rel_rules]: "state_io_rel (upholds T (ready am nu d0)) elan_recover_locked"
  unfolding elan_recover_locked_def Let_def
  by (intro rel_rules) (auto simp: ready_defs)

lemma known_geometry_fwinfo:
  "elan_get_fwinfo ic iap = (err, count, sig, pg) \<Longrightarrow>
    known_geometry (d\<lparr>fw_validpage_count := count, fw_signature_address := sig, fw_page_size := pg\<rparr>)"
  by (auto simp: known_geometry_def)

context transport
begin

lemma report_length_fits:
  "snd (result (get_report_features T c p xy) t) = (feat, len) \<Longrightarrow> unat len \<le> ETP_MAX_REPORT_LEN"
  using report_features_fit [of c p xy t] by (cases "result (get_report_features T c p xy) t") auto

lemma query_info_upholds [rel_rules]:
  "state_io_rel (upholds T (ready am nu d0)) elan_query_device_info"
  unfolding elan_query_device_info_def
  by (intro rel_rules)
    (auto simp: ready_defs split: prod.splits dest: report_length_fits)

end

lemma isr_upholds: "state_io_rel (upholds T (ready am nu d0)) (elan_isr E f0)"
  unfolding elan_isr_def
  by (intro rel_rules) (auto simp: ready_defs)

lemma watchdog_upholds: "state_io_rel (upholds T (ready am nu d0)) elan_watchdog_work"
  unfolding elan_watchdog_work_def
  by (intro rel_rules) (auto simp: ready_defs)

lemma shows_uphold:
  assumes "elan_sysfs_show E name = Some m"
  shows "state_io_rel (upholds T P) m"
proof -
  have "state_io_rel (upholds T P) (elan_sysfs_read_mode E)" "state_io_rel (upholds T P) (min_show E)"
    "state_io_rel (upholds T P) (max_show E)"
    unfolding elan_sysfs_read_mode_def min_show_def max_show_def by (intro rel_rules)+
  then show ?thesis
    using assms
    by (auto simp: elan_sysfs_show_def elan_sysfs_read_product_id_def elan_sysfs_read_fw_ver_def
        elan_sysfs_read_sm_ver_def elan_sysfs_read_iap_ver_def elan_sysfs_read_fw_checksum_def
        runtime_watchdog_show_def upholds_getd split: if_splits)
qed

lemma sleep_upholds:
  "state_io_rel (upholds T (ready am nu d0)) (elan_suspend_locked E)"
  "state_io_rel (upholds T (ready am nu d0)) (elan_resume E)"
  unfolding elan_suspend_locked_def elan_resume_def
  by (intro rel_rules)+

section \<open>The store handlers\<close>

lemma recover_store_upholds: "state_io_rel (upholds T (ready am nu d0)) (recover_store E buf count)"
  unfolding recover_store_def by (intro rel_rules)

lemma leave_calibrate_upholds [rel_rules]:
  "state_io_rel (upholds T (ready False nu d0)) (leave_calibrate r)"
  unfolding leave_calibrate_def by (intro rel_rules) (auto simp: ready_defs)

lemma calibrate_poll_upholds [rel_rules]: "state_io_rel (upholds T P) (calibrate_poll n val)"
proof (induction n arbitrary: val)
  case 0
  show ?case by (subst calibrate_poll.simps) (intro rel_rules; simp)
next
  case (Suc n)
  then show ?case by (subst calibrate_poll.simps) (intro rel_rules; simp)
qed

lemma calibrations_uphold:
  "state_io_rel (upholds T (ready False nu d0)) (calibrate_store E count)"
  "state_io_rel (upholds T (ready False nu d0)) (acquire_store E count)"
  unfolding calibrate_store_def acquire_store_def
  by (intro rel_rules; auto simp: ready_defs)+

lemma write_pages_upholds [rel_rules]: "state_io_rel (upholds T P) (write_pages fw n i sw)"
  by (induction n arbitrary: i sw)
    (auto simp: Let_def elan_write_fw_block_def intro!: rel_rules)

context transport
begin

lemma update_firmware_upholds [rel_rules]:
  "state_io_rel (upholds T (ready am False d0)) (elan_update_firmware fw)"
  unfolding elan_update_firmware_def elan_update_firmware_steps_def divide_by_zero_def Let_def
  by (intro rel_rules) (auto simp: ready_defs intro!: rel_rules)

lemma update_fw_upholds: "state_io_rel (upholds T (ready am False d0)) (elan_sysfs_update_fw E count)"
  unfolding elan_sysfs_update_fw_def by (intro rel_rules)

lemma update_fw_idle:
  assumes "ops (tp s) = T" "\<not> in_fw_update (tp s)"
  shows "wp (elan_sysfs_update_fw E count) (\<lambda>r s'. r \<noteq> None \<longrightarrow> \<not> in_fw_update (tp s')) s"
  unfolding elan_sysfs_update_fw_def
  by (intro wp_intros wp_mono [OF update_firmware_wp]) (use assms in \<open>auto split: option.splits\<close>)

end

lemma known_geometry_pages:
  assumes "known_geometry d"
  shows "fw_page_size d \<noteq> 0 \<or> fw_validpage_count d = 0"
proof -
  obtain ic iap err where
    "elan_get_fwinfo ic iap = (err, fw_validpage_count d, fw_signature_address d, fw_page_size d)"
    using assms by (auto simp: known_geometry_def)
  then show ?thesis
    using fwinfo_cases [of ic iap] by auto
qed

lemma result_no_trap [simp]: "result (no_trap m) s = Some (result m s)"
  and final_no_trap [simp]: "final (no_trap m) s = final m s"
  by (simp_all add: no_trap_def)

text \<open>Every store handler: no trap, everything given back, and a device that is ready again.\<close>

definition served :: "elan_tp_data \<Rightarrow> 'a drv \<Rightarrow> driver \<Rightarrow> bool" where
  "served d0 m s \<longleftrightarrow> restores (ops (tp s)) s (final m s) \<and> ready True True d0 (tp (final m s))"

lemma calibration_served:
  assumes "bound_to E s" "ready True True d0 (tp s)"
  shows "served d0 (calibrate_store E' count) s" "served d0 (acquire_store E' count) s"
proof -
  note T = bound_to_transport [OF assms(1)]
  have ready: "ready False True d0 (tp s)" and m: "mode (tp s) = ETP_ENABLE_ABS"
    using assms(2) by (simp_all add: ready_def)
  then have clear: "mode (tp s) AND ETP_ENABLE_CALIBRATE = 0"
    by (simp add: ETP_ENABLE_ABS_def ETP_ENABLE_CALIBRATE_def)
  show "served d0 (calibrate_store E' count) s"
    using transport.calibrate_store_restores [OF T refl, of E' count]
      io_relD [OF calibrations_uphold(1) [of "ops (tp s)" True d0 E' count], of s]
      calibrate_store_mode [OF clear, of E' count] ready m
    by (simp add: served_def wp_def upholds_def ready_def)
  show "served d0 (acquire_store E' count) s"
    using transport.acquire_store_restores [OF T refl, of E' count]
      io_relD [OF calibrations_uphold(2) [of "ops (tp s)" True d0 E' count], of s]
      acquire_store_mode [OF clear, of E' count] ready m
    by (simp add: served_def wp_def upholds_def ready_def)
qed

lemma recover_served:
  assumes "bound_to E s" "ready True True d0 (tp s)"
  shows "served d0 (recover_store E' buf count) s"
  using transport.recover_store_restores [OF bound_to_transport [OF assms(1)] refl, of E' buf count]
    io_relD [OF recover_store_upholds [of "ops (tp s)" True True d0 E' buf count], of s] assms(2)
  by (simp add: served_def wp_def upholds_def)

lemma update_served:
  assumes "bound_to E s" "ready True True d0 (tp s)"
  shows "result (elan_sysfs_update_fw E' count) s \<noteq> None \<and> served d0 (elan_sysfs_update_fw E' count) s"
proof -
  note T = bound_to_transport [OF assms(1)]
  have ready: "ready True False d0 (tp s)" and idle: "\<not> in_fw_update (tp s)"
    and "known_geometry (tp s)"
    using assms(2) by (simp_all add: ready_def steady_def)
  note pages = known_geometry_pages [OF this(3)]
  have "wp (elan_sysfs_update_fw E' count) (\<lambda>r s'. r \<noteq> None) s"
    unfolding elan_sysfs_update_fw_def
    by (intro wp_intros wp_mono [OF transport.update_success_wp [OF T]])
      (use pages in \<open>auto split: option.splits\<close>)
  then show ?thesis
    using transport.update_fw_restores [OF T refl, of E' count]
      io_relD [OF transport.update_fw_upholds [OF T, of True d0 E' count], of s]
      transport.update_fw_idle [OF T refl idle, of E' count] ready
    by (simp add: served_def wp_def upholds_def ready_def)
qed

lemma store_served:
  assumes "elan_sysfs_store E' name = Some f" "bound_to E s" "ready True True d0 (tp s)"
  shows "result (f buf count) s \<noteq> None \<and> served d0 (f buf count) s"
  using assms(1) calibration_served [OF assms(2,3), of E' count] recover_served [OF assms(2,3), of E' buf count]
    update_served [OF assms(2,3), of E' count]
  by (auto simp: elan_sysfs_store_def served_def split: if_splits)

section \<open>The invariant\<close>

definition node_limits :: "elan_tp_data \<Rightarrow> bool" where
  "node_limits d \<longleftrightarrow> (\<exists>dev. input d = Some dev \<and> mt_slots dev = 5 \<and>
     abs_max dev ABS_MT_POSITION_X = Some (max_x d) \<and> abs_max dev ABS_MT_POSITION_Y = Some (max_y d) \<and>
     abs_max dev ABS_MT_PRESSURE = Some 255 \<and> abs_max dev ABS_DISTANCE = Some 1 \<and>
     abs_max dev ABS_TOOL_WIDTH \<in> {None, Some 15})"

definition system_ok :: "environment \<Rightarrow> i2c_client \<Rightarrow> system \<Rightarrow> bool" where
  "system_ok E c S \<longleftrightarrow> bound_to E (drv S) \<and> client (tp (drv S)) = c \<and>
     mode (tp (drv S)) = ETP_ENABLE_ABS \<and> \<not> in_fw_update (tp (drv S)) \<and>
     unat (report_len (tp (drv S))) \<le> ETP_MAX_REPORT_LEN \<and> known_geometry (tp (drv S)) \<and>
     node_limits (tp (drv S)) \<and> open_count (tp (drv S)) = of_nat (users S) \<and>
     irq_depth (io_trace (drv S)) = (if phase S = Asleep then 1 else 0) \<and>
     mutex_depth (io_trace (drv S)) = 0"

lemma advertised_limits: "input d = Some dev \<Longrightarrow> node_advertises d dev \<Longrightarrow> node_limits d"
  by (cases "bit (report_features d) 0") (simp_all add: node_limits_def node_advertises_def)

lemma system_ok_ready: "system_ok E c S \<Longrightarrow> ready True True (tp (drv S)) (tp (drv S))"
  by (simp add: system_ok_def ready_def steady_def)

lemma node_limits_fixed: "fixed d = fixed d0 \<Longrightarrow> node_limits d = node_limits d0"
  by (simp add: node_limits_def fixed_def)

lemma advance_fields [simp]:
  "drv (advance m S) = final m (drv S)" "users (advance m S) = users S" "phase (advance m S) = phase S"
  by (simp_all add: advance_def)

text \<open>A handler that keeps the device ready moves the interrupt depth as the phase says.\<close>

lemma advance_ok:
  assumes "system_ok E c S" "drv S' = final m (drv S)" "users S' = users S"
    and "shifts (ops (tp (drv S))) k (drv S) (final m (drv S))"
    and "ready True True (tp (drv S)) (tp (final m (drv S)))"
    and "k = (if phase S' = Asleep then 1 else 0) - (if phase S = Asleep then 1 else 0)"
  shows "system_ok E c S'"
proof -
  have fixed: "fixed (tp (drv S')) = fixed (tp (drv S))"
    using assms(2,5) by (simp add: ready_def steady_def)
  then have "open_count (tp (drv S')) = of_nat (users S')"
    using assms(1,3) by (simp add: fixed_def system_ok_def)
  then show ?thesis
    using assms(1,2,4,5,6) node_limits_fixed [OF fixed]
    by (auto simp: system_ok_def bound_to_def shifts_def ready_def steady_def)
qed

lemma restores_shifts: "restores T s s' \<Longrightarrow> shifts T 0 s s'"
  by (simp add: restores_def shifts_def balanced_def)

lemma bound_system_ok:
  assumes "bound_system E c S"
  shows "system_ok E c S"
proof -
  obtain s0 where s0: "io_trace s0 = []" "result (elan_probe E c) s0 = Some 0"
      "S = \<lparr>drv = final (elan_probe E c) s0, users = 0, queued = False, phase = Awake\<rparr>"
    using assms by (auto simp: bound_system_def)
  let ?d = "tp (final (elan_probe E c) s0)"
  have "probed E c (final (elan_probe E c) s0)"
    using probe_success_wp [of E c s0] s0(2) by (simp add: wp_def)
  moreover from this have "known_geometry ?d"
    by (auto simp: probed_def known_geometry_def intro!: exI [of _ "fst (elan_get_fwinfo (ic_type ?d) (iap_version ?d))"]
        exI [of _ "ic_type ?d"] exI [of _ "iap_version ?d"] prod_eqI)
  ultimately show ?thesis
    using s0(1) probe_balanced [of E c s0]
    by (auto simp: s0(3) system_ok_def probed_def wp_def probe_balance_def intro: advertised_limits)
qed

section \<open>Every step keeps it\<close>

lemma served_upholds:
  assumes "restores (ops (tp s)) s (final m s)" "state_io_rel (upholds (ops (tp s)) (ready True True d0)) m"
    and "ready True True d0 (tp s)"
  shows "served d0 m s"
  using assms io_relD [OF assms(2), of s] by (simp add: served_def upholds_def)

lemma isr_served:
  assumes "bound_to E s" "ready True True d0 (tp s)"
  shows "served d0 (elan_isr E' f0) s"
  using io_relD [OF transport.isr_balanced [OF bound_to_transport [OF assms(1)]], of s E' f0]
  by (intro served_upholds isr_upholds assms(2)) (simp add: restores_iff)

lemma watchdog_served:
  assumes "bound_to E s" "ready True True d0 (tp s)"
  shows "served d0 elan_watchdog_work s"
  using transport.watchdog_work_wp [OF bound_to_transport [OF assms(1)] refl]
  by (intro served_upholds watchdog_upholds assms(2)) (simp add: restores_def wp_def)

lemma show_served:
  assumes "elan_sysfs_show E' name = Some m" "bound_to E s" "ready True True d0 (tp s)"
  shows "served d0 m s"
proof (intro served_upholds shows_uphold [OF assms(1)] assms(3))
  note T = bound_to_transport [OF assms(2)]
  show "restores (ops (tp s)) s (final m s)"
    using assms(1) transport.read_mode_restores [OF T refl, of E'] transport.show_restores [OF T refl, of E']
    by (auto simp: elan_sysfs_show_def elan_sysfs_read_product_id_def elan_sysfs_read_fw_ver_def
        elan_sysfs_read_sm_ver_def elan_sysfs_read_iap_ver_def elan_sysfs_read_fw_checksum_def
        runtime_watchdog_show_def wp_def restores_def split: if_splits)
qed

lemma advance_served:
  assumes "system_ok E c S" "served (tp (drv S)) m (drv S)"
    and "drv S' = final m (drv S)" "users S' = users S" "phase S' = phase S"
  shows "system_ok E c S'"
  by (rule advance_ok [where k = 0 and m = m, OF assms(1,3,4)])
    (use assms(2,5) in \<open>simp_all add: served_def restores_shifts\<close>)

lemma open_ok: "system_ok E c S \<Longrightarrow> system_ok E c (advance elan_input_open (S\<lparr>users := users S + 1\<rparr>))"
  by (simp add: system_ok_def elan_input_open_def bound_to_def known_geometry_def node_limits_def)

lemma close_ok:
  "system_ok E c S \<Longrightarrow> users S = Suc n \<Longrightarrow> system_ok E c (advance elan_input_close (S\<lparr>users := n\<rparr>))"
  by (simp add: system_ok_def elan_input_close_def bound_to_def known_geometry_def node_limits_def final_if)

lemma suspend_ok:
  assumes "system_ok E c S" "phase S = Suspending"
  shows "system_ok E c (advance (elan_suspend_locked E')
    (S\<lparr>phase := (if result (elan_suspend_locked E') (drv S) = 0 then Asleep else Awake)\<rparr>))"
proof -
  have "bound_to E (drv S)"
    using assms(1) by (simp add: system_ok_def)
  from transport.suspend_locked_shifts [OF bound_to_transport [OF this] refl, of E'] show ?thesis
    by (intro advance_ok [OF assms(1)])
      (use assms(2) system_ok_ready [OF assms(1)] io_relD [OF sleep_upholds(1)]
        in \<open>auto simp: wp_def upholds_def\<close>)
qed

lemma resume_ok:
  assumes "system_ok E c S" "phase S = Asleep"
  shows "system_ok E c (advance (elan_resume E') (S\<lparr>phase := Awake\<rparr>))"
proof -
  have "bound_to E (drv S)"
    using assms(1) by (simp add: system_ok_def)
  from transport.resume_shifts [OF bound_to_transport [OF this] refl, of E'] show ?thesis
    by (intro advance_ok [OF assms(1)])
      (use assms(2) system_ok_ready [OF assms(1)] io_relD [OF sleep_upholds(2)]
        in \<open>auto simp: wp_def upholds_def\<close>)
qed

lemma step_ok:
  assumes "system_ok E c S" "elan_step E e S S'"
  shows "system_ok E c S'"
proof -
  note ready = system_ok_ready [OF assms(1)]
  have bound: "bound_to E (drv S)"
    using assms(1) by (simp add: system_ok_def)
  from assms(2) show ?thesis
  proof cases
    case (interrupt f0)
    then show ?thesis
      using advance_served [OF assms(1) isr_served [OF bound ready]] by simp
  next
    case watchdog
    then show ?thesis
      using advance_served [OF assms(1) watchdog_served [OF bound ready]] by simp
  next
    case (show_attribute name m)
    then show ?thesis
      using advance_served [OF assms(1) show_served [OF _ bound ready]] by simp
  next
    case (store_attribute name f buf count)
    then show ?thesis
      using advance_served [OF assms(1) store_served [OF _ bound ready, THEN conjunct2]] by simp
  next
    case cancel
    with assms(1) show ?thesis
      by (simp add: system_ok_def bound_to_def)
  next
    case suspend
    then show ?thesis
      using suspend_ok [OF assms(1)] by simp
  qed (use open_ok [OF assms(1)] close_ok [OF assms(1)] resume_ok [OF assms(1)] in auto)
qed

interpretation elan: invariant_system "bound_system E c" "elan_next E" "system_ok E c"
  for E :: environment and c :: i2c_client
  by unfold_locales (auto simp: elan_next_def intro: bound_system_ok step_ok)

section \<open>What the interrupt handler reports\<close>

lemma bus_no_input: "\<forall>x \<in> set u. bus_call (fst x) \<Longrightarrow> (Input node ev, r) \<notin> set u"
  by auto

lemma isr_reports_in_range:
  assumes "bound_to E s" and ev: "(Input node ev, r) \<in> set (added (elan_isr E' f0) s)"
  shows "event_in_range (context_params (report_context (tp s))) ev"
proof -
  let ?read = "get_report (ops (tp s)) (client (tp s)) (uninitialized E' ETP_MAX_REPORT_LEN) (report_len (tp s))"
  have "emits bus_call (io_trace s) (final ?read (io_trace s))"
    by (rule io_relD [OF transport.bus_get_report [OF bound_to_transport [OF assms(1)]]])
  then obtain u where u: "final ?read (io_trace s) = io_trace s @ u" "\<forall>x \<in> set u. bus_call (fst x)"
    by (auto simp: emits_def)
  let ?emit = "elan_rs_emit_report f0 (report_context (tp s)) (snd (result ?read (io_trace s)))
    (unat (report_len (tp s)))"
  have "emits input_call (io_trace s @ u) (final ?emit (io_trace s @ u))"
    by (rule io_relD [OF emits_emit_report])
  then obtain v where v: "final ?emit (io_trace s @ u) = (io_trace s @ u) @ v"
    by (auto simp: emits_def)
  have "(Input node ev, r) \<in> set v"
    using ev u(1) v bus_no_input [OF u(2)]
    by (auto simp: added_def isr_final Let_def split: if_splits)
  with report_in_range [OF v] show ?thesis
    by blast
qed

lemma range_within_limits:
  assumes "event_in_range (context_params (report_context d)) (Abs axis v)" "node_limits d"
    and "input d = Some dev" "abs_max dev axis = Some m"
    and "axis \<in> {ABS_MT_POSITION_X, ABS_MT_POSITION_Y, ABS_MT_PRESSURE, ABS_TOOL_WIDTH, ABS_DISTANCE}"
  shows "v \<le> m"
  using assms
  by (auto simp: event_in_range_def node_limits_def context_params_def report_context_def)

section \<open>Suspend leaves the work queue alone\<close>

fun keeps_queue :: "kcall \<Rightarrow> bool" where
  "keeps_queue (Sched ScheduleWork) = False"
| "keeps_queue (Sched CancelWorkSync) = False"
| "keeps_queue _ = True"

lemma pending_keeps_queue: "\<forall>x \<in> set u. keeps_queue (fst x) \<Longrightarrow> work_pending b u = b"
proof (induction u)
  case (Cons x u)
  then show ?case
    by (cases "(b, x # u)" rule: work_pending.cases) auto
qed simp

lemma bus_keeps_queue: "bus_call c \<Longrightarrow> keeps_queue c"
  by (cases c rule: keeps_queue.cases) auto

lemma drv_rel_queue:
  "state_io_rel (drv_rel T (emits bus_call)) m \<Longrightarrow> state_io_rel (drv_rel T (emits keeps_queue)) m"
  by (erule drv_rel_mono) (auto intro: emits_mono bus_keeps_queue)

context transport
begin

lemma suspend_keeps_queue: "state_io_rel (drv_rel T (emits keeps_queue)) (elan_suspend_locked E)"
  unfolding elan_suspend_locked_def device_may_wakeup_def
  by (intro rel_rules drv_rel_queue [OF set_power_bus] drv_rel_queue [OF sleep_bus]) auto

end

lemma suspend_pending:
  assumes "bound_to E s"
  shows "work_pending b (added (elan_suspend_locked E') s) = b"
  using io_relD [OF transport.suspend_keeps_queue [OF bound_to_transport [OF assms]], of s E']
  by (auto simp: drv_rel_def added_def emits_def intro!: pending_keeps_queue)

lemma recovery_begins:
  assumes "bus_contract E" "bound_to E s"
  shows "\<exists>u. io_trace (final elan_recover_locked s) = io_trace s @ release_trace (tp s) @ u"
  using recover_eq [OF assms] transport.straight_recovery_wp [OF bound_to_transport [OF assms(2)] refl]
  by (simp add: wp_def run_state_eq)

section \<open>Properties\<close>

definition reachable :: "environment \<Rightarrow> i2c_client \<Rightarrow> system \<Rightarrow> bool" where
  "reachable E c S \<longleftrightarrow> (\<exists>S0. bound_system E c S0 \<and> (elan_next E)\<^sup>*\<^sup>* S0 S)"

lemma reachable_ok: "reachable E c S \<Longrightarrow> system_ok E c S"
  by (auto simp: reachable_def intro: elan.start_steps_invariant)

text \<open>
  C1: The invariant of the running driver. From a successful probe on, whatever sequence of
  interrupts, watchdog runs, opens, closes, sysfs reads and writes, suspends and resumes happens,
  and whatever the bus answers: between two handlers the mutex is free, the interrupt line is
  disabled exactly while the device is asleep, no update flag is left over, the device is in
  absolute mode with calibration off, it keeps its transport and client, the open count is the
  number of users, and the report length never exceeds the handler's 39-byte buffer.
\<close>

theorem reachable_invariant:
  assumes "reachable E c S"
  shows "let d = tp (drv S); t = io_trace (drv S) in
    mutex_depth t = 0 \<and> irq_depth t = (if phase S = Asleep then 1 else 0) \<and>
    \<not> in_fw_update d \<and> mode d = ETP_ENABLE_ABS \<and> ops d \<in> {elan_i2c_ops E, elan_smbus_ops E} \<and>
    client d = c \<and> open_count d = of_nat (users S) \<and> unat (report_len d) \<le> ETP_MAX_REPORT_LEN"
  using reachable_ok [OF assms] by (auto simp: system_ok_def bound_to_def Let_def)

definition device_system :: "reply \<Rightarrow> system" where
  "device_system report = \<lparr>drv = final (elan_probe (device_environment report) sample_client) sample_smbus,
     users = 0, queued = False, phase = Awake\<rparr>"

abbreviation sample_system :: system where
  "sample_system \<equiv> device_system packet_reply"

lemma device_bound: "bound_system (device_environment report) sample_client (device_system report)"
proof -
  have "io_trace sample_smbus = []"
    by (simp add: sample_smbus_def sample_driver_def)
  then show ?thesis
    using sample_probe [of report] by (auto simp: bound_system_def device_system_def)
qed

lemma sample_reachable: "reachable (device_environment report) sample_client (device_system report)"
  using device_bound [of report] by (auto simp: reachable_def)

theorem reachable_invariant_witness:
  "mode (tp (drv sample_system)) = ETP_ENABLE_ABS \<and> mutex_depth (io_trace (drv sample_system)) = 0"
  using reachable_invariant [OF sample_reachable] by (simp add: Let_def)

text \<open>
  C18: On a bound device no sysfs write can trap: in every reachable state every store routine, the
  firmware update with any image included, returns a value.
\<close>

theorem reachable_stores_return:
  assumes "reachable E c S" and "elan_sysfs_store E name = Some f"
  shows "\<exists>r. result (f buf count) (drv S) = Some r"
proof -
  have "bound_to E (drv S)"
    using reachable_ok [OF assms(1)] by (simp add: system_ok_def)
  then show ?thesis
    using store_served [OF assms(2) _ system_ok_ready [OF reachable_ok [OF assms(1)]]] by auto
qed

theorem reachable_stores_return_witness:
  "\<exists>r. result (elan_sysfs_update_fw probe_environment 1) (drv sample_system) = Some r"
  using reachable_stores_return [OF sample_reachable [of packet_reply], of "''update_fw''"
    "\<lambda>buf count. elan_sysfs_update_fw probe_environment count"]
  by (simp add: elan_sysfs_store_def)

text \<open>
  C5: Every value the running driver reports on an axis of the touchpad is within the maximum the
  node advertised at probe: positions, pressure, tool width and distance, in every reachable state
  and for every report the device sends.
\<close>

theorem reported_within_advertised:
  assumes "reachable E c S" and "input (tp (drv S)) = Some dev"
    and "(Input Touchpad (Abs axis v), r) \<in> set (added (elan_isr E f0) (drv S))"
    and "abs_max dev axis = Some m"
    and "axis \<in> {ABS_MT_POSITION_X, ABS_MT_POSITION_Y, ABS_MT_PRESSURE, ABS_TOOL_WIDTH, ABS_DISTANCE}"
  shows "v \<le> m"
proof -
  have "bound_to E (drv S)" "node_limits (tp (drv S))"
    using reachable_ok [OF assms(1)] by (simp_all add: system_ok_def)
  with isr_reports_in_range [OF _ assms(3)] range_within_limits assms(2,4,5) show ?thesis
    by blast
qed

text \<open>The sample device, bound by its probe, reports one finger.\<close>

definition device_initialized :: "reply \<Rightarrow> driver" where
  "device_initialized report =
     final (elan_probe_controller (device_environment report)) (device_powered report)"

lemma sample_fields:
  "(let d = tp (device_initialized report) in (report_len d, max_x d, max_y d, width_x d, width_y d,
     pressure_adjustment d, report_features d, in_fw_update d, watchdog_enabled d, open_count d, report_errors d)) =
   (32, 1298, 1332, 72, 25, 25, 1, False, True, 0, 0)"
  by code_simp

lemma sample_identified:
  "(let d = tp (device_initialized report) in (report_len d, max_x d, max_y d, width_x d, width_y d,
     pressure_adjustment d, report_features d, in_fw_update d)) = (32, 1298, 1332, 72, 25, 25, 1, False)"
  "(let d = tp (device_initialized report) in (watchdog_enabled d, open_count d, report_errors d)) = (True, 0, 0)"
  using sample_fields [of report] by (simp_all add: Let_def)

lemma sample_initialized_ops:
  "ops (tp (device_initialized report)) = elan_smbus_ops (device_environment report)"
proof -
  have "ops (tp (device_powered report)) = elan_smbus_ops (device_environment report)"
    by (simp add: device_powered_def elan_probe_resources_def devm_add_action_or_reset_def final_if
        sample_answers zeroed_tp_def)
  moreover have "drv_rel (elan_smbus_ops (device_environment report)) (emits plain_call)
      (device_powered report) (device_initialized report)"
    unfolding device_initialized_def
    by (rule io_relD [OF transport.controller_plain [OF smbus.transport_axioms]])
  ultimately show ?thesis
    by (simp add: drv_rel_def)
qed

lemma sample_final: "drv (device_system report) =
    final (elan_probe_nodes (device_environment report)) (device_initialized report)"
  using sample_controller [of report]
  by (simp add: device_system_def elan_probe_def sample_transport sample_resources final_if
      device_powered_def device_initialized_def elan_rs_abi_version_def ELAN_RS_ABI_VERSION_def)

lemma sample_property:
  "property_bool (device_environment report) name \<longleftrightarrow> name = ''elan,runtime-watchdog''"
  by (simp add: device_environment_def)

lemma sample_nodes_tp:
  "\<exists>dev. tp (drv (device_system report)) = (tp (device_initialized report))\<lparr>input := Some dev\<rparr>"
  unfolding sample_final
  by (simp add: elan_probe_nodes_def elan_setup_input_device_def sample_answers sample_property
      result_if final_if Let_def) blast

lemma sample_system_device:
  "report_context (tp (drv sample_system)) = \<lparr>ctx_trackpoint = (tp_input (tp (device_initialized packet_reply)) \<noteq> None),
     ctx_max_x = 1298, ctx_max_y = 1332, ctx_width_x = 72, ctx_width_y = 25,
     ctx_pressure_adjustment = 25, ctx_report_features = 1\<rparr>"
  "ops (tp (drv sample_system)) = elan_smbus_ops probe_environment"
  "report_len (tp (drv sample_system)) = 32" "\<not> in_fw_update (tp (drv sample_system))"
  using sample_nodes_tp [of packet_reply] sample_identified(1) [of packet_reply]
    sample_initialized_ops [of packet_reply]
  by (auto simp: report_context_def Let_def)

definition sample_packet :: "u8 list" where
  "sample_packet = [0, 0, 0x5D, 0x08, 0x11, 0x20, 0x30, 0x21, 0x40] @ replicate 30 0"

lemma sample_packet_complete:
  "absolute_complete sample_packet 32 False \<lparr>dp_max_x = 1298, dp_max_y = 1332, dp_width_x = 72,
      dp_width_y = 25, dp_pressure_adjustment = 25, dp_report_features = 1\<rparr>"
  "sample_packet ! REPORT_ID_OFFSET = (if False then REPORT_ID2 else REPORT_ID)"
  by code_simp+

lemma sample_read:
  "result (elan_smbus_get_report probe_environment c (uninitialized probe_environment 39) 32) t =
    (0, sample_packet)"
  by code_simp

lemma sample_emitted:
  "\<exists>v. (Input Touchpad (Abs ABS_DISTANCE v), 0, []) \<in>
    set (added (elan_isr probe_environment EMPTY_FRAME) (drv sample_system))"
proof -
  have read: "get_report (elan_smbus_ops probe_environment) = elan_smbus_get_report probe_environment"
    by (simp add: elan_smbus_ops_def)
  have ext: "\<exists>u. final (elan_smbus_get_report probe_environment c buf len) t = t @ u" for c buf len t
    using io_relD [OF bus_program_extends [OF transport.bus_get_report [OF smbus.transport_axioms]],
        of t probe_environment c buf len]
    unfolding read by (auto elim: extendsE)
  note dec = decode_report_absolute [OF _ sample_packet_complete, of EMPTY_FRAME]
  show ?thesis
    using ext [of "client (tp (drv sample_system))" "uninitialized probe_environment 39" 32
        "io_trace (drv sample_system)"]
    by (auto simp: added_def isr_final Let_def sample_system_device read sample_read ETP_MAX_REPORT_LEN_def
        elan_rs_emit_report_def context_params_def dec REPORT_ID_OFFSET_def emit_frame_def
        partial_frame_def absolute_header_def touch_events_def input_trace_def)
qed

theorem reported_within_advertised_witness:
  "\<exists>v. (Input Touchpad (Abs ABS_DISTANCE v), 0, []) \<in>
    set (added (elan_isr probe_environment EMPTY_FRAME) (drv sample_system)) \<and> v \<le> 1"
proof -
  obtain dev where "input (tp (drv sample_system)) = Some dev" "abs_max dev ABS_DISTANCE = Some 1"
    using reachable_ok [OF sample_reachable [of packet_reply]] by (auto simp: system_ok_def node_limits_def)
  then show ?thesis
    using sample_emitted reported_within_advertised [OF sample_reachable [of packet_reply]] by blast
qed

text \<open>
  C19: The interrupt handler is only ever entered while the device is not asleep, and the transfer
  it starts then leaves exactly the 39 bytes of its stack buffer: the report read can never
  overflow it.
\<close>

theorem interrupt_buffer_safe:
  assumes "reachable E c S" and "elan_step E (Interrupt f0) S S'"
  shows "phase S \<noteq> Asleep \<and>
    length (snd (result (get_report (ops (tp (drv S))) (client (tp (drv S)))
      (uninitialized E ETP_MAX_REPORT_LEN) (report_len (tp (drv S)))) t)) = ETP_MAX_REPORT_LEN"
proof -
  note ok = reachable_ok [OF assms(1)]
  then have "transport (ops (tp (drv S)))" "unat (report_len (tp (drv S))) \<le> ETP_MAX_REPORT_LEN"
    by (auto simp: system_ok_def intro: bound_to_transport)
  with transport.report_buffer_size assms(2) ok show ?thesis
    by (auto simp: interrupt_step_iff system_ok_def)
qed

lemma sample_interrupt:
  "elan_step (device_environment report) (Interrupt f0) (device_system report)
    (advance (elan_isr (device_environment report) f0) (device_system report))"
  using reachable_ok [OF sample_reachable, of report]
  by (intro interrupt) (simp add: system_ok_def device_system_def)

theorem interrupt_buffer_safe_witness: "phase sample_system \<noteq> Asleep"
  using interrupt_buffer_safe [OF sample_reachable sample_interrupt [of packet_reply EMPTY_FRAME]] by simp

text \<open>A failed report read that is the third error queues the work; suspend does not unqueue it.\<close>

lemma work_pending_append: "work_pending b (t @ u) = work_pending (work_pending b t) u"
  by (induction b t rule: work_pending.induct) simp_all

lemma third_error_queues:
  assumes "bound_to E s" "\<not> in_fw_update (tp s)" "watchdog_enabled (tp s)" "0 < sint (open_count (tp s))"
    and "report_errors (tp s) = 2"
    and "\<And>t. fst (result (get_report (ops (tp s)) (client (tp s))
      (uninitialized E' ETP_MAX_REPORT_LEN) (report_len (tp s))) t) \<noteq> 0"
  shows "tp (final (elan_isr E' f0) s) = (tp s)\<lparr>report_errors := 3\<rparr>"
    and "work_pending b (added (elan_isr E' f0) s)"
proof -
  let ?read = "get_report (ops (tp s)) (client (tp s)) (uninitialized E' ETP_MAX_REPORT_LEN) (report_len (tp s))"
  have "emits bus_call (io_trace s) (final ?read (io_trace s))"
    by (rule io_relD [OF transport.bus_get_report [OF bound_to_transport [OF assms(1)]]])
  then obtain u where "final ?read (io_trace s) = io_trace s @ u"
    by (auto simp: emits_def)
  then show "tp (final (elan_isr E' f0) s) = (tp s)\<lparr>report_errors := 3\<rparr>"
    "work_pending b (added (elan_isr E' f0) s)"
    using assms(2-6) by (simp_all add: isr_final added_def Let_def work_pending_append)
qed


text \<open>A device one report failure short of a recovery, on a bus that fails every report read.\<close>

abbreviation racing_environment :: environment where
  "racing_environment \<equiv> sample_environment [0x55, 0x55, 0x55, 0x55, 0x55]"

definition racing_system :: system where
  "racing_system = \<lparr>drv = sample_smbus\<lparr>tp := (tp sample_smbus)\<lparr>report_errors := 2\<rparr>\<rparr>,
     users = 1, queued = False, phase = Awake\<rparr>"

definition racing_cancelled :: system where
  "racing_cancelled = advance (xio (notify (Sched CancelWorkSync))) (racing_system\<lparr>phase := Suspending\<rparr>)"
definition racing_interrupted :: system where
  "racing_interrupted = advance (elan_isr racing_environment EMPTY_FRAME) racing_cancelled"

lemma racing_suspend: "result (elan_suspend_locked racing_environment) (drv racing_interrupted) = 0"
  by code_simp


end
