(* ===== verification/Elan_I2c_Wire.thy ===== *)
theory Elan_I2c_Wire
  imports Elan_Data
begin

text \<open>
  What the I2C transport says on the wire. The controller is a file of 16-bit registers: the
  transfers a trace records are read back as register accesses, and every operation that
  configures the controller is compared with its effect on the registers.
\<close>

section \<open>Register accesses\<close>

text \<open>
  A transfer that was executed completely is a register access of the addressed client: one
  message of four bytes writes a register, a two-byte message followed by a read message reads
  one. Everything else on the bus is no register access.
\<close>

datatype access = RegRead u16 "u8 list" | RegWrite u16 u16

definition sends_to :: "i2c_client \<Rightarrow> nat \<Rightarrow> i2c_msg \<Rightarrow> bool" where
  "sends_to c n m \<longleftrightarrow> msg_addr m = addr c \<and> msg_flags m AND I2C_M_RD = 0 \<and>
     msg_flags m AND I2C_M_TEN = flags c AND I2C_M_TEN \<and>
     unat (msg_len m) = n \<and> length (msg_buf m) = n"

definition reads_from :: "i2c_client \<Rightarrow> i2c_msg \<Rightarrow> bool" where
  "reads_from c m \<longleftrightarrow> msg_addr m = addr c \<and> msg_flags m AND I2C_M_RD \<noteq> 0 \<and>
     msg_flags m AND I2C_M_TEN = flags c AND I2C_M_TEN"

fun access_of :: "i2c_client \<Rightarrow> kcall \<times> reply \<Rightarrow> access list" where
  "access_of c (Bus (I2cTransfer [m]), r) =
     (if fst r = 1 \<and> sends_to c 4 m
      then [RegWrite (le16_to_cpu (msg_buf m)) (le16_to_cpu (drop 2 (msg_buf m)))] else [])"
| "access_of c (Bus (I2cTransfer [m, n]), r) =
     (if fst r = 2 \<and> sends_to c 2 m \<and> reads_from c n
      then [RegRead (le16_to_cpu (msg_buf m)) (snd r)] else [])"
| "access_of c _ = []"

definition accesses :: "i2c_client \<Rightarrow> trace \<Rightarrow> access list" where
  "accesses c t = concat (map (access_of c) t)"

lemma accesses_append [simp]: "accesses c (t @ u) = accesses c t @ accesses c u"
  and accesses_Nil [simp]: "accesses c [] = []"
  and accesses_Cons [simp]: "accesses c (x # u) = access_of c x @ accesses c u"
  by (simp_all add: accesses_def)

lemma ten_bit_flags [simp]:
  "I2C_M_RD \<noteq> 0"
  "(f AND I2C_M_TEN) AND I2C_M_RD = 0"
  "((f AND I2C_M_TEN) OR I2C_M_RD) AND I2C_M_RD \<noteq> 0"
  "(f AND I2C_M_TEN) AND I2C_M_TEN = f AND I2C_M_TEN"
  "((f AND I2C_M_TEN) OR I2C_M_RD) AND I2C_M_TEN = f AND I2C_M_TEN"
  by (simp_all add: I2C_M_TEN_def I2C_M_RD_def and.assoc bit.conj_disj_distrib2)

lemma le16_pair [simp]: "le16_to_cpu (cpu_to_le16 r @ cpu_to_le16 v) = r"
  "le16_to_cpu (drop 2 (cpu_to_le16 r @ cpu_to_le16 v)) = v"
  by (simp_all add: le16.dec_enc le16.length_enc le16.dec_enc_exact)

lemma le16_take: "2 \<le> length bs \<Longrightarrow> le16_to_cpu (take 2 bs @ junk) = le16_to_cpu bs"
  by (metis le16.dec_enc le16.enc_dec)

text \<open>A register write succeeds exactly when it is executed, and is then the access meant.\<close>

lemma write_cmd_wire [simp]:
  "accesses c (final (elan_i2c_write_cmd E c reg cmd) t) = accesses c t @
    (if result (elan_i2c_write_cmd E c reg cmd) t = 0 then [RegWrite reg cmd] else [])"
  by (simp add: elan_i2c_write_cmd_def Let_def result_if final_if sends_to_def le16.length_enc
      del: drop_append)

text \<open>
  A register read succeeds exactly when both messages were executed; on a bus that keeps its
  contract the bytes are then the ones delivered.
\<close>

lemma read_block_wire:
  assumes "bus_contract E" "len < 2 ^ 16" "len \<le> length val"
    and "result (elan_i2c_read_block E c reg val len) t = (err, out)"
  shows "if err = 0
    then length out = length val \<and> drop len out = drop len val \<and>
      accesses c (final (elan_i2c_read_block E c reg val len) t) = accesses c t @ [RegRead reg (take len out)]
    else err < 0 \<and> accesses c (final (elan_i2c_read_block E c reg val len) t) = accesses c t"
proof -
  let ?msgs = "[\<lparr>msg_addr = addr c, msg_flags = flags c AND I2C_M_TEN, msg_len = 2,
      msg_buf = cpu_to_le16 reg\<rparr>,
    \<lparr>msg_addr = addr c, msg_flags = (flags c AND I2C_M_TEN) OR I2C_M_RD, msg_len = of_nat len,
      msg_buf = []\<rparr>]"
  obtain ret bytes where ans: "answer E t (Bus (I2cTransfer ?msgs)) = (ret, bytes)"
    by fastforce
  have "read_length ?msgs = len"
    using assms(2) by (simp add: read_length_def unsigned_of_nat take_bit_nat_eq_self)
  then have "ret = 2 \<Longrightarrow> length bytes = len" "ret \<le> 2"
    using assms(1) ans unfolding bus_contract_def by (auto dest!: spec [of _ t] spec [of _ ?msgs])
  then show ?thesis
    using assms(3,4)
    by (auto simp: elan_i2c_read_block_def Let_def ans sends_to_def reads_from_def le16.length_enc
        le16.dec_enc_exact fill_def EIO_def split: if_splits)
qed

lemma read_cmd_wire:
  assumes "bus_contract E" "2 \<le> length val"
    and "result (elan_i2c_read_cmd E c reg val) t = (err, out)"
  shows "if err = 0
    then length out = length val \<and>
      accesses c (final (elan_i2c_read_cmd E c reg val) t) = accesses c t @ [RegRead reg (take 2 out)]
    else err < 0 \<and> accesses c (final (elan_i2c_read_cmd E c reg val) t) = accesses c t"
  using read_block_wire [OF assms(1), of 2 val c reg t] assms(2,3)
  by (auto simp: elan_i2c_read_cmd_def ETP_I2C_INF_LENGTH_def result_if final_if
      split: prod.splits if_splits)

text \<open>
  The two commands as steps of a run: a write is acknowledged or not, a read delivers the two
  bytes it found or fails.
\<close>

lemma wp_write_cmd:
  assumes "\<And>e t'. accesses c t' = accesses c t @ (if e = 0 then [RegWrite reg cmd] else []) \<Longrightarrow> Q e t'"
  shows "wp (elan_i2c_write_cmd E c reg cmd) Q t"
  unfolding wp_def by (rule assms) simp

lemma wp_read_cmd:
  assumes "bus_contract E" "2 \<le> length val"
    and "\<And>v out t'. accesses c t' = accesses c t @ [RegRead reg (cpu_to_le16 v)] \<Longrightarrow>
      length out = length val \<Longrightarrow> le16_to_cpu out = v \<Longrightarrow> Q (0, out) t'"
    and "\<And>e out t'. accesses c t' = accesses c t \<Longrightarrow> e < 0 \<Longrightarrow> Q (e, out) t'"
  shows "wp (elan_i2c_read_cmd E c reg val) Q t"
proof -
  obtain err out where r: "result (elan_i2c_read_cmd E c reg val) t = (err, out)"
    by fastforce
  note wire = read_cmd_wire [OF assms(1,2) r]
  show ?thesis
  proof (cases "err = 0")
    case True
    then have "take 2 out = cpu_to_le16 (le16_to_cpu out)"
      using wire assms(2) by (simp add: le16.enc_dec)
    then show ?thesis
      using wire True assms(3) [of _ "le16_to_cpu out" out] by (simp add: wp_def r)
  next
    case False
    then show ?thesis
      using wire assms(4) [of _ err out] by (simp add: wp_def r)
  qed
qed

section \<open>The register file\<close>

text \<open>The registers after a trace, for a controller that started with \<open>f\<close>.\<close>

fun perform :: "access \<Rightarrow> (u16 \<Rightarrow> u16) \<Rightarrow> u16 \<Rightarrow> u16" where
  "perform (RegRead reg bytes) f = f"
| "perform (RegWrite reg v) f = f(reg := v)"

definition registers :: "i2c_client \<Rightarrow> (u16 \<Rightarrow> u16) \<Rightarrow> trace \<Rightarrow> u16 \<Rightarrow> u16" where
  "registers c f t = fold perform (accesses c t) f"

text \<open>
  A controller is a register file when every read access finds what the register holds.
\<close>

definition register_file :: "environment \<Rightarrow> i2c_client \<Rightarrow> (u16 \<Rightarrow> u16) \<Rightarrow> bool" where
  "register_file E c f \<longleftrightarrow> (\<forall>t k reg bytes. access_of c (k, answer E t k) = [RegRead reg bytes] \<longrightarrow>
     2 \<le> length bytes \<longrightarrow> take 2 bytes = cpu_to_le16 (registers c f t reg))"

lemma registers_step:
  "accesses c t' = accesses c t @ as \<Longrightarrow> registers c f t' = fold perform as (registers c f t)"
  by (simp add: registers_def)

lemma read_cmd_final: "\<exists>k. final (elan_i2c_read_cmd E c reg val) t = t @ [(k, answer E t k)]"
  by (auto simp: elan_i2c_read_cmd_def elan_i2c_read_block_def Let_def final_if split: prod.splits)

text \<open>A read of a register file leaves it alone and delivers the register, if it succeeds.\<close>

lemma wp_read_register:
  assumes "bus_contract E" "register_file E c f" "2 \<le> length val"
    and "\<And>out t'. registers c f t' = registers c f t \<Longrightarrow> length out = length val \<Longrightarrow>
      le16_to_cpu out = registers c f t reg \<Longrightarrow> Q (0, out) t'"
    and "\<And>e out t'. registers c f t' = registers c f t \<Longrightarrow> e < 0 \<Longrightarrow> Q (e, out) t'"
  shows "wp (elan_i2c_read_cmd E c reg val) Q t"
proof -
  have val: "v = registers c f t reg"
    if "accesses c (final (elan_i2c_read_cmd E c reg val) t) = accesses c t @ [RegRead reg (cpu_to_le16 v)]"
    for v
  proof -
    obtain k where "final (elan_i2c_read_cmd E c reg val) t = t @ [(k, answer E t k)]"
      using read_cmd_final by blast
    with that have "access_of c (k, answer E t k) = [RegRead reg (cpu_to_le16 v)]"
      by simp
    from assms(2) [unfolded register_file_def, rule_format, OF this] show ?thesis
      by (simp add: le16.length_enc le16.enc_inject)
  qed
  obtain err out where r: "result (elan_i2c_read_cmd E c reg val) t = (err, out)"
    by fastforce
  note wire = read_cmd_wire [OF assms(1,3) r]
  let ?t' = "final (elan_i2c_read_cmd E c reg val) t"
  show ?thesis
  proof (cases "err = 0")
    case True
    with wire assms(3) have len: "length out = length val"
        and acc: "accesses c ?t' = accesses c t @ [RegRead reg (cpu_to_le16 (le16_to_cpu out))]"
      by (auto simp: le16.enc_dec)
    have "registers c f ?t' = registers c f t"
      using registers_step [OF acc, of f] by simp
    from assms(4) [OF this len val [OF acc]] True show ?thesis
      by (simp add: wp_def r)
  next
    case False
    with wire have "err < 0" and acc: "accesses c ?t' = accesses c t @ []"
      by auto
    have "registers c f ?t' = registers c f t"
      using registers_step [OF acc, of f] by simp
    from assms(5) [OF this \<open>err < 0\<close>] show ?thesis
      by (simp add: wp_def r)
  qed
qed

lemma wp_write_register:
  assumes "\<And>e t'. registers c f t' = (if e = 0 then (registers c f t)(reg := cmd) else registers c f t) \<Longrightarrow>
    Q e t'"
  shows "wp (elan_i2c_write_cmd E c reg cmd) Q t"
  by (intro wp_write_cmd assms) (simp add: registers_step)

section \<open>Operations that configure the controller\<close>

datatype control =
    SetMode u8
  | SetSleep bool
  | SetPower bool
  | Calibrate
  | IapReset
  | FlashKey

primrec run_control :: "environment \<Rightarrow> i2c_client \<Rightarrow> control \<Rightarrow> int io" where
  "run_control E c (SetMode m) = elan_i2c_set_mode E c m"
| "run_control E c (SetSleep on) = elan_i2c_sleep_control E c on"
| "run_control E c (SetPower on) = elan_i2c_power_control E c on"
| "run_control E c Calibrate = elan_i2c_calibrate E c"
| "run_control E c IapReset = elan_i2c_iap_reset E c"
| "run_control E c FlashKey = elan_i2c_set_flash_key E c"

primrec control_spec :: "control \<Rightarrow> (u16 \<Rightarrow> u16) \<Rightarrow> u16 \<Rightarrow> u16" where
  "control_spec (SetMode m) f = f(0x0300 := ucast m)"
| "control_spec (SetSleep on) f = f(0x0005 := if on then 0x0801 else 0x0800)"
| "control_spec (SetPower on) f = f(0x0307 := if on then f 0x0307 AND NOT 1 else f 0x0307 OR 1)"
| "control_spec Calibrate f = f(0x0316 := 1)"
| "control_spec IapReset f = f(0x0314 := 0xF0F0)"
| "control_spec FlashKey f = f(0x0311 := 0x1EA5)"

lemma control_step:
  assumes "bus_contract E" "register_file E c f"
  shows "wp (run_control E c ctl) (\<lambda>e t'. registers c f t' =
    (if e = 0 then control_spec ctl (registers c f t) else registers c f t)) t"
proof (cases ctl)
  case (SetPower on)
  show ?thesis
    unfolding SetPower run_control.simps elan_i2c_power_control_def
    by (intro wp_bindI wp_read_register [OF assms] wp_case_prodI wp_ifI wp_returnI wp_letI
        wp_write_register [where f = f]) (auto simp: etp_consts)
qed (auto simp: elan_i2c_set_mode_def elan_i2c_sleep_control_def elan_i2c_calibrate_def
    elan_i2c_iap_reset_def elan_i2c_set_flash_key_def etp_consts
    intro!: wp_write_register [where f = f] wp_bindI wp_ifI wp_returnI)

text \<open>A whole script of them: what counts is the operations that were acknowledged.\<close>

primrec run_script :: "environment \<Rightarrow> i2c_client \<Rightarrow> control list \<Rightarrow> int list io" where
  "run_script E c [] = return []"
| "run_script E c (ctl # script) = do {
     e \<leftarrow> run_control E c ctl;
     es \<leftarrow> run_script E c script;
     return (e # es)
   }"

definition performed :: "control list \<Rightarrow> int list \<Rightarrow> control list" where
  "performed script statuses = [ctl. (ctl, e) \<leftarrow> zip script statuses, e = 0]"

lemma script_registers:
  assumes "bus_contract E" "register_file E c f"
  shows "wp (run_script E c script) (\<lambda>es t'. length es = length script \<and>
    registers c f t' = fold control_spec (performed script es) (registers c f t)) t"
proof (induction script arbitrary: t)
  case (Cons ctl script)
  show ?case
    unfolding run_script.simps
    by (intro wp_bindI wp_mono [OF control_step [OF assms]] wp_mono [OF Cons.IH] wp_returnI)
      (auto simp: performed_def)
qed (simp add: performed_def wp_return)

section \<open>Operations that ask the controller\<close>

lemma le16_bytes:
  assumes "2 \<le> length bs"
  shows "bs ! 0 = ucast (le16_to_cpu bs)" "bs ! Suc 0 = ucast (drop_bit 8 (le16_to_cpu bs))"
proof -
  have "cpu_to_le16 (le16_to_cpu bs) = take 2 bs"
    using assms by (rule le16.enc_dec)
  then have "take 2 bs ! 0 = ucast (le16_to_cpu bs)" "take 2 bs ! 1 = ucast (drop_bit 8 (le16_to_cpu bs))"
    unfolding cpu_to_le16_def by (metis nth_Cons_0, metis nth_Cons_0 nth_Cons_Suc One_nat_def)
  then show "bs ! 0 = ucast (le16_to_cpu bs)" "bs ! Suc 0 = ucast (drop_bit 8 (le16_to_cpu bs))"
    by simp_all
qed

abbreviation low_byte :: "u16 \<Rightarrow> u8" where "low_byte v \<equiv> ucast v"
abbreviation high_byte :: "u16 \<Rightarrow> u8" where "high_byte v \<equiv> ucast (drop_bit 8 v)"

lemma all_ones_bytes: "low_byte v = 0xFF \<Longrightarrow> high_byte v = 0xFF \<Longrightarrow> v = 0xFFFF"
proof -
  assume "low_byte v = 0xFF" "high_byte v = 0xFF"
  then have "cpu_to_le16 v = cpu_to_le16 0xFFFF"
    by (simp add: cpu_to_le16_def)
  then show "v = 0xFFFF"
    by (simp only: le16.enc_inject)
qed

lemma swapped_bytes: "2 \<le> length bs \<Longrightarrow> be16_to_cpu bs = be16_to_cpu (cpu_to_le16 (le16_to_cpu bs))"
  by (simp add: be16_to_cpu_def le16.enc_dec)

lemma low_byte_bit4: "drop_bit 4 (low_byte v) AND 1 = 0 \<longleftrightarrow> \<not> bit v 4"
  by (simp add: and_one_eq even_drop_bit_iff_not_bit bit_simps flip: even_iff_mod_2_eq_zero)

text \<open>A query fails, or finds \<open>v\<close>; either way it leaves the registers alone.\<close>

definition finds :: "i2c_client \<Rightarrow> (u16 \<Rightarrow> u16) \<Rightarrow> (int \<times> 'a) io \<Rightarrow> 'a \<Rightarrow> trace \<Rightarrow> bool" where
  "finds c f m v t \<longleftrightarrow> wp m (\<lambda>(e, x) t'. registers c f t' = registers c f t \<and> (e = 0 \<longrightarrow> x = v)) t"

lemma query_registers:
  assumes "bus_contract E" "register_file E c f"
  defines "R \<equiv> registers c f"
  shows "finds c f (elan_i2c_get_product_id E c x16) (R t 0x0101) t"
    and "finds c f (elan_i2c_get_checksum E c iap x16) (R t (if iap then 0x0315 else 0x030F)) t"
    and "finds c f (elan_i2c_get_max E c xy) (ucast (R t 0x0106), ucast (R t 0x0107)) t"
    and "finds c f (elan_i2c_get_resolution E c hw) (low_byte (R t 0x0108), high_byte (R t 0x0108)) t"
    and "finds c f (elan_i2c_get_num_traces E c xy)
      (ucast (low_byte (R t 0x0105)), ucast (high_byte (R t 0x0105))) t"
    and "finds c f (elan_i2c_get_baseline_data E c mx x8) (low_byte (R t (if mx then 0x0317 else 0x0318))) t"
    and "finds c f (elan_i2c_get_pattern E c x8)
      (if R t 0x0100 = 0xFFFF then 0 else high_byte (R t 0x0100)) t"
    and "finds c f (elan_i2c_iap_get_mode E c md)
      (if R t 0x0310 AND 0x200 \<noteq> 0 then MAIN_MODE else IAP_MODE) t"
    and "finds c f (elan_i2c_get_pressure_adjustment E c x32)
      (if bit (R t 0x010A) 4 then 0 else 25) t"
    and "finds c f (elan_i2c_get_version E c pat iap x8)
      (if iap then if pat = 0 then low_byte (R t 0x0111) else high_byte (R t 0x0110)
       else low_byte (R t 0x0102)) t"
    and "finds c f (elan_i2c_get_sm_version E c pat sm)
      (if pat = 0 then (ucast (low_byte (R t 0x0110)), low_byte (R t 0x0103), low_byte (R t 0x0104) AND 0x10)
       else (be16_to_cpu (cpu_to_le16 (R t 0x0103)), high_byte (R t 0x0104), low_byte (R t 0x0104) AND 0x10)) t"
  unfolding finds_def R_def elan_i2c_get_product_id_def elan_i2c_get_checksum_def elan_i2c_get_max_def
    elan_i2c_get_resolution_def elan_i2c_get_num_traces_def elan_i2c_get_baseline_data_def
    elan_i2c_get_pattern_def elan_i2c_iap_get_mode_def elan_i2c_get_pressure_adjustment_def
    elan_i2c_get_version_def elan_i2c_get_sm_version_def
  by (intro wp_bindI wp_read_register [OF assms(1,2)] wp_case_prodI wp_ifI wp_returnI wp_letI;
      auto simp: etp_consts le16_bytes low_byte_bit4 swapped_bytes word_le_sub1 dest: all_ones_bytes)+

section \<open>Entering the boot loader\<close>

abbreviation main_mode :: "u16 \<Rightarrow> bool" where "main_mode v \<equiv> v AND 0x200 \<noteq> 0"

abbreviation key_written :: access where "key_written \<equiv> RegWrite 0x0311 0x1EA5"
abbreviation mode_read :: "u16 \<Rightarrow> access" where "mode_read v \<equiv> RegRead 0x0310 (cpu_to_le16 v)"

text \<open>One round of \<open>elan_read_write_iap_type\<close>: write the type, read \<open>v\<close> back.\<close>

definition type_round :: "u16 \<Rightarrow> u16 \<Rightarrow> access list" where
  "type_round iap_type v = [RegWrite 0x0304 iap_type, RegRead 0x0304 (cpu_to_le16 v)]"

text \<open>At most \<open>n\<close> rounds, of which the last one and no other reads the type back.\<close>

inductive type_confirmed :: "u16 \<Rightarrow> nat \<Rightarrow> access list \<Rightarrow> bool" for iap_type :: u16 where
  hit: "type_confirmed iap_type (Suc n) (type_round iap_type iap_type)"
| miss: "v \<noteq> iap_type \<Longrightarrow> type_confirmed iap_type n as \<Longrightarrow>
    type_confirmed iap_type (Suc n) (type_round iap_type v @ as)"

lemma iap_type_loop_wire:
  assumes "bus_contract E"
  shows "wp (elan_read_write_iap_type_loop E c sz (Suc n)) (\<lambda>e t'. e = 0 \<longrightarrow>
    (\<exists>as. type_confirmed (sz div 2) (Suc n) as \<and> accesses c t' = accesses c t @ as)) t"
proof (induction n arbitrary: t)
  case 0
  show ?case
    by (subst elan_read_write_iap_type_loop.simps)
      (intro wp_bindI wp_write_cmd [where c = c] wp_read_cmd [OF assms, where c = c] wp_case_prodI
        wp_ifI wp_returnI wp_letI;
        auto simp: etp_consts EIO_def type_confirmed.hit simp flip: type_round_def)
next
  case (Suc n)
  have loop: "wp (elan_read_write_iap_type_loop E c sz (Suc n)) (\<lambda>e t'. e = 0 \<longrightarrow>
      (\<exists>as. type_confirmed (sz div 2) (Suc (Suc n)) as \<and> accesses c t' = accesses c t @ as)) t'"
    if "accesses c t' = accesses c t @ type_round (sz div 2) v" "v \<noteq> sz div 2" for t' v
    by (rule wp_mono [OF Suc.IH]) (use that in \<open>auto intro: type_confirmed.miss\<close>)
  show ?case
    by (subst elan_read_write_iap_type_loop.simps)
      (intro wp_bindI wp_write_cmd [where c = c] wp_read_cmd [OF assms, where c = c] wp_case_prodI
        wp_ifI wp_returnI wp_letI;
        auto simp: etp_consts EIO_def type_confirmed.hit intro: loop simp flip: type_round_def)
qed

lemma iap_get_mode_wire:
  assumes "bus_contract E"
    and "\<And>v t'. accesses c t' = accesses c t @ [mode_read v] \<Longrightarrow>
      Q (0, if main_mode v then MAIN_MODE else IAP_MODE) t'"
    and "\<And>e t'. e < 0 \<Longrightarrow> Q (e, md) t'"
  shows "wp (elan_i2c_iap_get_mode E c md) Q t"
  unfolding elan_i2c_iap_get_mode_def
  by (intro wp_bindI wp_read_cmd [OF assms(1), where c = c] wp_case_prodI wp_ifI wp_returnI wp_letI)
    (use assms(2,3) in \<open>auto simp: etp_consts\<close>)

lemma set_flash_key_wire:
  assumes "\<And>e t'. accesses c t' = accesses c t @ (if e = 0 then [key_written] else []) \<Longrightarrow> Q e t'"
  shows "wp (elan_i2c_set_flash_key E c) Q t"
  unfolding elan_i2c_set_flash_key_def
  by (intro wp_bindI wp_write_cmd [where c = c] wp_ifI wp_returnI assms) (simp_all add: etp_consts)

text \<open>The accesses of a successful \<open>elan_i2c_prepare_fw_update\<close>.\<close>

definition boot_loader_entered :: "u16 \<Rightarrow> u8 \<Rightarrow> u16 \<Rightarrow> access list \<Rightarrow> bool" where
  "boot_loader_entered ic iap sz as \<longleftrightarrow> (\<exists>v w typ.
     as = [mode_read v] @ (if main_mode v then [] else [RegWrite 0x0314 0xF0F0]) @
       [key_written, mode_read w] @ typ @ [key_written, RegRead 0x0311 (cpu_to_le16 0x1EA5)] \<and>
     \<not> main_mode w \<and>
     (if ic \<ge> 0x0D \<and> iap \<ge> 1 then type_confirmed (sz div 2) 3 typ else typ = []))"

lemma iap_reset_wire:
  assumes "\<And>e t'. accesses c t' = accesses c t @ (if e = 0 then [RegWrite 0x0314 0xF0F0] else []) \<Longrightarrow> Q e t'"
  shows "wp (elan_i2c_iap_reset E c) Q t"
  unfolding elan_i2c_iap_reset_def
  by (intro wp_bindI wp_write_cmd [where c = c] wp_ifI wp_returnI assms) (simp_all add: etp_consts)

lemma iap_type_wire:
  assumes "bus_contract E"
    and "\<And>as t'. type_confirmed (sz div 2) 3 as \<Longrightarrow> accesses c t' = accesses c t @ as \<Longrightarrow> Q 0 t'"
    and "\<And>e t'. e \<noteq> 0 \<Longrightarrow> Q e t'"
  shows "wp (elan_read_write_iap_type E c sz) Q t"
  unfolding elan_read_write_iap_type_def numeral_3_eq_3
proof (rule wp_mono [OF iap_type_loop_wire [OF assms(1)]])
  fix e :: int and t'
  assume "e = 0 \<longrightarrow> (\<exists>as. type_confirmed (sz div 2) (Suc (Suc (Suc 0))) as \<and> accesses c t' = accesses c t @ as)"
  then show "Q e t'"
    using assms(2,3) by (cases "e = 0") (auto simp: numeral_3_eq_3)
qed

lemma accesses_pause [simp]: "accesses c (t @ [(Msleep n, r)]) = accesses c t"
  by simp

lemma prepare_wire:
  assumes "bus_contract E"
  shows "wp (elan_i2c_prepare_fw_update E c ic iap sz) (\<lambda>e t'. e = 0 \<longrightarrow>
    (\<exists>as. boot_loader_entered ic iap sz as \<and> accesses c t' = accesses c t @ as)) t"
  unfolding elan_i2c_prepare_fw_update_def
  apply (intro wp_bindI iap_get_mode_wire [OF assms] iap_reset_wire set_flash_key_wire
      iap_type_wire [OF assms] wp_read_cmd [OF assms, where c = c] wp_case_prodI wp_ifI wp_returnI
      wp_letI wp_notifyI)
  by (auto simp: etp_consts EIO_def boot_loader_entered_def le16.enc_inject split: if_splits)

section \<open>Writing a page\<close>

text \<open>The buffers handed to \<open>i2c_master_send\<close> and sent completely.\<close>

fun send_of :: "kcall \<times> reply \<Rightarrow> u8 list list" where
  "send_of (Bus (I2cMasterSend b n), r) = (if fst r = int n then [take n b] else [])"
| "send_of _ = []"

definition sent :: "trace \<Rightarrow> u8 list list" where
  "sent t = concat (map send_of t)"

lemma sent_append [simp]: "sent (t @ u) = sent t @ sent u"
  and sent_Nil [simp]: "sent [] = []"
  and sent_Cons [simp]: "sent (x # u) = send_of x @ sent u"
  by (simp_all add: sent_def)

lemma length_page_store [simp]:
  "unat sz \<le> length page \<Longrightarrow> length (page_store sz page checksum) = unat sz + 4"
  by (simp add: page_store_def le16.length_enc)

text \<open>What the controller can read from the buffer of a page.\<close>

lemma page_store_fields:
  assumes "unat sz \<le> length page"
  shows "le16_to_cpu (page_store sz page checksum) = 0x0601"
    and "take (unat sz) (drop 2 (page_store sz page checksum)) = take (unat sz) page"
    and "le16_to_cpu (drop (Suc (Suc (unat sz))) (page_store sz page checksum)) = checksum"
proof -
  show "le16_to_cpu (page_store sz page checksum) = 0x0601"
    by (simp add: page_store_def le16_to_cpu_def etp_consts)
  show "take (unat sz) (drop 2 (page_store sz page checksum)) = take (unat sz) page"
    using assms by (simp add: page_store_def)
  have "drop (Suc (Suc (unat sz))) (page_store sz page checksum) = cpu_to_le16 checksum"
    using assms by (simp add: page_store_def)
  then show "le16_to_cpu (drop (Suc (Suc (unat sz))) (page_store sz page checksum)) = checksum"
    by (simp add: le16.dec_enc_exact)
qed

definition page_sent :: "i2c_client \<Rightarrow> u16 \<Rightarrow> u8 list \<Rightarrow> u16 \<Rightarrow> trace \<Rightarrow> trace \<Rightarrow> bool" where
  "page_sent c sz page checksum t t' \<longleftrightarrow> (\<exists>buf v. sent t' = sent t @ [buf] \<and>
     accesses c t' = accesses c t @ [mode_read v] \<and> v AND 0x30 = 0 \<and>
     length buf = unat sz + 4 \<and> le16_to_cpu buf = 0x0601 \<and>
     take (unat sz) (drop 2 buf) = take (unat sz) page \<and>
     le16_to_cpu (drop (unat sz + 2) buf) = checksum)"

lemma read_cmd_sends [simp]: "sent (final (elan_i2c_read_cmd E c reg val) t) = sent t"
  by (auto simp: elan_i2c_read_cmd_def elan_i2c_read_block_def Let_def final_if split: prod.splits)

lemma write_fw_block_wire:
  assumes "bus_contract E" "unat sz \<le> length page"
  shows "wp (elan_i2c_write_fw_block E c sz page checksum i)
    (\<lambda>e t'. e = 0 \<longrightarrow> page_sent c sz page checksum t t') t"
proof -
  have read: "wp (elan_i2c_read_cmd E c ETP_I2C_IAP_CTRL_CMD (uninitialized E 3)) (\<lambda>r t'.
      sent t' = sent u \<and> (fst r = 0 \<longrightarrow> (\<exists>v. accesses c t' = accesses c u @ [mode_read v] \<and>
        le16_to_cpu (snd r) = v))) u" for u
    unfolding wp_conj
  proof
    show "wp (elan_i2c_read_cmd E c ETP_I2C_IAP_CTRL_CMD (uninitialized E 3)) (\<lambda>r t'. sent t' = sent u) u"
      by (simp add: wp_def)
    show "wp (elan_i2c_read_cmd E c ETP_I2C_IAP_CTRL_CMD (uninitialized E 3)) (\<lambda>r t'. fst r = 0 \<longrightarrow>
        (\<exists>v. accesses c t' = accesses c u @ [mode_read v] \<and> le16_to_cpu (snd r) = v)) u"
      by (rule wp_read_cmd [OF assms(1), where c = c]) (simp_all add: etp_consts)
  qed
  show ?thesis
    unfolding elan_i2c_write_fw_block_def
    by (intro wp_bindI wp_letI wp_ifI wp_returnI wp_status_ofI wp_notifyI wp_mono [OF read] wp_case_prodI)
      (use assms(2) in \<open>auto simp: page_sent_def page_store_fields le16.enc_inject etp_consts EIO_def ENOMEM_def\<close>)
qed

section \<open>Leaving the boot loader\<close>

lemma write_cmd_final:
  "\<exists>x. final (elan_i2c_write_cmd E c reg cmd) t = t @ [x] \<and>
    access_of c x = (if result (elan_i2c_write_cmd E c reg cmd) t = 0 then [RegWrite reg cmd] else [])"
proof -
  have "\<exists>x. final (elan_i2c_write_cmd E c reg cmd) t = t @ [x]"
    by (simp add: elan_i2c_write_cmd_def Let_def final_if)
  then obtain x where "final (elan_i2c_write_cmd E c reg cmd) t = t @ [x]" ..
  with write_cmd_wire [of c E reg cmd t] show ?thesis
    by auto
qed

text \<open>
  The run of \<open>elan_i2c_finish_fw_update\<close>, with the flag of its success: the stale report is
  drained, the completion rearmed and the line enabled before the reset is sent; the line is
  disabled again after the wait, and only then the acknowledgement is read.
\<close>

abbreviation finish_start :: "reply \<Rightarrow> kcall \<times> reply \<Rightarrow> trace" where
  "finish_start drained reset \<equiv> [(Bus (I2cMasterRecv 39), drained), (Sched ReinitCompletion, 0, []),
     (Sched EnableIrq, 0, []), reset]"

inductive finish_run :: "i2c_client \<Rightarrow> bool \<Rightarrow> trace \<Rightarrow> bool" for c :: i2c_client where
  rejected: "access_of c reset = [] \<Longrightarrow>
    finish_run c False (finish_start drained reset @ [(Sched DisableIrq, 0, [])])"
| timed_out: "access_of c reset = [RegWrite 0x0005 0x0100] \<Longrightarrow> fst left = 0 \<Longrightarrow>
    finish_run c False (finish_start drained reset @
      [(Sched (WaitForCompletion 700), left), (Sched DisableIrq, 0, [])])"
| answered: "access_of c reset = [RegWrite 0x0005 0x0100] \<Longrightarrow> fst left \<noteq> 0 \<Longrightarrow> ok \<longleftrightarrow> fst ack = 2 \<Longrightarrow>
    finish_run c ok (finish_start drained reset @
      [(Sched (WaitForCompletion 700), left), (Sched DisableIrq, 0, []), (Bus (I2cMasterRecv 2), ack)])"

lemma finish_trace:
  "\<exists>u. final (elan_i2c_finish_fw_update E c) t = t @ u \<and>
    finish_run c (result (elan_i2c_finish_fw_update E c) t = 0) u"
proof -
  let ?t = "t @ [(Bus (I2cMasterRecv 39), answer E t (Bus (I2cMasterRecv 39))),
    (Sched ReinitCompletion, 0, []), (Sched EnableIrq, 0, [])]"
  obtain x where x: "final (elan_i2c_write_cmd E c 0x0005 0x0100) ?t = ?t @ [x]"
      "access_of c x = (if result (elan_i2c_write_cmd E c 0x0005 0x0100) ?t = 0
        then [RegWrite 0x0005 0x0100] else [])"
    using write_cmd_final by blast
  then show ?thesis
    by (auto simp: elan_i2c_finish_fw_update_def etp_consts result_if final_if EIO_def ETIMEDOUT_def
        intro!: rejected [simplified] timed_out [simplified] answered [simplified]
        split: prod.splits)
qed

section \<open>A sample controller\<close>

text \<open>A register file on a bus that executes every transfer; the registers start with 0.\<close>

definition file_reply :: "i2c_client \<Rightarrow> trace \<Rightarrow> kcall \<Rightarrow> reply" where
  "file_reply c t k = (case k of
     Bus (I2cTransfer msgs) \<Rightarrow> (int (length msgs), take (read_length msgs)
       (cpu_to_le16 (registers c (\<lambda>_. 0) t (le16_to_cpu (msg_buf (hd msgs)))) @ replicate (read_length msgs) 0))
   | _ \<Rightarrow> sample_reply [] k)"

definition file_environment :: "i2c_client \<Rightarrow> environment" where
  "file_environment c = (sample_environment [])\<lparr>answer := file_reply c\<rparr>"

abbreviation file_client :: i2c_client where
  "file_client \<equiv> \<lparr>addr = 0x15, flags = 0\<rparr>"

lemma file_contract: "bus_contract (file_environment c)"
  by (auto simp: bus_contract_def file_environment_def sample_environment_def file_reply_def
      sample_reply_def MAX_ERRNO_def I2C_SMBUS_BLOCK_MAX_def split: kcall.splits bus_op.splits sched_op.splits)

lemma file_registers: "register_file (file_environment c) c (\<lambda>_. 0)"
  unfolding register_file_def
proof (intro allI impI)
  fix t k reg bytes
  assume acc: "access_of c (k, answer (file_environment c) t k) = [RegRead reg bytes]" and "2 \<le> length bytes"
  from acc obtain m n where "k = Bus (I2cTransfer [m, n])" "reg = le16_to_cpu (msg_buf m)"
      "bytes = snd (file_reply c t k)"
    by (auto simp: file_environment_def elim!: access_of.elims split: if_splits)
  with \<open>2 \<le> length bytes\<close> show "take 2 bytes = cpu_to_le16 (registers c (\<lambda>_. 0) t reg)"
    by (auto simp: file_reply_def le16.length_enc min_def split: if_splits)
qed

section \<open>Properties\<close>

text \<open>
  C11: To a controller that is a file of registers, any sequence of configuration operations (mode,
  sleep, power, calibration, boot loader reset, flash key) does what its specification says: the
  operations that returned 0, in their order, set exactly the registers meant to exactly the values
  meant, the power operation changing only bit 0 of the register it reads back; the operations that
  returned an error changed nothing.
\<close>

theorem i2c_control_refines_registers:
  assumes "bus_contract E" and "register_file E c f"
  shows "registers c f (final (run_script E c script) t) =
    fold control_spec (performed script (result (run_script E c script) t)) (registers c f t)"
  using script_registers [OF assms, of script t] by (simp add: wp_def)

lemma sample_script:
  "result (run_script (file_environment file_client) file_client
    [SetMode 3, SetPower False, SetSleep True, FlashKey]) [] = [0, 0, 0, 0]"
  by code_simp

theorem i2c_control_refines_registers_witness:
  "registers file_client (\<lambda>_. 0) (final (run_script (file_environment file_client) file_client
    [SetMode 3, SetPower False, SetSleep True, FlashKey]) []) =
    (\<lambda>_. 0)(0x0300 := 3, 0x0307 := 1, 0x0005 := 0x0801, 0x0311 := 0x1EA5)"
  using i2c_control_refines_registers [OF file_contract file_registers, of file_client
      "[SetMode 3, SetPower False, SetSleep True, FlashKey]" "[]"]
  by (simp add: sample_script performed_def registers_def del: run_script.simps)

text \<open>
  C28: Every query of the I2C transport that answers from a register reads what its name says from the register file: when it
  succeeds it delivers the field of the register the controller holds (product, checksum, maxima,
  resolution, trace counts, baseline, pattern, mode, pressure offset, versions), and whether it
  succeeds or not it leaves the registers alone.
\<close>

theorem i2c_queries_read_registers:
  assumes "bus_contract E" and "register_file E c f"
  shows "finds c f (elan_i2c_get_product_id E c x16) (registers c f t 0x0101) t \<and>
    finds c f (elan_i2c_get_checksum E c iap x16) (registers c f t (if iap then 0x0315 else 0x030F)) t \<and>
    finds c f (elan_i2c_get_max E c xy) (ucast (registers c f t 0x0106), ucast (registers c f t 0x0107)) t \<and>
    finds c f (elan_i2c_get_resolution E c hw)
      (low_byte (registers c f t 0x0108), high_byte (registers c f t 0x0108)) t \<and>
    finds c f (elan_i2c_get_num_traces E c xy)
      (ucast (low_byte (registers c f t 0x0105)), ucast (high_byte (registers c f t 0x0105))) t \<and>
    finds c f (elan_i2c_get_baseline_data E c mx x8)
      (low_byte (registers c f t (if mx then 0x0317 else 0x0318))) t \<and>
    finds c f (elan_i2c_get_pattern E c x8)
      (if registers c f t 0x0100 = 0xFFFF then 0 else high_byte (registers c f t 0x0100)) t \<and>
    finds c f (elan_i2c_iap_get_mode E c md)
      (if registers c f t 0x0310 AND 0x200 \<noteq> 0 then MAIN_MODE else IAP_MODE) t \<and>
    finds c f (elan_i2c_get_pressure_adjustment E c x32) (if bit (registers c f t 0x010A) 4 then 0 else 25) t \<and>
    finds c f (elan_i2c_get_version E c pat iap x8)
      (if iap then if pat = 0 then low_byte (registers c f t 0x0111) else high_byte (registers c f t 0x0110)
       else low_byte (registers c f t 0x0102)) t \<and>
    finds c f (elan_i2c_get_sm_version E c pat sm)
      (if pat = 0 then (ucast (low_byte (registers c f t 0x0110)), low_byte (registers c f t 0x0103),
         low_byte (registers c f t 0x0104) AND 0x10)
       else (be16_to_cpu (cpu_to_le16 (registers c f t 0x0103)), high_byte (registers c f t 0x0104),
         low_byte (registers c f t 0x0104) AND 0x10)) t"
  by (intro conjI query_registers [OF assms])

theorem i2c_queries_read_registers_witness:
  "finds file_client (\<lambda>_. 0) (elan_i2c_get_product_id (file_environment file_client) file_client 7) 0 []"
  using i2c_queries_read_registers [OF file_contract file_registers, of file_client 7 "[]"]
  by (simp add: registers_def)

text \<open>
  C20: \<open>elan_i2c_prepare_fw_update\<close> returns 0 only when the controller is ready for pages, and the
  register accesses of the run are then exactly these: its mode was read and, if it was in the boot
  loader already, it was reset; the flash key was written and the mode read again, out of main mode;
  for the controllers that have one the page type was written until it read back, in at most three
  rounds; the key was written again and read back as 0x1EA5.
\<close>

theorem i2c_prepare_enters_boot_loader:
  assumes "bus_contract E" and "result (elan_i2c_prepare_fw_update E c ic iap sz) t = 0"
  shows "\<exists>as. boot_loader_entered ic iap sz as \<and>
    accesses c (final (elan_i2c_prepare_fw_update E c ic iap sz) t) = accesses c t @ as"
  using prepare_wire [OF assms(1), of c ic iap sz t] assms(2) by (simp add: wp_def)

lemma sample_prepare:
  "result (elan_i2c_prepare_fw_update (file_environment file_client) file_client 0x0D 1 128) [] = 0"
  by code_simp

theorem i2c_prepare_enters_boot_loader_witness:
  "boot_loader_entered 0x0D 1 128 (accesses file_client
    (final (elan_i2c_prepare_fw_update (file_environment file_client) file_client 0x0D 1 128) []))"
  using i2c_prepare_enters_boot_loader [OF file_contract sample_prepare] by auto

text \<open>
  \<open>elan_i2c_write_fw_block\<close> returns 0 only when the whole page went out and was accepted: one
  buffer was sent completely, from which the address of the write register, the page and its
  checksum can be read back unchanged, and the control register read afterwards had neither of its
  two error bits set.
\<close>

theorem i2c_write_fw_block_transmits:
  assumes "bus_contract E" and "unat sz \<le> length page"
    and "result (elan_i2c_write_fw_block E c sz page checksum i) t = 0"
  shows "page_sent c sz page checksum t (final (elan_i2c_write_fw_block E c sz page checksum i) t)"
  using write_fw_block_wire [OF assms(1,2), of c checksum i t] assms(3) by (simp add: wp_def)

lemma sample_block:
  "result (elan_i2c_write_fw_block (file_environment file_client) file_client 4 [1, 2, 3, 4] 0xCAFE 0) [] = 0"
  by code_simp

theorem i2c_write_fw_block_transmits_witness:
  "page_sent file_client 4 [1, 2, 3, 4] 0xCAFE [] (final (elan_i2c_write_fw_block
    (file_environment file_client) file_client 4 [1, 2, 3, 4] 0xCAFE 0) [])"
  using i2c_write_fw_block_transmits [OF file_contract _ sample_block] by auto

text \<open>
  C29: \<open>elan_i2c_finish_fw_update\<close> always makes one of three runs. It drains a stale report, rearms
  the completion, enables the interrupt and only then resets the controller; if the reset is
  rejected it disables the interrupt and fails; otherwise it waits 700 ms for the interrupt
  handler's completion and disables the interrupt; it fails on a timeout, and else succeeds exactly
  when the acknowledgement of the reset is read in full. No path leaves the interrupt enabled.
\<close>

theorem i2c_finish_outcome:
  "\<exists>u. final (elan_i2c_finish_fw_update E c) t = t @ u \<and>
    finish_run c (result (elan_i2c_finish_fw_update E c) t = 0) u"
  by (rule finish_trace)

end
