(* ===== verification/Elan_Smbus_Wire.thy ===== *)
theory Elan_Smbus_Wire
  imports Elan_Firmware Elan_Recovery
begin

text \<open>
  What the SMBus transport says on the wire: the exchanges that were acknowledged, in the order
  of the trace, and what the operations of \<open>upstream/elan_i2c_smbus.c\<close> say with them.
\<close>

section \<open>Exchanges\<close>

datatype exchange =
    ByteSent u8
  | BlockSent u8 u8 "u8 list"
  | BlockRead u8 "u8 list"

fun exchange_of :: "kcall \<times> reply \<Rightarrow> exchange list" where
  "exchange_of (Bus (SmbusWriteByte cmd), r) = (if fst r = 0 then [ByteSent cmd] else [])"
| "exchange_of (Bus (SmbusWriteBlock cmd n b), r) = (if fst r = 0 then [BlockSent cmd n b] else [])"
| "exchange_of (Bus (SmbusReadBlock cmd), r) = (if fst r < 0 then [] else [BlockRead cmd (snd r)])"
| "exchange_of _ = []"

definition exchanges :: "trace \<Rightarrow> exchange list" where
  "exchanges t = concat (map exchange_of t)"

lemma exchanges_append [simp]: "exchanges (t @ u) = exchanges t @ exchanges u"
  and exchanges_Nil [simp]: "exchanges [] = []"
  and exchanges_Cons [simp]: "exchanges (x # u) = exchange_of x @ exchanges u"
  by (simp_all add: exchanges_def)

lemma wp_write_byte:
  assumes "bus_contract E"
    and "\<And>e t'. exchanges t' = exchanges t @ (if e = 0 then [ByteSent cmd] else []) \<Longrightarrow> e \<le> 0 \<Longrightarrow> Q e t'"
  shows "wp (i2c_smbus_write_byte E cmd) Q t"
  using smbus_write_status(1) [OF assms(1), of cmd t]
  by (simp add: wp_def i2c_smbus_write_byte_def assms(2) errno_status_def)

lemma wp_write_block:
  assumes "\<And>e t'. exchanges t' = exchanges t @ (if e = 0 then [BlockSent cmd n (take (unat n) b)] else []) \<Longrightarrow>
    Q e t'"
  shows "wp (i2c_smbus_write_block_data E cmd n b) Q t"
  by (simp add: wp_def i2c_smbus_write_block_data_def assms)

text \<open>A block read into a zeroed buffer: the buffer then starts with the block.\<close>

definition padded :: "u8 list \<Rightarrow> u8 list" where
  "padded bytes = bytes @ replicate (I2C_SMBUS_BLOCK_MAX - length bytes) 0"

lemma fill_zeroed: "length bytes \<le> I2C_SMBUS_BLOCK_MAX \<Longrightarrow>
    fill zeroed_block I2C_SMBUS_BLOCK_MAX bytes = padded bytes"
  by (simp add: fill_def padded_def min_def)

lemma wp_read_block:
  assumes "bus_contract E"
    and "\<And>bytes t'. exchanges t' = exchanges t @ [BlockRead cmd bytes] \<Longrightarrow>
      length bytes \<le> I2C_SMBUS_BLOCK_MAX \<Longrightarrow> Q (int (length bytes), padded bytes) t'"
    and "\<And>e buf t'. exchanges t' = exchanges t \<Longrightarrow> e < 0 \<Longrightarrow> Q (e, buf) t'"
  shows "wp (i2c_smbus_read_block_data E cmd zeroed_block) Q t"
proof -
  obtain ret bytes where ans: "answer E t (Bus (SmbusReadBlock cmd)) = (ret, bytes)"
    by fastforce
  then have "ret < 0 \<or> ret = int (length bytes) \<and> length bytes \<le> I2C_SMBUS_BLOCK_MAX"
    using assms(1) unfolding bus_contract_def by (auto dest!: spec [of _ t] spec [of _ cmd])
  then show ?thesis
    using assms(2) [of _ bytes] assms(3) [of _ ret] by (auto simp: wp_def ans fill_zeroed)
qed

section \<open>Entering the boot loader\<close>

abbreviation flash_key :: exchange where
  "flash_key \<equiv> BlockSent 0x00 4 [0x00, 0x0B, 0x00, 0x5A]"

definition iap_mode :: "u8 list \<Rightarrow> bool" where
  "iap_mode bytes \<longleftrightarrow> bit (be16_to_cpu (padded bytes)) 6"

text \<open>The exchanges of a successful \<open>elan_smbus_prepare_fw_update\<close>.\<close>

definition boot_loader_unlocked :: "exchange list \<Rightarrow> bool" where
  "boot_loader_unlocked xs \<longleftrightarrow> (\<exists>mode_bytes unlock.
     xs = [BlockRead 0xAD mode_bytes] @ unlock @ [flash_key, ByteSent 0x2B] \<and>
     (if iap_mode mode_bytes then unlock = []
      else (\<exists>rest. unlock = [flash_key, ByteSent 0x29, BlockSent 0x00 4 [0x0F, 0x78, 0x00, 0x06],
        BlockRead 0x80 (0x12 # 0x34 # rest)])))"

lemma iap_mode_bit: "be16_to_cpu (padded bytes) AND 64 = 0 \<longleftrightarrow> \<not> iap_mode bytes"
  using and_push_bit_eq_0 [of "be16_to_cpu (padded bytes)" 6] by (simp add: iap_mode_def)

lemma password_bytes:
  assumes "2 \<le> length bytes" "be16_to_cpu (padded bytes) = 0x1234"
  shows "\<exists>rest. bytes = 0x12 # 0x34 # rest"
proof -
  have "cpu_to_be16 (be16_to_cpu (padded bytes)) = take 2 (padded bytes)"
    using assms(1) by (intro be16.enc_dec) (simp add: padded_def)
  moreover have "cpu_to_be16 0x1234 = [0x12, 0x34]"
    by code_simp
  ultimately have "take 2 (padded bytes) = [0x12, 0x34]"
    by (simp only: assms(2))
  then have "take 2 bytes = [0x12, 0x34]"
    using assms(1) by (simp add: padded_def)
  then show ?thesis
    using assms(1) by (metis append_Cons append_Nil append_take_drop_id)
qed

lemma set_flash_key_exchange:
  assumes "\<And>e t'. exchanges t' = exchanges t @ (if e = 0 then [flash_key] else []) \<Longrightarrow> Q e t'"
  shows "wp (elan_smbus_set_flash_key E c) Q t"
  unfolding elan_smbus_set_flash_key_def
  by (intro wp_bindI wp_write_block wp_ifI wp_returnI assms) (simp_all add: etp_consts)

lemma smbus_prepare_wire:
  assumes "bus_contract E"
  shows "wp (elan_smbus_prepare_fw_update E c ic iap sz) (\<lambda>e t'. e = 0 \<longrightarrow>
    (\<exists>xs. boot_loader_unlocked xs \<and> exchanges t' = exchanges t @ xs)) t"
  unfolding elan_smbus_prepare_fw_update_def elan_smbus_unlock_iap_def elan_smbus_iap_get_mode_def
    elan_smbus_iap_reset_def
  by (intro wp_bindI wp_read_block [OF assms] set_flash_key_exchange wp_write_byte [OF assms] wp_write_block
      wp_case_prodI wp_ifI wp_returnI wp_letI wp_notifyI)
    (auto simp: etp_consts EIO_def iap_mode_bit boot_loader_unlocked_def not_less split: if_splits
      intro: password_bytes)

section \<open>Writing a page\<close>

text \<open>The blocks a successful \<open>elan_smbus_write_fw_block\<close> had acknowledged.\<close>

definition halves :: "u16 \<Rightarrow> u8 list \<Rightarrow> exchange list" where
  "halves sz page = (let n = (ucast (sz div 2) :: u8) in
     [BlockSent 0x2A n (take (unat n) page),
      BlockSent 0x2A n (take (unat n) (drop (unat (sz div 2)) page))])"

definition page_accepted :: "u16 \<Rightarrow> u8 list \<Rightarrow> trace \<Rightarrow> trace \<Rightarrow> bool" where
  "page_accepted sz page t t' \<longleftrightarrow> (\<exists>status.
     exchanges t' = exchanges t @ halves sz page @ [BlockRead 0xAD status] \<and>
     be16_to_cpu (padded status) AND 0x30 = 0)"

lemma smbus_write_block_wire:
  assumes "bus_contract E"
  shows "wp (elan_smbus_write_fw_block E c sz page checksum i)
    (\<lambda>e t'. e = 0 \<longrightarrow> page_accepted sz page t t') t"
  unfolding elan_smbus_write_fw_block_def
  by (intro wp_bindI wp_read_block [OF assms] wp_write_block wp_case_prodI wp_ifI wp_returnI wp_letI
      wp_notifyI)
    (auto simp: etp_consts EIO_def page_accepted_def halves_def Let_def split: if_splits)

text \<open>The bytes of the blocks, and whether SMBus can carry them.\<close>

fun block_bytes :: "exchange \<Rightarrow> u8 list" where
  "block_bytes (BlockSent cmd n b) = b"
| "block_bytes _ = []"

fun block_legal :: "exchange \<Rightarrow> bool" where
  "block_legal (BlockSent cmd n b) \<longleftrightarrow> 0 < n \<and> unat n \<le> I2C_SMBUS_BLOCK_MAX \<and> length b = unat n"
| "block_legal _ \<longleftrightarrow> True"

lemma halves_of_64:
  assumes "64 \<le> length page"
  shows "list_all block_legal (halves 64 page)" "concat (map block_bytes (halves 64 page)) = take 64 page"
proof -
  show "list_all block_legal (halves 64 page)"
    using assms by (simp add: halves_def Let_def I2C_SMBUS_BLOCK_MAX_def)
  have "take 32 page @ take 32 (drop 32 page) = take 64 page"
    using take_add [of 32 32 page] by simp
  then show "concat (map block_bytes (halves 64 page)) = take 64 page"
    by (simp add: halves_def Let_def)
qed

lemma halves_illegal:
  assumes "sz \<in> {128, 512}"
  shows "list_all (\<lambda>x. \<not> block_legal x) (halves sz page)"
    and "sz = 512 \<Longrightarrow> concat (map block_bytes (halves sz page)) = []"
  using assms by (auto simp: halves_def Let_def I2C_SMBUS_BLOCK_MAX_def)

section \<open>High-precision reports\<close>

text \<open>A report the decoder rejects reaches no node.\<close>

lemma rejected_report:
  assumes "fst (elan_rs_decode_report (Some r) len (context_params ctx) (Some f0)) \<noteq> 0"
  shows "final (elan_rs_emit_report f0 ctx r len) t = t"
  using assms by (auto simp: elan_rs_emit_report_def split: prod.splits)

lemma high_precision_incomplete:
  assumes "slot_in_range r True p (r ! TOUCH_INFO_OFFSET) slot" "slot < 5" "dp_report_features p = 1"
  shows "\<not> absolute_complete r 32 True p"
  using assms
  by (auto simp: absolute_complete_def slot_complete_def list_all_iff ELAN_RS_MAX_CONTACTS_def
      MK_DATA_OFFSET_def FEATURE_REPORT_MK_def)

lemma high_precision_rejected:
  assumes "r ! REPORT_ID_OFFSET = REPORT_ID2" "slot_in_range r True p (r ! TOUCH_INFO_OFFSET) slot"
    and "slot < 5" "dp_report_features p = 1"
  shows "fst (elan_rs_decode_report (Some r) 32 p (Some f0)) \<noteq> 0"
  using decode_absolute_incomplete [OF high_precision_incomplete [OF assms(2-4)]] assms(1)
  by (auto simp: elan_rs_decode_report_def read_byte_def Let_def report_ids split: prod.splits)

text \<open>The features and the length the driver asks an SMBus controller for.\<close>

lemma smbus_configuration:
  "result (get_pattern (elan_smbus_ops E) c p) t = (0, 0)"
  "result (get_report_features (elan_smbus_ops E) c 0 out) t = (0, 1, 32)"
  by (simp_all add: elan_smbus_ops_def elan_smbus_get_pattern_def elan_smbus_get_report_features_def
      etp_consts)

lemma smbus_read_extends: "\<exists>u. final (elan_smbus_get_report E c buf len) t = t @ u \<and> (\<forall>x \<in> set u. bus_call (fst x))"
proof -
  have "emits bus_call t (final (get_report (elan_smbus_ops E) c buf len) t)"
    by (rule io_relD [OF smbus.bus_get_report])
  then show ?thesis
    by (auto simp: emits_def elan_smbus_ops_def)
qed

section \<open>Properties\<close>

text \<open>
  C21: \<open>elan_smbus_prepare_fw_update\<close> returns 0 only when the boot loader was entered, and the
  acknowledged exchanges of the run are then exactly these: its control register was read; from
  main mode the flash was unlocked, by the key, the password command and the password request, and
  the password 0x1234 read back; in either mode the flash key was written and the boot loader reset.
\<close>

theorem smbus_prepare_unlocks:
  assumes "bus_contract E" and "result (elan_smbus_prepare_fw_update E c ic iap sz) t = 0"
  shows "\<exists>xs. boot_loader_unlocked xs \<and>
    exchanges (final (elan_smbus_prepare_fw_update E c ic iap sz) t) = exchanges t @ xs"
  using smbus_prepare_wire [OF assms(1), of c ic iap sz t] assms(2) by (simp add: wp_def)

abbreviation locked_environment :: environment where
  "locked_environment \<equiv> sample_environment [0x12, 0x34]"

lemma sample_unlock:
  "result (elan_smbus_prepare_fw_update locked_environment \<lparr>addr = 0x15, flags = 0\<rparr> 0x0D 1 64) [] = 0"
  by code_simp

theorem smbus_prepare_unlocks_witness:
  "boot_loader_unlocked (exchanges (final (elan_smbus_prepare_fw_update locked_environment
    \<lparr>addr = 0x15, flags = 0\<rparr> 0x0D 1 64) []))"
  using smbus_prepare_unlocks [OF sample_contract sample_unlock] by auto

text \<open>
  With pages of 64 bytes \<open>elan_smbus_write_fw_block\<close> returns 0 only when the whole page went out
  and was accepted: every block is one SMBus can carry, the acknowledged blocks together are the
  page, and the control register read afterwards had neither of its error bits set.
\<close>

theorem smbus_page_transmitted:
  assumes "bus_contract E" and "64 \<le> length page"
    and "result (elan_smbus_write_fw_block E c 64 page checksum i) t = 0"
  shows "\<exists>blocks status. exchanges (final (elan_smbus_write_fw_block E c 64 page checksum i) t) =
      exchanges t @ blocks @ [BlockRead 0xAD status] \<and>
    list_all block_legal blocks \<and> concat (map block_bytes blocks) = take 64 page \<and>
    be16_to_cpu (padded status) AND 0x30 = 0"
  using smbus_write_block_wire [OF assms(1), of c 64 page checksum i t] assms(3) halves_of_64 [OF assms(2)]
  by (auto simp: wp_def page_accepted_def)

lemma sample_smbus_page:
  "result (elan_smbus_write_fw_block (sample_environment []) \<lparr>addr = 0x15, flags = 0\<rparr> 64 (replicate 64 7) 0 0) [] = 0"
  by code_simp

theorem smbus_page_transmitted_witness:
  "concat (map block_bytes (exchanges (final (elan_smbus_write_fw_block (sample_environment [])
    \<lparr>addr = 0x15, flags = 0\<rparr> 64 (replicate 64 7) 0 0) []))) = replicate 64 7"
  using smbus_page_transmitted [OF sample_contract _ sample_smbus_page] by auto


lemma sample_large_page:
  "result (elan_smbus_write_fw_block (sample_environment []) \<lparr>addr = 0x15, flags = 0\<rparr> 512 [1] 0 0) [] = 0"
  by code_simp


text \<open>
  C31: On an SMBus device configured as the driver configures it, a high-precision report (id 0x60)
  that was read without error and shows a finger on the pad is counted as a good report and clears
  the error count, but nothing of it reaches the input core: the decoder looks for the finger's area
  byte beyond the 32 bytes of an SMBus report and rejects the whole report.
\<close>

theorem smbus_high_precision_dropped:
  assumes "ops (tp s) = elan_smbus_ops E" and "\<not> in_fw_update (tp s)"
    and "result (get_report_features (ops (tp s)) (client (tp s))
      (snd (result (get_pattern (ops (tp s)) (client (tp s)) pat0) t0)) out) t1 =
      (0, report_features (tp s), report_len (tp s))"
    and "result (get_report (ops (tp s)) (client (tp s)) (uninitialized E ETP_MAX_REPORT_LEN)
      (report_len (tp s))) (io_trace s) = (0, r)"
    and "r ! ETP_REPORT_ID_OFFSET = ETP_REPORT_ID2"
    and "slot_in_range r True (context_params (report_context (tp s))) (r ! ETP_TOUCH_INFO_OFFSET) slot"
    and "slot < 5"
  shows "tp (final (elan_isr E f0) s) =
      (tp s)\<lparr>report_errors := 0, report_count := report_count (tp s) + 1\<rparr> \<and>
    (\<exists>u. io_trace (final (elan_isr E f0) s) = io_trace s @ u \<and> (\<forall>node ev rep. (Input node ev, rep) \<notin> set u))"
proof -
  have cfg: "report_features (tp s) = 1" "report_len (tp s) = 32"
    using assms(1,3) by (simp_all add: smbus_configuration)
  have id: "r ! REPORT_ID_OFFSET = REPORT_ID2"
    using assms(5) by (simp add: etp_consts)
  have touch: "slot_in_range r True (context_params (report_context (tp s))) (r ! TOUCH_INFO_OFFSET) slot"
    using assms(6) by (simp add: etp_consts)
  have "dp_report_features (context_params (report_context (tp s))) = 1"
    by (simp add: context_params_def report_context_def cfg)
  note rejected = rejected_report [OF high_precision_rejected [OF id touch assms(7) this]]
  have read: "get_report (ops (tp s)) = elan_smbus_get_report E"
    by (simp add: assms(1) elan_smbus_ops_def)
  obtain u where u: "final (elan_smbus_get_report E (client (tp s)) (uninitialized E ETP_MAX_REPORT_LEN) 32)
      (io_trace s) = io_trace s @ u" "\<forall>x \<in> set u. bus_call (fst x)"
    using smbus_read_extends by blast
  then have "\<forall>node ev rep. (Input node ev, rep) \<notin> set u"
    by auto
  then show ?thesis
    using assms(2,4) rejected u(1) by (auto simp: isr_final Let_def read cfg)
qed

text \<open>An SMBus device that shows one finger in a high-precision report.\<close>

definition precise_block :: "u8 list" where
  "precise_block = [0x60, 0x08, 0x01, 0x00, 0x02, 0x00, 0x40] @ replicate 25 0"

definition precise_driver :: driver where
  "precise_driver = (let s = sample_driver (elan_smbus_ops (sample_environment precise_block)) in
     s\<lparr>tp := (tp s)\<lparr>report_len := 32\<rparr>\<rparr>)"

lemma precise_driver_fields:
  "ops (tp precise_driver) = elan_smbus_ops (sample_environment precise_block)"
  "\<not> in_fw_update (tp precise_driver)" "report_features (tp precise_driver) = 1"
  "report_len (tp precise_driver) = 32" "io_trace precise_driver = []"
  "context_params (report_context (tp precise_driver)) = sample_params"
  by (simp_all add: precise_driver_def sample_driver_def sample_tp_def Let_def context_params_def
      report_context_def sample_params_def)

lemma precise_report:
  "result (elan_smbus_get_report (sample_environment precise_block) c
    (uninitialized (sample_environment precise_block) ETP_MAX_REPORT_LEN) 32) [] =
    (0, [0, 0] @ precise_block @ replicate 5 0)"
  "slot_in_range ([0, 0] @ precise_block @ replicate 5 0) True sample_params
    (([0, 0] @ precise_block @ replicate 5 0) ! ETP_TOUCH_INFO_OFFSET) 0"
  "([0, 0] @ precise_block @ replicate 5 0) ! ETP_REPORT_ID_OFFSET = ETP_REPORT_ID2"
  by code_simp+

theorem smbus_high_precision_dropped_witness:
  "report_count (tp (final (elan_isr (sample_environment precise_block) EMPTY_FRAME) precise_driver)) =
    report_count (tp precise_driver) + 1"
proof -
  have read: "get_report (elan_smbus_ops E) = elan_smbus_get_report E" for E
    by (simp add: elan_smbus_ops_def)
  show ?thesis
    using smbus_high_precision_dropped [of precise_driver "sample_environment precise_block" 0 "[]"
        "(0, 0)" "[]" "[0, 0] @ precise_block @ replicate 5 0" 0 EMPTY_FRAME] precise_report
    by (simp add: precise_driver_fields smbus_configuration read)
qed

end
