(* ===== verification/Elan_Programming.thy ===== *)
theory Elan_Programming
  imports Elan_Firmware
begin

text \<open>
  The firmware update of the core seen from the flash of the controller, whichever transport is
  underneath. What a transport has to promise about its page writes is a locale; that the core
  then programs exactly the pages of the image, whatever is retried, is proved in it once.
\<close>

section \<open>Programming runs\<close>

text \<open>
  A controller model steps on the calls of a trace. Its state is what it holds back, and the pages
  it has programmed so far.
\<close>

type_synonym 'held flash = "'held \<times> u8 list list"
type_synonym 'held controller = "kcall \<times> reply \<Rightarrow> 'held flash \<Rightarrow> 'held flash"

definition flash_after :: "'held controller \<Rightarrow> trace \<Rightarrow> 'held flash \<Rightarrow> 'held flash" where
  "flash_after step u = fold step u"

lemma flash_after_append [simp]:
    "flash_after step (u @ v) st = flash_after step v (flash_after step u st)"
  and flash_after_Nil [simp]: "flash_after step [] st = st"
  and flash_after_Cons [simp]: "flash_after step (x # u) st = flash_after step u (step x st)"
  by (simp_all add: flash_after_def)

text \<open>
  A run \<open>accepts\<close> pages when, started and ended with nothing held back, it programs them; it is
  \<open>undecided\<close> when it programs nothing, whatever is held back before and after; it \<open>settles\<close> a page
  when it programs it, whatever was held back before.
\<close>

definition accepts :: "'held controller \<Rightarrow> 'held \<Rightarrow> u8 list list \<Rightarrow> trace \<Rightarrow> trace \<Rightarrow> bool" where
  "accepts step clear xs t t' \<longleftrightarrow>
     (\<exists>u. t' = t @ u \<and> (\<forall>ps. flash_after step u (clear, ps) = (clear, ps @ xs)))"

definition undecided :: "'held controller \<Rightarrow> trace \<Rightarrow> trace \<Rightarrow> bool" where
  "undecided step t t' \<longleftrightarrow>
     (\<exists>u. t' = t @ u \<and> (\<forall>held ps. \<exists>held'. flash_after step u (held, ps) = (held', ps)))"

definition settles :: "'held controller \<Rightarrow> 'held \<Rightarrow> u8 list \<Rightarrow> trace \<Rightarrow> trace \<Rightarrow> bool" where
  "settles step clear b t t' \<longleftrightarrow>
     (\<exists>u. t' = t @ u \<and> (\<forall>held ps. flash_after step u (held, ps) = (clear, ps @ [b])))"

lemma undecided_preorder [rel_rules]: "preorder_rel (undecided step)"
proof (rule preorder_relI)
  show "undecided step t t" for t
    by (simp add: undecided_def)
  fix t u v
  assume "undecided step t u" "undecided step u v"
  then obtain x y where run: "u = t @ x" "v = u @ y"
      "\<forall>held ps. \<exists>held'. flash_after step x (held, ps) = (held', ps)"
      "\<forall>held ps. \<exists>held'. flash_after step y (held, ps) = (held', ps)"
    by (auto simp: undecided_def)
  have "\<exists>held'. flash_after step (x @ y) (held, ps) = (held', ps)" for held ps
    unfolding flash_after_append using run(3,4) by metis
  then show "undecided step t v"
    unfolding undecided_def by (intro exI [of _ "x @ y"]) (simp add: run(1,2))
qed

lemma undecided_settles:
  assumes "undecided step t u" "settles step clear b u v"
  shows "settles step clear b t v"
proof -
  obtain x y where run: "u = t @ x" "v = u @ y"
      "\<forall>held ps. \<exists>held'. flash_after step x (held, ps) = (held', ps)"
      "\<forall>held ps. flash_after step y (held, ps) = (clear, ps @ [b])"
    using assms by (auto simp: undecided_def settles_def)
  have "flash_after step (x @ y) (held, ps) = (clear, ps @ [b])" for held ps
    unfolding flash_after_append using run(3,4) by metis
  then show ?thesis
    unfolding settles_def by (intro exI [of _ "x @ y"]) (simp add: run(1,2))
qed

lemma settles_accepts: "settles step clear b t t' \<Longrightarrow> accepts step clear [b] t t'"
  by (auto simp: settles_def accepts_def)

lemma accepts_trans:
  "accepts step clear xs t u \<Longrightarrow> accepts step clear ys u v \<Longrightarrow> accepts step clear (xs @ ys) t v"
  by (fastforce simp: accepts_def)

lemma accepts_refl: "accepts step clear [] t t"
  by (simp add: accepts_def)

lemma accepts_preorder [rel_rules]: "preorder_rel (accepts step clear [])"
  using accepts_refl accepts_trans [where xs = "[]" and ys = "[]"]
  by (intro preorder_relI) auto

text \<open>The image, page by page.\<close>

definition image_pages :: "u8 list \<Rightarrow> u16 \<Rightarrow> nat \<Rightarrow> nat \<Rightarrow> u8 list list" where
  "image_pages fw sz i n = map (\<lambda>k. drop (k * unat sz) fw) [i..<i + n]"

lemma image_pages_Suc:
  "image_pages fw sz i (Suc n) = drop (i * unat sz) fw # image_pages fw sz (Suc i) n"
proof -
  have "[i..<i + Suc n] = i # [Suc i..<Suc i + n]"
    by (simp add: upt_conv_Cons del: upt_Suc)
  then show ?thesis
    by (simp add: image_pages_def del: upt_Suc add_Suc_right)
qed

lemma image_pages_empty [simp]: "image_pages fw sz i 0 = []"
  by (simp add: image_pages_def)

lemma length_image_pages [simp]: "length (image_pages fw sz i n) = n"
  by (simp add: image_pages_def)

lemma image_pages_long:
  assumes "(i + n) * unat sz \<le> length fw" "page \<in> set (image_pages fw sz i n)"
  shows "unat sz \<le> length page"
proof -
  obtain k where "page = drop (k * unat sz) fw" "k < i + n"
    using assms(2) by (auto simp: image_pages_def)
  moreover have "Suc k * unat sz \<le> (i + n) * unat sz"
    using \<open>k < i + n\<close> by (intro mult_le_mono1) simp
  ultimately show ?thesis
    using assms(1) by simp
qed

lemma image_pages_concat:
  "(i + n) * unat sz \<le> length fw \<Longrightarrow>
    concat (map (take (unat sz)) (image_pages fw sz i n)) = take (n * unat sz) (drop (i * unat sz) fw)"
proof (induction n arbitrary: i)
  case (Suc n)
  let ?page = "drop (i * unat sz) fw"
  have fits: "unat sz \<le> length ?page" "(Suc i + n) * unat sz \<le> length fw"
    using Suc.prems by (simp_all add: algebra_simps)
  have "concat (map (take (unat sz)) (image_pages fw sz i (Suc n))) =
      take (unat sz) ?page @ take (n * unat sz) (drop (unat sz) ?page)"
    using Suc.IH [OF fits(2)] by (simp add: image_pages_Suc add.commute)
  then show ?case
    by (simp add: take_add)
qed simp

section \<open>The contract of a programmer\<close>

text \<open>
  A transport \<open>T\<close> to the client \<open>c\<close>, with the controller model it is understood by: calls that are
  \<open>quiet\<close> do not concern the flash while nothing is held back, every operation the update uses
  besides the page write only makes such calls, and a page write of a size the transport can
  carry programs \<open>stored\<close> when it reports success and nothing when it reports an error.
\<close>

locale programmer = transport T for T :: elan_transport_ops +
  fixes E :: environment
    and c :: i2c_client
    and step :: "'held controller"
    and clear :: 'held
    and quiet :: "kcall \<Rightarrow> bool"
    and carries :: "u16 \<Rightarrow> bool"
    and stored :: "u16 \<Rightarrow> u8 list \<Rightarrow> u8 list"
  assumes quiet_step: "quiet k \<Longrightarrow> step (k, r) (clear, ps) = (clear, ps)"
    and quiet_calls: "quiet (Msleep n)" "quiet (Sched op)"
    and quiet_initialize: "state_io_rel (emits quiet) (initialize T c')"
    and quiet_sleep_control: "state_io_rel (emits quiet) (sleep_control T c' b)"
    and quiet_set_mode: "state_io_rel (emits quiet) (set_mode T c' m)"
    and quiet_get_product_id: "state_io_rel (emits quiet) (get_product_id T c' x16)"
    and quiet_get_pattern: "state_io_rel (emits quiet) (get_pattern T c' x8)"
    and quiet_get_version: "state_io_rel (emits quiet) (get_version T c' p b x8)"
    and quiet_get_sm_version: "state_io_rel (emits quiet) (get_sm_version T c' p sm)"
    and quiet_get_checksum: "state_io_rel (emits quiet) (get_checksum T c' b x16)"
    and quiet_get_pressure_adjustment: "state_io_rel (emits quiet) (get_pressure_adjustment T c' x32)"
    and quiet_get_report_features: "state_io_rel (emits quiet) (get_report_features T c' p xy)"
    and quiet_prepare: "state_io_rel (emits quiet) (prepare_fw_update T c' ic iap sz)"
    and quiet_finish: "state_io_rel (emits quiet) (finish_fw_update T c')"
    and page_write: "bus_contract E \<Longrightarrow> carries sz \<Longrightarrow> unat sz \<le> length page \<Longrightarrow>
      wp (write_fw_block T c sz page (page_checksum page (unat sz)) i) (\<lambda>e t'.
        if e = 0 then settles step clear (stored sz page) t t' else undecided step t t') t"
begin

lemmas quiet_ops =
  quiet_initialize quiet_sleep_control quiet_set_mode quiet_get_product_id quiet_get_pattern
  quiet_get_version quiet_get_sm_version quiet_get_checksum quiet_get_pressure_adjustment
  quiet_get_report_features quiet_prepare quiet_finish

lemma quiet_accepts: "emits quiet t t' \<Longrightarrow> accepts step clear [] t t'"
proof -
  assume "emits quiet t t'"
  then obtain u where "t' = t @ u" and u: "\<forall>x \<in> set u. quiet (fst x)"
    by (auto simp: emits_def)
  moreover have "flash_after step u (clear, ps) = (clear, ps)" for ps
    using u by (induction u) (auto simp: quiet_step)
  ultimately show ?thesis
    by (auto simp: accepts_def)
qed

lemma quiet_program: "state_io_rel (emits quiet) m \<Longrightarrow> state_io_rel (accepts step clear []) m"
  by (erule io_rel_mono) (rule quiet_accepts)

lemma quiet_call_accepts: "quiet k \<Longrightarrow> accepts step clear [] t (t @ [(k, r)])"
  by (auto simp: accepts_def quiet_step)

definition undecided_run :: "driver \<Rightarrow> driver \<Rightarrow> bool" where
  "undecided_run s s' \<longleftrightarrow> (ops (tp s) = T \<and> client (tp s) = c \<longrightarrow>
     tp s' = tp s \<and> undecided step (io_trace s) (io_trace s'))"

lemma undecided_run_preorder: "preorder_rel undecided_run"
proof (rule preorder_relI)
  show "undecided_run s s" for s
    by (simp add: undecided_run_def preorder_rel_refl [OF undecided_preorder])
  show "undecided_run s v" if "undecided_run s u" "undecided_run u v" for s u v
    using that preorder_rel_trans [OF undecided_preorder, of step "io_trace s" "io_trace u" "io_trace v"]
    by (simp add: undecided_run_def)
qed

lemma page_attempts:
  assumes "bus_contract E" "ops (tp s) = T" "client (tp s) = c" "carries sz" "unat sz \<le> length page"
    and "csum = page_checksum page (unat sz)"
  shows "wp (elan_write_fw_block sz page csum i) (\<lambda>e s'. tp s' = tp s \<and>
    (e = 0 \<longrightarrow> settles step clear (stored sz page) (io_trace s) (io_trace s'))) s"
proof -
  let ?body = "via_ops (\<lambda>opt c. write_fw_block opt c sz page csum i)"
  have block: "if result ?body u = 0
      then settles step clear (stored sz page) (io_trace u) (io_trace (final ?body u))
      else undecided step (io_trace u) (io_trace (final ?body u))"
    if "ops (tp u) = T" "client (tp u) = c" for u
    using page_write [OF assms(1,4,5), of i "io_trace u"] that by (simp add: wp_def assms(6))
  have "settles step clear (stored sz page) (io_trace s) (io_trace (final (elan_write_fw_block sz page csum i) s))"
    if ok: "result (elan_write_fw_block sz page csum i) s = 0"
  proof -
    have failed: "undecided_run u (final ?body u)" if "result ?body u \<noteq> 0" for u
      unfolding undecided_run_def using block [of u] that by auto
    have "\<exists>s'. undecided_run s s' \<and> result ?body s' = 0 \<and> final (do_retry ETP_RETRY_COUNT
        (\<lambda>error. error = 0) ?body (return ())) s = final ?body s'"
      by (rule do_retry_first_success [OF ok [unfolded elan_write_fw_block_def] refl failed _
          undecided_run_preorder])
        (assumption, intro io_rel_return undecided_run_preorder)
    then obtain s' where "undecided_run s s'" "result ?body s' = 0"
        "final (elan_write_fw_block sz page csum i) s = final ?body s'"
      unfolding elan_write_fw_block_def by blast
    then show ?thesis
      using block [of s'] assms(2,3) undecided_settles [of step "io_trace s" "io_trace s'"]
      by (simp add: undecided_run_def)
  qed
  then show ?thesis
    by (simp add: wp_def)
qed

lemma write_pages_programs:
  assumes "bus_contract E" "carries (fw_page_size (tp s))" "ops (tp s) = T" "client (tp s) = c"
    and "0 < n \<longrightarrow> (i + n) * unat (fw_page_size (tp s)) \<le> length fw"
  shows "wp (write_pages fw n i sw) (\<lambda>r s'. tp s' = tp s \<and> (fst r = 0 \<longrightarrow> accepts step clear
    (map (stored (fw_page_size (tp s))) (image_pages fw (fw_page_size (tp s)) i n))
    (io_trace s) (io_trace s'))) s"
  using assms(2-5)
proof (induction n arbitrary: i sw s)
  case 0
  then show ?case
    by (simp add: wp_simps accepts_refl)
next
  case (Suc n)
  let ?sz = "fw_page_size (tp s)" and ?page = "drop (i * unat (fw_page_size (tp s))) fw"
  have fits: "unat ?sz \<le> length ?page" "(Suc i + n) * unat ?sz \<le> length fw"
    using Suc.prems(4) by (simp_all add: algebra_simps)
  note attempts = page_attempts [OF assms(1) Suc.prems(2,3,1) fits(1) refl]
  show ?case
    unfolding write_pages.simps
  proof (intro wp_bindI wp_getdI wp_letI wp_mono [OF attempts])
    fix e :: int and s' :: driver
    assume page: "tp s' = tp s \<and>
      (e = 0 \<longrightarrow> settles step clear (stored ?sz ?page) (io_trace s) (io_trace s'))"
    show "wp (if e \<noteq> 0 then return (e, sw) else write_pages fw n (Suc i)
        (sw + page_checksum ?page (unat ?sz))) (\<lambda>r s'. tp s' = tp s \<and> (fst r = 0 \<longrightarrow>
        accepts step clear (map (stored ?sz) (image_pages fw ?sz i (Suc n))) (io_trace s) (io_trace s'))) s'"
    proof (cases "e = 0")
      case True
      with page have tp: "tp s' = tp s"
          and one: "accepts step clear [stored ?sz ?page] (io_trace s) (io_trace s')"
        by (auto intro: settles_accepts)
      have "accepts step clear (map (stored ?sz) (image_pages fw ?sz i (Suc n))) (io_trace s) t'"
        if "accepts step clear (map (stored ?sz) (image_pages fw ?sz (Suc i) n)) (io_trace s') t'" for t'
        using accepts_trans [OF one that] by (simp add: image_pages_Suc)
      then show ?thesis
        using True Suc.prems fits(2)
        by (auto simp: tp intro!: wp_mono [OF Suc.IH])
    qed (use page in \<open>simp add: wp_return\<close>)
  qed
qed

text \<open>The rest of the update leaves the flash alone.\<close>

lemma initialize_quiet: "state_io_rel (drv_rel T (emits quiet)) (elan_initialize b)"
proof -
  have "state_io_rel (drv_rel T (emits quiet)) (elan_initialize_once b)" for b
    unfolding elan_initialize_once_def elan_query_product_def
    by (intro rel_rules quiet_ops) (auto split: prod.splits intro: quiet_calls)
  then show ?thesis
    unfolding initialize_unroll by (intro rel_rules) (auto intro: quiet_calls)
qed

lemma query_quiet: "state_io_rel (drv_rel T (emits quiet)) elan_query_device_info"
  unfolding elan_query_device_info_def
  by (intro rel_rules quiet_ops) (auto split: prod.splits)

text \<open>Prepare, pages, pause, finish, checksum.\<close>

lemma accepts_update:
  assumes "accepts step clear [] t0 t1" "accepts step clear xs t1 t2"
    and "accepts step clear [] (t2 @ [(Msleep n, r)]) t3" "accepts step clear [] t3 t4"
  shows "accepts step clear xs t0 t4"
proof -
  have "accepts step clear [] t2 (t2 @ [(Msleep n, r)])"
    by (intro quiet_call_accepts quiet_calls)
  from accepts_trans [OF assms(1) accepts_trans [OF assms(2) accepts_trans [OF this
      accepts_trans [OF assms(3,4)]]]] show ?thesis
    by simp
qed

definition pages_of :: "elan_tp_data \<Rightarrow> u8 list \<Rightarrow> u8 list list" where
  "pages_of d fw = map (stored (fw_page_size d)) (image_pages fw (fw_page_size d) (boot_page d fw)
     (unat (fw_validpage_count d) - boot_page d fw))"

lemma update_steps_program:
  assumes "bus_contract E" "carries (fw_page_size (tp s))" "ops (tp s) = T" "client (tp s) = c"
    and "unat (fw_validpage_count (tp s)) * unat (fw_page_size (tp s)) \<le> length fw"
  shows "wp (elan_update_firmware_steps fw) (\<lambda>r s'. tp s' = tp s \<and> (r = Some 0 \<longrightarrow>
    accepts step clear (pages_of (tp s) fw) (io_trace s) (io_trace s'))) s"
proof -
  note quiet = quiet_ops [THEN quiet_program]
  note via = wp_via_rel [where T = T and R = "accepts step clear []"]
  show ?thesis
    unfolding elan_update_firmware_steps_def divide_by_zero_def
    by (intro via quiet wp_bindI wp_ifI wp_returnI wp_getdI wp_letI wp_xioI wp_notifyI
        wp_case_prodI wp_mono [OF write_pages_programs [OF assms(1)]])
      (use assms(2-5) in \<open>auto simp: boot_page_def pages_of_def intro: accepts_update\<close>)
qed

lemma accepts_bracketed:
  assumes "accepts step clear xs (t0 @ [(Sched DisableIrq, 0, [])]) t2" "emits quiet t2 t3" "emits quiet t3 t4"
  shows "accepts step clear xs t0 (t4 @ [(Sched EnableIrq, 0, [])])"
proof -
  have "accepts step clear [] t0 (t0 @ [(Sched DisableIrq, 0, [])])"
      "accepts step clear [] t4 (t4 @ [(Sched EnableIrq, 0, [])])"
    by (intro quiet_call_accepts quiet_calls)+
  from accepts_trans [OF this(1) accepts_trans [OF assms(1) accepts_trans [OF
      accepts_trans [OF assms(2,3) [THEN quiet_accepts]] this(2)]]] show ?thesis
    by simp
qed

theorem update_programs:
  assumes "bus_contract E" "carries (fw_page_size (tp s))" "ops (tp s) = T" "client (tp s) = c"
    and "unat (fw_validpage_count (tp s)) * unat (fw_page_size (tp s)) \<le> length fw"
  shows "wp (elan_update_firmware fw) (\<lambda>r s'. r = Some 0 \<longrightarrow>
    accepts step clear (pages_of (tp s) fw) (io_trace s) (io_trace s')) s"
  unfolding elan_update_firmware_def
  by (intro wp_bindI wp_getdI wp_moddI wp_xioI wp_notifyI wp_case_optionI wp_returnI wp_ifI
      wp_mono [OF update_steps_program [OF assms(1)]] wp_rel [OF initialize_quiet]
      wp_rel [OF query_quiet] wp_abstract)
    (use assms(2-5) in \<open>auto simp: drv_rel_def boot_page_def pages_of_def intro: accepts_bracketed\<close>)

end

section \<open>Reading the image back\<close>

text \<open>The pages a run programs, and what they have to carry for the image to have arrived.\<close>

definition programmed :: "'held controller \<Rightarrow> 'held \<Rightarrow> trace \<Rightarrow> u8 list list" where
  "programmed step clear u = snd (flash_after step u (clear, []))"

definition image_arrived :: "elan_tp_data \<Rightarrow> u8 list \<Rightarrow> u8 list list \<Rightarrow> bool" where
  "image_arrived d fw pages \<longleftrightarrow> (let sz = unat (fw_page_size d); boot = boot_page d fw;
       n = unat (fw_validpage_count d) - boot in
     length pages = n \<and> concat pages = take (n * sz) (drop (boot * sz) fw))"

lemma accepts_programmed:
  assumes "accepts step clear xs t t'"
  obtains u where "t' = t @ u" "programmed step clear u = xs"
  using assms by (auto simp: accepts_def programmed_def)

lemma image_arrived_pages:
  assumes "unat (fw_validpage_count d) * unat (fw_page_size d) \<le> length fw"
    and "\<And>page. unat (fw_page_size d) \<le> length page \<Longrightarrow> f page = take (unat (fw_page_size d)) page"
  shows "image_arrived d fw (map f (image_pages fw (fw_page_size d) (boot_page d fw)
    (unat (fw_validpage_count d) - boot_page d fw)))"
proof (cases "unat (fw_validpage_count d) - boot_page d fw = 0")
  case False
  let ?n = "unat (fw_validpage_count d) - boot_page d fw"
  have fits: "(boot_page d fw + ?n) * unat (fw_page_size d) \<le> length fw"
    using assms(1) False by simp
  have pages: "map f (image_pages fw (fw_page_size d) (boot_page d fw) ?n) =
      map (take (unat (fw_page_size d))) (image_pages fw (fw_page_size d) (boot_page d fw) ?n)"
    by (rule map_cong [OF refl assms(2) [OF image_pages_long [OF fits]]])
  then show ?thesis
    unfolding image_arrived_def Let_def pages using image_pages_concat [OF fits] by simp
qed (simp add: image_arrived_def Let_def)

end
