(* ===== verification/Elan_Firmware_Wire.thy ===== *)
theory Elan_Firmware_Wire
  imports Elan_Programming Elan_I2c_Wire Elan_Smbus_Wire
begin

text \<open>
  The page writes of the two transports seen from the flash of the controller, as interpretations
  of \<open>programmer\<close>: an update that reports success has programmed the image.
\<close>

section \<open>I2C\<close>

text \<open>
  The controller holds the last buffer it received completely. Reading its control register
  settles it: with neither error bit set it was programmed, otherwise it was dropped.
\<close>

fun flash_step :: "i2c_client \<Rightarrow> u8 list option controller" where
  "flash_step c (Bus (I2cMasterSend b n), r) (held, pages) =
     (if fst r = int n then (Some (take n b), pages) else (held, pages))"
| "flash_step c x (held, pages) = (case access_of c x of
     [RegRead reg v] \<Rightarrow>
       if reg \<noteq> 0x0310 then (held, pages)
       else (None, case held of
         Some b \<Rightarrow> if le16_to_cpu v AND 0x30 = 0 then pages @ [b] else pages
       | None \<Rightarrow> pages)
   | _ \<Rightarrow> (held, pages))"

text \<open>Calls that send no page.\<close>

fun no_page :: "kcall \<Rightarrow> bool" where
  "no_page (Bus (I2cMasterSend b n)) = False"
| "no_page _ = True"

lemma no_page_step: "no_page k \<Longrightarrow> flash_step c (k, r) (None, ps) = (None, ps)"
  by (cases "(c, (k, r), (None :: u8 list option, ps))" rule: flash_step.cases)
    (auto split: list.splits access.splits)

lemma read_cmd_step:
  assumes "bus_contract E" "2 \<le> length val"
    and "\<And>v out x. access_of c x = [RegRead reg (cpu_to_le16 v)] \<Longrightarrow> no_page (fst x) \<Longrightarrow>
      le16_to_cpu out = v \<Longrightarrow> Q (0, out) (t @ [x])"
    and "\<And>e out x. access_of c x = [] \<Longrightarrow> no_page (fst x) \<Longrightarrow> e < 0 \<Longrightarrow> Q (e, out) (t @ [x])"
  shows "wp (elan_i2c_read_cmd E c reg val) Q t"
proof -
  obtain msgs where x: "final (elan_i2c_read_cmd E c reg val) t =
      t @ [(Bus (I2cTransfer msgs), answer E t (Bus (I2cTransfer msgs)))]"
    by (simp add: elan_i2c_read_cmd_def elan_i2c_read_block_def Let_def final_if split: prod.splits)
  obtain err out where r: "result (elan_i2c_read_cmd E c reg val) t = (err, out)"
    by fastforce
  have bytes: "2 \<le> length out \<Longrightarrow> take 2 out = cpu_to_le16 (le16_to_cpu out)"
    by (simp add: le16.enc_dec)
  let ?x = "(Bus (I2cTransfer msgs), answer E t (Bus (I2cTransfer msgs)))"
  show ?thesis
    using read_cmd_wire [OF assms(1,2) r] assms(2) bytes assms(3) [of ?x "le16_to_cpu out" out]
      assms(4) [of ?x err out]
    by (cases "err = 0") (simp_all add: wp_def x r)
qed

lemma flash_step_other:
  assumes "no_page (fst x)"
  shows "flash_step c x (held, pages) = (case access_of c x of
     [RegRead reg v] \<Rightarrow>
       if reg \<noteq> 0x0310 then (held, pages)
       else (None, case held of
         Some b \<Rightarrow> if le16_to_cpu v AND 0x30 = 0 then pages @ [b] else pages
       | None \<Rightarrow> pages)
   | _ \<Rightarrow> (held, pages))"
  using assms by (cases "(c, x, held, pages)" rule: flash_step.cases) auto

lemma write_fw_block_flash:
  assumes "bus_contract E" "unat sz \<le> length page"
  shows "wp (elan_i2c_write_fw_block E c sz page checksum i) (\<lambda>e t'.
    if e = 0 then settles (flash_step c) None (page_store sz page checksum) t t' else undecided (flash_step c) t t') t"
  unfolding elan_i2c_write_fw_block_def
  by (intro wp_bindI wp_letI wp_ifI wp_returnI wp_status_ofI wp_notifyI
      read_cmd_step [OF assms(1), where c = c] wp_case_prodI)
    (auto simp: settles_def undecided_def etp_consts EIO_def ENOMEM_def flash_step_other
      le16.dec_enc_exact assms(2))

lemma i2c_access_no_page [rel_rules]:
  "state_io_rel (emits no_page) (elan_i2c_read_block E c reg val len)"
  "state_io_rel (emits no_page) (elan_i2c_read_cmd E c reg val)"
  "state_io_rel (emits no_page) (elan_i2c_write_cmd E c reg cmd)"
  "state_io_rel (emits no_page) (i2c_master_recv E buf len)"
  by (auto simp: elan_i2c_read_block_def elan_i2c_read_cmd_def elan_i2c_write_cmd_def Let_def
      i2c_transfer_def i2c_master_recv_def intro!: rel_rules)

lemma i2c_iap_no_page [rel_rules]:
  "state_io_rel (emits no_page) (elan_i2c_iap_get_mode E c md)"
  "state_io_rel (emits no_page) (elan_i2c_iap_reset E c)"
  "state_io_rel (emits no_page) (elan_i2c_set_flash_key E c)"
  "state_io_rel (emits no_page) (elan_read_write_iap_type E c sz)"
proof -
  have "state_io_rel (emits no_page) (elan_read_write_iap_type_loop E c sz n)" for n
  proof (induction n)
    case 0
    show ?case
      by (subst elan_read_write_iap_type_loop.simps) (auto intro!: rel_rules)
  next
    case (Suc n)
    then show ?case
      by (subst elan_read_write_iap_type_loop.simps) (auto intro!: rel_rules)
  qed
  then show "state_io_rel (emits no_page) (elan_read_write_iap_type E c sz)"
    by (simp add: elan_read_write_iap_type_def)
qed (auto simp: elan_i2c_iap_get_mode_def elan_i2c_iap_reset_def elan_i2c_set_flash_key_def
    intro!: rel_rules)

lemma i2c_ops_no_page:
  "state_io_rel (emits no_page) (initialize (elan_i2c_ops E) c)"
  "state_io_rel (emits no_page) (sleep_control (elan_i2c_ops E) c b)"
  "state_io_rel (emits no_page) (set_mode (elan_i2c_ops E) c m)"
  "state_io_rel (emits no_page) (get_product_id (elan_i2c_ops E) c x16)"
  "state_io_rel (emits no_page) (get_pattern (elan_i2c_ops E) c x8)"
  "state_io_rel (emits no_page) (get_version (elan_i2c_ops E) c p b x8)"
  "state_io_rel (emits no_page) (get_sm_version (elan_i2c_ops E) c p sm)"
  "state_io_rel (emits no_page) (get_checksum (elan_i2c_ops E) c b x16)"
  "state_io_rel (emits no_page) (get_pressure_adjustment (elan_i2c_ops E) c x32)"
  "state_io_rel (emits no_page) (get_report_features (elan_i2c_ops E) c p xy)"
  "state_io_rel (emits no_page) (prepare_fw_update (elan_i2c_ops E) c ic iap sz)"
  "state_io_rel (emits no_page) (finish_fw_update (elan_i2c_ops E) c)"
  by (auto simp: elan_i2c_ops_def i2c_op_defs elan_i2c_finish_fw_update_def Let_def
      intro!: rel_rules split: prod.splits)

interpretation i2c_flash: programmer "elan_i2c_ops E" E c "flash_step c" None no_page "\<lambda>_. True"
    "\<lambda>sz page. page_store sz page (page_checksum page (unat sz))" for E c
proof unfold_locales
  show "wp (write_fw_block (elan_i2c_ops E) c sz page (page_checksum page (unat sz)) i) (\<lambda>e t'.
      if e = 0 then settles (flash_step c) None (page_store sz page (page_checksum page (unat sz))) t t'
      else undecided (flash_step c) t t') t"
    if "bus_contract E" "unat sz \<le> length page" for sz page i t
    using write_fw_block_flash [OF that] by (simp add: elan_i2c_ops_def)
qed (use i2c_ops_no_page in \<open>auto simp: no_page_step\<close>)

text \<open>The page a buffer carries, and whether its checksum is the page's.\<close>

definition payload :: "u16 \<Rightarrow> u8 list \<Rightarrow> u8 list" where
  "payload sz buf = take (unat sz) (drop 2 buf)"

definition intact :: "u16 \<Rightarrow> u8 list \<Rightarrow> bool" where
  "intact sz buf \<longleftrightarrow> length buf = unat sz + 4 \<and> le16_to_cpu buf = 0x0601 \<and>
     le16_to_cpu (drop (unat sz + 2) buf) = page_checksum (payload sz buf) (unat sz)"

lemma page_checksum_take:
  assumes "even n"
  shows "page_checksum (take n page) n = page_checksum page n"
proof -
  have "2 * k + 1 < n" if "k < (n + 1) div 2" for k
    using that assms by (auto elim!: evenE)
  then show ?thesis
    unfolding page_checksum_sum by (intro sum.cong) auto
qed

lemma payload_page_store:
  "unat sz \<le> length page \<Longrightarrow> payload sz (page_store sz page csum) = take (unat sz) page"
  by (simp add: payload_def page_store_fields)

lemma intact_page_store:
  "unat sz \<le> length page \<Longrightarrow> even (unat sz) \<Longrightarrow>
    intact sz (page_store sz page (page_checksum page (unat sz)))"
  by (simp only: intact_def payload_page_store)
    (simp add: page_store_fields page_checksum_take)


section \<open>SMBus\<close>

text \<open>
  The controller holds the last two blocks it acknowledged for the page command, the newest first.
  Reading its control register settles them: with neither error bit set they were programmed as one
  page, otherwise they were dropped.
\<close>

fun block_step :: "exchange \<Rightarrow> u8 list list flash \<Rightarrow> u8 list list flash" where
  "block_step (BlockSent cmd n b) (held, pages) =
     (if cmd = 0x2A then (take 2 (b # held), pages) else (held, pages))"
| "block_step (BlockRead cmd bytes) (held, pages) =
     (if cmd \<noteq> 0xAD then (held, pages)
      else ([], if length held = 2 \<and> be16_to_cpu (padded bytes) AND 0x30 = 0
        then pages @ [concat (rev held)] else pages))"
| "block_step (ByteSent cmd) st = st"

definition smbus_flash_step :: "u8 list list controller" where
  "smbus_flash_step x = fold block_step (exchange_of x)"

lemma smbus_flash_after: "flash_after smbus_flash_step u = fold block_step (exchanges u)"
proof (rule ext)
  show "flash_after smbus_flash_step u st = fold block_step (exchanges u) st" for st
    by (induction u arbitrary: st) (simp_all add: smbus_flash_step_def)
qed

fun no_block :: "kcall \<Rightarrow> bool" where
  "no_block (Bus (SmbusWriteBlock cmd n b)) \<longleftrightarrow> cmd \<noteq> 0x2A"
| "no_block _ \<longleftrightarrow> True"

lemma no_block_step: "no_block k \<Longrightarrow> smbus_flash_step (k, r) ([], ps) = ([], ps)"
  by (cases "(k, r)" rule: exchange_of.cases) (auto simp: smbus_flash_step_def)

lemma smbus_write_block_exchanges:
  assumes "bus_contract E" "64 \<le> length page"
  shows "wp (elan_smbus_write_fw_block E c 64 page checksum i) (\<lambda>e t'. \<exists>xs.
    exchanges t' = exchanges t @ xs \<and>
    (\<forall>held ps. if e = 0 then fold block_step xs (held, ps) = ([], ps @ [take 64 page])
      else snd (fold block_step xs (held, ps)) = ps)) t"
proof -
  have halves: "take 32 page @ take 32 (drop 32 page) = take 64 page"
    using take_add [of 32 32 page] by simp
  show ?thesis
    unfolding elan_smbus_write_fw_block_def
    by (intro wp_bindI wp_read_block [OF assms(1)] wp_write_block wp_case_prodI wp_ifI wp_returnI wp_letI
        wp_notifyI)
      (use halves in \<open>auto simp: etp_consts EIO_def\<close>)
qed

lemma smbus_page_flash:
  assumes "bus_contract E" "64 \<le> length page"
  shows "wp (elan_smbus_write_fw_block E c 64 page checksum i) (\<lambda>e t'.
    if e = 0 then settles smbus_flash_step [] (take 64 page) t t' else undecided smbus_flash_step t t') t"
proof -
  have "emits bus_call t (final (write_fw_block (elan_smbus_ops E) c 64 page checksum i) t)"
    by (rule io_relD [OF smbus.bus_write_fw_block])
  then obtain u where "final (elan_smbus_write_fw_block E c 64 page checksum i) t = t @ u"
    by (auto simp: emits_def elan_smbus_ops_def)
  then show ?thesis
    using smbus_write_block_exchanges [OF assms, of c checksum i t]
    by (auto simp: wp_def settles_def undecided_def smbus_flash_after prod_eq_iff)
qed

lemma smbus_access_no_block [rel_rules]:
  "state_io_rel (emits no_block) (i2c_smbus_read_block_data E cmd buf)"
  "state_io_rel (emits no_block) (i2c_smbus_write_byte E cmd)"
  "cmd \<noteq> 0x2A \<Longrightarrow> state_io_rel (emits no_block) (i2c_smbus_write_block_data E cmd n b)"
  by (auto simp: i2c_smbus_read_block_data_def i2c_smbus_write_byte_def i2c_smbus_write_block_data_def
      intro!: rel_rules)

lemma smbus_iap_no_block [rel_rules]:
  "state_io_rel (emits no_block) (elan_smbus_iap_get_mode E c md)"
  "state_io_rel (emits no_block) (elan_smbus_iap_reset E c)"
  "state_io_rel (emits no_block) (elan_smbus_set_flash_key E c)"
  "state_io_rel (emits no_block) (elan_smbus_unlock_iap E c)"
  by (auto simp: elan_smbus_iap_get_mode_def elan_smbus_iap_reset_def elan_smbus_set_flash_key_def
      elan_smbus_unlock_iap_def etp_consts intro!: rel_rules)

lemma smbus_ops_no_block:
  "state_io_rel (emits no_block) (initialize (elan_smbus_ops E) c)"
  "state_io_rel (emits no_block) (sleep_control (elan_smbus_ops E) c b)"
  "state_io_rel (emits no_block) (set_mode (elan_smbus_ops E) c m)"
  "state_io_rel (emits no_block) (get_product_id (elan_smbus_ops E) c x16)"
  "state_io_rel (emits no_block) (get_pattern (elan_smbus_ops E) c x8)"
  "state_io_rel (emits no_block) (get_version (elan_smbus_ops E) c p b x8)"
  "state_io_rel (emits no_block) (get_sm_version (elan_smbus_ops E) c p sm)"
  "state_io_rel (emits no_block) (get_checksum (elan_smbus_ops E) c b x16)"
  "state_io_rel (emits no_block) (get_pressure_adjustment (elan_smbus_ops E) c x32)"
  "state_io_rel (emits no_block) (get_report_features (elan_smbus_ops E) c p xy)"
  "state_io_rel (emits no_block) (prepare_fw_update (elan_smbus_ops E) c ic iap sz)"
  "state_io_rel (emits no_block) (finish_fw_update (elan_smbus_ops E) c)"
  by (auto simp: elan_smbus_ops_def smbus_op_defs elan_smbus_finish_fw_update_def Let_def
      etp_consts intro!: rel_rules split: prod.splits)

interpretation smbus_flash: programmer "elan_smbus_ops E" E c smbus_flash_step "[]" no_block
    "\<lambda>sz. sz = 64" "\<lambda>sz. take (unat sz)" for E c
proof unfold_locales
  show "wp (write_fw_block (elan_smbus_ops E) c sz page (page_checksum page (unat sz)) i) (\<lambda>e t'.
      if e = 0 then settles smbus_flash_step [] (take (unat sz) page) t t'
      else undecided smbus_flash_step t t') t"
    if "bus_contract E" "sz = 64" "unat sz \<le> length page" for sz page i t
    using smbus_page_flash [OF that(1), of page c "page_checksum page (unat sz)" i t] that(2,3)
    by (simp add: elan_smbus_ops_def if_bool_eq_conj)
qed (use smbus_ops_no_block in \<open>auto simp: no_block_step\<close>)

section \<open>The image\<close>

text \<open>
  The page buffers an I2C controller accepted carry the image, each with the checksum of its page.
\<close>

definition image_programmed :: "elan_tp_data \<Rightarrow> u8 list \<Rightarrow> trace \<Rightarrow> bool" where
  "image_programmed d fw u \<longleftrightarrow> (let pages = programmed (flash_step (client d)) None u in
     list_all (intact (fw_page_size d)) pages \<and> image_arrived d fw (map (payload (fw_page_size d)) pages))"

lemma stored_image:
  assumes "even (unat (fw_page_size d))" "unat (fw_validpage_count d) * unat (fw_page_size d) \<le> length fw"
  defines "pages \<equiv> map (\<lambda>page. page_store (fw_page_size d) page (page_checksum page (unat (fw_page_size d))))
    (image_pages fw (fw_page_size d) (boot_page d fw) (unat (fw_validpage_count d) - boot_page d fw))"
  shows "list_all (intact (fw_page_size d)) pages \<and> image_arrived d fw (map (payload (fw_page_size d)) pages)"
proof
  let ?n = "unat (fw_validpage_count d) - boot_page d fw"
  show "image_arrived d fw (map (payload (fw_page_size d)) pages)"
    using image_arrived_pages [OF assms(2), of "payload (fw_page_size d) \<circ>
        (\<lambda>page. page_store (fw_page_size d) page (page_checksum page (unat (fw_page_size d))))"]
    by (simp add: pages_def payload_page_store)
  show "list_all (intact (fw_page_size d)) pages"
  proof (cases "?n = 0")
    case False
    then have "(boot_page d fw + ?n) * unat (fw_page_size d) \<le> length fw"
      using assms(2) by simp
    from image_pages_long [OF this] show ?thesis
      using assms(1) by (auto simp: pages_def list_all_iff intro: intact_page_store)
  qed (simp add: pages_def)
qed

text \<open>
  C3: An update over I2C that reports success has programmed the image. With the geometry of the
  controller and an image of the length \<open>elan_sysfs_update_fw\<close> demands, the pages the controller
  accepted during the run, retries and rejected attempts left out, are exactly the image from its
  boot page to its last page, in order, none missing and none twice, each with its own checksum.
\<close>

theorem update_programs_image:
  assumes "bus_contract E" and "ops (tp s) = elan_i2c_ops E"
    and "elan_get_fwinfo ic iap = (0, fw_validpage_count (tp s), sig, fw_page_size (tp s))"
    and "unat sig + 6 \<le> length fw" and "result (elan_update_firmware fw) s = Some 0"
  shows "\<exists>u. io_trace (final (elan_update_firmware fw) s) = io_trace s @ u \<and> image_programmed (tp s) fw u"
proof -
  have fits: "even (unat (fw_page_size (tp s)))"
    "unat (fw_validpage_count (tp s)) * unat (fw_page_size (tp s)) \<le> length fw"
    using fwinfo_cases [of ic iap] assms(3,4) by auto
  have run: "accepts (flash_step (client (tp s))) None (i2c_flash.pages_of (tp s) fw)
      (io_trace s) (io_trace (final (elan_update_firmware fw) s))"
    using i2c_flash.update_programs [OF assms(1) TrueI assms(2) refl fits(2)] assms(5) by (simp add: wp_def)
  then obtain u where "io_trace (final (elan_update_firmware fw) s) = io_trace s @ u"
      "programmed (flash_step (client (tp s))) None u = i2c_flash.pages_of (tp s) fw"
    by (rule accepts_programmed)
  then show ?thesis
    using stored_image [OF fits] by (auto simp: image_programmed_def i2c_flash.pages_of_def)
qed

text \<open>
  C17: The same over SMBus, for the 64-byte pages it can carry: the pages made of the last two blocks
  a controller acknowledged before it reported a page good are the image from its boot page to its
  last page, in order, none missing and none twice, whatever halves failed in between.
\<close>

theorem smbus_update_programs_image:
  assumes "bus_contract E" and "ops (tp s) = elan_smbus_ops E"
    and "fw_page_size (tp s) = 64" and "unat (fw_validpage_count (tp s)) * 64 \<le> length fw"
    and "result (elan_update_firmware fw) s = Some 0"
  shows "\<exists>u. io_trace (final (elan_update_firmware fw) s) = io_trace s @ u \<and>
    image_arrived (tp s) fw (programmed smbus_flash_step [] u)"
proof -
  have fits: "unat (fw_validpage_count (tp s)) * unat (fw_page_size (tp s)) \<le> length fw"
    using assms(3,4) by simp
  have run: "accepts smbus_flash_step [] (smbus_flash.pages_of (tp s) fw)
      (io_trace s) (io_trace (final (elan_update_firmware fw) s))"
    using smbus_flash.update_programs [OF assms(1,3,2) refl fits] assms(5) by (simp add: wp_def)
  then obtain u where "io_trace (final (elan_update_firmware fw) s) = io_trace s @ u"
      "programmed smbus_flash_step [] u = smbus_flash.pages_of (tp s) fw"
    by (rule accepts_programmed)
  then show ?thesis
    using image_arrived_pages [OF fits, of "take (unat (fw_page_size (tp s)))"]
    by (auto simp: smbus_flash.pages_of_def)
qed

theorem smbus_update_programs_image_witness:
  "\<exists>u. io_trace (final (elan_update_firmware sample_image) sample_update) = u \<and>
    image_arrived (tp sample_update) sample_image (programmed smbus_flash_step [] u)"
proof -
  have driver: "ops (tp sample_update) = elan_smbus_ops (sample_environment [0x00, 0xC0])"
      "fw_page_size (tp sample_update) = 64" "fw_validpage_count (tp sample_update) = 5"
      "io_trace sample_update = []"
    by (simp_all add: sample_update_def sample_driver_def sample_tp_def Let_def)
  from smbus_update_programs_image [OF sample_contract driver(1,2) _ sample_update_result]
  show ?thesis
    by (simp add: driver) (simp add: sample_image_def)
qed

text \<open>
  A controller in its boot loader that reads back the flash key and zeros otherwise, updated with
  an image whose last page, of zeros, is its main firmware.
\<close>

definition key_reply :: "kcall \<Rightarrow> reply" where
  "key_reply k = (case k of
     Bus (I2cTransfer msgs) \<Rightarrow> (int (length msgs), take (read_length msgs)
       ((if msg_buf (hd msgs) = [0x11, 0x03] then [0xA5, 0x1E] else []) @ replicate (read_length msgs) 0))
   | _ \<Rightarrow> sample_reply [] k)"

definition key_environment :: environment where
  "key_environment = (sample_environment [])\<lparr>answer := \<lambda>_. key_reply\<rparr>"

lemma key_contract: "bus_contract key_environment"
  by (auto simp: bus_contract_def key_environment_def sample_environment_def key_reply_def
      sample_reply_def MAX_ERRNO_def I2C_SMBUS_BLOCK_MAX_def
      split: kcall.splits bus_op.splits sched_op.splits)

definition zero_image :: "u8 list" where
  "zero_image = replicate 262 0 @ [0xE0, 0x3F] @ replicate 32504 0"

definition key_driver :: driver where
  "key_driver = (let s = sample_driver (elan_i2c_ops key_environment) in
     s\<lparr>tp := (tp s)\<lparr>ic_type := 0, fw_validpage_count := 512, fw_page_size := 64\<rparr>\<rparr>)"

lemma key_register: "cpu_to_le16 reg = [0x11, 0x03] \<longleftrightarrow> reg = 0x0311"
proof -
  have "cpu_to_le16 0x0311 = [0x11, 0x03]"
    by (simp add: cpu_to_le16_def)
  then show ?thesis
    by (metis le16.enc_inject)
qed

lemma key_answers:
  "answer key_environment t (Bus (I2cTransfer msgs)) = key_reply (Bus (I2cTransfer msgs))"
  "answer key_environment t (Bus (I2cMasterSend b n)) = (int n, [])"
  "answer key_environment t (Bus (I2cMasterRecv n)) = (int n, replicate n 0)"
  "answer key_environment t (Kmalloc n) = (0, [])"
  "answer key_environment t (Sched (WaitForCompletion n)) = (int n, [])"
  by (simp_all add: key_environment_def key_reply_def sample_reply_def)

lemma key_read:
  "2 \<le> length val \<Longrightarrow> result (elan_i2c_read_cmd key_environment c reg val) t =
    (0, (if reg = 0x0311 then [0xA5, 0x1E] else [0, 0]) @ drop 2 val)"
proof -
  have "replicate 2 0 = [0, 0 :: u8]"
    by (simp add: numeral_2_eq_2)
  then show "2 \<le> length val \<Longrightarrow> ?thesis"
    by (simp add: elan_i2c_read_cmd_def elan_i2c_read_block_def key_answers key_reply_def key_register
        read_length_def ETP_I2C_INF_LENGTH_def fill_def Let_def)
qed

lemma key_write: "result (elan_i2c_write_cmd key_environment c reg cmd) t = 0"
  by (simp add: elan_i2c_write_cmd_def key_answers key_reply_def Let_def)

lemma key_ops:
  defines "T \<equiv> elan_i2c_ops key_environment"
  shows "result (prepare_fw_update T c 0 iap sz) t = 0"
    and "result (write_fw_block T c sz page csum i) t = 0"
    and "result (finish_fw_update T c) t = 0"
    and "result (get_checksum T c True v) t = (0, 0)"
  by (simp_all add: T_def elan_i2c_ops_def i2c_op_defs elan_i2c_finish_fw_update_def key_read key_write
      key_answers elan_i2c_iap_get_mode_def elan_i2c_iap_reset_def elan_i2c_set_flash_key_def
      le16_to_cpu_def etp_consts result_if Let_def)

lemma zero_image_facts:
  "page_checksum (drop 32704 zero_image) 64 = 0" "le16_to_cpu (drop 262 zero_image) = 0x3FE0"
  "length zero_image = 32768"
proof -
  have "drop 32704 zero_image = replicate 64 0"
    by (simp add: zero_image_def)
  then show "page_checksum (drop 32704 zero_image) 64 = 0"
    by (simp add: page_checksum_sum le16_to_cpu_def)
  show "le16_to_cpu (drop 262 zero_image) = 0x3FE0"
    by (simp add: zero_image_def le16_to_cpu_def)
  show "length zero_image = 32768"
    by (simp add: zero_image_def)
qed

lemma key_update: "result (elan_update_firmware zero_image) key_driver = Some 0"
proof -
  let ?s = "\<lambda>t. key_driver\<lparr>io_trace := t, tp := (tp key_driver)\<lparr>in_fw_update := True\<rparr>\<rparr>"
  have page: "result (elan_write_fw_block 64 page csum i) (?s t) = 0" for page csum i t
    by (simp add: elan_write_fw_block_def do_retry.simps result_if key_driver_def sample_driver_def
        sample_tp_def Let_def key_ops)
  have "result (elan_update_firmware_steps zero_image) (?s t) = Some 0" for t
    using page [unfolded key_driver_def sample_driver_def sample_tp_def Let_def]
    by (simp add: elan_update_firmware_steps_def zero_image_facts result_if final_if key_driver_def
        sample_driver_def sample_tp_def Let_def key_ops ETP_IAP_START_ADDR_def)
  then show ?thesis
    by (simp add: elan_update_firmware_def)
qed

theorem update_programs_image_witness:
  "\<exists>u. io_trace (final (elan_update_firmware zero_image) key_driver) = u \<and>
    image_programmed (tp key_driver) zero_image u"
proof -
  have driver: "ops (tp key_driver) = elan_i2c_ops key_environment"
      "fw_validpage_count (tp key_driver) = 512" "fw_page_size (tp key_driver) = 64" "io_trace key_driver = []"
    by (simp_all add: key_driver_def sample_driver_def sample_tp_def Let_def)
  have "elan_get_fwinfo 0 0 = (0, 512, 32762, 64)"
    by (simp add: elan_get_fwinfo_def etp_consts)
  with update_programs_image [OF key_contract driver(1) _ _ key_update] show ?thesis
    by (auto simp: driver zero_image_facts)
qed

end
