(* ===== verification/Elan_Stream.thy ===== *)
theory Elan_Stream
  imports Elan_System "HOL-Library.Sublist"
begin

text \<open>
  Two things seen from outside the running driver: the stream of input events each node receives,
  typed by the multitouch slot protocol, and the watchdog work queue, which refines a monitor that
  counts failed reads.
\<close>

section \<open>Typed event streams\<close>

text \<open>
  What a node has been told since its last \<open>Sync\<close>: nothing, a slot that is still to be declared
  touched or released, a touched slot, a released slot, or something after the slots.
\<close>

datatype node_state = Idle | Selected | Touching | Released | Closing

fun type_event :: "input_node \<Rightarrow> node_state \<Rightarrow> input_event \<Rightarrow> node_state option" where
  "type_event Touchpad st (MtSlot i) =
     (if st \<in> {Idle, Touching, Released} \<and> i < 5 then Some Selected else None)"
| "type_event Touchpad st (MtSlotState touched) =
     (if st = Selected then Some (if touched then Touching else Released) else None)"
| "type_event Touchpad st MtSlotInactive = (if st = Selected then Some Released else None)"
| "type_event Touchpad st (Abs axis v) =
     (if axis = ABS_DISTANCE then (if st = Closing then Some Closing else None)
      else if st = Touching \<and> axis \<in> {ABS_MT_POSITION_X, ABS_MT_POSITION_Y, ABS_MT_PRESSURE,
        ABS_TOOL_WIDTH, ABS_MT_TOUCH_MAJOR, ABS_MT_TOUCH_MINOR} then Some Touching
      else None)"
| "type_event Touchpad st (Key b v) = (if st = Selected then None else Some Closing)"
| "type_event Touchpad st (PointerEmulation b) = (if st = Closing then Some Closing else None)"
| "type_event Trackpoint st (Key b v) = (if st \<in> {Idle, Closing} then Some Closing else None)"
| "type_event Trackpoint st (Rel axis v) = (if st = Closing then Some Closing else None)"
| "type_event node st Sync = (if st = Closing then Some Idle else None)"
| "type_event _ _ _ = None"

primrec type_stream :: "input_node \<Rightarrow> node_state \<Rightarrow> input_event list \<Rightarrow> node_state option" where
  "type_stream node st [] = Some st"
| "type_stream node st (ev # evs) =
     Option.bind (type_event node st ev) (\<lambda>st'. type_stream node st' evs)"

lemma type_stream_append:
  "type_stream node st (evs @ evs') = Option.bind (type_stream node st evs) (\<lambda>st'. type_stream node st' evs')"
  by (induction evs arbitrary: st) (auto split: Option.bind_split)

text \<open>The events a trace delivers to a node.\<close>

fun event_of :: "input_node \<Rightarrow> kcall \<times> reply \<Rightarrow> input_event list" where
  "event_of node (Input node' ev, _) = (if node' = node then [ev] else [])"
| "event_of node _ = []"

definition events :: "input_node \<Rightarrow> trace \<Rightarrow> input_event list" where
  "events node t = concat (map (event_of node) t)"

lemma events_append [simp]: "events node (t @ u) = events node t @ events node u"
  and events_Nil [simp]: "events node [] = []"
  and events_Cons [simp]: "events node (x # u) = event_of node x @ events node u"
  by (simp_all add: events_def)

lemma events_input_trace [simp]: "events node (input_trace node' evs) = (if node' = node then evs else [])"
  by (induction evs) (auto simp: input_trace_def)

text \<open>A frame starts and ends idle; a run is framed when it is a sequence of whole frames.\<close>

definition framed :: "trace \<Rightarrow> bool" where
  "framed u \<longleftrightarrow> (\<forall>node. type_stream node Idle (events node u) = Some Idle)"

lemma framed_append: "framed u \<Longrightarrow> framed v \<Longrightarrow> framed (u @ v)"
  by (simp add: framed_def type_stream_append)

lemma framed_iff:
  "framed u \<longleftrightarrow> type_stream Touchpad Idle (events Touchpad u) = Some Idle \<and>
    type_stream Trackpoint Idle (events Trackpoint u) = Some Idle"
  unfolding framed_def by (metis (full_types) input_node.exhaust)

section \<open>The frames the driver sends\<close>

lemma slot_frame:
  assumes "slot < 5" "st \<in> {Idle, Touching, Released}"
  shows "\<exists>st' \<in> {Touching, Released}. type_stream Touchpad st (slot_events ctx slot contact) = Some st'"
  using assms by (auto simp: slot_events_def)

lemma slot_frames:
  assumes "\<And>i. i \<in> set slots \<Longrightarrow> i < 5" "st \<in> {Idle, Touching, Released}"
  shows "\<exists>st' \<in> {Idle, Touching, Released}. type_stream Touchpad st
    (concat (map (\<lambda>i. slot_events ctx i (f i)) slots)) = Some st'"
  using assms
proof (induction slots arbitrary: st)
  case (Cons i slots)
  obtain st1 where "st1 \<in> {Touching, Released}" "type_stream Touchpad st (slot_events ctx i (f i)) = Some st1"
    using slot_frame [of i st ctx "f i"] Cons.prems by auto
  with Cons.IH [of st1] Cons.prems(1) show ?case
    by (auto simp: type_stream_append)
qed auto

lemma touch_frame: "type_stream Touchpad Idle (touch_events ctx f) = Some Idle"
proof -
  obtain st where "st \<in> {Idle, Touching, Released}" "type_stream Touchpad Idle
      (concat (map (\<lambda>slot. slot_events ctx slot (contacts f ! slot)) [0..<ELAN_RS_MAX_CONTACTS])) = Some st"
    using slot_frames [of "[0..<ELAN_RS_MAX_CONTACTS]" Idle] by (auto simp: ELAN_RS_MAX_CONTACTS_def)
  then show ?thesis
    by (auto simp: touch_events_def type_stream_append)
qed

lemma point_frame: "type_stream Trackpoint Idle (point_events f) = Some Idle"
  by (simp add: point_events_def)

lemma release_framed: "framed (release_trace d)"
  by (simp add: framed_iff release_trace_def upt_conv_Cons)

lemma emit_frame_framed: "\<exists>u. final (emit_frame ctx f) t = t @ u \<and> framed u"
  using touch_frame [of ctx f] point_frame [of f]
  by (auto simp: emit_frame_def framed_iff wakeup_def)

lemma emit_report_framed: "\<exists>u. final (elan_rs_emit_report f0 ctx r len) t = t @ u \<and> framed u"
  using emit_frame_framed
  by (auto simp: elan_rs_emit_report_def framed_iff split: prod.splits)

section \<open>Handlers that keep the stream and the queue in order\<close>

text \<open>
  A run is orderly when it delivers whole frames and leaves the work queue alone; a call that is
  neither an input event nor a work queue operation is.
\<close>

definition orderly :: "trace \<Rightarrow> trace \<Rightarrow> bool" where
  "orderly t t' \<longleftrightarrow> (\<exists>u. t' = t @ u \<and> framed u \<and> (\<forall>x \<in> set u. keeps_queue (fst x)))"

fun discreet :: "kcall \<Rightarrow> bool" where
  "discreet (Input node ev) = False"
| "discreet (Sched ScheduleWork) = False"
| "discreet (Sched CancelWorkSync) = False"
| "discreet _ = True"

lemma orderly_preorder [rel_rules]: "preorder_rel orderly"
proof (rule preorder_relI)
  show "orderly t t" for t
    by (simp add: orderly_def framed_iff)
  fix t u v
  assume "orderly t u" "orderly u v"
  then obtain x y where "u = t @ x" "v = u @ y" "framed x" "framed y"
      "\<forall>z \<in> set x. keeps_queue (fst z)" "\<forall>z \<in> set y. keeps_queue (fst z)"
    by (auto simp: orderly_def)
  then show "orderly t v"
    unfolding orderly_def by (intro exI [of _ "x @ y"]) (auto intro: framed_append)
qed

lemma discreet_events: "\<forall>x \<in> set u. discreet (fst x) \<Longrightarrow> events node u = []"
proof (induction u)
  case (Cons x u)
  then show ?case
    by (cases "(node, x)" rule: event_of.cases) auto
qed simp

lemma discreet_keeps_queue: "discreet c \<Longrightarrow> keeps_queue c"
  by (cases c rule: keeps_queue.cases) auto

lemma discreet_orderly: "emits discreet t t' \<Longrightarrow> orderly t t'"
  by (fastforce simp: emits_def orderly_def framed_def discreet_events intro: discreet_keeps_queue)

lemma discreet_program: "state_io_rel (emits discreet) m \<Longrightarrow> state_io_rel orderly m"
  by (erule io_rel_mono) (rule discreet_orderly)

lemma transport_discreet: "transport_call c \<Longrightarrow> discreet c"
  by (cases c rule: transport_call.cases) auto

lemma transport_program: "state_io_rel (emits transport_call) m \<Longrightarrow> state_io_rel orderly m"
  by (erule io_rel_mono) (rule discreet_orderly, erule emits_mono, rule transport_discreet)

lemma orderly_calls [rel_rules]:
  "discreet c \<Longrightarrow> state_io_rel orderly (notify c)"
  "discreet c \<Longrightarrow> state_io_rel orderly (call E c)"
  "discreet c \<Longrightarrow> state_io_rel orderly (status_of E c)"
  by (intro discreet_program rel_rules; assumption)+

lemma release_orderly [rel_rules]: "state_io_rel (drv_rel T orderly) elan_release_inputs"
  unfolding io_rel_iff drv_rel_def orderly_def
proof (intro allI impI conjI)
  have "keeps_queue (fst x)" if "x \<in> set (release_trace d)" for x d
    using that by (auto simp: release_trace_def input_trace_def split: if_splits)
  then show "\<exists>u. io_trace (final elan_release_inputs s) = io_trace s @ u \<and> framed u \<and>
      (\<forall>x \<in> set u. keeps_queue (fst x))" for s
    by (intro exI [of _ "release_trace (tp s)"]) (simp add: release_framed)
qed simp_all

context transport
begin

lemmas orderly_ops = transport_ops [THEN transport_program]

lemma bus_orderly: "state_io_rel (drv_rel T (emits bus_call)) m \<Longrightarrow> state_io_rel (drv_rel T orderly) m"
  by (erule drv_rel_mono)
    (rule discreet_orderly, erule emits_mono, rule transport_discreet, erule bus_transport_call)

lemma recover_orderly [rel_rules]: "state_io_rel (drv_rel T orderly) elan_recover_locked"
  unfolding elan_recover_locked_def
  by (intro rel_rules orderly_ops bus_orderly [OF initialize_bus] bus_orderly [OF watchdog_ping_bus]) auto

lemma watchdog_orderly: "state_io_rel (drv_rel T orderly) elan_watchdog_work"
  unfolding elan_watchdog_work_def
  by (intro rel_rules recover_orderly) auto

lemma power_orderly [rel_rules]:
  "state_io_rel (drv_rel T orderly) (elan_set_power on)" "state_io_rel (drv_rel T orderly) elan_sleep"
  by (intro bus_orderly set_power_bus sleep_bus)+

lemma suspend_orderly: "state_io_rel (drv_rel T orderly) (elan_suspend_locked E)"
  unfolding elan_suspend_locked_def device_may_wakeup_def
  by (intro rel_rules) auto

lemma resume_orderly: "state_io_rel (drv_rel T orderly) (elan_resume E)"
  unfolding elan_resume_def device_may_wakeup_def
  by (intro rel_rules bus_orderly [OF initialize_bus]) auto

lemma update_orderly [rel_rules]: "state_io_rel (drv_rel T orderly) (elan_update_firmware fw)"
proof -
  have "state_io_rel (drv_rel T orderly) (write_pages fw n i sw)" for n i sw
    by (induction n arbitrary: i sw)
      (auto simp: Let_def elan_write_fw_block_def intro!: rel_rules orderly_ops)
  then show ?thesis
    unfolding elan_update_firmware_def elan_update_firmware_steps_def divide_by_zero_def Let_def
    by (intro rel_rules orderly_ops bus_orderly [OF initialize_bus] bus_orderly [OF query_device_info_bus]) auto
qed

lemma set_device_mode_orderly [rel_rules]: "state_io_rel (drv_rel T orderly) set_device_mode"
  unfolding set_device_mode_def by (intro rel_rules orderly_ops)

lemma leave_calibrate_orderly [rel_rules]: "state_io_rel (drv_rel T orderly) (leave_calibrate r)"
  unfolding leave_calibrate_def by (intro rel_rules) auto

lemma calibrate_poll_orderly [rel_rules]: "state_io_rel (drv_rel T orderly) (calibrate_poll n val)"
proof (induction n arbitrary: val)
  case 0
  show ?case
    by (subst calibrate_poll.simps) (intro rel_rules orderly_ops; simp)
next
  case (Suc n)
  then show ?case
    by (subst calibrate_poll.simps) (intro rel_rules orderly_ops; simp)
qed

lemma stores_orderly:
  assumes "elan_sysfs_store E name = Some f"
  shows "state_io_rel (drv_rel T orderly) (f buf count)"
proof -
  have "state_io_rel (drv_rel T orderly) (calibrate_store E count)"
    "state_io_rel (drv_rel T orderly) (acquire_store E count)"
    "state_io_rel (drv_rel T orderly) (recover_store E buf count)"
    "state_io_rel (drv_rel T orderly) (elan_sysfs_update_fw E count)"
    unfolding calibrate_store_def acquire_store_def recover_store_def elan_sysfs_update_fw_def
    by (intro rel_rules orderly_ops; simp)+
  then show ?thesis
    using assms by (auto simp: elan_sysfs_store_def no_trap_def split: if_splits intro!: rel_rules)
qed

lemma shows_orderly:
  assumes "elan_sysfs_show E name = Some m"
  shows "state_io_rel (drv_rel T orderly) m"
proof -
  have "state_io_rel (drv_rel T orderly) (elan_sysfs_read_mode E)"
    "state_io_rel (drv_rel T orderly) (min_show E)" "state_io_rel (drv_rel T orderly) (max_show E)"
    unfolding elan_sysfs_read_mode_def min_show_def max_show_def
    by (intro rel_rules orderly_ops; simp)+
  then show ?thesis
    using assms
    by (auto simp: elan_sysfs_show_def elan_sysfs_read_product_id_def elan_sysfs_read_fw_ver_def
        elan_sysfs_read_sm_ver_def elan_sysfs_read_iap_ver_def elan_sysfs_read_fw_checksum_def
        runtime_watchdog_show_def intro!: rel_rules split: if_splits)
qed

end

section \<open>Every step\<close>

definition framed_since :: "system \<Rightarrow> system \<Rightarrow> bool" where
  "framed_since S S' \<longleftrightarrow> (\<exists>u. io_trace (drv S') = io_trace (drv S) @ u \<and> framed u)"

text \<open>Work is only ever queued for a watchdog that is enabled on a device that is open.\<close>

definition queue_ok :: "system \<Rightarrow> bool" where
  "queue_ok S \<longleftrightarrow> (queued S \<longrightarrow> watchdog_enabled (tp (drv S)) \<and> 0 < users S)"

lemma framed_since_refl: "framed_since S S"
  by (simp add: framed_since_def framed_iff)

lemma framed_since_trans: "framed_since S S1 \<Longrightarrow> framed_since S1 S2 \<Longrightarrow> framed_since S S2"
  unfolding framed_since_def by (metis append_assoc framed_append)

text \<open>An orderly handler, run on a bound device by a step that otherwise only sets \<open>queued\<close>.\<close>

lemma orderly_advance:
  assumes "bound_to E (drv S)" "\<And>T. transport T \<Longrightarrow> state_io_rel (drv_rel T orderly) m"
    and "drv S1 = drv S"
  shows "framed_since S (advance m S1)" and "queued (advance m S1) = queued S1"
proof -
  have "drv_rel (ops (tp (drv S))) orderly (drv S) (final m (drv S))"
    by (rule io_relD [OF assms(2) [OF bound_to_transport [OF assms(1)]]])
  then obtain u where u: "io_trace (final m (drv S)) = io_trace (drv S) @ u" "framed u"
      "\<forall>x \<in> set u. keeps_queue (fst x)"
    by (auto simp: drv_rel_def orderly_def)
  then show "framed_since S (advance m S1)"
    by (auto simp: framed_since_def assms(3))
  show "queued (advance m S1) = queued S1"
    using u by (simp add: advance_def added_def assms(3) pending_keeps_queue)
qed

lemma isr_read_trace:
  assumes "bound_to E s"
  shows "\<exists>u. final (get_report (ops (tp s)) (client (tp s)) buf len) t = t @ u \<and>
    (\<forall>x \<in> set u. bus_call (fst x))"
  using io_relD [OF transport.bus_get_report [OF bound_to_transport [OF assms]]]
  by (fastforce simp: emits_def)

lemma bus_framed: "\<forall>x \<in> set u. bus_call (fst x) \<Longrightarrow> framed u"
proof -
  assume "\<forall>x \<in> set u. bus_call (fst x)"
  then have "\<forall>x \<in> set u. discreet (fst x)"
    using transport_discreet bus_transport_call by blast
  then show ?thesis
    by (simp add: framed_def discreet_events)
qed

lemma isr_framed:
  assumes "bound_to E (drv S)"
  shows "framed_since S (advance (elan_isr E' f0) S)"
proof -
  obtain u where u: "final (get_report (ops (tp (drv S))) (client (tp (drv S)))
      (uninitialized E' ETP_MAX_REPORT_LEN) (report_len (tp (drv S)))) (io_trace (drv S)) = io_trace (drv S) @ u"
      "framed u"
    using isr_read_trace [OF assms] bus_framed by blast
  have single: "framed [(Sched op, 0, [])]" for op
    by (simp add: framed_iff)
  have report: "\<exists>w. final (elan_rs_emit_report f0 ctx r len) (io_trace (drv S) @ u) =
      io_trace (drv S) @ w \<and> framed w" for ctx r len
    using emit_report_framed [of f0 ctx r len "io_trace (drv S) @ u"] framed_append [OF u(2)] by auto
  show ?thesis
    unfolding framed_since_def advance_fields isr_final Let_def
    using u single framed_append [OF u(2)]
    by (auto simp: u(1) intro!: report)
qed

abbreviation isr_read :: "environment \<Rightarrow> system \<Rightarrow> int" where
  "isr_read E S \<equiv> fst (result (get_report (ops (tp (drv S))) (client (tp (drv S)))
     (uninitialized E ETP_MAX_REPORT_LEN) (report_len (tp (drv S)))) (io_trace (drv S)))"

text \<open>What an interrupt does to the error count and to the work queue.\<close>

lemma isr_errors:
  assumes "\<not> in_fw_update (tp (drv S))"
  shows "report_errors (tp (drv (advance (elan_isr E f0) S))) =
    (if isr_read E S = 0 then 0 else report_errors (tp (drv S)) + 1)"
  using assms by (simp add: isr_final Let_def)

lemma isr_queued:
  assumes "bound_to E' (drv S)"
  shows "queued (advance (elan_isr E f0) S) \<longleftrightarrow> queued S \<or>
    \<not> in_fw_update (tp (drv S)) \<and> isr_read E S \<noteq> 0 \<and> watchdog_enabled (tp (drv S)) \<and>
    0 < sint (open_count (tp (drv S))) \<and> 3 \<le> report_errors (tp (drv S)) + 1"
proof -
  obtain u where u: "final (get_report (ops (tp (drv S))) (client (tp (drv S)))
      (uninitialized E ETP_MAX_REPORT_LEN) (report_len (tp (drv S)))) (io_trace (drv S)) = io_trace (drv S) @ u"
      "\<forall>x \<in> set u. bus_call (fst x)"
    using isr_read_trace [OF assms] by blast
  have bus: "work_pending b u = b" for b
    using u(2) bus_keeps_queue by (intro pending_keeps_queue) blast
  have report: "work_pending b (drop (length (io_trace (drv S)))
      (final (elan_rs_emit_report f0 ctx r len) (io_trace (drv S) @ u))) = b" for b ctx r len
  proof -
    obtain v where "final (elan_rs_emit_report f0 ctx r len) (io_trace (drv S) @ u) = (io_trace (drv S) @ u) @ v"
        "\<forall>x \<in> set v. input_call (fst x)"
      using io_relD [OF emits_emit_report] unfolding emits_def by blast
    moreover have "keeps_queue k" if "input_call k" for k
      using that by (cases k rule: input_call.cases) auto
    ultimately show ?thesis
      by (simp add: work_pending_append bus pending_keeps_queue)
  qed
  show ?thesis
    by (auto simp: advance_def added_def isr_final Let_def u(1) work_pending_append bus report)
qed

lemma steady_watchdog:
  "ready am nu d0 d \<Longrightarrow> watchdog_enabled d = watchdog_enabled d0"
  by (simp add: ready_def steady_def fixed_def)

text \<open>A sleep handler keeps what \<open>ready\<close> says, so the watchdog stays as it was.\<close>

lemma upheld_watchdog:
  assumes "state_io_rel (upholds (ops (tp s)) (ready True True (tp s))) m" "ready True True (tp s) (tp s)"
  shows "watchdog_enabled (tp (final m s)) = watchdog_enabled (tp s)"
  using io_relD [OF assms(1), of s] assms(2) steady_watchdog [of True True "tp s" "tp (final m s)"]
  by (simp add: upholds_def)

lemma framed_cancel: "framed [(Sched op, r)]"
  by (simp add: framed_iff)

text \<open>
  The watchdog stays as it was set up, and work appears on the queue only for an enabled watchdog on
  an open device; the last close takes it away.
\<close>

definition queue_moves :: "system \<Rightarrow> system \<Rightarrow> bool" where
  "queue_moves S S' \<longleftrightarrow> (watchdog_enabled (tp (drv S')) \<longleftrightarrow> watchdog_enabled (tp (drv S))) \<and>
     (queued S' \<longrightarrow> queued S \<and> (users S' = 0 \<longrightarrow> users S = 0) \<or>
       watchdog_enabled (tp (drv S)) \<and> 0 < users S')"

lemma queue_moves_ok: "queue_moves S S' \<Longrightarrow> queue_ok S \<Longrightarrow> queue_ok S'"
  by (auto simp: queue_moves_def queue_ok_def)

lemma step_stream:
  assumes ok: "system_ok E c S" and step: "elan_step E e S S'"
  shows "framed_since S S' \<and> queue_moves S S'"
proof -
  have bound: "bound_to E (drv S)" and idle: "\<not> in_fw_update (tp (drv S))"
      and users: "open_count (tp (drv S)) = of_nat (users S)"
    using ok by (simp_all add: system_ok_def)
  note ready = system_ok_ready [OF ok]
  have keeps: "queue_moves S (advance m S1)"
    if "served (tp (drv S)) m (drv S)" "queued (advance m S1) = queued S1" "drv S1 = drv S"
      "queued S1 \<longrightarrow> queued S" "users S1 = users S" for m :: "'b drv" and S1
    using that steady_watchdog by (auto simp: queue_moves_def served_def)
  note orderly = orderly_advance [OF bound]
  from step show ?thesis
  proof cases
    case (interrupt f0)
    have enabled: "watchdog_enabled (tp (drv S')) = watchdog_enabled (tp (drv S))"
      using isr_served [OF bound ready, of E f0] interrupt(2) steady_watchdog
      by (auto simp: served_def)
    have "0 < users S" if "0 < sint (open_count (tp (drv S)))"
      using that users by (cases "users S") auto
    then show ?thesis
      using interrupt(2) isr_framed [OF bound, of E f0] isr_queued [OF bound, of E f0] enabled
      by (auto simp: queue_moves_def)
  next
    case watchdog
    then show ?thesis
      using orderly [of elan_watchdog_work "S\<lparr>queued := False\<rparr>"] transport.watchdog_orderly
        keeps [OF watchdog_served [OF bound ready], of "S\<lparr>queued := False\<rparr>"] by simp
  next
    case (show_attribute name m)
    then show ?thesis
      using orderly [of m S] transport.shows_orderly keeps [OF show_served [OF _ bound ready], of E name m S]
      by simp
  next
    case (store_attribute name f buf count)
    then show ?thesis
      using orderly [of "f buf count" S] transport.stores_orderly
        keeps [OF store_served [OF _ bound ready, THEN conjunct2], of E name f buf count S]
      by simp
  next
    case suspend
    then show ?thesis
      using orderly [of "elan_suspend_locked E"] transport.suspend_orderly
        upheld_watchdog [OF sleep_upholds(1) ready] by (simp add: queue_moves_def)
  next
    case resume
    then show ?thesis
      using orderly [of "elan_resume E"] transport.resume_orderly
        upheld_watchdog [OF sleep_upholds(2) ready] by (simp add: queue_moves_def)
  next
    case open_node
    then show ?thesis
      by (simp add: framed_since_def framed_iff queue_moves_def advance_def added_def elan_input_open_def)
  next
    case (close_node n)
    then show ?thesis
      using users framed_cancel
      by (cases "n = 0") (auto simp: framed_since_def framed_iff queue_moves_def advance_def added_def
          elan_input_close_def final_if)
  next
    case cancel
    then show ?thesis
      by (simp add: framed_since_def framed_iff queue_moves_def advance_def added_def)
  qed
qed

interpretation stream: invariant_system "\<lambda>S. S = S0 \<and> bound_system E c S0" "elan_next E"
    "\<lambda>S. system_ok E c S \<and> queue_ok S \<and> framed_since S0 S"
  for S0 :: system and E :: environment and c :: i2c_client
proof
  fix S
  assume "S = S0 \<and> bound_system E c S0"
  moreover from this have "\<not> queued S0"
    by (auto simp: bound_system_def)
  ultimately show "system_ok E c S \<and> queue_ok S \<and> framed_since S0 S"
    by (simp add: bound_system_ok queue_ok_def framed_since_refl)
next
  fix S S'
  assume "system_ok E c S \<and> queue_ok S \<and> framed_since S0 S" "elan_next E S S'"
  then show "system_ok E c S' \<and> queue_ok S' \<and> framed_since S0 S'"
    using step_ok [of E c S _ S'] step_stream [of E c S _ S'] queue_moves_ok [of S S']
      framed_since_trans [of S0 S S'] by (auto simp: elan_next_def)
qed

lemma reachable_stream:
  assumes "bound_system E c S0" "(elan_next E)\<^sup>*\<^sup>* S0 S"
  shows "queue_ok S" "framed_since S0 S"
  using stream.start_steps_invariant [of S0 S0 E c S] assms by auto

section \<open>The monitor\<close>

text \<open>
  The watchdog as it is meant: it counts failed reads in a row and asks for a recovery when it
  reaches three.
\<close>

fun monitor :: "nat \<times> bool \<Rightarrow> bool \<Rightarrow> nat \<times> bool" where
  "monitor (n, asked) ok = (if ok then (0, asked) else (n + 1, asked \<or> 3 \<le> n + 1))"

definition watch :: "system \<Rightarrow> nat \<times> bool" where
  "watch S = (unat (report_errors (tp (drv S))), queued S)"

text \<open>A run of interrupts, with which of the report reads succeeded.\<close>

inductive interrupts :: "environment \<Rightarrow> system \<Rightarrow> bool list \<Rightarrow> system \<Rightarrow> bool"
  for E :: environment
where
  no_interrupt: "interrupts E S [] S"
| next_interrupt: "elan_step E (Interrupt f0) S S1 \<Longrightarrow> interrupts E S1 oks S2 \<Longrightarrow>
    interrupts E S ((isr_read E S = 0) # oks) S2"

text \<open>What the monitor has done after a whole sequence of reads.\<close>

lemma monitor_spec:
  "foldl monitor (0, False) oks =
    (length (takeWhile Not (rev oks)), sublist [False, False, False] oks)"
proof (induction oks rule: rev_induct)
  case (snoc ok oks)
  have "suffix [False, False, False] (oks @ [ok]) \<longleftrightarrow> \<not> ok \<and> 2 \<le> length (takeWhile Not (rev oks))"
  proof -
    have "suffix [False, False, False] (oks @ [ok]) \<longleftrightarrow> prefix [False, False, False] (ok # rev oks)"
      by (simp add: suffix_to_prefix)
    also have "\<dots> \<longleftrightarrow> \<not> ok \<and> 2 \<le> length (takeWhile Not (rev oks))"
      by (cases "rev oks"; cases "tl (rev oks)") auto
    finally show ?thesis .
  qed
  with snoc show ?case
    by (auto simp: sublist_snoc)
qed simp

definition watched :: "environment \<Rightarrow> system \<Rightarrow> bool" where
  "watched E S \<longleftrightarrow> bound_to E (drv S) \<and> \<not> in_fw_update (tp (drv S)) \<and>
     watchdog_enabled (tp (drv S)) \<and> 0 < sint (open_count (tp (drv S)))"

lemma watched_isr: "watched E S \<Longrightarrow> watched E (advance (elan_isr E' f0) S)"
  by (auto simp: watched_def bound_to_def isr_final Let_def)

lemma monitor_step:
  assumes "watched E S" "unat (report_errors (tp (drv S))) + 1 < 2 ^ 32"
  shows "watch (advance (elan_isr E f0) S) = monitor (watch S) (isr_read E S = 0)"
proof -
  have "\<not> in_fw_update (tp (drv S))" "bound_to E (drv S)"
    using assms(1) by (simp_all add: watched_def)
  note facts = isr_errors [OF this(1), of E f0] isr_queued [OF this(2), of E f0]
  have count: "unat (report_errors (tp (drv S)) + 1) = unat (report_errors (tp (drv S))) + 1"
    using assms(2) by (simp add: unat_word_ariths)
  then have "3 \<le> report_errors (tp (drv S)) + 1 \<longleftrightarrow> 3 \<le> unat (report_errors (tp (drv S))) + 1"
    by (simp add: word_le_nat_alt)
  with facts count assms(1) show ?thesis
    by (auto simp: watch_def watched_def)
qed

lemma monitor_run:
  assumes "interrupts E S oks S'" "watched E S"
    and "unat (report_errors (tp (drv S))) + length oks < 2 ^ 32"
  shows "watch S' = foldl monitor (watch S) oks"
  using assms
proof (induction rule: interrupts.induct)
  case (next_interrupt f0 S S1 oks S2)
  have S1: "S1 = advance (elan_isr E f0) S"
    using next_interrupt.hyps(1) by (simp add: interrupt_step_iff)
  have step: "watch S1 = monitor (watch S) (isr_read E S = 0)"
    unfolding S1 using next_interrupt.prems by (intro monitor_step) auto
  then have "unat (report_errors (tp (drv S1))) \<le> unat (report_errors (tp (drv S))) + 1"
    by (simp add: watch_def split: if_splits)
  then have "watch S2 = foldl monitor (watch S1) oks"
    using next_interrupt.prems watched_isr by (intro next_interrupt.IH) (auto simp: S1)
  then show ?case
    by (simp add: step)
qed simp

section \<open>Properties\<close>

text \<open>
  C4: The input stream of the running driver is well typed. Whatever happens after the device was
  bound, what each node has been sent is a sequence of whole frames of the multitouch slot protocol:
  a slot below five is selected before it is declared touched or released, contact axes are only
  sent for the slot that is touched, buttons, distance and motion come after the slots, and each
  frame ends with a sync; the trackpoint is never sent a contact and the touchpad never a motion.
\<close>

theorem input_stream_typed:
  assumes "bound_system E c S0" and "(elan_next E)\<^sup>*\<^sup>* S0 S"
  shows "\<exists>u. io_trace (drv S) = io_trace (drv S0) @ u \<and>
    (\<forall>node. type_stream node Idle (events node u) = Some Idle)"
  using reachable_stream(2) [OF assms] by (auto simp: framed_since_def framed_def)

lemma sample_run:
  "(elan_next probe_environment)\<^sup>*\<^sup>* sample_system (advance (elan_isr probe_environment EMPTY_FRAME) sample_system)"
  by (rule r_into_rtranclp) (use sample_interrupt [of packet_reply EMPTY_FRAME] in \<open>auto simp: elan_next_def\<close>)

theorem input_stream_typed_witness:
  "type_stream Touchpad Idle (events Touchpad
    (added (elan_isr probe_environment EMPTY_FRAME) (drv sample_system))) = Some Idle"
  using input_stream_typed [OF device_bound sample_run] by (auto simp: added_def)

text \<open>
  Between whole handlers, the watchdog work is only ever queued when it is wanted: in every reachable
  state in which the work item can run, the watchdog is enabled and somebody holds the device open.
  What remains of this when the interrupt handler is preempted is the subject of \<open>Elan_Preemption\<close>.
\<close>

theorem queued_work_wanted:
  assumes "reachable E c S" and "elan_step E WatchdogWork S S'"
  shows "watchdog_enabled (tp (drv S)) \<and> 0 < users S"
  using assms reachable_stream(1) by (auto simp: reachable_def queue_ok_def watchdog_step_iff)

text \<open>The sample device, open, on a bus that fails every report read: three interrupts later.\<close>

abbreviation dead_environment :: environment where
  "dead_environment \<equiv> device_environment (- 5, [])"

definition dead_opened :: system where
  "dead_opened = advance elan_input_open ((device_system (- 5, []))\<lparr>users := 1\<rparr>)"

abbreviation dead_interrupt :: "system \<Rightarrow> system" where
  "dead_interrupt \<equiv> advance (elan_isr dead_environment EMPTY_FRAME)"

lemma dead_reads: "ops (tp (drv S)) = elan_smbus_ops dead_environment \<Longrightarrow> isr_read dead_environment S \<noteq> 0"
  by (simp add: elan_smbus_ops_def elan_smbus_get_report_def device_environment_def Let_def result_if
      etp_consts split: prod.splits)

lemma dead_interrupt_ops: "ops (tp (drv (dead_interrupt S))) = ops (tp (drv S))"
  by (simp add: isr_final Let_def)

lemma dead_opened_facts:
  "watched dead_environment dead_opened" "report_errors (tp (drv dead_opened)) = 0"
  "\<not> queued dead_opened" "ops (tp (drv dead_opened)) = elan_smbus_ops dead_environment"
  "reachable dead_environment sample_client dead_opened"
proof -
  note fields = sample_nodes_tp [of "(- 5, [])"] sample_identified [of "(- 5, [])"]
    sample_initialized_ops [of "(- 5, [])"]
  show ops: "ops (tp (drv dead_opened)) = elan_smbus_ops dead_environment"
    using fields by (auto simp: dead_opened_def elan_input_open_def)
  show "watched dead_environment dead_opened" "report_errors (tp (drv dead_opened)) = 0"
    using fields by (auto simp: dead_opened_def elan_input_open_def watched_def bound_to_def Let_def)
  show "\<not> queued dead_opened"
    by (simp add: dead_opened_def elan_input_open_def advance_def added_def device_system_def)
  have "elan_step dead_environment Open (device_system (- 5, [])) dead_opened"
    using open_node [of "device_system (- 5, [])" dead_environment]
    by (simp add: dead_opened_def device_system_def)
  then show "reachable dead_environment sample_client dead_opened"
    unfolding reachable_def elan_next_def using device_bound [of "(- 5, [])"] by blast
qed

lemma dead_interrupt_step:
  assumes "reachable dead_environment sample_client S" "phase S = Awake"
  shows "elan_step dead_environment (Interrupt EMPTY_FRAME) S (dead_interrupt S)"
  using reachable_ok [OF assms(1)] assms(2) by (intro interrupt) (simp add: system_ok_def)

lemma reachable_step: "reachable E c S \<Longrightarrow> elan_step E e S S' \<Longrightarrow> reachable E c S'"
  unfolding reachable_def elan_next_def by (metis (mono_tags, lifting) rtranclp.rtrancl_into_rtrancl)

lemma dead_run:
  "interrupts dead_environment dead_opened [False, False, False]
    (dead_interrupt (dead_interrupt (dead_interrupt dead_opened)))"
  "reachable dead_environment sample_client (dead_interrupt (dead_interrupt (dead_interrupt dead_opened)))"
proof -
  let ?S1 = "dead_interrupt dead_opened" and ?S2 = "dead_interrupt (dead_interrupt dead_opened)"
  have awake: "phase dead_opened = Awake" "phase ?S1 = Awake" "phase ?S2 = Awake"
    by (simp_all add: dead_opened_def device_system_def)
  have r0: "reachable dead_environment sample_client dead_opened"
    by (rule dead_opened_facts)
  note s1 = dead_interrupt_step [OF r0 awake(1)]
  note r1 = reachable_step [OF r0 s1]
  note s2 = dead_interrupt_step [OF r1 awake(2)]
  note r2 = reachable_step [OF r1 s2]
  note s3 = dead_interrupt_step [OF r2 awake(3)]
  have reads: "isr_read dead_environment dead_opened \<noteq> 0" "isr_read dead_environment ?S1 \<noteq> 0"
      "isr_read dead_environment ?S2 \<noteq> 0"
    by (intro dead_reads; simp only: dead_interrupt_ops dead_opened_facts(4))+
  show "interrupts dead_environment dead_opened [False, False, False] (dead_interrupt ?S2)"
    using next_interrupt [OF s1 next_interrupt [OF s2 next_interrupt [OF s3 no_interrupt]]] reads by simp
  show "reachable dead_environment sample_client (dead_interrupt ?S2)"
    by (rule reachable_step [OF r2 s3])
qed

lemma dead_queued: "queued (dead_interrupt (dead_interrupt (dead_interrupt dead_opened)))"
  using monitor_run [OF dead_run(1) dead_opened_facts(1)] dead_opened_facts(2,3)
  by (simp add: watch_def)

theorem queued_work_wanted_witness:
  "0 < users (dead_interrupt (dead_interrupt (dead_interrupt dead_opened)))"
  using queued_work_wanted [OF dead_run(2) watchdog [OF dead_queued]] by blast

text \<open>
  C8: The watchdog refines its monitor. Over any run of interrupts on an open device with the
  watchdog enabled that starts without errors, the error count is the number of failed reads since
  the last good one, and the work is queued exactly if somewhere in the run three reads failed in
  a row.
\<close>

theorem watchdog_refines_monitor:
  assumes "interrupts E S oks S'" and "watched E S" and "length oks < 2 ^ 32"
    and "report_errors (tp (drv S)) = 0" and "\<not> queued S"
  shows "unat (report_errors (tp (drv S'))) = length (takeWhile Not (rev oks)) \<and>
    (queued S' \<longleftrightarrow> (\<exists>before after. oks = before @ [False, False, False] @ after))"
proof -
  have "watch S' = foldl monitor (0, False) oks"
    using monitor_run [OF assms(1,2)] assms(3-5) by (simp add: watch_def)
  then show ?thesis
    by (simp add: monitor_spec watch_def sublist_def)
qed

theorem watchdog_refines_monitor_witness:
  "unat (report_errors (tp (drv (dead_interrupt (dead_interrupt (dead_interrupt dead_opened)))))) = 3"
  using watchdog_refines_monitor [OF dead_run(1) dead_opened_facts(1) _ dead_opened_facts(2,3)] by simp

end
