(* ===== verification/Elan_Preemption.thy ===== *)
theory Elan_Preemption
  imports Elan_Stream
begin

text \<open>
  The interrupt handler taken apart: between the read of a report and the queueing of the watchdog
  work other handlers may run, unless they disable the interrupt, which waits for the handler to
  finish. The invariants of the driver survive this, and what does not is stated.
\<close>

section \<open>The handler in three parts\<close>

text \<open>
  Up to the decision of the watchdog policy; then the test in \<open>elan_queue_watchdog\<close>, which reads the
  open count once more; then the queueing. \<open>schedule_work\<close> comes last in the code.
\<close>

definition isr_report :: "environment \<Rightarrow> elan_rs_frame \<Rightarrow> bool drv" where
  "isr_report E stack_frame = do {
     updating \<leftarrow> getd in_fw_update;
     if updating then do { xio (notify (Sched Complete)); return False } else do {
       len \<leftarrow> getd report_len;
       (error, report) \<leftarrow> via_ops (\<lambda>opt c.
         get_report opt c (uninitialized E ETP_MAX_REPORT_LEN) len);
       if error \<noteq> 0 then do {
         errors \<leftarrow> getd (\<lambda>d. report_errors d + 1);
         modd (\<lambda>d. d\<lparr>report_errors := errors\<rparr>);
         enabled \<leftarrow> getd watchdog_enabled;
         users \<leftarrow> getd open_count;
         return (enabled \<and> elan_rs_watchdog_action users 0 errors ETP_WATCHDOG_REPORT_ERRORS =
           ELAN_RS_WATCHDOG_RECOVER)
       } else do {
         modd (\<lambda>d. d\<lparr>report_errors := 0\<rparr>);
         modd (\<lambda>d. d\<lparr>report_count := report_count d + 1\<rparr>);
         context \<leftarrow> getd report_context;
         error \<leftarrow> xio (elan_rs_emit_report stack_frame context report (unat len));
         return False
       }
     }
   }"

definition work_wanted :: "elan_tp_data \<Rightarrow> bool" where
  "work_wanted d \<longleftrightarrow> watchdog_enabled d \<and> 0 < sint (open_count d)"

lemma isr_report_final:
  "final (isr_report E f0) s =
    (let d = tp s;
         read = get_report (ops d) (client d) (uninitialized E ETP_MAX_REPORT_LEN) (report_len d);
         t = final read (io_trace s)
     in if in_fw_update d then s\<lparr>io_trace := io_trace s @ [(Sched Complete, 0, [])]\<rparr>
        else if fst (result read (io_trace s)) \<noteq> 0 then
          s\<lparr>tp := d\<lparr>report_errors := report_errors d + 1\<rparr>, io_trace := t\<rparr>
        else s\<lparr>tp := d\<lparr>report_errors := 0, report_count := report_count d + 1\<rparr>,
            io_trace := final (elan_rs_emit_report f0 (report_context d)
              (snd (result read (io_trace s))) (unat (report_len d))) t\<rparr>)"
proof -
  have same_context: "report_context (d\<lparr>report_errors := e, report_count := n\<rparr>) = report_context d" for d e n
    by (simp add: report_context_def)
  show ?thesis
    by (auto simp: isr_report_def final_if Let_def same_context split: prod.splits)
qed

lemma isr_report_result:
  "result (isr_report E f0) s \<longleftrightarrow> (let d = tp s in
    \<not> in_fw_update d \<and> watchdog_enabled d \<and> open_count d \<noteq> 0 \<and> 3 \<le> report_errors d + 1 \<and>
    fst (result (get_report (ops d) (client d) (uninitialized E ETP_MAX_REPORT_LEN) (report_len d))
      (io_trace s)) \<noteq> 0)"
  by (auto simp: isr_report_def result_if final_if Let_def watchdog_recover_iff ETP_WATCHDOG_REPORT_ERRORS_def
      split: prod.splits)

text \<open>Run without a break, the parts are the handler.\<close>

lemma isr_parts: "elan_isr E f0 = do {
    due \<leftarrow> isr_report E f0;
    wanted \<leftarrow> getd work_wanted;
    if due \<and> wanted then xio (notify (Sched ScheduleWork)) else return ()
  }"
proof (rule state.expand, rule ext)
  have users: "0 < sint n \<Longrightarrow> n \<noteq> 0" for n :: u32
    by auto
  show "run_state (elan_isr E f0) s = run_state (do {
      due \<leftarrow> isr_report E f0;
      wanted \<leftarrow> getd work_wanted;
      if due \<and> wanted then xio (notify (Sched ScheduleWork)) else return ()
    }) s" for s
    unfolding run_state_eq
    by (auto simp: isr_final isr_report_final isr_report_result work_wanted_def final_if Let_def dest: users)
qed

text \<open>The first part is a handler like the others.\<close>

lemma isr_report_upholds: "state_io_rel (upholds T (ready am nu d0)) (isr_report E f0)"
  unfolding isr_report_def
  by (intro rel_rules) (auto simp: ready_defs)

lemma emit_report_orderly [rel_rules]: "state_io_rel orderly (elan_rs_emit_report f0 ctx r len)"
  unfolding io_rel_iff
proof
  fix t
  obtain u where u: "final (elan_rs_emit_report f0 ctx r len) t = t @ u" "framed u"
    using emit_report_framed by blast
  moreover have "emits input_call t (final (elan_rs_emit_report f0 ctx r len) t)"
    by (rule io_relD [OF emits_emit_report])
  moreover have "keeps_queue c" if "input_call c" for c
    using that by (cases c rule: input_call.cases) auto
  ultimately show "orderly t (final (elan_rs_emit_report f0 ctx r len) t)"
    by (auto simp: orderly_def emits_def)
qed

context transport
begin

lemma isr_report_balanced: "state_io_rel (drv_rel T balanced) (isr_report E f0)"
  unfolding isr_report_def
  by (intro rel_rules balanced_ops input_program_balanced emits_emit_report) auto

lemma isr_report_orderly: "state_io_rel (drv_rel T orderly) (isr_report E f0)"
  unfolding isr_report_def
  by (intro rel_rules orderly_ops) auto

end

lemma isr_report_served:
  assumes "bound_to E s" "ready True True d0 (tp s)"
  shows "served d0 (isr_report E' f0) s"
  using io_relD [OF transport.isr_report_balanced [OF bound_to_transport [OF assms(1)]], of s E' f0]
  by (intro served_upholds isr_report_upholds assms(2)) (simp add: restores_iff)

section \<open>Finer steps\<close>

text \<open>
  A state of the driver and how far the interrupt handler has come. A handler that disables the
  interrupt waits for it; every other one may come in between.
\<close>

datatype isr_stage = Resting | Deciding | Scheduling

type_synonym preempted = "system \<times> isr_stage"

definition leaves_line :: "system \<Rightarrow> system \<Rightarrow> bool" where
  "leaves_line S S' \<longleftrightarrow> (\<forall>x \<in> set (drop (length (io_trace (drv S))) (io_trace (drv S'))).
     fst x \<noteq> Sched DisableIrq)"

inductive fine_step :: "environment \<Rightarrow> preempted \<Rightarrow> preempted \<Rightarrow> bool"
  for E :: environment
where
  report: "irq_depth (io_trace (drv S)) = 0 \<Longrightarrow>
    fine_step E (S, Resting) (advance (isr_report E f0) S,
      if result (isr_report E f0) (drv S) then Deciding else Resting)"
| decide: "fine_step E (S, Deciding) (S, if work_wanted (tp (drv S)) then Scheduling else Resting)"
| schedule: "fine_step E (S, Scheduling) (advance (xio (notify (Sched ScheduleWork))) S, Resting)"
| handler: "elan_step E e S S' \<Longrightarrow> (\<And>f0. e \<noteq> Interrupt f0) \<Longrightarrow> stage = Resting \<or> leaves_line S S' \<Longrightarrow>
    fine_step E (S, stage) (S', stage)"

inductive_cases fine_step_elim: "fine_step E (S, stage) (S', stage')"

text \<open>Every run of whole handlers is a run of the finer steps.\<close>

lemma orderly_extends:
  "state_io_rel (drv_rel (ops (tp s)) orderly) m \<Longrightarrow> \<exists>u. io_trace (final m s) = io_trace s @ u"
  by (drule io_relD [of _ _ s]) (auto simp: drv_rel_def orderly_def)

lemma advance_bind:
  assumes "io_trace (final m (drv S)) = io_trace (drv S) @ u"
    and "io_trace (final (k (result m (drv S))) (final m (drv S))) = io_trace (final m (drv S)) @ v"
  shows "advance (do { x \<leftarrow> m; k x }) S = advance (k (result m (drv S))) (advance m S)"
  using assms by (simp add: advance_def added_def work_pending_append)

lemma advance_return [simp]: "advance (return x) S = S"
  by (simp add: advance_def added_def)

lemma fine_interrupt:
  assumes "bound_to E' (drv S)" "irq_depth (io_trace (drv S)) = 0"
  shows "(fine_step E)\<^sup>*\<^sup>* (S, Resting) (advance (elan_isr E f0) S, Resting)"
proof -
  let ?due = "result (isr_report E f0) (drv S)" and ?S1 = "advance (isr_report E f0) S"
  let ?k = "\<lambda>due. do { wanted \<leftarrow> getd work_wanted;
    if due \<and> wanted then xio (notify (Sched ScheduleWork)) else return () }"
  obtain u where u: "io_trace (final (isr_report E f0) (drv S)) = io_trace (drv S) @ u"
    using orderly_extends [OF transport.isr_report_orderly [OF bound_to_transport [OF assms(1)]]] by blast
  have "\<exists>v. io_trace (final (?k due) s) = io_trace s @ v" for due s
    by (simp add: final_if)
  then have isr: "advance (elan_isr E f0) S = advance (?k ?due) ?S1"
    using advance_bind [OF u, of ?k] unfolding isr_parts by blast
  have first: "(fine_step E)\<^sup>*\<^sup>* (S, Resting) (?S1, if ?due then Deciding else Resting)"
    using report [OF assms(2), of E f0] by blast
  show ?thesis
  proof (cases ?due)
    case True
    let ?wanted = "work_wanted (tp (drv ?S1))"
    have second: "(fine_step E)\<^sup>*\<^sup>* (S, Resting) (?S1, if ?wanted then Scheduling else Resting)"
      using first decide [of E ?S1] True by (simp add: rtranclp.rtrancl_into_rtrancl)
    have "advance (?k ?due) ?S1 = (if ?wanted then advance (xio (notify (Sched ScheduleWork))) ?S1 else ?S1)"
      using True by (simp add: advance_def added_def)
    with second schedule [of E ?S1] show ?thesis
      unfolding isr by (auto intro: rtranclp.rtrancl_into_rtrancl)
  next
    case False
    then have "advance (?k ?due) ?S1 = ?S1"
      by (simp add: advance_def added_def)
    with first False show ?thesis
      unfolding isr by simp
  qed
qed

lemma fine_handler:
  assumes "system_ok E' c S" "elan_step E e S S'"
  shows "(fine_step E)\<^sup>*\<^sup>* (S, Resting) (S', Resting)"
proof (cases "\<exists>f0. e = Interrupt f0")
  case True
  then show ?thesis
    using assms fine_interrupt [of E' S] by (auto simp: interrupt_step_iff system_ok_def)
next
  case False
  then show ?thesis
    using handler [OF assms(2), of Resting] by auto
qed

lemma coarse_run_fine:
  assumes "(elan_next E)\<^sup>*\<^sup>* S S'" "system_ok E c S"
  shows "(fine_step E)\<^sup>*\<^sup>* (S, Resting) (S', Resting) \<and> system_ok E c S'"
  using assms
proof (induction rule: rtranclp_induct)
  case (step S1 S2)
  then show ?case
    using fine_handler [of E c S1 E _ S2] step_ok [of E c S1 _ S2]
    by (auto simp: elan_next_def intro: rtranclp_trans)
qed simp

section \<open>The invariant\<close>

text \<open>The handler runs on an enabled line, and the watchdog work is queued only when it is enabled.\<close>

definition fine_ok :: "environment \<Rightarrow> i2c_client \<Rightarrow> system \<Rightarrow> preempted \<Rightarrow> bool" where
  "fine_ok E c S0 P \<longleftrightarrow> (case P of (S, stage) \<Rightarrow> system_ok E c S \<and> framed_since S0 S \<and>
     (stage \<noteq> Resting \<longrightarrow> phase S \<noteq> Asleep \<and> watchdog_enabled (tp (drv S))) \<and>
     (queued S \<longrightarrow> watchdog_enabled (tp (drv S))))"

lemma no_disable_depth: "\<forall>x \<in> set u. fst x \<noteq> Sched DisableIrq \<Longrightarrow> irq_depth u \<le> 0"
proof (induction u)
  case (Cons x u)
  then show ?case
    by (cases x rule: irq_delta.cases) auto
qed simp

lemma leaves_line_awake:
  assumes "system_ok E c S" "system_ok E c S'" "framed_since S S'" "leaves_line S S'" "phase S \<noteq> Asleep"
  shows "phase S' \<noteq> Asleep"
proof -
  obtain u where "io_trace (drv S') = io_trace (drv S) @ u"
    using assms(3) by (auto simp: framed_since_def)
  then show ?thesis
    using no_disable_depth [of u] assms(1,2,4,5) by (auto simp: leaves_line_def system_ok_def split: if_splits)
qed

lemma fine_step_ok:
  assumes "fine_ok E c S0 P" "fine_step E P P'"
  shows "fine_ok E c S0 P'"
  using assms(2,1)
proof cases
  case (report S f0)
  then have ok: "system_ok E c S"
    using assms(1) by (simp add: fine_ok_def)
  note ready = system_ok_ready [OF ok]
  have bound: "bound_to E (drv S)"
    using ok by (simp add: system_ok_def)
  have "served (tp (drv S)) (isr_report E f0) (drv S)"
    by (rule isr_report_served [OF bound ready])
  then show ?thesis
    using assms(1) report orderly_advance [OF bound, of "isr_report E f0" S] transport.isr_report_orderly
      advance_served [OF ok, of "isr_report E f0" "advance (isr_report E f0) S"]
      steady_watchdog [of True True "tp (drv S)"] framed_since_trans [of S0 S]
    by (auto simp: fine_ok_def served_def isr_report_result Let_def system_ok_def)
next
  case (decide S)
  then show ?thesis
    using assms(1) by (auto simp: fine_ok_def work_wanted_def)
next
  case (schedule S)
  then have ok: "system_ok E c (advance (xio (notify (Sched ScheduleWork))) S)"
    using assms(1) by (simp add: fine_ok_def system_ok_def bound_to_def)
  have "framed_since S (advance (xio (notify (Sched ScheduleWork))) S)"
    by (simp add: framed_since_def framed_cancel)
  with ok schedule show ?thesis
    using assms(1) framed_since_trans [of S0 S] by (auto simp: fine_ok_def)
next
  case (handler e S S' stage)
  then show ?thesis
    using assms(1) step_ok [of E c S e S'] step_stream [of E c S e S'] framed_since_trans [of S0 S S']
      leaves_line_awake [of E c S S']
    by (auto simp: fine_ok_def queue_moves_def)
qed

interpretation fine: invariant_system "\<lambda>P. P = (S0, Resting) \<and> bound_system E c S0" "fine_step E" "fine_ok E c S0"
  for S0 :: system and E :: environment and c :: i2c_client
proof
  fix P
  assume "P = (S0, Resting) \<and> bound_system E c S0"
  moreover from this have "\<not> queued S0"
    by (auto simp: bound_system_def)
  ultimately show "fine_ok E c S0 P"
    by (simp add: fine_ok_def bound_system_ok framed_since_refl)
qed (rule fine_step_ok)

definition fine_reachable :: "environment \<Rightarrow> i2c_client \<Rightarrow> preempted \<Rightarrow> bool" where
  "fine_reachable E c P \<longleftrightarrow> (\<exists>S0. bound_system E c S0 \<and> (fine_step E)\<^sup>*\<^sup>* (S0, Resting) P)"

lemma fine_reachable_ok:
  assumes "fine_reachable E c P"
  obtains S0 where "bound_system E c S0" "fine_ok E c S0 P"
  using assms fine.start_steps_invariant unfolding fine_reachable_def by blast

lemma reachable_fine: "reachable E c S \<Longrightarrow> fine_reachable E c (S, Resting)"
  unfolding reachable_def fine_reachable_def using coarse_run_fine bound_system_ok by blast

lemma fine_reachable_step: "fine_reachable E c P \<Longrightarrow> fine_step E P P' \<Longrightarrow> fine_reachable E c P'"
  unfolding fine_reachable_def by (metis (no_types, lifting) rtranclp.rtrancl_into_rtrancl)

section \<open>Properties\<close>

text \<open>
  C2: The invariant of the driver survives preemption. Let other handlers run between the report
  read of the interrupt handler, its second look at the open count and its queueing of the watchdog
  work, as long as none of them disables the interrupt: in every reachable state the mutex is free,
  the interrupt line is disabled exactly while the device is asleep, the interrupt handler is never
  under way then, no update flag is left over, the device is in absolute mode, the report length fits
  the handler's buffer, a queued work item belongs to an enabled watchdog, and the input nodes have
  been sent whole frames only.
\<close>

theorem preemption_safe:
  assumes "fine_reachable E c (S, stage)"
  shows "(let d = tp (drv S); t = io_trace (drv S) in
      mutex_depth t = 0 \<and> irq_depth t = (if phase S = Asleep then 1 else 0) \<and>
      (stage \<noteq> Resting \<longrightarrow> phase S \<noteq> Asleep) \<and> \<not> in_fw_update d \<and> mode d = ETP_ENABLE_ABS \<and>
      unat (report_len d) \<le> ETP_MAX_REPORT_LEN \<and> (queued S \<longrightarrow> watchdog_enabled d)) \<and>
    (\<exists>S0 u. bound_system E c S0 \<and> io_trace (drv S) = io_trace (drv S0) @ u \<and>
      (\<forall>node. type_stream node Idle (events node u) = Some Idle))"
proof -
  obtain S0 where "bound_system E c S0" "fine_ok E c S0 (S, stage)"
    by (rule fine_reachable_ok [OF assms])
  then show ?thesis
    by (auto simp: fine_ok_def system_ok_def framed_since_def framed_def Let_def)
qed

text \<open>
  The sample device on the dead bus: the third failed read decides for a recovery, the last user
  closes the node and cancels the work, and only then does the interrupt handler queue it.
\<close>

definition failing_twice :: system where
  "failing_twice = dead_interrupt (dead_interrupt dead_opened)"

definition failing_reported :: system where
  "failing_reported = advance (isr_report dead_environment EMPTY_FRAME) failing_twice"

definition failing_closed :: system where
  "failing_closed = advance elan_input_close (failing_reported\<lparr>users := 0\<rparr>)"

definition late_system :: system where
  "late_system = advance (xio (notify (Sched ScheduleWork))) failing_closed"

lemma failing_twice_facts:
  "watched dead_environment failing_twice" "report_errors (tp (drv failing_twice)) = 2"
  "phase failing_twice = Awake" "users failing_twice = 1" "isr_read dead_environment failing_twice \<noteq> 0"
proof -
  have "\<not> in_fw_update (tp (drv dead_opened))" "\<not> in_fw_update (tp (drv (dead_interrupt dead_opened)))"
    using dead_opened_facts(1) watched_isr [OF dead_opened_facts(1)] by (auto simp: watched_def)
  note errors = this [THEN isr_errors]
  have reads: "isr_read dead_environment dead_opened \<noteq> 0"
      "isr_read dead_environment (dead_interrupt dead_opened) \<noteq> 0"
      "isr_read dead_environment failing_twice \<noteq> 0"
    unfolding failing_twice_def by (intro dead_reads; simp only: dead_interrupt_ops dead_opened_facts(4))+
  show "isr_read dead_environment failing_twice \<noteq> 0"
    by (rule reads)
  show "report_errors (tp (drv failing_twice)) = 2"
    unfolding failing_twice_def using reads(1,2) by (simp only: errors dead_opened_facts(2)) simp
  show "watched dead_environment failing_twice"
    unfolding failing_twice_def by (intro watched_isr dead_opened_facts)
  show "phase failing_twice = Awake" "users failing_twice = 1"
    by (simp_all add: failing_twice_def dead_opened_def device_system_def)
qed

lemma failing_twice_reachable: "reachable dead_environment sample_client failing_twice"
proof -
  let ?S1 = "dead_interrupt dead_opened"
  have "phase dead_opened = Awake" "phase ?S1 = Awake"
    by (simp_all add: dead_opened_def device_system_def)
  note steps = this [THEN dead_interrupt_step [rotated]]
  have "reachable dead_environment sample_client ?S1"
    by (rule reachable_step [OF dead_opened_facts(5) steps(1) [OF dead_opened_facts(5)]])
  from reachable_step [OF this steps(2) [OF this]] show ?thesis
    by (simp only: failing_twice_def)
qed

lemma failing_reported_facts:
  "fine_reachable dead_environment sample_client (failing_reported, Scheduling)"
  "users failing_reported = 1" "phase failing_reported = Awake"
proof -
  have due: "result (isr_report dead_environment EMPTY_FRAME) (drv failing_twice)"
    using failing_twice_facts(1,2,5) by (auto simp: isr_report_result watched_def Let_def)
  have wanted: "work_wanted (tp (drv failing_reported))"
    using failing_twice_facts(1) by (simp add: failing_reported_def isr_report_final work_wanted_def watched_def Let_def)
  have "irq_depth (io_trace (drv failing_twice)) = 0"
    using reachable_ok [OF failing_twice_reachable] failing_twice_facts(3) by (simp add: system_ok_def)
  then have "fine_step dead_environment (failing_twice, Resting) (failing_reported, Deciding)"
    using report [of failing_twice dead_environment EMPTY_FRAME] due by (simp add: failing_reported_def)
  then have "fine_reachable dead_environment sample_client (failing_reported, Deciding)"
    by (rule fine_reachable_step [OF reachable_fine [OF failing_twice_reachable]])
  moreover have "fine_step dead_environment (failing_reported, Deciding) (failing_reported, Scheduling)"
    using decide [of dead_environment failing_reported] wanted by simp
  ultimately show "fine_reachable dead_environment sample_client (failing_reported, Scheduling)"
    by (rule fine_reachable_step)
qed (use failing_twice_facts in \<open>simp_all add: failing_reported_def\<close>)

lemma late_facts:
  "fine_reachable dead_environment sample_client (late_system, Resting)"
  "users late_system = 0" "queued late_system"
proof -
  have "elan_step dead_environment Close failing_reported failing_closed"
    unfolding failing_closed_def using failing_reported_facts(2,3) by (intro close_node) simp_all
  moreover have "leaves_line failing_reported failing_closed"
    by (simp add: leaves_line_def failing_closed_def elan_input_close_def final_if)
  ultimately have "fine_step dead_environment (failing_reported, Scheduling) (failing_closed, Scheduling)"
    using handler [of dead_environment Close failing_reported failing_closed Scheduling] by blast
  from fine_reachable_step [OF fine_reachable_step [OF failing_reported_facts(1) this] schedule]
  show "fine_reachable dead_environment sample_client (late_system, Resting)"
    by (simp only: late_system_def)
  show "users late_system = 0" "queued late_system"
    by (simp_all add: late_system_def failing_closed_def advance_def added_def work_pending_append)
qed

text \<open>
  C22: A work item the interrupt handler queues after the last close, which preemption makes possible,
  does no harm: whenever the work runs while nobody holds the device open, it takes the mutex and
  gives it back, and neither touches the device structure nor the bus, the interrupt line or the
  input nodes. A recovery is only ever started for a user.
\<close>

theorem late_work_harmless:
  assumes "fine_reachable E c (S, stage)" and "users S = 0" and "elan_step E WatchdogWork S S'"
  shows "tp (drv S') = tp (drv S) \<and> io_trace (drv S') =
    io_trace (drv S) @ [(Sched MutexLock, 0, []), (Sched MutexUnlock, 0, [])]"
proof -
  obtain S0 where "fine_ok E c S0 (S, stage)"
    by (rule fine_reachable_ok [OF assms(1)])
  then have "open_count (tp (drv S)) = 0"
    using assms(2) by (simp add: fine_ok_def system_ok_def)
  then show ?thesis
    using assms(3)
    by (simp add: watchdog_step_iff elan_watchdog_work_def watchdog_recover_iff final_if
        ETP_WATCHDOG_REPORT_ERRORS_def)
qed

theorem late_work_harmless_witness:
  "\<exists>S'. elan_step dead_environment WatchdogWork late_system S' \<and> tp (drv S') = tp (drv late_system)"
  using late_work_harmless [OF late_facts(1,2) watchdog [OF late_facts(3)]] watchdog [OF late_facts(3)] by blast

theorem preemption_safe_witness:
  "queued late_system \<and> watchdog_enabled (tp (drv late_system))"
  using preemption_safe [OF late_facts(1)] late_facts(3) by (simp add: Let_def)

end
