(* ===== verification/Elan_Lifetime.thy ===== *)
theory Elan_Lifetime
  imports Elan_Preemption
begin

text \<open>
  The device from bind to unbind: who holds its supply, and what is left when the driver core has
  run the cleanup the probe registered.
\<close>

section \<open>Calls that leave the supply alone\<close>

fun keeps_power :: "kcall \<Rightarrow> bool" where
  "keeps_power (Power RegulatorEnable) = False"
| "keeps_power (Power RegulatorDisable) = False"
| "keeps_power (Probe (DevmAddAction _)) = False"
| "keeps_power _ = True"

text \<open>Supply requests that were refused.\<close>

fun refusal :: "kcall \<times> reply \<Rightarrow> nat" where
  "refusal (Power RegulatorEnable, r) = (if fst r = 0 then 0 else 1)"
| "refusal _ = 0"

definition refused :: "trace \<Rightarrow> nat" where
  "refused t = sum_list (map refusal t)"

lemma refused_append [simp]: "refused (t @ u) = refused t + refused u"
  and refused_Nil [simp]: "refused [] = 0"
  and refused_Cons [simp]: "refused (x # t) = refusal x + refused t"
  by (simp_all add: refused_def)

definition account :: "trace \<Rightarrow> int \<times> nat \<times> string list" where
  "account t = (vcc_users t, refused t, registered_actions t)"

lemma keeps_power_step:
  "keeps_power c \<Longrightarrow> vcc_delta (c, r) = 0 \<and> refusal (c, r) = 0 \<and> registered_actions ((c, r) # t) = registered_actions t"
  by (cases c rule: keeps_power.cases; cases r) simp_all

lemma keeps_power_account: "emits keeps_power t t' \<Longrightarrow> account t' = account t"
proof -
  assume "emits keeps_power t t'"
  then obtain u where "t' = t @ u" and u: "\<forall>x \<in> set u. keeps_power (fst x)"
    by (auto simp: emits_def)
  moreover have "vcc_users u = 0 \<and> refused u = 0 \<and> registered_actions u = []"
    using u by (induction u) (use keeps_power_step in \<open>auto simp del: registered_actions.simps(2,3)\<close>)
  ultimately show ?thesis
    by (simp add: account_def)
qed

lemma transport_keeps_power: "transport_call c \<Longrightarrow> keeps_power c"
  by (cases c rule: transport_call.cases) auto

lemma input_keeps_power: "input_call c \<Longrightarrow> keeps_power c"
  by (cases c rule: input_call.cases) auto

lemma transport_powerless: "state_io_rel (emits transport_call) m \<Longrightarrow> state_io_rel (emits keeps_power) m"
  by (erule io_rel_mono) (erule emits_mono, rule transport_keeps_power)

lemma input_powerless: "state_io_rel (emits input_call) m \<Longrightarrow> state_io_rel (emits keeps_power) m"
  by (erule io_rel_mono) (erule emits_mono, rule input_keeps_power)

lemmas emit_powerless [rel_rules] = emits_emit_report [THEN input_powerless] emits_emit_all [THEN input_powerless]

context transport
begin

lemmas powerless_ops = transport_ops [THEN transport_powerless]

lemma bus_powerless:
  "state_io_rel (drv_rel T (emits bus_call)) m \<Longrightarrow> state_io_rel (drv_rel T (emits keeps_power)) m"
  by (erule drv_rel_mono) (erule emits_mono, rule transport_keeps_power, erule bus_transport_call)

lemma recover_powerless [rel_rules]: "state_io_rel (drv_rel T (emits keeps_power)) elan_recover_locked"
  unfolding elan_recover_locked_def elan_release_inputs_def
  by (intro rel_rules powerless_ops bus_powerless [OF initialize_bus] bus_powerless [OF watchdog_ping_bus]) auto

lemma handlers_powerless:
  "state_io_rel (drv_rel T (emits keeps_power)) elan_watchdog_work"
  "state_io_rel (drv_rel T (emits keeps_power)) elan_input_open"
  "state_io_rel (drv_rel T (emits keeps_power)) elan_input_close"
  "state_io_rel (drv_rel T (emits keeps_power)) (isr_report E f0)"
  unfolding elan_watchdog_work_def elan_input_open_def elan_input_close_def isr_report_def
  by (intro rel_rules recover_powerless powerless_ops; simp)+

lemma power_powerless [rel_rules]:
  "state_io_rel (drv_rel T (emits keeps_power)) (elan_set_power on)"
  "state_io_rel (drv_rel T (emits keeps_power)) elan_sleep"
  "state_io_rel (drv_rel T (emits keeps_power)) (elan_initialize quick)"
  by (intro bus_powerless set_power_bus sleep_bus initialize_bus)+

lemma update_powerless [rel_rules]: "state_io_rel (drv_rel T (emits keeps_power)) (elan_update_firmware fw)"
proof -
  have "state_io_rel (drv_rel T (emits keeps_power)) (write_pages fw n i sw)" for n i sw
    by (induction n arbitrary: i sw)
      (auto simp: Let_def elan_write_fw_block_def intro!: rel_rules powerless_ops)
  then show ?thesis
    unfolding elan_update_firmware_def elan_update_firmware_steps_def divide_by_zero_def Let_def
    by (intro rel_rules powerless_ops bus_powerless [OF query_device_info_bus]) auto
qed

lemma calibration_powerless [rel_rules]:
  "state_io_rel (drv_rel T (emits keeps_power)) set_device_mode"
  "state_io_rel (drv_rel T (emits keeps_power)) (leave_calibrate r)"
  unfolding set_device_mode_def leave_calibrate_def
  by (intro rel_rules powerless_ops; simp)+

lemma calibrate_poll_powerless [rel_rules]: "state_io_rel (drv_rel T (emits keeps_power)) (calibrate_poll n val)"
proof (induction n arbitrary: val)
  case 0
  show ?case
    by (subst calibrate_poll.simps) (intro rel_rules powerless_ops; simp)
next
  case (Suc n)
  then show ?case
    by (subst calibrate_poll.simps) (intro rel_rules powerless_ops; simp)
qed

lemma stores_powerless:
  assumes "elan_sysfs_store E name = Some f"
  shows "state_io_rel (drv_rel T (emits keeps_power)) (f buf count)"
proof -
  have "state_io_rel (drv_rel T (emits keeps_power)) (calibrate_store E count)"
    "state_io_rel (drv_rel T (emits keeps_power)) (acquire_store E count)"
    "state_io_rel (drv_rel T (emits keeps_power)) (recover_store E buf count)"
    "state_io_rel (drv_rel T (emits keeps_power)) (elan_sysfs_update_fw E count)"
    unfolding calibrate_store_def acquire_store_def recover_store_def elan_sysfs_update_fw_def
    by (intro rel_rules powerless_ops; simp)+
  then show ?thesis
    using assms by (auto simp: elan_sysfs_store_def no_trap_def split: if_splits intro!: rel_rules)
qed

lemma shows_powerless:
  assumes "elan_sysfs_show E name = Some m"
  shows "state_io_rel (drv_rel T (emits keeps_power)) m"
proof -
  have "state_io_rel (drv_rel T (emits keeps_power)) (elan_sysfs_read_mode E)"
    "state_io_rel (drv_rel T (emits keeps_power)) (min_show E)"
    "state_io_rel (drv_rel T (emits keeps_power)) (max_show E)"
    unfolding elan_sysfs_read_mode_def min_show_def max_show_def
    by (intro rel_rules powerless_ops; simp)+
  then show ?thesis
    using assms
    by (auto simp: elan_sysfs_show_def elan_sysfs_read_product_id_def elan_sysfs_read_fw_ver_def
        elan_sysfs_read_sm_ver_def elan_sysfs_read_iap_ver_def elan_sysfs_read_fw_checksum_def
        runtime_watchdog_show_def intro!: rel_rules split: if_splits)
qed

lemma suspend_account:
  assumes "steady_wakeup E w" "ops (tp s) = T"
  shows "wp (elan_suspend_locked E) (\<lambda>r s'. account (io_trace s') =
    (vcc_users (io_trace s) - (if r = 0 \<and> \<not> w then 1 else 0), refused (io_trace s),
     registered_actions (io_trace s))) s"
  unfolding elan_suspend_locked_def device_may_wakeup_def
  by (intro wp_intros wp_rel [OF power_powerless(1)] wp_rel [OF power_powerless(2)])
    (use assms in \<open>auto simp: drv_rel_def account_def
      dest!: keeps_power_account [unfolded account_def] dest: wakeup_answer\<close>)

lemma resume_account:
  assumes "steady_wakeup E w" "ops (tp s) = T"
  shows "wp (elan_resume E) (\<lambda>r s'. vcc_users (io_trace s') + int (refused (io_trace s')) =
      vcc_users (io_trace s) + int (refused (io_trace s)) + (if w then 0 else 1) \<and>
    registered_actions (io_trace s') = registered_actions (io_trace s)) s"
  unfolding elan_resume_def device_may_wakeup_def
  by (intro wp_intros wp_rel [OF power_powerless(1)] wp_rel [OF power_powerless(3)])
    (use assms in \<open>auto simp: drv_rel_def account_def
      dest!: keeps_power_account [unfolded account_def] dest: wakeup_answer\<close>)

end

section \<open>The accounts of a run\<close>

text \<open>The driver holds the supply unless the device is asleep and was powered off for it.\<close>

definition powered :: "bool \<Rightarrow> system \<Rightarrow> int" where
  "powered w S = (if phase S = Asleep \<and> \<not> w then 0 else 1)"

definition balance :: "trace \<Rightarrow> int" where
  "balance t = vcc_users t + int (refused t)"

definition accounted :: "bool \<Rightarrow> system \<Rightarrow> system \<Rightarrow> bool" where
  "accounted w S S' \<longleftrightarrow>
     balance (io_trace (drv S')) - powered w S' = balance (io_trace (drv S)) - powered w S \<and>
     registered_actions (io_trace (drv S')) = registered_actions (io_trace (drv S))"

lemma accounted_refl: "accounted w S S"
  and accounted_trans: "accounted w S S1 \<Longrightarrow> accounted w S1 S2 \<Longrightarrow> accounted w S S2"
  by (simp_all add: accounted_def)

lemma powerless_accounted:
  assumes "bound_to E (drv S)" "\<And>T. transport T \<Longrightarrow> state_io_rel (drv_rel T (emits keeps_power)) m"
    and "drv S1 = drv S" "phase S1 = Asleep \<longleftrightarrow> phase S = Asleep"
  shows "accounted w S (advance m S1)"
proof -
  have "drv_rel (ops (tp (drv S))) (emits keeps_power) (drv S) (final m (drv S))"
    by (rule io_relD [OF assms(2) [OF bound_to_transport [OF assms(1)]]])
  then have "account (io_trace (final m (drv S))) = account (io_trace (drv S))"
    by (intro keeps_power_account) (simp add: drv_rel_def)
  then show ?thesis
    using assms(3,4) by (simp add: accounted_def account_def balance_def powered_def)
qed

lemma notify_powerless: "keeps_power k \<Longrightarrow> state_io_rel (drv_rel T (emits keeps_power)) (xio (notify k))"
  by (intro rel_rules)

lemma step_accounted:
  assumes ok: "system_ok E' c S" and wakeup: "steady_wakeup E w" and step: "elan_step E e S S'"
    and isr: "\<And>f0. e \<noteq> Interrupt f0"
  shows "accounted w S S'"
proof -
  have bound: "bound_to E' (drv S)"
    using ok by (simp add: system_ok_def)
  note T = bound_to_transport [OF bound]
  note powerless = powerless_accounted [OF bound]
  from step show ?thesis
  proof cases
    case (interrupt f0)
    then show ?thesis using isr by blast
  next
    case watchdog
    then show ?thesis using powerless [OF transport.handlers_powerless(1)] by simp
  next
    case open_node
    then show ?thesis using powerless [OF transport.handlers_powerless(2)] by simp
  next
    case (close_node n)
    then show ?thesis using powerless [OF transport.handlers_powerless(3)] by simp
  next
    case (show_attribute name m)
    then show ?thesis using powerless [of m S w] transport.shows_powerless by simp
  next
    case (store_attribute name f buf count)
    then show ?thesis using powerless [of "f buf count" S w] transport.stores_powerless by simp
  next
    case cancel
    then show ?thesis using powerless [OF notify_powerless] by simp
  next
    case suspend
    then show ?thesis
      using transport.suspend_account [OF T wakeup refl]
      by (auto simp: wp_def accounted_def account_def balance_def powered_def)
  next
    case resume
    then show ?thesis
      using transport.resume_account [OF T wakeup refl]
      by (auto simp: wp_def accounted_def balance_def powered_def)
  qed
qed

lemma fine_accounted:
  assumes "fine_ok E' c S0 (S, stage)" "steady_wakeup E w" "fine_step E (S, stage) (S', stage')"
  shows "accounted w S S'"
proof -
  have ok: "system_ok E' c S"
    using assms(1) by (simp add: fine_ok_def)
  then have bound: "bound_to E' (drv S)"
    by (simp add: system_ok_def)
  from assms(3) show ?thesis
  proof cases
    case (report f0)
    then show ?thesis
      using powerless_accounted [OF bound transport.handlers_powerless(4)] by simp
  next
    case schedule
    then show ?thesis
      using powerless_accounted [OF bound notify_powerless] by simp
  next
    case (handler e)
    then show ?thesis
      using step_accounted [of E' c S E w e S'] ok assms(2) by blast
  qed (simp_all add: accounted_refl)
qed

lemma bound_account:
  assumes "bound_system E c S"
  shows "vcc_users (io_trace (drv S)) = 1 \<and>
    registered_actions (io_trace (drv S)) = [''elan_cancel_watchdog'', ''elan_disable_regulator'']"
proof -
  obtain s0 where s0: "io_trace s0 = []" "result (elan_probe E c) s0 = Some 0"
      "drv S = final (elan_probe E c) s0"
    using assms by (auto simp: bound_system_def)
  then show ?thesis
    using probe_balanced [of E c s0] by (simp add: wp_def probe_balance_def)
qed

interpretation lifetime: invariant_system
    "\<lambda>P. P = (S0, Resting) \<and> bound_system E c S0 \<and> steady_wakeup E w" "fine_step E"
    "\<lambda>P. fine_ok E c S0 P \<and> steady_wakeup E w \<and> accounted w S0 (fst P)"
  for S0 :: system and E :: environment and c :: i2c_client and w :: bool
proof
  fix P
  assume "P = (S0, Resting) \<and> bound_system E c S0 \<and> steady_wakeup E w"
  then show "fine_ok E c S0 P \<and> steady_wakeup E w \<and> accounted w S0 (fst P)"
    using fine.start_invariant [of P S0 E c] by (simp add: accounted_refl)
next
  fix P P'
  assume P: "fine_ok E c S0 P \<and> steady_wakeup E w \<and> accounted w S0 (fst P)" and step: "fine_step E P P'"
  then have "accounted w (fst P) (fst P')"
    using fine_accounted [of E c S0 "fst P" "snd P" E w "fst P'" "snd P'"] by simp
  then show "fine_ok E c S0 P' \<and> steady_wakeup E w \<and> accounted w S0 (fst P')"
    using P fine_step_ok [OF _ step] accounted_trans by blast
qed

lemma run_account:
  assumes "bound_system E c S0" "(fine_step E)\<^sup>*\<^sup>* (S0, Resting) (S, stage)" "steady_wakeup E w"
  obtains u where "io_trace (drv S) = io_trace (drv S0) @ u" "system_ok E c S"
    "vcc_users (io_trace (drv S)) = powered w S - int (refused u)"
    "registered_actions (io_trace (drv S)) = [''elan_cancel_watchdog'', ''elan_disable_regulator'']"
proof -
  have ok: "fine_ok E c S0 (S, stage)" "accounted w S0 S"
    using lifetime.start_steps_invariant [of "(S0, Resting)" S0 E c w "(S, stage)"] assms by auto
  then obtain u where "io_trace (drv S) = io_trace (drv S0) @ u"
    by (auto simp: fine_ok_def framed_since_def)
  moreover have "phase S0 = Awake"
    using assms(1) by (auto simp: bound_system_def)
  ultimately show ?thesis
    using ok bound_account [OF assms(1)] that
    by (auto simp: accounted_def balance_def powered_def fine_ok_def split: if_splits)
qed

section \<open>Unbinding\<close>

text \<open>
  The driver core frees the interrupt, unregisters the nodes, which closes them for every user they
  still have, and then runs the registered actions, the last one first.
\<close>

fun close_all :: "nat \<Rightarrow> unit drv" where
  "close_all 0 = return ()"
| "close_all (Suc n) = do { elan_input_close; close_all n }"

definition elan_unbind :: "nat \<Rightarrow> unit drv" where
  "elan_unbind n = do {
     close_all n;
     s \<leftarrow> State_Monad.get;
     devres_release (rev (registered_actions (io_trace s)))
   }"

lemma close_all_final:
  "\<exists>u. io_trace (final (close_all n) s) = io_trace s @ u \<and> account u = (0, 0, []) \<and>
    open_count (tp (final (close_all n) s)) = open_count (tp s) - of_nat n"
proof (induction n arbitrary: s)
  case (Suc n)
  let ?s = "final elan_input_close s"
  obtain v where v: "io_trace (final (close_all n) ?s) = io_trace ?s @ v" "account v = (0, 0, [])"
      "open_count (tp (final (close_all n) ?s)) = open_count (tp ?s) - of_nat n"
    using Suc.IH [of ?s] by blast
  have "\<exists>u. io_trace ?s = io_trace s @ u \<and> account u = (0, 0, []) \<and> open_count (tp ?s) = open_count (tp s) - 1"
    by (simp add: elan_input_close_def final_if account_def)
  then obtain u where u: "io_trace ?s = io_trace s @ u" "account u = (0, 0, [])"
      "open_count (tp ?s) = open_count (tp s) - 1"
    by blast
  show ?case
    using u v by (intro exI [of _ "u @ v"]) (simp add: account_def)
qed (simp add: account_def)

lemma unbind_final:
  assumes "registered_actions (io_trace s) = [''elan_cancel_watchdog'', ''elan_disable_regulator'']"
  shows "vcc_users (io_trace (final (elan_unbind n) s)) = vcc_users (io_trace s) - 1"
    and "\<not> work_pending b (added (elan_unbind n) s)"
    and "open_count (tp (final (elan_unbind n) s)) = open_count (tp s) - of_nat n"
proof -
  obtain u where u: "io_trace (final (close_all n) s) = io_trace s @ u" "account u = (0, 0, [])"
      "open_count (tp (final (close_all n) s)) = open_count (tp s) - of_nat n"
    using close_all_final by blast
  then have "final (elan_unbind n) s = final (devres_release [''elan_disable_regulator'', ''elan_cancel_watchdog''])
      (final (close_all n) s)"
    using assms by (simp add: elan_unbind_def account_def)
  then have unbound: "io_trace (final (elan_unbind n) s) =
      io_trace s @ u @ [(Power RegulatorDisable, 0, []), (Sched CancelWorkSync, 0, [])]"
    "tp (final (elan_unbind n) s) = tp (final (close_all n) s)"
    using u(1) by (simp_all add: devres_action_def elan_cancel_watchdog_def elan_disable_regulator_def)
  show "vcc_users (io_trace (final (elan_unbind n) s)) = vcc_users (io_trace s) - 1"
    using u(2) by (simp add: unbound account_def)
  show "\<not> work_pending b (added (elan_unbind n) s)"
    by (simp add: added_def unbound work_pending_append)
  show "open_count (tp (final (elan_unbind n) s)) = open_count (tp s) - of_nat n"
    by (simp add: unbound u(3))
qed

section \<open>Properties\<close>


text \<open>
  The sample device, which may not wake the system, on a supply that is refused once it has been
  given back: it is suspended, and resumes without its supply.
\<close>

definition refusing_environment :: environment where
  "refusing_environment = (device_environment packet_reply)\<lparr>answer := \<lambda>t k.
     case k of Power RegulatorEnable \<Rightarrow>
       if list_ex (\<lambda>x. fst x = Power RegulatorDisable) t then (- 5, []) else (0, [])
     | _ \<Rightarrow> answer (device_environment packet_reply) t k\<rparr>"

lemma refusing_answers:
  "answer refusing_environment t (Probe k) = (if k = CheckSmbusFunctionality then 1 else 0, [])"
  "answer refusing_environment t (Sched MutexLockInterruptible) = (0, [])"
  "answer refusing_environment t (Power RegulatorEnable) =
    (if list_ex (\<lambda>x. fst x = Power RegulatorDisable) t then (- 5, []) else (0, []))"
  "answer refusing_environment t (Power RegulatorDisable) = (0, [])"
  "answer refusing_environment t (Power DeviceMayWakeup) = (0, [])"
  "config_enabled refusing_environment name"
  by (simp_all add: refusing_environment_def device_environment_def sample_environment_def sample_reply_def
      split: probe_op.splits)

lemma refusing_transport:
  "result (probe_transport refusing_environment) t = Some (elan_smbus_ops refusing_environment)"
  by (simp add: probe_transport_def result_if final_if refusing_answers)

definition refusing_powered :: driver where
  "refusing_powered = final (elan_probe_resources refusing_environment sample_client
     (elan_smbus_ops refusing_environment))
     (sample_smbus\<lparr>io_trace := final (probe_transport refusing_environment) (io_trace sample_smbus)\<rparr>)"

lemma refusing_resources:
  "result (elan_probe_resources refusing_environment sample_client (elan_smbus_ops refusing_environment))
     (sample_smbus\<lparr>io_trace := final (probe_transport refusing_environment) (io_trace sample_smbus)\<rparr>) = 0"
  by code_simp

lemma refusing_controller: "result (elan_probe_controller refusing_environment) refusing_powered = Some 0"
  by code_simp

lemma refusing_nodes: "result (elan_probe_nodes refusing_environment) s = 0"
  by (simp add: elan_probe_nodes_def elan_setup_input_device_def refusing_answers result_if final_if
      Let_def elan_setup_trackpoint_input_device_def)

lemma refusing_probe: "result (elan_probe refusing_environment sample_client) sample_smbus = Some 0"
  using refusing_controller
  by (simp add: elan_probe_def refusing_transport refusing_resources refusing_nodes result_if
      refusing_powered_def elan_rs_abi_version_def ELAN_RS_ABI_VERSION_def)

definition refusing_system :: system where
  "refusing_system = \<lparr>drv = final (elan_probe refusing_environment sample_client) sample_smbus,
     users = 0, queued = False, phase = Awake\<rparr>"

definition refusing_suspended :: system where
  "refusing_suspended = advance (elan_suspend_locked refusing_environment)
     (advance (xio (notify (Sched CancelWorkSync))) (refusing_system\<lparr>phase := Suspending\<rparr>)\<lparr>phase := Asleep\<rparr>)"

definition refusing_resumed :: system where
  "refusing_resumed = advance (elan_resume refusing_environment) (refusing_suspended\<lparr>phase := Awake\<rparr>)"

lemma refusing_bound: "bound_system refusing_environment sample_client refusing_system"
proof -
  have "io_trace sample_smbus = []"
    by (simp add: sample_smbus_def sample_driver_def)
  then show ?thesis
    using refusing_probe by (auto simp: bound_system_def refusing_system_def)
qed


lemma refusing_ops: "ops (tp (drv refusing_system)) = elan_smbus_ops refusing_environment"
proof -
  have "ops (tp refusing_powered) = elan_smbus_ops refusing_environment"
    by (simp add: refusing_powered_def elan_probe_resources_def devm_add_action_or_reset_def final_if
        probe_transport_def refusing_answers zeroed_tp_def elan_cancel_watchdog_def sample_smbus_def sample_driver_def)
  moreover have "drv_rel (elan_smbus_ops refusing_environment) (emits plain_call)
      refusing_powered (final (elan_probe_controller refusing_environment) refusing_powered)"
    by (rule io_relD [OF transport.controller_plain [OF smbus.transport_axioms]])
  moreover have "drv_rel (elan_smbus_ops refusing_environment) (emits plain_call) s
      (final (elan_probe_nodes refusing_environment) s)" for s
    by (rule io_relD [OF transport.nodes_plain [OF smbus.transport_axioms]])
  moreover have "drv refusing_system = final (elan_probe_nodes refusing_environment)
      (final (elan_probe_controller refusing_environment) refusing_powered)"
    using refusing_controller
    by (simp add: refusing_system_def elan_probe_def refusing_transport refusing_resources final_if
        refusing_powered_def elan_rs_abi_version_def ELAN_RS_ABI_VERSION_def)
  ultimately show ?thesis
    by (simp add: drv_rel_def)
qed

lemma refusing_power: "ops (tp s) = elan_smbus_ops refusing_environment \<Longrightarrow>
    result (elan_set_power on) s = 0 \<and> final (elan_set_power on) s = s"
  by (simp add: elan_set_power_def do_retry.simps elan_smbus_ops_def elan_smbus_power_control_def result_if final_if)

lemma refusing_suspend:
  "result (elan_suspend_locked refusing_environment)
     (drv (advance (xio (notify (Sched CancelWorkSync))) (refusing_system\<lparr>phase := Suspending\<rparr>))) = 0"
  "io_trace (drv refusing_suspended) = io_trace (drv refusing_system) @ [(Sched CancelWorkSync, 0, []),
     (Sched MutexLockInterruptible, 0, []), (Sched DisableIrq, 0, []), (Power DeviceMayWakeup, 0, []),
     (Power RegulatorDisable, 0, []), (Sched MutexUnlock, 0, [])]"
  "tp (drv refusing_suspended) = tp (drv refusing_system)"
  by (simp_all add: refusing_suspended_def elan_suspend_locked_def device_may_wakeup_def refusing_answers
      refusing_power refusing_ops result_if final_if)

lemma refusing_resume:
  "io_trace (drv refusing_resumed) = io_trace (drv refusing_suspended) @ [(Power DeviceMayWakeup, 0, []),
     (Power RegulatorEnable, - 5, []), (Sched EnableIrq, 0, [])]"
  by (simp add: refusing_resumed_def elan_resume_def device_may_wakeup_def refusing_answers final_if
      refusing_suspend(2))

lemma refusing_run: "(fine_step refusing_environment)\<^sup>*\<^sup>* (refusing_system, Resting) (refusing_resumed, Resting)"
proof -
  let ?S1 = "advance (xio (notify (Sched CancelWorkSync))) (refusing_system\<lparr>phase := Suspending\<rparr>)"
  have "elan_step refusing_environment CancelForSuspend refusing_system ?S1"
    by (rule cancel) (simp add: refusing_system_def)
  moreover have "elan_step refusing_environment Suspend ?S1 refusing_suspended"
    using suspend [of ?S1 refusing_environment] refusing_suspend(1) by (simp add: refusing_suspended_def)
  moreover have "elan_step refusing_environment Resume refusing_suspended refusing_resumed"
    unfolding refusing_resumed_def by (rule resume) (simp add: refusing_suspended_def)
  ultimately have "elan_next refusing_environment refusing_system ?S1"
      "elan_next refusing_environment ?S1 refusing_suspended"
      "elan_next refusing_environment refusing_suspended refusing_resumed"
    unfolding elan_next_def by blast+
  then have "(elan_next refusing_environment)\<^sup>*\<^sup>* refusing_system refusing_resumed"
    by (meson r_into_rtranclp rtranclp.rtrancl_into_rtrancl)
  then show ?thesis
    using coarse_run_fine bound_system_ok [OF refusing_bound] by blast
qed


end
