(* ===== verification/Elan_Configured.thy ===== *)
theory Elan_Configured
  imports Elan_I2c_Wire Elan_Pm Elan_Sysfs Elan_Probe
begin

text \<open>
  What the driver leaves in the controller. The operations of \<open>upstream/elan_i2c_core.c\<close> that start,
  recover, suspend and resume a device over I2C are composed with the register accesses of
  \<open>Elan_I2c_Wire\<close>: when they report success, the controller's registers hold what the device
  structure says.
\<close>

section \<open>A controller with a reset\<close>

text \<open>
  The registers after a trace. The stand-by command 0x0100 resets the controller; what a reset does
  to the registers is not in the repository, and is a parameter here.
\<close>

fun react :: "((u16 \<Rightarrow> u16) \<Rightarrow> u16 \<Rightarrow> u16) \<Rightarrow> access \<Rightarrow> (u16 \<Rightarrow> u16) \<Rightarrow> u16 \<Rightarrow> u16" where
  "react reset (RegRead reg bytes) f = f"
| "react reset (RegWrite reg v) f = (if reg = 0x0005 \<and> v = 0x0100 then reset f else f(reg := v))"

definition controller ::
  "((u16 \<Rightarrow> u16) \<Rightarrow> u16 \<Rightarrow> u16) \<Rightarrow> (u16 \<Rightarrow> u16) \<Rightarrow> i2c_client \<Rightarrow> trace \<Rightarrow> u16 \<Rightarrow> u16"
where
  "controller reset f c t = fold (react reset) (accesses c t) f"

lemma controller_step:
  "accesses c t' = accesses c t @ as \<Longrightarrow>
    controller reset f c t' = fold (react reset) as (controller reset f c t)"
  by (simp add: controller_def)

lemma controller_quiet [simp]:
  "\<forall>x\<in>set u. access_of c x = [] \<Longrightarrow> controller reset f c (t @ u) = controller reset f c t"
proof -
  assume "\<forall>x\<in>set u. access_of c x = []"
  then have "accesses c u = []"
    by (auto simp: accesses_def)
  then show ?thesis by (simp add: controller_def)
qed

text \<open>A run that writes only registers of \<open>W\<close>.\<close>

primrec written :: "access \<Rightarrow> u16 set" where
  "written (RegRead reg bytes) = {}"
| "written (RegWrite reg v) = {reg}"

definition writes_only :: "i2c_client \<Rightarrow> u16 set \<Rightarrow> trace \<Rightarrow> trace \<Rightarrow> bool" where
  "writes_only c W t t' \<longleftrightarrow>
     (\<exists>as. accesses c t' = accesses c t @ as \<and> \<Union> (written ` set as) \<subseteq> W)"

lemma writes_only_preorder [rel_rules]: "preorder_rel (writes_only c W)"
proof (rule preorder_relI)
  show "writes_only c W t t" for t
    unfolding writes_only_def by (rule exI [of _ "[]"]) simp
  fix t u v
  assume "writes_only c W t u" "writes_only c W u v"
  then obtain as bs where "accesses c u = accesses c t @ as" "\<Union> (written ` set as) \<subseteq> W"
    "accesses c v = accesses c u @ bs" "\<Union> (written ` set bs) \<subseteq> W"
    unfolding writes_only_def by blast
  then show "writes_only c W t v"
    unfolding writes_only_def by (intro exI [of _ "as @ bs"]) auto
qed

lemma writes_only_call:
  "(\<And>r. \<Union> (written ` set (access_of c (k, r))) \<subseteq> W) \<Longrightarrow> writes_only c W t (t @ [(k, r)])"
  unfolding writes_only_def by (intro exI [of _ "access_of c (k, r)"]) simp

lemma writes_only_calls [rel_rules]:
  "(\<And>r. \<Union> (written ` set (access_of c (k, r))) \<subseteq> W) \<Longrightarrow> state_io_rel (writes_only c W) (notify k)"
  "(\<And>r. \<Union> (written ` set (access_of c (k, r))) \<subseteq> W) \<Longrightarrow> state_io_rel (writes_only c W) (status_of E k)"
  "(\<And>r. \<Union> (written ` set (access_of c (k, r))) \<subseteq> W) \<Longrightarrow> state_io_rel (writes_only c W) (call E k)"
  by (simp_all add: io_rel_iff writes_only_call)

lemma writes_only_accesses [rel_rules]:
  "state_io_rel (writes_only c W) (elan_i2c_read_block E c' reg val len)"
  "state_io_rel (writes_only c W) (elan_i2c_read_cmd E c' reg val)"
  "reg \<in> W \<Longrightarrow> state_io_rel (writes_only c W) (elan_i2c_write_cmd E c' reg cmd)"
  apply (auto simp: io_rel_iff elan_i2c_read_cmd_def elan_i2c_read_block_def elan_i2c_write_cmd_def Let_def final_if split: prod.splits intro!: writes_only_call)
  done

lemma writes_only_recv [rel_rules]:
  "state_io_rel (writes_only c W) (i2c_master_recv E buf n)"
  by (auto simp: io_rel_iff intro!: writes_only_call)

text \<open>What is not written is kept, a reset apart.\<close>

lemma react_other:
  "0x0005 \<notin> written a \<Longrightarrow> reg \<notin> written a \<Longrightarrow> react reset a f reg = f reg"
  by (cases a) auto

lemma writes_only_other:
  assumes "writes_only c W t t'" "0x0005 \<notin> W" "reg \<notin> W"
  shows "controller reset f c t' reg = controller reset f c t reg"
proof -
  have "fold (react reset) as g reg = g reg" if "\<Union> (written ` set as) \<subseteq> W" for as g
    using that
  proof (induction as arbitrary: g)
    case (Cons a as)
    then have "react reset a g reg = g reg"
      using assms(2,3) by (intro react_other) auto
    with Cons show ?case by simp
  qed simp
  then show ?thesis
    using assms(1) by (auto simp: writes_only_def controller_step)
qed

section \<open>The operations of the transport\<close>

lemma writes_only_ops [rel_rules]:
  "state_io_rel (writes_only c W) (elan_i2c_get_product_id E c' x16)"
  "state_io_rel (writes_only c W) (elan_i2c_get_pattern E c' x8)"
  "state_io_rel (writes_only c W) (elan_i2c_get_sm_version E c' p sm)"
  "state_io_rel (writes_only c W) (elan_i2c_health_check E c')"
  "state_io_rel (writes_only c W) (elan_i2c_get_baseline_data E c' b x8)"
  "state_io_rel (writes_only c W) (elan_i2c_calibrate_result E c' bs)"
  "0x0005 \<in> W \<Longrightarrow> state_io_rel (writes_only c W) (elan_i2c_initialize E c')"
  "0x0005 \<in> W \<Longrightarrow> state_io_rel (writes_only c W) (elan_i2c_sleep_control E c' b)"
  "0x0300 \<in> W \<Longrightarrow> state_io_rel (writes_only c W) (elan_i2c_set_mode E c' m)"
  "0x0307 \<in> W \<Longrightarrow> state_io_rel (writes_only c W) (elan_i2c_power_control E c' b)"
  "0x0316 \<in> W \<Longrightarrow> state_io_rel (writes_only c W) (elan_i2c_calibrate E c')"
  unfolding i2c_op_defs by (intro rel_rules; simp add: etp_consts Let_def; intro rel_rules; simp)+

lemma i2c_table [simp]:
  "initialize (elan_i2c_ops E) = elan_i2c_initialize E"
  "sleep_control (elan_i2c_ops E) = elan_i2c_sleep_control E"
  "power_control (elan_i2c_ops E) = elan_i2c_power_control E"
  "set_mode (elan_i2c_ops E) = elan_i2c_set_mode E"
  "health_check (elan_i2c_ops E) = elan_i2c_health_check E"
  "calibrate (elan_i2c_ops E) = elan_i2c_calibrate E"
  "calibrate_result (elan_i2c_ops E) = elan_i2c_calibrate_result E"
  "get_baseline_data (elan_i2c_ops E) = elan_i2c_get_baseline_data E"
  "get_product_id (elan_i2c_ops E) = elan_i2c_get_product_id E"
  "get_pattern (elan_i2c_ops E) = elan_i2c_get_pattern E"
  "get_sm_version (elan_i2c_ops E) = elan_i2c_get_sm_version E"
  by (simp_all add: elan_i2c_ops_def)

lemma wp_set_mode:
  assumes "ops (tp s) = elan_i2c_ops E"
    and "\<And>e t'. controller reset f (client (tp s)) t' =
      (if e = 0 then (controller reset f (client (tp s)) (io_trace s))(0x0300 := ucast m)
       else controller reset f (client (tp s)) (io_trace s)) \<Longrightarrow> Q e (s\<lparr>io_trace := t'\<rparr>)"
  shows "wp (via_ops (\<lambda>opt c. set_mode opt c m)) Q s"
  unfolding wp_driver assms(1) i2c_table elan_i2c_set_mode_def
  by (intro wp_write_cmd assms(2)) (simp add: controller_step etp_consts)

lemma wp_sleep_control:
  assumes "ops (tp s) = elan_i2c_ops E"
    and "\<And>e t'. controller reset f (client (tp s)) t' =
      (if e = 0 then (controller reset f (client (tp s)) (io_trace s))(0x0005 := if b then 0x0801 else 0x0800)
       else controller reset f (client (tp s)) (io_trace s)) \<Longrightarrow> Q e (s\<lparr>io_trace := t'\<rparr>)"
  shows "wp (via_ops (\<lambda>opt c. sleep_control opt c b)) Q s"
  unfolding wp_driver assms(1) i2c_table elan_i2c_sleep_control_def
  by (intro wp_write_cmd assms(2)) (auto simp add: controller_step etp_consts)

section \<open>Initialisation\<close>

text \<open>
  The controller holds the mode of the device structure, which has the absolute bit, and is awake.
\<close>

definition configured :: "((u16 \<Rightarrow> u16) \<Rightarrow> u16 \<Rightarrow> u16) \<Rightarrow> (u16 \<Rightarrow> u16) \<Rightarrow> driver \<Rightarrow> bool" where
  "configured reset f s \<longleftrightarrow> mode (tp s) AND ETP_ENABLE_ABS = ETP_ENABLE_ABS \<and>
     controller reset f (client (tp s)) (io_trace s) 0x0300 = ucast (mode (tp s)) \<and>
     controller reset f (client (tp s)) (io_trace s) 0x0005 = 0x0800"

definition same_device :: "environment \<Rightarrow> driver \<Rightarrow> driver \<Rightarrow> bool" where
  "same_device E s s' \<longleftrightarrow> ops (tp s') = elan_i2c_ops E \<and> client (tp s') = client (tp s)"

lemma wp_query_product:
  assumes "ops (tp s) = elan_i2c_ops E" "\<And>e s'. same_device E s s' \<Longrightarrow> Q e s'"
  shows "wp elan_query_product Q s"
  using io_relD [OF i2c.query_product_bus, of E s] assms by (simp add: wp_def drv_rel_def same_device_def)

lemma wp_via_same:
  assumes "ops (tp s) = elan_i2c_ops E" "\<And>e t. Q e (s\<lparr>io_trace := t\<rparr>)"
  shows "wp (via_ops g) Q s"
  using assms by (simp add: wp_def)

lemma initialize_once_configures:
  assumes "ops (tp s) = elan_i2c_ops E"
  shows "wp (elan_initialize_once b) (\<lambda>r s'. same_device E s s' \<and> (r = 0 \<longrightarrow> configured reset f s')) s"
  unfolding elan_initialize_once_def
  apply (intro wp_set_mode [where E = E and reset = reset and f = f] wp_sleep_control [where E = E and reset = reset and f = f] wp_via_same [where g = initialize and E = E]
      wp_bindI wp_ifI wp_returnI wp_getdI wp_moddI wp_xioI wp_notifyI wp_query_product [where E = E])
  by (use assms in \<open>auto simp: same_device_def configured_def\<close>)

lemma initialize_configures:
  assumes "ops (tp s) = elan_i2c_ops E"
  shows "wp (elan_initialize b) (\<lambda>r s'. same_device E s s' \<and> (r = 0 \<longrightarrow> configured reset f s')) s"
proof -
  have later: "wp (elan_initialize_once b) (\<lambda>r s'. same_device E s s' \<and> (r = 0 \<longrightarrow> configured reset f s')) t"
    if "same_device E s t" for b and t :: driver
    using initialize_once_configures [of t E b reset f] that by (simp add: wp_def same_device_def)
  show ?thesis
    unfolding initialize_unroll
    by (intro wp_bindI wp_ifI wp_returnI wp_xioI wp_notifyI wp_mono [OF later])
      (use assms in \<open>auto simp: same_device_def\<close>)
qed

section \<open>Recovery\<close>

lemma ping_writes: "state_io_rel (drv_rel (elan_i2c_ops E) (writes_only c {})) elan_watchdog_ping"
  unfolding elan_watchdog_ping_def by (intro rel_rules; simp; intro rel_rules)

lemma accesses_input [simp]: "accesses c (input_trace n es) = []"
  by (induction es) (simp_all add: input_trace_def)

lemma wp_ping:
  assumes "ops (tp s) = elan_i2c_ops E"
    and "\<And>e s'. tp s' = tp s \<Longrightarrow> controller reset f (client (tp s)) (io_trace s') = controller reset f (client (tp s)) (io_trace s) \<Longrightarrow> Q e s'"
  shows "wp elan_watchdog_ping Q s"
proof -
  have "controller reset f (client (tp s)) (io_trace (final elan_watchdog_ping s)) = controller reset f (client (tp s)) (io_trace s)"
    using io_relD [OF ping_writes, of E "client (tp s)" s] assms(1)
    by (auto simp: drv_rel_def fun_eq_iff intro: writes_only_other)
  then show ?thesis
    using assms(2) io_relD [OF watchdog_ping_keeps [of "\<lambda>d. d"], of s] by (simp add: wp_def keeps_def)
qed

lemma straight_recovery_configures:
  assumes "ops (tp s) = elan_i2c_ops E"
  shows "wp straight_recovery (\<lambda>r s'. r = 0 \<longrightarrow> configured reset f s') s"
  unfolding straight_recovery_def
  apply (intro wp_bindI wp_ifI wp_returnI wp_getdI wp_moddI wp_release_inputs
      wp_mono [OF initialize_configures [where E = E and reset = reset and f = f]]
      wp_ping [where E = E and reset = reset and f = f] wp_set_mode [where E = E and reset = reset and f = f])
  by (use assms in \<open>auto simp: same_device_def configured_def\<close>)

section \<open>Suspend and resume\<close>

text \<open>
  A retry loop whose body does nothing when it fails: as a whole it succeeds with the effect of one
  run of the body, or does nothing.
\<close>

lemma do_retry_effect:
  assumes "\<And>s. I s \<Longrightarrow> wp body (\<lambda>e s'. if ok e then J s' else e \<noteq> 0 \<and> I s') s"
    and "\<And>s. I s \<Longrightarrow> wp pause (\<lambda>_. I) s" and "I s"
  shows "wp (do_retry n ok body pause) (\<lambda>e. if e = 0 then J else I) s"
  using assms(3)
proof (induction n arbitrary: s)
  case 0
  show ?case
    by (subst do_retry.simps)
      (use 0 assms in \<open>auto simp: wp_bind wp_return intro!: wp_mono [OF assms(1)] wp_mono [OF assms(2)] split: if_splits\<close>)
next
  case (Suc n)
  show ?case
    by (subst do_retry.simps)
      (use Suc assms in \<open>auto simp: wp_bind wp_return intro!: wp_mono [OF assms(1)] wp_mono [OF assms(2)] split: if_splits\<close>)
qed

text \<open>Power is switched by bit 0 of register 0x0307, set for off; nothing else changes.\<close>

definition power_set :: "bool \<Rightarrow> (u16 \<Rightarrow> u16) \<Rightarrow> (u16 \<Rightarrow> u16) \<Rightarrow> bool" where
  "power_set on g g' \<longleftrightarrow> g' = g(0x0307 := g' 0x0307) \<and> (bit (g' 0x0307) 0 \<longleftrightarrow> \<not> on)"

lemma sleep_controller:
  fixes reset f
  assumes "ops (tp s) = elan_i2c_ops E"
  defines "C \<equiv> \<lambda>s'. controller reset f (client (tp s)) (io_trace s')"
  shows "wp elan_sleep (\<lambda>e s'. tp s' = tp s \<and> C s' = (if e = 0 then (C s)(0x0005 := 0x0801) else C s)) s"
proof -
  have "wp elan_sleep (\<lambda>e. if e = 0 then (\<lambda>s'. tp s' = tp s \<and> C s' = (C s)(0x0005 := 0x0801))
      else (\<lambda>s'. tp s' = tp s \<and> C s' = C s)) s"
    unfolding elan_sleep_def
    by (rule do_retry_effect)
      (use assms in \<open>auto simp: C_def wp_driver(3) intro!: wp_sleep_control [where E = E and reset = reset and f = f] wp_notifyI\<close>)
  then show ?thesis by (rule wp_mono) (auto split: if_splits)
qed

lemma wp_power_control:
  fixes reset f
  assumes "bus_contract E" "ops (tp s) = elan_i2c_ops E"
  defines "C \<equiv> \<lambda>s'. controller reset f (client (tp s)) (io_trace s')"
  shows "wp (via_ops (\<lambda>opt c. power_control opt c on)) (\<lambda>e s'. errno_status e \<and> tp s' = tp s \<and>
    (if e = 0 then power_set on (C s) (C s') else C s' = C s)) s"
proof -
  let ?post = "\<lambda>e t. if e = 0 then power_set on (C s) (controller reset f (client (tp s)) t)
      else controller reset f (client (tp s)) t = C s"
  have "wp (elan_i2c_power_control E (client (tp s)) on) ?post (io_trace s)"
    unfolding elan_i2c_power_control_def
    by (intro wp_bindI wp_read_cmd [OF assms(1)] wp_case_prodI wp_ifI wp_returnI wp_letI wp_write_cmd)
      (auto simp: controller_def power_set_def C_def etp_consts bit_simps split: if_splits)
  then show ?thesis
    using i2c_checked.op_statuses(3) [OF assms(1), of "client (tp s)" on "io_trace s"]
    by (simp add: wp_def C_def assms(2) split: if_splits)
qed

lemma power_controller:
  fixes reset f
  assumes "bus_contract E" "ops (tp s) = elan_i2c_ops E"
  defines "C \<equiv> \<lambda>s'. controller reset f (client (tp s)) (io_trace s')"
  shows "wp (elan_set_power on) (\<lambda>e s'. tp s' = tp s \<and>
    (if e = 0 then power_set on (C s) (C s') else C s' = C s)) s"
proof -
  have "wp (elan_set_power on) (\<lambda>e. if e = 0 then (\<lambda>s'. tp s' = tp s \<and> power_set on (C s) (C s'))
      else (\<lambda>s'. tp s' = tp s \<and> C s' = C s)) s"
    unfolding elan_set_power_def
  proof (rule do_retry_effect)
    fix s' assume "tp s' = tp s \<and> C s' = C s"
    then show "wp (via_ops (\<lambda>opt c. power_control opt c on)) (\<lambda>e s''.
        if 0 \<le> e then tp s'' = tp s \<and> power_set on (C s) (C s'')
        else e \<noteq> 0 \<and> tp s'' = tp s \<and> C s'' = C s) s'"
      using wp_power_control [OF assms(1), of s' on reset f] assms(2)
      by (auto simp: C_def errno_status_def wp_def split: if_splits)
  qed (auto simp: C_def wp_driver(3) intro!: wp_notifyI)
  then show ?thesis by (rule wp_mono) (auto split: if_splits)
qed

text \<open>
  Suspend puts the controller of a wakeup source to sleep and takes the power of any other.
\<close>

definition asleep :: "bool \<Rightarrow> (u16 \<Rightarrow> u16) \<Rightarrow> (u16 \<Rightarrow> u16) \<Rightarrow> bool" where
  "asleep w g g' \<longleftrightarrow> (if w then g' = g(0x0005 := 0x0801) else power_set False g g')"

lemma suspend_controller:
  fixes reset f
  assumes "bus_contract E" "ops (tp s) = elan_i2c_ops E" "steady_wakeup E' w"
  defines "C \<equiv> \<lambda>s'. controller reset f (client (tp s)) (io_trace s')"
  shows "wp (elan_suspend E') (\<lambda>r s'. tp s' = tp s \<and> (r = 0 \<longrightarrow> asleep w (C s) (C s'))) s"
  unfolding elan_suspend_def elan_suspend_locked_def device_may_wakeup_def
  apply (intro wp_bindI wp_ifI wp_returnI wp_xioI wp_notifyI wp_status_ofI
      wp_mono [OF power_controller [OF assms(1), where reset = reset and f = f]]
      wp_mono [OF sleep_controller [where E = E and reset = reset and f = f]])
  by (use assms(2,3) in \<open>auto simp: C_def asleep_def dest!: wakeup_answer split: if_splits\<close>)

text \<open>A reset may do what it likes with the registers, but does not cut the power.\<close>

definition keeps_powered :: "((u16 \<Rightarrow> u16) \<Rightarrow> u16 \<Rightarrow> u16) \<Rightarrow> bool" where
  "keeps_powered reset \<longleftrightarrow> (\<forall>g. \<not> bit (g 0x0307) 0 \<longrightarrow> \<not> bit (reset g 0x0307) 0)"

lemma writes_only_powered:
  assumes "writes_only c W t t'" "0x0307 \<notin> W" "keeps_powered reset"
    and "\<not> bit (controller reset f c t 0x0307) 0"
  shows "\<not> bit (controller reset f c t' 0x0307) 0"
proof -
  have "\<not> bit (fold (react reset) as g 0x0307) 0"
    if "\<Union> (written ` set as) \<subseteq> W" "\<not> bit (g 0x0307) 0" for as g
    using that
  proof (induction as arbitrary: g)
    case (Cons a as)
    have "\<not> bit (react reset a g 0x0307) 0"
      using Cons.prems assms(2,3) by (cases a) (auto simp: keeps_powered_def)
    with Cons show ?case by simp
  qed simp
  then show ?thesis
    using assms(1,4) by (auto simp: writes_only_def controller_step)
qed

lemma initialize_writes:
  "state_io_rel (drv_rel (elan_i2c_ops E) (writes_only c {0x0005, 0x0300})) (elan_initialize b)"
proof -
  have "state_io_rel (drv_rel (elan_i2c_ops E) (writes_only c {0x0005, 0x0300})) (elan_initialize_once b)" for b
    unfolding elan_initialize_once_def elan_query_product_def
    by (intro rel_rules) (auto intro!: rel_rules split: prod.splits)
  then show ?thesis
    unfolding initialize_unroll by (intro rel_rules) auto
qed

lemma wp_initialize:
  assumes "ops (tp s) = elan_i2c_ops E" "keeps_powered reset"
  shows "wp (elan_initialize b) (\<lambda>r s'. r = 0 \<longrightarrow> configured reset f s' \<and>
    (\<not> bit (controller reset f (client (tp s)) (io_trace s) 0x0307) 0 \<longrightarrow>
     \<not> bit (controller reset f (client (tp s')) (io_trace s') 0x0307) 0)) s"
  using io_relD [OF initialize_writes [of E "client (tp s)" b], of s] assms
    initialize_configures [OF assms(1), where reset = reset and f = f and b = b]
  by (auto simp: wp_def drv_rel_def dest: writes_only_powered)

lemma resume_controller:
  fixes reset f
  assumes "bus_contract E" "ops (tp s) = elan_i2c_ops E" "keeps_powered reset"
  shows "wp (elan_resume E') (\<lambda>r s'. r = 0 \<longrightarrow> configured reset f s' \<and>
    \<not> bit (controller reset f (client (tp s')) (io_trace s') 0x0307) 0) s"
  unfolding elan_resume_def device_may_wakeup_def
  apply (intro wp_bindI wp_ifI wp_returnI wp_xioI wp_notifyI wp_status_ofI wp_getdI
      wp_mono [OF power_controller [OF assms(1), where reset = reset and f = f]]
      wp_mono [OF wp_initialize [OF _ assms(3), where f = f and E = E]])
  by (use assms(2) in \<open>auto simp: configured_def power_set_def split: if_splits\<close>)

section \<open>Probe\<close>

lemma writes_only_queries [rel_rules]:
  "state_io_rel (writes_only c W) (elan_i2c_get_version E c' p iap x8)"
  "state_io_rel (writes_only c W) (elan_i2c_get_checksum E c' iap x16)"
  "state_io_rel (writes_only c W) (elan_i2c_get_pressure_adjustment E c' x32)"
  "state_io_rel (writes_only c W) (elan_i2c_get_report_features E c' p fl)"
  "state_io_rel (writes_only c W) (elan_i2c_get_max E c' xy)"
  "state_io_rel (writes_only c W) (elan_i2c_get_num_traces E c' xy)"
  "state_io_rel (writes_only c W) (elan_i2c_get_resolution E c' hw)"
  unfolding i2c_op_defs by (intro rel_rules; simp add: Let_def; intro rel_rules; simp)+

lemma i2c_table_queries [simp]:
  "get_version (elan_i2c_ops E) = elan_i2c_get_version E"
  "get_checksum (elan_i2c_ops E) = elan_i2c_get_checksum E"
  "get_pressure_adjustment (elan_i2c_ops E) = elan_i2c_get_pressure_adjustment E"
  "get_report_features (elan_i2c_ops E) = elan_i2c_get_report_features E"
  "get_max (elan_i2c_ops E) = elan_i2c_get_max E"
  "get_num_traces (elan_i2c_ops E) = elan_i2c_get_num_traces E"
  "get_resolution (elan_i2c_ops E) = elan_i2c_get_resolution E"
  by (simp_all add: elan_i2c_ops_def)

lemma query_info_writes:
  "state_io_rel (drv_rel (elan_i2c_ops E) (writes_only c {})) elan_query_device_info"
  unfolding elan_query_device_info_def
  by (intro rel_rules) (auto intro!: rel_rules split: prod.splits)

lemma query_parameters_writes:
  "state_io_rel (drv_rel (elan_i2c_ops E) (writes_only c {})) (elan_query_device_parameters E')"
proof -
  have "state_io_rel (drv_rel (elan_i2c_ops E) (writes_only c {})) (query_size E')"
    unfolding query_size_def Let_def
    by (intro rel_rules) (auto intro!: rel_rules split: prod.splits)
  moreover have "state_io_rel (drv_rel (elan_i2c_ops E) (writes_only c {})) (query_traces E')"
    unfolding query_traces_def
    by (auto intro!: rel_rules split: option.splits prod.splits)
  moreover have "state_io_rel (drv_rel (elan_i2c_ops E) (writes_only c {})) (query_resolution E')"
    unfolding query_resolution_def divide_by_zero_def
    by (auto intro!: rel_rules split: option.splits prod.splits)
  ultimately show ?thesis
    unfolding elan_query_device_parameters_def divide_by_zero_def
    by (intro rel_rules) auto
qed

lemma nodes_writes:
  "state_io_rel (drv_rel (elan_i2c_ops E) (writes_only c {})) (elan_probe_nodes E')"
  unfolding elan_probe_nodes_def elan_setup_input_device_def elan_setup_trackpoint_input_device_def
  by (intro rel_rules) auto

lemma configured_mono:
  assumes "configured reset f s" "drv_rel (elan_i2c_ops E) (writes_only (client (tp s)) {}) s s'"
    and "ops (tp s) = elan_i2c_ops E" "mode (tp s') = mode (tp s)"
  shows "configured reset f s'"
proof -
  have "writes_only (client (tp s)) {} (io_trace s) (io_trace s')" "client (tp s') = client (tp s)"
    using assms(2,3) by (auto simp: drv_rel_def)
  then show ?thesis
    using assms(1,4) writes_only_other by (fastforce simp: configured_def)
qed

text \<open>A step that writes nothing and keeps the mode keeps the controller configured.\<close>

lemma wp_quiet:
  assumes "\<And>c. state_io_rel (drv_rel (elan_i2c_ops E) (writes_only c {})) m" "state_io_rel (keeps mode) m"
    and "ops (tp s) = elan_i2c_ops E"
    and "\<And>r s'. same_device E s s' \<Longrightarrow> (configured reset f s \<Longrightarrow> configured reset f s') \<Longrightarrow> Q r s'"
  shows "wp m Q s"
proof -
  have "drv_rel (elan_i2c_ops E) (writes_only (client (tp s)) {}) s (final m s)" "mode (tp (final m s)) = mode (tp s)"
    using io_relD [OF assms(1)] io_relD [OF assms(2), of s] by (auto simp: keeps_def)
  then show ?thesis
    unfolding wp_def using assms(3,4) by (metis configured_mono drv_rel_def same_device_def)
qed

lemma mode_kept:
  "state_io_rel (keeps mode) elan_query_device_info"
  "state_io_rel (keeps mode) (elan_query_device_parameters E')"
  "state_io_rel (keeps mode) (elan_probe_nodes E')"
  subgoal unfolding elan_query_device_info_def by (intro rel_rules) (auto split: prod.splits)
  subgoal by (rule keeps_query_parameters) simp_all
  subgoal unfolding elan_probe_nodes_def elan_setup_input_device_def elan_setup_trackpoint_input_device_def
    by (intro rel_rules) auto
  done

lemmas wp_probe_quiet =
  wp_quiet [OF query_info_writes mode_kept(1)] wp_quiet [OF query_parameters_writes mode_kept(2)]
  wp_quiet [OF nodes_writes mode_kept(3)]

lemma probe_controller_configures:
  assumes "ops (tp s) = elan_i2c_ops E"
  shows "wp (elan_probe_controller E') (\<lambda>r s'. same_device E s s' \<and> (r = Some 0 \<longrightarrow> configured reset f s')) s"
  unfolding elan_probe_controller_def
  apply (intro wp_bindI wp_ifI wp_returnI wp_xioI wp_status_ofI
      wp_mono [OF initialize_configures [where E = E and reset = reset and f = f]]
      wp_probe_quiet [where E = E and reset = reset and f = f])
  by (use assms in \<open>auto simp: same_device_def\<close>)

lemma probe_configures_wp:
  assumes "result (probe_transport E) (io_trace s) = Some (elan_i2c_ops E)"
  shows "wp (elan_probe E c) (\<lambda>r s'. r = Some 0 \<longrightarrow> configured reset f s') s"
proof -
  have resources: "wp (elan_probe_resources E c opt) (\<lambda>r s'. r = 0 \<longrightarrow> ops (tp s') = opt) s" for opt s
    by (rule wp_mono [OF resources_zeroed]) (auto simp: zeroed_tp_def)
  show ?thesis
    unfolding elan_probe_def
    by (intro wp_bindI wp_ifI wp_returnI wp_xioI wp_abstract [of "probe_transport E"] wp_case_optionI
        wp_mono [OF resources] wp_mono [OF probe_controller_configures [where E = E and reset = reset and f = f]]
        wp_probe_quiet(3) [where E = E and reset = reset and f = f])
      (use assms in \<open>auto simp: EPROTO_def EIO_def same_device_def\<close>)
qed

section \<open>Calibration and baseline\<close>

lemma wp_device_mode:
  assumes "bus_contract E" "ops (tp s) = elan_i2c_ops E"
    and "\<And>e t'. errno_status e \<Longrightarrow> controller reset f (client (tp s)) t' =
      (if e = 0 then (controller reset f (client (tp s)) (io_trace s))(0x0300 := ucast (mode (tp s)))
       else controller reset f (client (tp s)) (io_trace s)) \<Longrightarrow> Q e (s\<lparr>io_trace := t'\<rparr>)"
  shows "wp set_device_mode Q s"
  unfolding set_device_mode_def
  by (auto simp: wp_def assms(2) elan_i2c_set_mode_def controller_def etp_consts i2c_access_status [OF assms(1)]
      intro!: assms(3))

lemma wp_leave_calibrate:
  assumes "bus_contract E" "ops (tp s) = elan_i2c_ops E" "errno_status r"
    and "\<And>r' t' m. errno_status r' \<Longrightarrow> m = mode (tp s) AND NOT ETP_ENABLE_CALIBRATE \<Longrightarrow>
      (r' = 0 \<Longrightarrow> controller reset f (client (tp s)) t' =
        (controller reset f (client (tp s)) (io_trace s))(0x0300 := ucast m)) \<Longrightarrow>
      Q r' (s\<lparr>tp := (tp s)\<lparr>mode := m\<rparr>, io_trace := t'\<rparr>)"
  shows "wp (leave_calibrate r) Q s"
  unfolding leave_calibrate_def
  by (intro wp_bindI wp_moddI wp_returnI wp_device_mode [OF assms(1), where reset = reset and f = f])
    (use assms(2,3) in \<open>auto intro!: assms(4)\<close>)

lemma poll_writes:
  "state_io_rel (drv_rel (elan_i2c_ops E) (writes_only c {})) (calibrate_poll n val)"
proof (induction n arbitrary: val)
  case 0
  show ?case by (subst calibrate_poll.simps) (auto intro!: rel_rules)
next
  case (Suc n)
  then show ?case by (subst calibrate_poll.simps) (auto intro!: rel_rules)
qed

lemma wp_calibrate_poll:
  assumes "bus_contract E" "ops (tp s) = elan_i2c_ops E"
    and "\<And>p s'. errno_status (fst p) \<Longrightarrow> tp s' = tp s \<Longrightarrow>
      controller reset f (client (tp s)) (io_trace s') = controller reset f (client (tp s)) (io_trace s) \<Longrightarrow> Q p s'"
  shows "wp (calibrate_poll n val) Q s"
proof -
  have "controller reset f (client (tp s)) (io_trace (final (calibrate_poll n val) s)) =
      controller reset f (client (tp s)) (io_trace s)"
    using io_relD [OF poll_writes [of E "client (tp s)" n val], of s] assms(2)
    by (auto simp: drv_rel_def fun_eq_iff intro: writes_only_other)
  then show ?thesis
    using i2c_checked.calibrate_poll_run [OF assms(1,2), of n val] assms(3) by (simp add: wp_def)
qed

lemma wp_calibrate:
  assumes "bus_contract E" "ops (tp s) = elan_i2c_ops E"
    and "\<And>e t'. errno_status e \<Longrightarrow> controller reset f (client (tp s)) t' 0x0005 =
      controller reset f (client (tp s)) (io_trace s) 0x0005 \<Longrightarrow> Q e (s\<lparr>io_trace := t'\<rparr>)"
  shows "wp (via_ops calibrate) Q s"
  by (auto simp: wp_def assms(2) elan_i2c_calibrate_def controller_def etp_consts i2c_access_status [OF assms(1)]
      intro!: assms(3))

lemma calibrate_mode [simp]:
  fixes m :: u8
  shows "(m OR ETP_ENABLE_CALIBRATE) AND ETP_ENABLE_ABS = m AND ETP_ENABLE_ABS"
    "(m AND NOT ETP_ENABLE_CALIBRATE) AND ETP_ENABLE_ABS = m AND ETP_ENABLE_ABS"
  by (rule bit_word_eqI; auto simp: etp_consts bit_simps BIT_def)+

lemma calibrate_configures:
  assumes "bus_contract E" "ops (tp s) = elan_i2c_ops E" "configured reset f s"
    and "fst (answer E (io_trace s) (Sched MutexLockInterruptible)) = 0"
  shows "wp (calibrate_store E count) (\<lambda>r s'. r = int count \<longrightarrow> configured reset f s') s"
  unfolding calibrate_store_def
  apply (intro wp_bindI wp_ifI wp_returnI wp_moddI wp_xioI wp_notifyI wp_status_ofI wp_case_prodI
      wp_device_mode [OF assms(1), where reset = reset and f = f]
      wp_leave_calibrate [OF assms(1), where reset = reset and f = f]
      wp_calibrate_poll [OF assms(1), where reset = reset and f = f]
      wp_calibrate [OF assms(1), where reset = reset and f = f])
  apply (use assms(2-4) in \<open>auto simp: configured_def dest!: error_or_count_success split: if_splits\<close>)
  done

lemma wp_baseline_data:
  assumes "bus_contract E" "ops (tp s) = elan_i2c_ops E"
    and "\<And>r v t'. errno_status r \<Longrightarrow> controller reset f (client (tp s)) t' =
      controller reset f (client (tp s)) (io_trace s) \<Longrightarrow> Q r (s\<lparr>tp := put v (tp s), io_trace := t'\<rparr>)"
  shows "wp (op_out get put (\<lambda>opt c. get_baseline_data opt c b)) Q s"
proof -
  have "writes_only (client (tp s)) {} (io_trace s)
      (final (elan_i2c_get_baseline_data E (client (tp s)) b (get (tp s))) (io_trace s))"
    by (rule io_relD) (rule writes_only_ops)
  then show ?thesis
    using i2c_checked.op_statuses(11) [OF assms(1), of "client (tp s)" b "get (tp s)" "io_trace s"]
    by (auto simp: wp_def assms(2) fun_eq_iff intro!: assms(3) writes_only_other)
qed

lemma acquire_configures:
  assumes "bus_contract E" "ops (tp s) = elan_i2c_ops E" "configured reset f s"
    and "fst (answer E (io_trace s) (Sched MutexLockInterruptible)) = 0"
  shows "wp (acquire_store E count) (\<lambda>r s'. r = int count \<longrightarrow> configured reset f s') s"
  unfolding acquire_store_def
  apply (intro wp_bindI wp_ifI wp_returnI wp_moddI wp_xioI wp_notifyI wp_status_ofI
      wp_device_mode [OF assms(1), where reset = reset and f = f]
      wp_leave_calibrate [OF assms(1), where reset = reset and f = f]
      wp_baseline_data [OF assms(1), where reset = reset and f = f])
  by (use assms(2-4) in \<open>auto simp: configured_def dest!: error_or_count_success split: if_splits\<close>)

section \<open>Properties\<close>

text \<open>
  C14: After a probe that binds over I2C and returns 0, whatever a reset does to the registers and
  however many attempts the initialisation took, the mode register of the controller holds the
  absolute mode and nothing else, and the stand-by register the wake-up command: nothing the probe
  does after the initialisation undoes it.
\<close>

theorem probe_configures:
  assumes "result (probe_transport E) (io_trace s) = Some (elan_i2c_ops E)"
    and "result (elan_probe E c) s = Some 0"
  shows "controller reset f c (io_trace (final (elan_probe E c) s)) 0x0300 = 0x0001 \<and>
    controller reset f c (io_trace (final (elan_probe E c) s)) 0x0005 = 0x0800"
  using probe_configures_wp [OF assms(1), of c reset f] probe_success_wp [of E c s] assms(2)
  by (simp add: wp_def configured_def probed_def etp_consts BIT_def)

definition wired_environment :: environment where
  "wired_environment = (sample_environment [0x11, 0x12])\<lparr>answer := \<lambda>t c.
     case c of Probe CheckI2cFunctionality \<Rightarrow> (1, []) | _ \<Rightarrow> sample_reply [0x11, 0x12] c\<rparr>"

text \<open>The probe of this device, part by part.\<close>

definition wired_powered :: driver where
  "wired_powered = final (elan_probe_resources wired_environment file_client (elan_i2c_ops wired_environment))
     (sample_smbus\<lparr>io_trace := final (probe_transport wired_environment) (io_trace sample_smbus)\<rparr>)"

lemma wired_controller: "result (elan_probe_controller wired_environment) wired_powered = Some 0"
  by code_simp

lemma wired_answers:
  "answer wired_environment t (Probe c) = (if c = CheckI2cFunctionality then 1 else 0, [])"
  "answer wired_environment t (Power q) = (0, [])"
  by (simp_all add: wired_environment_def sample_reply_def split: probe_op.splits)

lemma wired_nodes: "result (elan_probe_nodes wired_environment) s = 0"
  by (simp add: elan_probe_nodes_def elan_setup_input_device_def wired_answers result_if final_if
      Let_def elan_setup_trackpoint_input_device_def)

lemma wired_transport: "result (probe_transport wired_environment) t = Some (elan_i2c_ops wired_environment)"
  by (simp add: probe_transport_def result_if final_if wired_answers)
    (simp add: wired_environment_def sample_environment_def)

lemma wired_resources: "result (elan_probe_resources wired_environment file_client opt) s = 0"
  by (simp add: elan_probe_resources_def devm_add_action_or_reset_def result_if final_if wired_answers)

lemma wired_probe: "result (elan_probe wired_environment file_client) sample_smbus = Some 0"
  using wired_controller
  by (simp add: elan_probe_def wired_transport wired_resources wired_nodes result_if
      wired_powered_def elan_rs_abi_version_def ELAN_RS_ABI_VERSION_def)

theorem probe_configures_witness:
  "controller (\<lambda>g. \<lambda>_. 0) (\<lambda>_. 0) file_client
    (io_trace (final (elan_probe wired_environment file_client) sample_smbus)) 0x0300 = 0x0001"
  using probe_configures [OF wired_transport wired_probe] by blast

text \<open>
  C13: Over I2C a suspend that returns 0 has quieted the controller: a wakeup source got the sleep
  command, any other device bit 0 of its power register set, and nothing else was written. A resume
  that returns 0, however the controller was left, has switched its power on, woken it and put it
  into the mode of the device structure, with the absolute bit, unless a reset itself cuts the power.
\<close>

theorem suspend_resume_controller:
  assumes "bus_contract E" and "ops (tp s) = elan_i2c_ops E" and "steady_wakeup E' w" and "keeps_powered reset"
  shows "(let s1 = final (elan_suspend E') s in result (elan_suspend E') s = 0 \<longrightarrow>
      asleep w (controller reset f (client (tp s)) (io_trace s)) (controller reset f (client (tp s)) (io_trace s1))) \<and>
    (let s2 = final (elan_resume E') s in result (elan_resume E') s = 0 \<longrightarrow>
      configured reset f s2 \<and> \<not> bit (controller reset f (client (tp s2)) (io_trace s2) 0x0307) 0)"
  using suspend_controller [OF assms(1-3), of reset f] resume_controller [OF assms(1,2,4), of E' f]
  by (simp add: wp_def Let_def)

definition wired_driver :: driver where
  "wired_driver = sample_driver (elan_i2c_ops wired_environment)"

lemma wired_contract: "bus_contract wired_environment"
  by (auto simp: bus_contract_def wired_environment_def sample_environment_def sample_reply_def MAX_ERRNO_def
      I2C_SMBUS_BLOCK_MAX_def split: kcall.splits bus_op.splits sched_op.splits probe_op.splits)

lemma wired_cycle:
  "result (elan_suspend wired_environment) wired_driver = 0" "result (elan_resume wired_environment) wired_driver = 0"
  by code_simp+

theorem suspend_resume_controller_witness:
  "asleep False (\<lambda>_. 0) (controller (\<lambda>g. g) (\<lambda>_. 0) file_client
      (io_trace (final (elan_suspend wired_environment) wired_driver))) \<and>
    configured (\<lambda>g. g) (\<lambda>_. 0) (final (elan_resume wired_environment) wired_driver)"
proof -
  have driver: "ops (tp wired_driver) = elan_i2c_ops wired_environment" "client (tp wired_driver) = file_client"
      "io_trace wired_driver = []"
    by (simp_all add: wired_driver_def sample_driver_def sample_tp_def)
  have "steady_wakeup wired_environment False" "keeps_powered (\<lambda>g. g)"
    by (simp_all add: steady_wakeup_def wired_answers keeps_powered_def)
  from suspend_resume_controller [OF wired_contract driver(1) this, of "\<lambda>_. 0"] wired_cycle show ?thesis
    by (simp add: driver Let_def controller_def)
qed


definition idle_driver :: driver where
  "idle_driver = sample_driver (elan_i2c_ops (sample_environment []))"

lemma idle_maintenance:
  "result elan_recover_locked idle_driver = 0"
  "result (calibrate_store (sample_environment []) 1) (final elan_recover_locked idle_driver) = int 1"
  by code_simp+


text \<open>
  The firmware update is the exception: it ignores the status of the initialisation after it. Here
  the image is accepted and the update returns 0 on a controller that cannot be initialised.
\<close>

theorem update_hides_reinitialisation:
  "result (elan_update_firmware sample_image) sample_update = Some 0 \<and>
    (\<forall>s. ops (tp s) = ops (tp sample_update) \<longrightarrow> result (elan_initialize False) s \<noteq> 0)"
proof -
  have "ops (tp sample_update) = elan_smbus_ops (sample_environment [0x00, 0xC0])"
    by (simp add: sample_update_def sample_driver_def sample_tp_def Let_def)
  moreover have "result (initialize (elan_smbus_ops (sample_environment [0x00, 0xC0])) c) t = - EIO" for c t
    by (simp add: elan_smbus_ops_def elan_smbus_initialize_def sample_block_replies etp_consts result_if Let_def)
  ultimately have "result (elan_initialize False) s \<noteq> 0" if "ops (tp s) = ops (tp sample_update)" for s
    using that by (simp add: initialize_unroll elan_initialize_once_def result_if final_if EIO_def)
  with sample_update_result show ?thesis by blast
qed

end
