(* ===== verification/Spec2Isabelle.thy ===== *)
theory Spec2Isabelle
  imports
    Elan_Prelude Elan_Kernel Elan_Header Elan_I2c Elan_Smbus Elan_Rs_Abi Elan_Rust_Core Elan_Data
    Elan_Init Elan_Shim Elan_Report Elan_Firmware Elan_Recovery Elan_Sysfs Elan_Pm Elan_Probe
    Elan_System Elan_I2c_Wire Elan_Smbus_Wire Elan_Programming Elan_Firmware_Wire Elan_Stream
    Elan_Preemption Elan_Lifetime Elan_Configured
begin

text \<open>
  A model of the kernel driver of elan-guardian: the Elan I2C/SMBus touchpad driver under
  \<open>src/kernel/rust-shim/\<close>, with the Rust core its C code calls.

  \<^bold>\<open>The program.\<close> The driver binds to a touchpad on an I2C or SMBus adapter, brings its controller
  into absolute mode, decodes the reports that arrive by interrupt and passes them to the input
  core. It exports sysfs attributes for calibration, baselines, a firmware update (in-application
  programming) and an in-place recovery, runs a watchdog that recovers a device whose report
  stream has died, and suspends and resumes the device. Compared with the upstream driver, the
  report decoder, the watchdog's decision and the phases of a recovery have moved into a Rust
  core (\<open>elan_core.rs\<close>), reached through a C shim (\<open>elan_rs_shim.c\<close>); the upstream C decoder is
  retained as a reference.

  \<^bold>\<open>Programs and the kernel.\<close> A C function with an effect is a program of
  \<open>HOL-Library.State_Monad\<close>. Everything outside the repository (bus transfers, the interrupt
  line, mutex, work queue, regulator, input core, firmware loader, device properties) is a call
  of \<open>Elan_Kernel\<close>; a run is the trace of calls and answers, and the answers come from an
  \<open>environment\<close>, a parameter that may answer differently after every trace. What the code relies
  on about these calls is \<open>bus_contract\<close>, a hypothesis of the theorems that need it, and it holds of
  the environments of the witnesses. Return codes are integers, negated errno values included;
  machine integers are words of their width, so that arithmetic wraps as in C and saturates where
  the Rust code says so; an out-parameter is passed in and returned; \<open>None\<close> is a trap (a division
  by zero).

  \<^bold>\<open>Theories.\<close>

  \<^item> \<open>Elan_Prelude\<close>: words, errno, byte order (a locale \<open>codec16\<close> with both orders as
    interpretations), buffers, weakest preconditions and relational rules for programs, bounded
    retry loops.
  \<^item> \<open>Elan_Kernel\<close>: calls, traces, environments; the interrupt disable depth and the number of
    mutex holders as functions of the trace.
  \<^item> \<open>Elan_Header\<close> (\<open>elan_i2c.h\<close>): constants, the record of transport operations, and the locales
    \<open>transport\<close> and \<open>checked_transport\<close>: what the core may assume of whichever transport the
    device uses.
  \<^item> \<open>Elan_I2c\<close> (\<open>elan_i2c_i2c.c\<close>) and \<open>Elan_Smbus\<close> (\<open>elan_i2c_smbus.c\<close>): every operation of the two
    transports, and the interpretations of both locales on both tables.
  \<^item> \<open>Elan_Rs_Abi\<close> (\<open>elan_rs_shim.h\<close>): the structures and codes shared by C and Rust, and the locale
    \<open>report_decoder\<close> the shim relies on; \<open>Elan_Rust_Core\<close> (\<open>elan_core.rs\<close>): the decoder, the watchdog
    policy and the recovery phases, the interpretation of the locale, and a declarative reading of
    a report that the decoder is shown to meet; \<open>Elan_Shim\<close> (\<open>elan_rs_shim.c\<close>): the input events.
  \<^item> \<open>Elan_Data\<close>: \<open>struct elan_tp_data\<close> and the programs over it. The other theories model
    \<open>elan_i2c_core.c\<close>: \<open>Elan_Init\<close> (firmware and quirk tables, power, initialisation with its
    retries, device queries), \<open>Elan_Report\<close> (the retained C decoder and its comparison with the Rust
    path), \<open>Elan_Firmware\<close> (the update), \<open>Elan_Recovery\<close> (recovery, watchdog, open and close,
    interrupt handler), \<open>Elan_Sysfs\<close> (the attributes and their text), \<open>Elan_Pm\<close> (suspend, resume),
    \<open>Elan_Probe\<close> (input nodes, probe, device-managed cleanup).
  \<^item> \<open>Elan_System\<close>: the handlers as the steps of one transition system (an inductive relation), and
    its invariant through the locale \<open>invariant_system\<close>; \<open>Elan_Stream\<close>: the event stream of each input
    node and the watchdog's work queue over the runs of this system; \<open>Elan_Preemption\<close>: finer steps, in
    which the interrupt handler is interrupted by other handlers; \<open>Elan_Lifetime\<close>: the regulator from
    bind to unbind, over these finer runs.
  \<^item> The controller's side. \<open>Elan_I2c_Wire\<close> reads the I2C transfers of a trace back as accesses to a file
    of 16-bit registers, \<open>Elan_Smbus_Wire\<close> reads the SMBus calls as acknowledged exchanges.
    \<open>Elan_Programming\<close> states what a transport promises about page writes as a locale (\<open>programmer\<close>),
    proves the update of the core against it, and \<open>Elan_Firmware_Wire\<close> interprets it on both
    transports. \<open>Elan_Configured\<close> composes the handlers of the core with the register accesses.

  \<^bold>\<open>What is shown.\<close>

  \<^item> The decoder accepts exactly the well-formed reports, reads every contact from its packed finger
    record, and its values stay in range; every value the running driver reports is within the
    maximum its input node advertised at probe. On reports whose contacts are in range, and where
    the C arithmetic does not wrap, the Rust path emits exactly the events of the C reference;
    where they differ is stated.
  \<^item> The recovery driven by the Rust phases is the straight-line procedure, fails closed, releases
    all inputs first, and reports success only after the controller acknowledged each step; three
    failed reads in a row trigger it.
  \<^item> A firmware update reports success only when the controller acknowledged every page and its own
    checksum agrees; then the pages it took, whatever was retried, are exactly the image, in order and
    each once, on I2C and, for the pages SMBus can carry, on SMBus. Larger pages cannot be
    transmitted over SMBus. The image is never read out of bounds, and every path gives back what it
    took.
  \<^item> The operations that configure an I2C controller refine a specification over its registers: a run
    performs the accesses of the specification, and a change of one bit keeps the others. A boot
    loader is entered only through its unlock sequence, with the password and the key read back.
  \<^item> Over I2C every operation that starts a device (probe, resume, recovery) and reports success leaves
    the controller awake and in the mode of the device structure, whatever a reset does to its
    registers; calibration and baseline acquisition keep it so; suspend changes exactly one register.
    The firmware update alone may report success on a controller it could not initialise again.
  \<^item> Initialisation makes at most three attempts and reports success only for an acknowledged mode;
    the parameter queries trap exactly on a zero divisor; the tables are consistent.
  \<^item> Calibration and baseline handlers never leave calibration mode behind and report success only
    for what the controller acknowledged.
  \<^item> Probe leaves a consistent device or gives the regulator back.
  \<^item> In every reachable state: mutex free, interrupt line disabled exactly while asleep, absolute
    mode, no stale update flag, report length within the handler's buffer, and no sysfs write can
    trap. The race between suspend and the watchdog is stated as a run.
  \<^item> Each input node only ever receives whole frames of the multitouch slot protocol, whatever the
    order of steps (a typing judgement on the event stream, preserved by every step). The watchdog
    work is queued exactly after three failed reads in a row; work that preemption queues too late,
    after the last close, does nothing.
  \<^item> These invariants survive preemption of the interrupt handler. The supply is accounted for exactly
    from bind to unbind; a resume that was refused the supply unbalances it.

  \<^bold>\<open>Bounds and recursion.\<close> No fuel is used: every loop of the code is bounded (three retries, twenty
  calibration polls, five fingers, the pages of the image), and is a recursion on its counter.

  \<^bold>\<open>Models of the controller.\<close> The repository does not hold the controller's firmware. Where a theorem
  speaks of the controller (\<open>register_file\<close>: a read returns what was written last; \<open>flash_step\<close> and
  \<open>smbus_flash_step\<close>: a page is taken when the status read after it has no error bit; \<open>react\<close>: a
  write sets a register, the reset command has an effect that is a parameter), that is a reading of
  the trace or a named hypothesis, and a witness shows that it can hold.

  \<^bold>\<open>Granularity.\<close> A step of \<open>Elan_System\<close> is one handler, except that suspend is split where it holds
  neither the mutex nor the interrupt line. Handlers under the mutex exclude each other, and
  those that disable the interrupt exclude its handler, since \<open>disable_irq\<close> waits for it. In
  \<open>Elan_Preemption\<close> the interrupt handler has three steps (report, second look at the open count,
  queueing) with every handler that does not disable the interrupt in between; each of its steps
  makes at most one bus transfer, and so do the handlers that can come in between, so a transfer is
  never split. Three interleavings are left out: resume, which does not take the mutex, with a
  watchdog run that the suspend race left behind; interrupts before a probe has registered its
  nodes; and weakly ordered memory accesses. During the firmware update the interrupt handler
  only completes a completion, which is the answer to \<open>wait_for_completion_timeout\<close>.

  \<^bold>\<open>Not modelled.\<close> Log messages (\<open>dev_err\<close> and its relatives), module registration and the device
  id tables beyond their names, the freeing of device-managed memory, and the kernel itself. The
  userspace part of the repository (the Rust tool under \<open>src/src\<close>, the Fortran scorer, the Agda and
  Idris sketches under \<open>src/formal\<close>, scripts, systemd units, packaging, vendored crates) is outside
  this development; it talks to the driver only through the sysfs attributes modelled here.
\<close>

end
